(* ===== verification/Prelude.thy ===== *)
theory Prelude
  imports Main "HOL-Library.List_Lexorder" "HOL-Library.Char_ord"
begin

text \<open>
  What the other theories share: the collections of rewrite rules the component proofs use,
  decimal printing of numbers (Go's \<open>%d\<close> and JavaScript's string conversion agree on
  integers), result values in the sum type, Go maps as association lists with one entry per
  key, and the interface of a transition system with its invariant and ranking rules.
\<close>

section \<open>Collections\<close>

named_theorems handler_defs \<open>definitions of the operations of a component\<close>
named_theorems frame_simps \<open>what an operation leaves unchanged\<close>
named_theorems ok_iff \<open>when a fallible operation returns Inr, and with what\<close>

section \<open>Decimal numbers\<close>

definition digit_char :: "nat \<Rightarrow> char" where
  "digit_char n = char_of (48 + n)"

fun show_nat :: "nat \<Rightarrow> string" where
  "show_nat n = (if n < 10 then [digit_char n] else show_nat (n div 10) @ [digit_char (n mod 10)])"

declare show_nat.simps [simp del]

definition show_int :: "int \<Rightarrow> string" where
  "show_int i = (if i < 0 then CHR ''-'' # show_nat (nat (- i)) else show_nat (nat i))"

definition is_digit :: "char \<Rightarrow> bool" where
  "is_digit c \<longleftrightarrow> 48 \<le> (of_char c :: nat) \<and> (of_char c :: nat) \<le> 57"

lemma is_digit_digit_char [simp]: "n < 10 \<Longrightarrow> is_digit (digit_char n)"
  by (simp add: is_digit_def digit_char_def)

lemma show_nat_nonempty [simp]: "show_nat n \<noteq> []"
  by (subst show_nat.simps) simp

lemma show_nat_digits: "list_all is_digit (show_nat n)"
proof (induction n rule: show_nat.induct)
  case (1 n)
  then show ?case by (subst show_nat.simps) auto
qed

text \<open>Reading the digits back (as \<open>strconv\<close> does) inverts printing.\<close>

definition digit_val :: "char \<Rightarrow> nat" where
  "digit_val c = of_char c - 48"

definition nat_of_digits :: "string \<Rightarrow> nat" where
  "nat_of_digits s = foldl (\<lambda>acc c. 10 * acc + digit_val c) 0 s"

lemma digit_val_char [simp]: "n < 10 \<Longrightarrow> digit_val (digit_char n) = n"
  by (simp add: digit_val_def digit_char_def)

lemma nat_of_digits_snoc [simp]: "nat_of_digits (s @ [c]) = 10 * nat_of_digits s + digit_val c"
  by (simp add: nat_of_digits_def)

lemma nat_of_digits_show [simp]: "nat_of_digits (show_nat n) = n"
proof (induction n rule: show_nat.induct)
  case (1 n)
  show ?case
  proof (cases "n < 10")
    case True
    then show ?thesis
      using nat_of_digits_snoc [of "[]" "digit_char n"]
      by (subst show_nat.simps) (simp add: nat_of_digits_def)
  next
    case False
    with 1 show ?thesis by (subst show_nat.simps) (simp)
  qed
qed

lemma show_nat_inject [simp]: "show_nat m = show_nat n \<longleftrightarrow> m = n"
  by (metis nat_of_digits_show)

section \<open>Results\<close>

text \<open>
  A fallible operation returns \<open>Inl\<close> of its error or \<open>Inr\<close> of its value; \<open>guard_r\<close> is an
  early return with the given error, \<open>bind_r\<close> the sequencing of Go's \<open>if err != nil\<close>.
\<close>

fun bind_r :: "'e + 'a \<Rightarrow> ('a \<Rightarrow> 'e + 'b) \<Rightarrow> 'e + 'b" where
  "bind_r (Inl e) f = Inl e"
| "bind_r (Inr x) f = f x"

definition guard_r :: "bool \<Rightarrow> 'e \<Rightarrow> 'e + unit" where
  "guard_r b e = (if b then Inr () else Inl e)"

definition of_opt :: "'e \<Rightarrow> 'a option \<Rightarrow> 'e + 'a" where
  "of_opt e x = (case x of None \<Rightarrow> Inl e | Some y \<Rightarrow> Inr y)"

lemma bind_r_Inr_iff [ok_iff]: "bind_r m f = Inr y \<longleftrightarrow> (\<exists>x. m = Inr x \<and> f x = Inr y)"
  by (cases m) auto

lemma guard_r_Inr_iff [ok_iff]: "guard_r b e = Inr u \<longleftrightarrow> b"
  by (simp add: guard_r_def)

lemma of_opt_Inr_iff [ok_iff]: "of_opt e x = Inr y \<longleftrightarrow> x = Some y"
  by (cases x) (simp_all add: of_opt_def)

text \<open>Go's \<open>%q\<close>, for strings without characters that need escaping.\<close>

definition go_quote :: "string \<Rightarrow> string" where
  "go_quote s = [CHR 0x22] @ s @ [CHR 0x22]"

text \<open>Joining strings with a separator (\<open>strings.Join\<close>, \<open>Array.prototype.join\<close>).\<close>

fun join_with :: "string \<Rightarrow> string list \<Rightarrow> string" where
  "join_with sep [] = []"
| "join_with sep [x] = x"
| "join_with sep (x # y # ys) = x @ sep @ join_with sep (y # ys)"

text \<open>\<open>strings.HasPrefix\<close>.\<close>

definition has_prefix :: "string \<Rightarrow> string \<Rightarrow> bool" where
  "has_prefix s p \<longleftrightarrow> take (length p) s = p"

section \<open>Go maps\<close>

text \<open>
  A Go \<open>map[K]V\<close> is an association list with distinct keys. The list's order stands for
  the order a \<open>range\<close> loop happens to visit the entries in, which Go leaves open.
\<close>

type_synonym ('k, 'v) gomap = "('k \<times> 'v) list"

definition gm_ok :: "('k, 'v) gomap \<Rightarrow> bool" where
  "gm_ok m \<longleftrightarrow> distinct (map fst m)"

definition gm_get :: "('k, 'v) gomap \<Rightarrow> 'k \<Rightarrow> 'v option" where
  "gm_get m k = map_of m k"

definition gm_del :: "'k \<Rightarrow> ('k, 'v) gomap \<Rightarrow> ('k, 'v) gomap" where
  "gm_del k m = filter (\<lambda>e. fst e \<noteq> k) m"

definition gm_put :: "'k \<Rightarrow> 'v \<Rightarrow> ('k, 'v) gomap \<Rightarrow> ('k, 'v) gomap" where
  "gm_put k v m = (k, v) # gm_del k m"

lemma gm_ok_Nil [simp]: "gm_ok []"
  by (simp add: gm_ok_def)

lemma gm_get_Nil [simp]: "gm_get [] k = None"
  by (simp add: gm_get_def)

lemma gm_get_del [simp]: "gm_get (gm_del k m) j = (if j = k then None else gm_get m j)"
  by (induction m) (auto simp: gm_get_def gm_del_def)

lemma gm_get_put [simp]: "gm_get (gm_put k v m) j = (if j = k then Some v else gm_get m j)"
  using gm_get_del [of k m j] by (auto simp: gm_put_def gm_get_def)

lemma gm_keys_del: "fst ` set (gm_del k m) = fst ` set m - {k}"
  by (auto simp: gm_del_def)

lemma gm_ok_del [simp]: "gm_ok m \<Longrightarrow> gm_ok (gm_del k m)"
  by (simp add: gm_ok_def gm_del_def distinct_map_filter)

lemma gm_ok_put [simp]: "gm_ok m \<Longrightarrow> gm_ok (gm_put k v m)"
  using gm_keys_del [of k m] by (auto simp: gm_ok_def gm_put_def gm_del_def distinct_map_filter)

lemma gm_get_Some_iff: "gm_ok m \<Longrightarrow> gm_get m k = Some v \<longleftrightarrow> (k, v) \<in> set m"
  by (simp add: gm_ok_def gm_get_def)

lemma gm_get_None_iff: "gm_get m k = None \<longleftrightarrow> k \<notin> fst ` set m"
  by (simp add: gm_get_def map_of_eq_None_iff)

lemma gm_del_absent [simp]: "gm_get m k = None \<Longrightarrow> gm_del k m = m"
  by (auto simp: gm_get_None_iff gm_del_def filter_id_conv)

lemma gm_del_put_fresh: "gm_get m k = None \<Longrightarrow> gm_del k (gm_put k v m) = m"
  by (force simp: gm_put_def gm_del_def gm_get_None_iff filter_id_conv)

lemma set_gm_put: "set (gm_put k v m) = insert (k, v) {e \<in> set m. fst e \<noteq> k}"
  by (auto simp: gm_put_def gm_del_def)

section \<open>Transition systems\<close>

text \<open>
  The interface of a component that moves by steps: initial states and a step relation.
  \<open>reach\<close> are its reachable states; an invariant holds in all of them, and a rank that
  every step decreases bounds the length of every run.
\<close>

locale automaton =
  fixes init :: "'s \<Rightarrow> bool" and step :: "'s \<Rightarrow> 's \<Rightarrow> bool"
begin

definition reach :: "'s \<Rightarrow> bool" where
  "reach s \<longleftrightarrow> (\<exists>s0. init s0 \<and> step\<^sup>*\<^sup>* s0 s)"

lemma reach_init: "init s \<Longrightarrow> reach s"
  by (auto simp: reach_def)

lemma reach_step: "reach s \<Longrightarrow> step s t \<Longrightarrow> reach t"
  unfolding reach_def by (meson rtranclp.rtrancl_into_rtrancl)

lemma invariant:
  assumes base: "\<And>s. init s \<Longrightarrow> I s"
    and ind: "\<And>s t. I s \<Longrightarrow> step s t \<Longrightarrow> I t"
    and r: "reach s"
  shows "I s"
proof -
  obtain s0 where s0: "init s0" "step\<^sup>*\<^sup>* s0 s" using r by (auto simp: reach_def)
  from s0(2) base [OF s0(1)] show ?thesis
    by (induction rule: rtranclp_induct) (auto intro: ind)
qed

lemma invariant_run:
  assumes "\<And>s t. I s \<Longrightarrow> step s t \<Longrightarrow> I t" and "I s" and "step\<^sup>*\<^sup>* s t"
  shows "I t"
  using assms(3,2) by (induction rule: rtranclp_induct) (auto intro: assms(1))

end

locale ranked_automaton = automaton init step
  for init :: "'s \<Rightarrow> bool" and step :: "'s \<Rightarrow> 's \<Rightarrow> bool" +
  fixes rank :: "'s \<Rightarrow> nat"
  assumes rank_decreases: "step s t \<Longrightarrow> rank t < rank s"
begin

lemma run_bounded: "(step ^^ n) s t \<Longrightarrow> n + rank t \<le> rank s"
proof (induction n arbitrary: t)
  case 0
  then show ?case by simp
next
  case (Suc n)
  then obtain u where "(step ^^ n) s u" "step u t" by auto
  with Suc.IH [of u] rank_decreases [of u t] show ?case by simp
qed

end

end
