(* ===== verification/Js_Runtime.thy ===== *)
theory Js_Runtime
  imports Prelude
begin

text \<open>
  What the single-page application uses of its language and of the browser: JavaScript values
  as the code handles them (property access that throws on \<open>null\<close> and \<open>undefined\<close>,
  truthiness, \<open>||\<close> and \<open>??\<close>, template strings), React elements as trees, which of their
  handlers a user can reach, and \<open>fetch\<close> requests and responses. Strings are lists of
  characters; the application only measures them against \<open>minLength\<close>.
\<close>

section \<open>Values\<close>

datatype jsval =
    Undefined
  | Null
  | Bool bool
  | Num int
  | Str string
  | Arr "jsval list"
  | Obj "(string \<times> jsval) list"

fun truthy :: "jsval \<Rightarrow> bool" where
  "truthy Undefined = False"
| "truthy Null = False"
| "truthy (Bool b) = b"
| "truthy (Num n) = (n \<noteq> 0)"
| "truthy (Str s) = (s \<noteq> [])"
| "truthy (Arr _) = True"
| "truthy (Obj _) = True"

definition or_else :: "jsval \<Rightarrow> jsval \<Rightarrow> jsval" where
  "or_else a b = (if truthy a then a else b)"

fun nullish :: "jsval \<Rightarrow> bool" where
  "nullish Undefined = True"
| "nullish Null = True"
| "nullish _ = False"

definition nullish_else :: "jsval \<Rightarrow> jsval \<Rightarrow> jsval" where
  "nullish_else a b = (if nullish a then b else a)"

text \<open>
  \<open>v.k\<close>: a TypeError (\<open>None\<close>) on \<open>null\<close> and \<open>undefined\<close>, \<open>undefined\<close> for a property
  that is not there. Arrays and strings have \<open>length\<close>.
\<close>

fun get_prop :: "jsval \<Rightarrow> string \<Rightarrow> jsval option" where
  "get_prop Undefined k = None"
| "get_prop Null k = None"
| "get_prop (Obj kvs) k = Some (case map_of kvs k of None \<Rightarrow> Undefined | Some v \<Rightarrow> v)"
| "get_prop (Arr vs) k = Some (if k = ''length'' then Num (int (length vs)) else Undefined)"
| "get_prop (Str s) k = Some (if k = ''length'' then Num (int (length s)) else Undefined)"
| "get_prop (Bool b) k = Some Undefined"
| "get_prop (Num n) k = Some Undefined"

text \<open>\<open>v.map(...)\<close> exists on arrays only; calling \<open>undefined\<close> is a TypeError.\<close>

fun map_elems :: "jsval \<Rightarrow> jsval list option" where
  "map_elems (Arr vs) = Some vs"
| "map_elems _ = None"

text \<open>The string a value becomes inside a template literal.\<close>

fun to_str :: "jsval \<Rightarrow> string" where
  "to_str Undefined = ''undefined''"
| "to_str Null = ''null''"
| "to_str (Bool b) = (if b then ''true'' else ''false'')"
| "to_str (Num n) = show_int n"
| "to_str (Str s) = s"
| "to_str (Arr vs) = join_with '','' (map (\<lambda>v. if nullish v then [] else to_str v) vs)"
| "to_str (Obj _) = ''[object Object]''"

text \<open>\<open>toLowerCase\<close> on the ASCII labels the code applies it to.\<close>

definition lower_char :: "char \<Rightarrow> char" where
  "lower_char c = (let n = (of_char c :: nat) in if 65 \<le> n \<and> n \<le> 90 then char_of (n + 32) else c)"

definition to_lower_case :: "string \<Rightarrow> string" where
  "to_lower_case = map lower_char"

definition str_or_falsy :: "string option \<Rightarrow> bool" where
  \<comment> \<open>an error state holds \<open>null\<close> or a message; the empty message is falsy\<close>
  "str_or_falsy e = (case e of None \<Rightarrow> False | Some s \<Rightarrow> s \<noteq> [])"

definition opt_str :: "string option \<Rightarrow> jsval" where
  "opt_str e = (case e of None \<Rightarrow> Null | Some s \<Rightarrow> Str s)"

section \<open>Elements\<close>

datatype 'h attr = Attr string jsval | On string 'h

datatype 'h vdom = Text string | Elem string "'h attr list" "'h vdom list"

definition attr_val :: "string \<Rightarrow> 'h attr list \<Rightarrow> jsval" where
  "attr_val k as = (case [v. Attr j v \<leftarrow> as, j = k] of [] \<Rightarrow> Undefined | v # _ \<Rightarrow> v)"

definition attr_on :: "string \<Rightarrow> 'h attr list \<Rightarrow> 'h list" where
  "attr_on k as = [h. On j h \<leftarrow> as, j = k]"

text \<open>
  \<open>{v}\<close> as a child: strings and numbers are text, \<open>null\<close>, \<open>undefined\<close> and booleans
  render nothing, arrays render their elements, an object makes React throw.
\<close>

fun child :: "jsval \<Rightarrow> 'h vdom list option" where
  "child Undefined = Some []"
| "child Null = Some []"
| "child (Bool _) = Some []"
| "child (Num n) = Some [Text (show_int n)]"
| "child (Str s) = Some [Text s]"
| "child (Arr vs) = map_option concat (those (map child vs))"
| "child (Obj _) = None"

fun texts :: "'h vdom \<Rightarrow> string" where
  "texts (Text s) = s"
| "texts (Elem _ _ ks) = concat (map texts ks)"

text \<open>
  What the user can do with a tree: press every button with an \<open>onClick\<close> and every radio or
  field with an \<open>onChange\<close> or \<open>onClick\<close>, unless it is \<open>disabled\<close>; submit a form when it
  has a submit button that is not disabled (a disabled default button also blocks the Enter
  key) and the browser's constraint validation accepts every field: \<open>required\<close> fields are
  filled (a file field by the file the browser holds) and \<open>minLength\<close> is met.
\<close>

definition is_disabled :: "'h attr list \<Rightarrow> bool" where
  "is_disabled as = truthy (attr_val ''disabled'' as)"

definition field_value :: "'h attr list \<Rightarrow> string" where
  "field_value as =
     (if attr_val ''type'' as = Str ''file''
      then (if truthy (attr_val ''files'' as) then ''file'' else [])
      else (case attr_val ''value'' as of Str s \<Rightarrow> s | _ \<Rightarrow> []))"

definition field_valid :: "'h attr list \<Rightarrow> bool" where
  "field_valid as \<longleftrightarrow>
     (truthy (attr_val ''required'' as) \<longrightarrow> field_value as \<noteq> []) \<and>
     (case attr_val ''minLength'' as of
        Num n \<Rightarrow> field_value as = [] \<or> n \<le> int (length (field_value as))
      | _ \<Rightarrow> True)"

fun fields_valid :: "'h vdom \<Rightarrow> bool" where
  "fields_valid (Text _) = True"
| "fields_valid (Elem t as ks) =
     ((t = ''input'' \<or> t = ''textarea'' \<longrightarrow> field_valid as) \<and> list_all fields_valid ks)"

fun has_submit :: "'h vdom \<Rightarrow> bool" where
  "has_submit (Text _) = False"
| "has_submit (Elem t as ks) =
     (t = ''button'' \<and> attr_val ''type'' as = Str ''submit'' \<and> \<not> is_disabled as
      \<or> list_ex has_submit ks)"

fun live_handlers :: "'h vdom \<Rightarrow> 'h list" where
  "live_handlers (Text _) = []"
| "live_handlers (Elem t as ks) =
     (if is_disabled as then [] else attr_on ''onClick'' as @ attr_on ''onChange'' as)
     @ (if t = ''form'' \<and> list_ex has_submit ks \<and> list_all fields_valid ks
        then attr_on ''onSubmit'' as else [])
     @ concat (map live_handlers ks)"

section \<open>Requests and responses\<close>

text \<open>
  A promise settles with a value or rejects with an error whose \<open>message\<close> the code shows.
\<close>

datatype 'a settled = Fulfilled 'a | Rejected string

datatype formval = FText string | FFile string

datatype body = NoBody | JsonBody jsval | FormBody "(string \<times> formval) list"

record request =
  rq_method :: string
  rq_path :: string
  rq_ctype :: string
  rq_body :: body

text \<open>
  A response as the application reads it: the status, what \<open>resp.text()\<close> settles with and
  what \<open>resp.json()\<close> settles with.
\<close>

record response =
  rs_status :: nat
  rs_text :: "string settled"
  rs_json :: "jsval settled"

definition resp_ok :: "response \<Rightarrow> bool" where
  "resp_ok r \<longleftrightarrow> 200 \<le> rs_status r \<and> rs_status r \<le> 299"

section \<open>Facts about trees\<close>

lemma attr_val_Nil [simp]: "attr_val k [] = Undefined"
  by (simp add: attr_val_def)

lemma attr_val_Attr [simp]: "attr_val k (Attr j v # as) = (if j = k then v else attr_val k as)"
  by (simp add: attr_val_def)

lemma attr_val_On [simp]: "attr_val k (On j h # as) = attr_val k as"
  by (simp add: attr_val_def)

lemma attr_on_Nil [simp]: "attr_on k [] = []"
  by (simp add: attr_on_def)

lemma attr_on_Attr [simp]: "attr_on k (Attr j v # as) = attr_on k as"
  by (simp add: attr_on_def)

lemma attr_on_On [simp]: "attr_on k (On j h # as) = (if j = k then h # attr_on k as else attr_on k as)"
  by (simp add: attr_on_def)

lemma those_map_Some [simp]: "those (map (\<lambda>x. Some (f x)) xs) = Some (map f xs)"
  by (induction xs) auto

lemma those_Some_iff: "those xs = Some ys \<longleftrightarrow> xs = map Some ys"
  by (induction xs arbitrary: ys) (auto split: option.splits)

lemma those_None_iff: "those xs = None \<longleftrightarrow> None \<in> set xs"
  by (induction xs) (auto split: option.splits)

lemma nullish_else_simps [simp]:
  "nullish_else Null b = b" "nullish_else Undefined b = b" "nullish_else (Arr vs) b = Arr vs"
  by (simp_all add: nullish_else_def)

end
