(* ===== verification/Spa_Views.thy ===== *)
theory Spa_Views
  imports Js_Runtime "HOL-Library.Monad_Syntax"
begin

text \<open>
  The components of \<open>dashboard/frontend/src/App.jsx\<close>: the state each one keeps and the tree
  it renders from that state. A handler in a tree is a constructor naming the callback the
  code passes there; what the callback does is in theory \<open>Spa_Machine\<close>. A view that can
  throw (it reads properties of server data) returns \<open>None\<close> when it does.
\<close>

section \<open>Component states\<close>

datatype add_mode = Pfx | Pem

datatype pfx_field = Pfx_Name | Pfx_Address | Pfx_Password

datatype pem_field = Pem_Name | Pem_Address | Pem_Ca | Pem_Cert | Pem_Key

record pfx_form =
  pfx_name :: string
  pfx_address :: string
  pfx_password :: string

record pem_form =
  pem_name :: string
  pem_address :: string
  pem_ca :: string
  pem_cert :: string
  pem_key :: string

definition emptyPfxForm :: pfx_form where
  "emptyPfxForm = \<lparr>pfx_name = [], pfx_address = [], pfx_password = []\<rparr>"

definition emptyPemForm :: pem_form where
  "emptyPemForm = \<lparr>pem_name = [], pem_address = [], pem_ca = [], pem_cert = [], pem_key = []\<rparr>"

text \<open>
  \<open>AddNodeForm\<close>. The file field is uncontrolled: besides the state \<open>pfxFile\<close> the browser's
  own field holds a file (\<open>a_dom_file\<close>), which only the user or a remount changes.
\<close>

record add_state =
  a_mode :: add_mode
  a_pfx :: pfx_form
  a_file :: "string option"
  a_dom_file :: "string option"
  a_pem :: pem_form
  a_busy :: bool
  a_error :: "string option"

definition add_init :: add_state where
  "add_init = \<lparr>a_mode = Pfx, a_pfx = emptyPfxForm, a_file = None, a_dom_file = None,
     a_pem = emptyPemForm, a_busy = False, a_error = None\<rparr>"

record prov_state =
  p_info :: jsval
  p_error :: "string option"
  p_copied :: string

definition prov_init :: prov_state where
  "prov_init = \<lparr>p_info = Null, p_error = None, p_copied = []\<rparr>"

record setup_state =
  s_password :: string
  s_confirm :: string
  s_busy :: bool
  s_error :: "string option"

definition setup_init :: setup_state where
  "setup_init = \<lparr>s_password = [], s_confirm = [], s_busy = False, s_error = None\<rparr>"

record login_state =
  l_password :: string
  l_busy :: bool
  l_error :: "string option"

definition login_init :: login_state where
  "login_init = \<lparr>l_password = [], l_busy = False, l_error = None\<rparr>"

record main_state =
  m_nodes :: jsval
  m_pending :: jsval
  m_loading :: bool
  m_busy :: bool
  m_error :: "string option"
  m_add :: add_state
  m_prov :: prov_state

definition main_init :: main_state where
  "main_init = \<lparr>m_nodes = Arr [], m_pending = Arr [], m_loading = True, m_busy = False,
     m_error = None, m_add = add_init, m_prov = prov_init\<rparr>"

section \<open>Handlers\<close>

datatype copy_ref = Address_Ref | Ca_Ref | Command_Ref

datatype handler =
    H_OpenNode jsval
  | H_Remove jsval
  | H_Approve jsval
  | H_Reject jsval
  | H_Logout
  | H_SetMode add_mode
  | H_SetPfx pfx_field
  | H_SetPem pem_field
  | H_SetPfxFile
  | H_AddSubmit
  | H_Copy copy_ref
  | H_SetPassword
  | H_SetConfirm
  | H_SetupSubmit
  | H_SetLoginPassword
  | H_LoginSubmit

type_synonym view = "handler vdom"

section \<open>Small views\<close>

definition cls :: "string \<Rightarrow> handler attr" where
  "cls c = Attr ''className'' (Str c)"

definition ellipsis :: string where
  \<comment> \<open>the three UTF-8 bytes of the character the labels end with\<close>
  "ellipsis = [CHR 0xE2, CHR 0x80, CHR 0xA6]"

definition err_view :: "string option \<Rightarrow> view list" where
  "err_view e = (case e of
       Some m \<Rightarrow> if m = [] then [] else [Elem ''p'' [cls ''error''] [Text m]]
     | None \<Rightarrow> [])"

definition Logo :: "int \<Rightarrow> view" where
  "Logo px = Elem ''img'' [Attr ''src'' (Str ''/favicon.svg''), Attr ''alt'' (Str []),
     Attr ''width'' (Num px), Attr ''height'' (Num px), cls ''logo''] []"

definition node_row :: "bool \<Rightarrow> jsval \<Rightarrow> view option" where
  "node_row busy n = do {
     i \<leftarrow> get_prop n ''id'';
     nm \<leftarrow> get_prop n ''name'';
     ad \<leftarrow> get_prop n ''address'';
     pt \<leftarrow> get_prop n ''port'';
     nm_c \<leftarrow> child nm;
     ad_c \<leftarrow> child ad;
     pt_c \<leftarrow> child pt;
     Some (Elem ''tr'' [Attr ''key'' i]
       [Elem ''td'' [] nm_c, Elem ''td'' [] ad_c, Elem ''td'' [] pt_c,
        Elem ''td'' [cls ''actions'']
          [Elem ''button'' [On ''onClick'' (H_OpenNode n)] [Text ''Open dashboard''],
           Elem ''button'' [cls ''danger'', Attr ''disabled'' (Bool busy), On ''onClick'' (H_Remove i)]
             [Text ''Remove'']]])
   }"

definition head_row :: "string list \<Rightarrow> view" where
  "head_row hs = Elem ''thead'' [] [Elem ''tr'' []
     (map (\<lambda>h. Elem ''th'' [] (if h = [] then [] else [Text h])) hs)]"

definition NodeList :: "jsval \<Rightarrow> bool \<Rightarrow> view option" where
  "NodeList nodes busy = do {
     len \<leftarrow> get_prop nodes ''length'';
     if len = Num 0
     then Some (Elem ''p'' [cls ''empty''] [Text ''No nodes registered yet - add one below.''])
     else do {
       ns \<leftarrow> map_elems nodes;
       rows \<leftarrow> those (map (node_row busy) ns);
       Some (Elem ''table'' [cls ''nodes'']
         [head_row [''Name'', ''Address'', ''Port'', []], Elem ''tbody'' [] rows])
     }
   }"

text \<open>\<open>new Date(v).toLocaleString()\<close> depends on the browser's locale: the parameter \<open>fmt\<close>.\<close>

definition pending_row :: "(jsval \<Rightarrow> string) \<Rightarrow> bool \<Rightarrow> jsval \<Rightarrow> view option" where
  "pending_row fmt busy p = do {
     i \<leftarrow> get_prop p ''id'';
     nm \<leftarrow> get_prop p ''name'';
     ad \<leftarrow> get_prop p ''address'';
     an \<leftarrow> get_prop p ''announced_at'';
     nm_c \<leftarrow> child nm;
     ad_c \<leftarrow> child ad;
     Some (Elem ''tr'' [Attr ''key'' i]
       [Elem ''td'' [] nm_c, Elem ''td'' [] ad_c, Elem ''td'' [] [Text (fmt an)],
        Elem ''td'' [cls ''actions'']
          [Elem ''button'' [Attr ''disabled'' (Bool busy), On ''onClick'' (H_Approve i)] [Text ''Approve''],
           Elem ''button'' [cls ''danger'', Attr ''disabled'' (Bool busy), On ''onClick'' (H_Reject i)]
             [Text ''Reject'']]])
   }"

definition PendingList :: "(jsval \<Rightarrow> string) \<Rightarrow> jsval \<Rightarrow> bool \<Rightarrow> view list option" where
  "PendingList fmt pending busy = do {
     len \<leftarrow> get_prop pending ''length'';
     if len = Num 0 then Some []
     else do {
       ps \<leftarrow> map_elems pending;
       rows \<leftarrow> those (map (pending_row fmt busy) ps);
       Some [Elem ''h2'' [] [Text ''Pending nodes''],
             Elem ''table'' [cls ''nodes'']
               [head_row [''Name'', ''Address'', ''Announced'', []], Elem ''tbody'' [] rows]]
     }
   }"

section \<open>Provisioning a node\<close>

definition provision_address :: "jsval \<Rightarrow> jsval option" where
  "provision_address info =
     map_option (\<lambda>a. or_else a (Str ''YOUR-CONTROLLER-ADDRESS'')) (get_prop info ''address'')"

definition provision_command :: "jsval \<Rightarrow> string" where
  "provision_command address =
     ''janusctl lifecycle install -controller-address '' @ to_str address
     @ '' -controller-ca controller-ca.crt DISK BUNDLE_DIR''"

definition copy_label :: "copy_ref \<Rightarrow> string" where
  "copy_label r = (case r of Address_Ref \<Rightarrow> ''Address'' | Ca_Ref \<Rightarrow> ''CA certificate''
     | Command_Ref \<Rightarrow> ''Command'')"

definition copied_message :: "string \<Rightarrow> bool \<Rightarrow> string" where
  "copied_message label ok =
     (if ok then label @ '' copied''
      else ''select the '' @ to_lower_case label @ '' text and press Ctrl+C/Cmd+C'')"

text \<open>What the three read-only fields hold: the text \<open>copyToClipboard\<close> reads through the ref.\<close>

definition ref_text :: "jsval \<Rightarrow> copy_ref \<Rightarrow> string option" where
  "ref_text info r = do {
     address \<leftarrow> provision_address info;
     ca \<leftarrow> get_prop info ''ca_cert_pem'';
     Some (case r of Address_Ref \<Rightarrow> to_str address
       | Ca_Ref \<Rightarrow> (if nullish ca then [] else to_str ca)
       | Command_Ref \<Rightarrow> provision_command address)
   }"

definition ProvisionInfo :: "prov_state \<Rightarrow> view list option" where
  "ProvisionInfo p =
     (if str_or_falsy (p_error p) \<or> \<not> truthy (p_info p) then Some []
      else do {
        given \<leftarrow> get_prop (p_info p) ''address'';
        address \<leftarrow> provision_address (p_info p);
        ca \<leftarrow> get_prop (p_info p) ''ca_cert_pem'';
        Some [Elem ''details'' [cls ''add-node'']
          ([Elem ''summary'' [] [Text ''Provision a new node'']]
           @ (if truthy given then []
              else [Elem ''p'' [cls ''hint'']
                [Text ''No address could be guessed automatically - set -advertise-address on dashboardd, or just fill one in below yourself before copying the command.'']])
           @ [Elem ''label'' [] [Text ''Controller address'',
                Elem ''input'' [Attr ''readOnly'' (Bool True), Attr ''value'' address,
                  On ''onClick'' (H_Copy Address_Ref)] []],
              Elem ''label'' [] [Text ''Controller CA certificate'',
                Elem ''textarea'' [Attr ''readOnly'' (Bool True), Attr ''rows'' (Num 6), Attr ''value'' ca,
                  On ''onClick'' (H_Copy Ca_Ref)] []],
              Elem ''label'' []
                [Text ''Command (fill in DISK and BUNDLE_DIR, and save the CA certificate above as controller-ca.crt first)'',
                 Elem ''textarea'' [Attr ''readOnly'' (Bool True), Attr ''rows'' (Num 2),
                   Attr ''value'' (Str (provision_command address)),
                   On ''onClick'' (H_Copy Command_Ref)] []]]
           @ (if p_copied p = [] then [] else [Elem ''p'' [cls ''hint''] [Text (p_copied p)]]))]
      })"

section \<open>Adding a node\<close>

definition labelled :: "view list \<Rightarrow> view list \<Rightarrow> view" where
  "labelled pre ctls = Elem ''label'' [] (pre @ ctls)"

definition req_input :: "string \<Rightarrow> handler \<Rightarrow> handler attr list \<Rightarrow> view" where
  "req_input v h extra =
     Elem ''input'' ([Attr ''value'' (Str v), On ''onChange'' h, Attr ''required'' (Bool True)] @ extra) []"

definition req_textarea :: "string \<Rightarrow> handler \<Rightarrow> view" where
  "req_textarea v h =
     Elem ''textarea'' [Attr ''value'' (Str v), On ''onChange'' h, Attr ''required'' (Bool True),
       Attr ''rows'' (Num 4)] []"

definition address_label :: string where
  "address_label = ''Address (host:port, the node's real gRPC endpoint - default :9505)''"

definition pfx_fields :: "add_state \<Rightarrow> view list" where
  "pfx_fields a =
     [labelled [Text ''Name''] [req_input (pfx_name (a_pfx a)) (H_SetPfx Pfx_Name) []],
      labelled [Text address_label]
        [req_input (pfx_address (a_pfx a)) (H_SetPfx Pfx_Address) [Attr ''placeholder'' (Str ''10.0.0.5:9505'')]],
      labelled [Text ''Bootstrap credential (.pfx)'', Elem ''span'' [cls ''hint'']
         [Text ''The same file you imported into your browser/OS to view a node's own page - must include the node's ca.crt bundled in (openssl pkcs12 -export -certfile ca.crt ...). Used once, immediately, to issue this dashboard's own dedicated credential - never stored.'']]
        [Elem ''input'' [Attr ''type'' (Str ''file''), Attr ''accept'' (Str ''.pfx,.p12''),
           Attr ''files'' (Bool (a_dom_file a \<noteq> None)), On ''onChange'' H_SetPfxFile,
           Attr ''required'' (Bool True)] []],
      labelled [Text ''.pfx password'']
        [Elem ''input'' [Attr ''type'' (Str ''password''), Attr ''value'' (Str (pfx_password (a_pfx a))),
           On ''onChange'' (H_SetPfx Pfx_Password)] []]]"

definition pem_fields :: "add_state \<Rightarrow> view list" where
  "pem_fields a =
     [labelled [Text ''Name''] [req_input (pem_name (a_pem a)) (H_SetPem Pem_Name) []],
      labelled [Text address_label]
        [req_input (pem_address (a_pem a)) (H_SetPem Pem_Address) [Attr ''placeholder'' (Str ''10.0.0.5:9505'')]],
      labelled [Text ''CA certificate (the node's own ca.crt - not sensitive)'']
        [req_textarea (pem_ca (a_pem a)) (H_SetPem Pem_Ca)],
      labelled [Text ''Bootstrap admin certificate'', Elem ''span'' [cls ''hint'']
         [Text ''Used once, immediately, to issue this dashboard's own dedicated credential - never stored (see dashboard/backend/internal/nodeproxy's own design notes).'']]
        [req_textarea (pem_cert (a_pem a)) (H_SetPem Pem_Cert)],
      labelled [Text ''Bootstrap admin key''] [req_textarea (pem_key (a_pem a)) (H_SetPem Pem_Key)]]"

definition mode_radio :: "add_mode \<Rightarrow> add_mode \<Rightarrow> string \<Rightarrow> view" where
  "mode_radio cur m label =
     Elem ''label'' [] [Elem ''input'' [Attr ''type'' (Str ''radio''), Attr ''checked'' (Bool (cur = m)),
       On ''onChange'' (H_SetMode m)] [], Text label]"

definition submit_button :: "bool \<Rightarrow> string \<Rightarrow> string \<Rightarrow> view" where
  "submit_button busy busy_label label =
     Elem ''button'' [Attr ''type'' (Str ''submit''), Attr ''disabled'' (Bool busy)]
       [Text (if busy then busy_label @ ellipsis else label)]"

definition AddNodeForm :: "add_state \<Rightarrow> view" where
  "AddNodeForm a =
     Elem ''form'' [cls ''add-node'', On ''onSubmit'' H_AddSubmit]
       ([Elem ''h2'' [] [Text ''Add a node''],
         Elem ''div'' [cls ''mode-toggle'']
           [mode_radio (a_mode a) Pfx ''Upload .pfx (recommended)'',
            mode_radio (a_mode a) Pem ''Paste PEM (scripts/CI)'']]
        @ (case a_mode a of Pfx \<Rightarrow> pfx_fields a | Pem \<Rightarrow> pem_fields a)
        @ err_view (a_error a)
        @ [submit_button (a_busy a) ''Adding'' ''Add node''])"

section \<open>Setting the password and signing in\<close>

definition auth_screen :: "view \<Rightarrow> view" where
  "auth_screen form =
     Elem ''main'' [cls ''auth-screen'']
       [Elem ''div'' [cls ''brand centered''] [Logo 48, Elem ''h1'' [] [Text ''Janus Controller'']],
        form]"

definition SetupForm :: "setup_state \<Rightarrow> view" where
  "SetupForm s =
     auth_screen (Elem ''form'' [cls ''add-node'', On ''onSubmit'' H_SetupSubmit]
       ([Elem ''h2'' [] [Text ''Set the admin password''],
         Elem ''p'' [cls ''hint'']
           [Text ''First run - choose a password for this Controller. There is one admin account.''],
         labelled [Text ''Password (at least 8 characters)'']
           [Elem ''input'' [Attr ''type'' (Str ''password''), Attr ''value'' (Str (s_password s)),
              On ''onChange'' H_SetPassword, Attr ''required'' (Bool True), Attr ''minLength'' (Num 8),
              Attr ''autoFocus'' (Bool True)] []],
         labelled [Text ''Confirm password'']
           [Elem ''input'' [Attr ''type'' (Str ''password''), Attr ''value'' (Str (s_confirm s)),
              On ''onChange'' H_SetConfirm, Attr ''required'' (Bool True), Attr ''minLength'' (Num 8)] []]]
        @ err_view (s_error s)
        @ [submit_button (s_busy s) ''Setting up'' ''Set password and continue'']))"

definition LoginForm :: "login_state \<Rightarrow> view" where
  "LoginForm l =
     auth_screen (Elem ''form'' [cls ''add-node'', On ''onSubmit'' H_LoginSubmit]
       ([Elem ''h2'' [] [Text ''Sign in''],
         labelled [Text ''Password'']
           [Elem ''input'' [Attr ''type'' (Str ''password''), Attr ''value'' (Str (l_password l)),
              On ''onChange'' H_SetLoginPassword, Attr ''required'' (Bool True),
              Attr ''autoFocus'' (Bool True)] []]]
        @ err_view (l_error l)
        @ [submit_button (l_busy l) ''Signing in'' ''Sign in'']))"

section \<open>The application\<close>

definition loading_view :: view where
  "loading_view = Elem ''p'' [] [Text (''Loading'' @ ellipsis)]"

definition MainApp :: "(jsval \<Rightarrow> string) \<Rightarrow> main_state \<Rightarrow> view option" where
  "MainApp fmt m = do {
     pend \<leftarrow> (if m_loading m then Some [] else PendingList fmt (m_pending m) (m_busy m));
     nodes \<leftarrow> (if m_loading m then Some loading_view else NodeList (m_nodes m) (m_busy m));
     prov \<leftarrow> ProvisionInfo (m_prov m);
     Some (Elem ''main'' []
       ([Elem ''div'' [cls ''header-row'']
          [Elem ''div'' [cls ''brand''] [Logo 28, Elem ''h1'' [] [Text ''Janus Controller'']],
           Elem ''button'' [On ''onClick'' H_Logout] [Text ''Log out'']]]
        @ err_view (m_error m) @ pend
        @ [Elem ''h2'' [] [Text ''Nodes''], nodes, AddNodeForm (m_add m)] @ prov))
   }"

text \<open>
  \<open>AuthGate\<close> picks one of five screens from \<open>status\<close> and \<open>error\<close> (\<open>null\<close> at first);
  a status without the two properties reads them as \<open>undefined\<close>.
\<close>

datatype gate_kind = G_Error string | G_Loading | G_Setup | G_Login | G_Main

definition AuthGate :: "jsval \<Rightarrow> string option \<Rightarrow> gate_kind option" where
  "AuthGate status err =
     (if str_or_falsy err then Some (G_Error (case err of Some m \<Rightarrow> m | None \<Rightarrow> []))
      else if \<not> truthy status then Some G_Loading
      else do {
        setup \<leftarrow> get_prop status ''setup_required'';
        if truthy setup then Some G_Setup
        else do {
          auth \<leftarrow> get_prop status ''authenticated'';
          Some (if truthy auth then G_Main else G_Login)
        }
      })"

lemma get_prop_truthy: "truthy v \<Longrightarrow> \<exists>w. get_prop v k = Some w"
  by (cases v) auto

text \<open>The gate itself never throws: it reads properties of a truthy status only.\<close>

lemma AuthGate_total: "\<exists>k. AuthGate status err = Some k"
  using get_prop_truthy [of status "''setup_required''"] get_prop_truthy [of status "''authenticated''"]
  by (cases "truthy status") (auto simp: AuthGate_def)

end
