(* ===== verification/Spa_Machine.thy ===== *)
theory Spa_Machine
  imports Spa_Views
begin

text \<open>
  The application of \<open>App.jsx\<close> as a machine. Every \<open>async\<close> function is cut at its
  \<open>await\<close>s: a task is what is left of one call, the promises it waits for, and the component
  instance whose state it sets. A step is the user firing a handler the current tree offers,
  the network settling one \<open>fetch\<close>, or a task resuming. Setting the state of an instance that
  is no longer mounted does nothing, as in React; a view that throws leaves a blank page.
\<close>

section \<open>Requests\<close>

definition req_get :: "string \<Rightarrow> request" where
  "req_get path = \<lparr>rq_method = ''GET'', rq_path = path, rq_ctype = [], rq_body = NoBody\<rparr>"

definition req_plain :: "string \<Rightarrow> string \<Rightarrow> request" where
  "req_plain method path = \<lparr>rq_method = method, rq_path = path, rq_ctype = [], rq_body = NoBody\<rparr>"

definition req_json :: "string \<Rightarrow> jsval \<Rightarrow> request" where
  "req_json path v = \<lparr>rq_method = ''POST'', rq_path = path, rq_ctype = ''application/json'',
     rq_body = JsonBody v\<rparr>"

definition req_form :: "string \<Rightarrow> (string \<times> formval) list \<Rightarrow> request" where
  \<comment> \<open>the browser appends the boundary parameter to this content type\<close>
  "req_form path fs = \<lparr>rq_method = ''POST'', rq_path = path, rq_ctype = ''multipart/form-data'',
     rq_body = FormBody fs\<rparr>"

definition pfx_body :: "pfx_form \<Rightarrow> string \<Rightarrow> (string \<times> formval) list" where
  "pfx_body f file = [(''name'', FText (pfx_name f)), (''address'', FText (pfx_address f)),
     (''pfx_password'', FText (pfx_password f)), (''pfx'', FFile file)]"

definition pem_body :: "pem_form \<Rightarrow> jsval" where
  "pem_body f = Obj [(''name'', Str (pem_name f)), (''address'', Str (pem_address f)),
     (''ca_cert_pem'', Str (pem_ca f)), (''bootstrap_cert_pem'', Str (pem_cert f)),
     (''bootstrap_key_pem'', Str (pem_key f))]"

definition password_body :: "string \<Rightarrow> jsval" where
  "password_body p = Obj [(''password'', Str p)]"

section \<open>Tasks\<close>

datatype caller = Detached | By_Action

datatype form_kind = F_Add | F_Setup | F_Login

datatype cont =
    K_Status
  | K_Status_Text response
  | K_Status_Json response
  | K_Submit form_kind
  | K_Submit_Text form_kind response
  | K_Refresh caller
  | K_Refresh_Text caller response
  | K_Refresh_Nodes caller response response
  | K_Refresh_Pending caller response
  | K_Action
  | K_Action_Text response
  | K_Action_Done
  | K_Logout
  | K_Info
  | K_Info_Json response
  | K_Copy copy_ref bool
  | K_Copied_Timeout

datatype slot = Sent request | Got response | Failed string

text \<open>
  \<open>t_rej\<close> is the message of the first promise of \<open>Promise.all\<close> that rejected.
\<close>

record task =
  t_inst :: nat
  t_cont :: cont
  t_slots :: "slot list"
  t_rej :: "string option"

datatype screen =
    S_Gate
  | S_Setup nat setup_state
  | S_Login nat login_state
  | S_Main nat main_state
  | S_Crashed

record spa =
  g_status :: jsval
  g_error :: "string option"
  scr :: screen
  tasks :: "task list"
  fresh :: nat
  opened :: "string list"
  clip :: "string option"

text \<open>What the browser supplies: the page's host name and its date format.\<close>

record browser =
  hostname :: string
  locale_date :: "jsval \<Rightarrow> string"

definition upd_setup :: "nat \<Rightarrow> (setup_state \<Rightarrow> setup_state) \<Rightarrow> spa \<Rightarrow> spa" where
  "upd_setup i f s = (case scr s of
     S_Setup j st \<Rightarrow> if i = j then s\<lparr>scr := S_Setup j (f st)\<rparr> else s | _ \<Rightarrow> s)"

definition upd_login :: "nat \<Rightarrow> (login_state \<Rightarrow> login_state) \<Rightarrow> spa \<Rightarrow> spa" where
  "upd_login i f s = (case scr s of
     S_Login j st \<Rightarrow> if i = j then s\<lparr>scr := S_Login j (f st)\<rparr> else s | _ \<Rightarrow> s)"

definition upd_main :: "nat \<Rightarrow> (main_state \<Rightarrow> main_state) \<Rightarrow> spa \<Rightarrow> spa" where
  "upd_main i f s = (case scr s of
     S_Main j st \<Rightarrow> if i = j then s\<lparr>scr := S_Main j (f st)\<rparr> else s | _ \<Rightarrow> s)"

definition upd_add :: "nat \<Rightarrow> (add_state \<Rightarrow> add_state) \<Rightarrow> spa \<Rightarrow> spa" where
  "upd_add i f = upd_main i (\<lambda>m. m\<lparr>m_add := f (m_add m)\<rparr>)"

definition upd_prov :: "nat \<Rightarrow> (prov_state \<Rightarrow> prov_state) \<Rightarrow> spa \<Rightarrow> spa" where
  "upd_prov i f = upd_main i (\<lambda>m. m\<lparr>m_prov := f (m_prov m)\<rparr>)"

definition spawn :: "nat \<Rightarrow> cont \<Rightarrow> request list \<Rightarrow> spa \<Rightarrow> spa" where
  "spawn i k rqs s =
     s\<lparr>tasks := tasks s @ [\<lparr>t_inst = i, t_cont = k, t_slots = map Sent rqs, t_rej = None\<rparr>]\<rparr>"

section \<open>Mounting\<close>

definition refreshStatus :: "spa \<Rightarrow> spa" where
  "refreshStatus = spawn 0 K_Status [req_get ''/api/auth/status'']"

definition refresh :: "caller \<Rightarrow> nat \<Rightarrow> spa \<Rightarrow> spa" where
  "refresh c i s = spawn i (K_Refresh c) [req_get ''/api/nodes'', req_get ''/api/pending'']
     (upd_main i (\<lambda>m. m\<lparr>m_loading := True\<rparr>) s)"

definition load_info :: "nat \<Rightarrow> spa \<Rightarrow> spa" where
  "load_info i = spawn i K_Info [req_get ''/api/controller-info'']"

text \<open>A page load: \<open>AuthGate\<close> (instance 0) mounts and its effect asks for the status.\<close>

definition spa_init :: spa where
  "spa_init = refreshStatus \<lparr>g_status = Null, g_error = None, scr = S_Gate, tasks = [], fresh = 1,
     opened = [], clip = None\<rparr>"

definition reload :: "spa \<Rightarrow> spa" where
  "reload s = spa_init\<lparr>opened := opened s, clip := clip s\<rparr>"

text \<open>
  After the gate's state changed: keep the mounted screen if it is the one the gate asks for,
  else mount a new instance in its initial state and run its effects, children's first.
\<close>

definition reconcile :: "spa \<Rightarrow> spa" where
  "reconcile s =
     (case scr s of S_Crashed \<Rightarrow> s | _ \<Rightarrow>
       (case AuthGate (g_status s) (g_error s) of
          None \<Rightarrow> s\<lparr>scr := S_Crashed\<rparr>
        | Some (G_Error _) \<Rightarrow> s\<lparr>scr := S_Gate\<rparr>
        | Some G_Loading \<Rightarrow> s\<lparr>scr := S_Gate\<rparr>
        | Some G_Setup \<Rightarrow> (case scr s of S_Setup _ _ \<Rightarrow> s
            | _ \<Rightarrow> s\<lparr>scr := S_Setup (fresh s) setup_init, fresh := Suc (fresh s)\<rparr>)
        | Some G_Login \<Rightarrow> (case scr s of S_Login _ _ \<Rightarrow> s
            | _ \<Rightarrow> s\<lparr>scr := S_Login (fresh s) login_init, fresh := Suc (fresh s)\<rparr>)
        | Some G_Main \<Rightarrow> (case scr s of S_Main _ _ \<Rightarrow> s
            | _ \<Rightarrow> refresh Detached (fresh s) (load_info (fresh s)
                    (s\<lparr>scr := S_Main (fresh s) main_init, fresh := Suc (fresh s)\<rparr>)))))"

definition render :: "browser \<Rightarrow> spa \<Rightarrow> view option" where
  "render b s = (case scr s of
       S_Gate \<Rightarrow> (case AuthGate (g_status s) (g_error s) of
           Some (G_Error m) \<Rightarrow> Some (Elem ''p'' [cls ''error''] [Text m])
         | _ \<Rightarrow> Some loading_view)
     | S_Setup _ st \<Rightarrow> Some (SetupForm st)
     | S_Login _ st \<Rightarrow> Some (LoginForm st)
     | S_Main _ m \<Rightarrow> MainApp (locale_date b) m
     | S_Crashed \<Rightarrow> None)"

definition commit :: "browser \<Rightarrow> spa \<Rightarrow> spa" where
  "commit b s = (let s' = reconcile s in if render b s' = None then s'\<lparr>scr := S_Crashed\<rparr> else s')"

section \<open>Resuming a task\<close>

text \<open>\<open>throw new Error(await resp.text())\<close>: the message the \<open>catch\<close> block shows.\<close>

definition err_text :: "response \<Rightarrow> string" where
  "err_text r = (case rs_text r of Fulfilled t \<Rightarrow> t | Rejected m \<Rightarrow> m)"

definition add_fail :: "nat \<Rightarrow> string \<Rightarrow> spa \<Rightarrow> spa" where
  "add_fail i m = upd_add i (\<lambda>a. a\<lparr>a_error := Some m, a_busy := False\<rparr>)"

definition setup_fail :: "nat \<Rightarrow> string \<Rightarrow> spa \<Rightarrow> spa" where
  "setup_fail i m = upd_setup i (\<lambda>st. st\<lparr>s_error := Some m, s_busy := False\<rparr>)"

definition login_fail :: "nat \<Rightarrow> string \<Rightarrow> spa \<Rightarrow> spa" where
  "login_fail i m = upd_login i (\<lambda>st. st\<lparr>l_error := Some m, l_busy := False\<rparr>)"

definition form_fail :: "form_kind \<Rightarrow> nat \<Rightarrow> string \<Rightarrow> spa \<Rightarrow> spa" where
  "form_fail f i m = (case f of F_Add \<Rightarrow> add_fail i m | F_Setup \<Rightarrow> setup_fail i m | F_Login \<Rightarrow> login_fail i m)"

definition add_done :: "nat \<Rightarrow> spa \<Rightarrow> spa" where
  "add_done i s = upd_add i (\<lambda>a. a\<lparr>a_busy := False\<rparr>) (refresh Detached i
     (upd_add i (\<lambda>a. a\<lparr>a_pfx := emptyPfxForm, a_file := None, a_pem := emptyPemForm\<rparr>) s))"

definition setup_done :: "nat \<Rightarrow> spa \<Rightarrow> spa" where
  "setup_done i s = upd_setup i (\<lambda>st. st\<lparr>s_busy := False\<rparr>) (refreshStatus s)"

definition login_done :: "nat \<Rightarrow> spa \<Rightarrow> spa" where
  "login_done i s = upd_login i (\<lambda>st. st\<lparr>l_busy := False\<rparr>) (refreshStatus s)"

definition form_done :: "form_kind \<Rightarrow> nat \<Rightarrow> spa \<Rightarrow> spa" where
  "form_done f i s = (case f of F_Add \<Rightarrow> add_done i s | F_Setup \<Rightarrow> setup_done i s | F_Login \<Rightarrow> login_done i s)"

lemmas form_fail_defs = form_fail_def add_fail_def setup_fail_def login_fail_def
lemmas form_done_defs = form_done_def add_done_def setup_done_def login_done_def

text \<open>The end of \<open>refresh\<close>: its \<open>finally\<close>, then the action that awaited it, if one did.\<close>

definition end_refresh :: "caller \<Rightarrow> nat \<Rightarrow> (main_state \<Rightarrow> main_state) \<Rightarrow> spa \<Rightarrow> spa" where
  "end_refresh c i f s =
     (let s' = upd_main i (\<lambda>m. (f m)\<lparr>m_loading := False\<rparr>) s
      in case c of Detached \<Rightarrow> s' | By_Action \<Rightarrow> spawn i K_Action_Done [] s')"

definition action_fail :: "nat \<Rightarrow> string \<Rightarrow> spa \<Rightarrow> spa" where
  "action_fail i m = upd_main i (\<lambda>st. st\<lparr>m_error := Some m, m_busy := False\<rparr>)"

text \<open>The continuation after a \<open>fetch\<close> that rejected, by the code that awaited it.\<close>

definition resume_rejected :: "nat \<Rightarrow> cont \<Rightarrow> string \<Rightarrow> spa \<Rightarrow> spa" where
  "resume_rejected i k m s = (case k of
       K_Status \<Rightarrow> s\<lparr>g_error := Some m\<rparr>
     | K_Submit f \<Rightarrow> form_fail f i m s
     | K_Refresh c \<Rightarrow> end_refresh c i (\<lambda>st. st\<lparr>m_error := Some m\<rparr>) s
     | K_Action \<Rightarrow> action_fail i m s
     | K_Info \<Rightarrow> upd_prov i (\<lambda>p. p\<lparr>p_error := Some m\<rparr>) s
     | _ \<Rightarrow> s)"

definition resume_fetched :: "nat \<Rightarrow> cont \<Rightarrow> response list \<Rightarrow> spa \<Rightarrow> spa" where
  "resume_fetched i k rs s = (case (k, rs) of
       (K_Status, [r]) \<Rightarrow> spawn i (if resp_ok r then K_Status_Json r else K_Status_Text r) [] s
     | (K_Submit f, [r]) \<Rightarrow> if resp_ok r then form_done f i s else spawn i (K_Submit_Text f r) [] s
     | (K_Refresh c, [nr, pr]) \<Rightarrow>
         spawn i (if \<not> resp_ok nr then K_Refresh_Text c nr
                  else if \<not> resp_ok pr then K_Refresh_Text c pr
                  else K_Refresh_Nodes c nr pr) [] s
     | (K_Action, [r]) \<Rightarrow> if resp_ok r then refresh By_Action i s else spawn i (K_Action_Text r) [] s
     | (K_Logout, [_]) \<Rightarrow> reload s
     | (K_Info, [r]) \<Rightarrow> if resp_ok r then spawn i (K_Info_Json r) [] s
         else upd_prov i (\<lambda>p. p\<lparr>p_error := Some ''failed to load''\<rparr>) s
     | _ \<Rightarrow> s)"

definition resume_local :: "nat \<Rightarrow> cont \<Rightarrow> spa \<Rightarrow> spa" where
  "resume_local i k s = (case k of
       K_Status_Text r \<Rightarrow> s\<lparr>g_error := Some (err_text r)\<rparr>
     | K_Status_Json r \<Rightarrow> (case rs_json r of
           Fulfilled v \<Rightarrow> s\<lparr>g_status := v\<rparr> | Rejected m \<Rightarrow> s\<lparr>g_error := Some m\<rparr>)
     | K_Submit_Text f r \<Rightarrow> form_fail f i (err_text r) s
     | K_Refresh_Text c r \<Rightarrow> end_refresh c i (\<lambda>st. st\<lparr>m_error := Some (err_text r)\<rparr>) s
     | K_Refresh_Nodes c nr pr \<Rightarrow> (case rs_json nr of
           Fulfilled v \<Rightarrow> spawn i (K_Refresh_Pending c pr) []
             (upd_main i (\<lambda>m. m\<lparr>m_nodes := nullish_else v (Arr [])\<rparr>) s)
         | Rejected m \<Rightarrow> end_refresh c i (\<lambda>st. st\<lparr>m_error := Some m\<rparr>) s)
     | K_Refresh_Pending c pr \<Rightarrow> (case rs_json pr of
           Fulfilled v \<Rightarrow> end_refresh c i
             (\<lambda>m. m\<lparr>m_pending := nullish_else v (Arr []), m_error := None\<rparr>) s
         | Rejected m \<Rightarrow> end_refresh c i (\<lambda>st. st\<lparr>m_error := Some m\<rparr>) s)
     | K_Action_Text r \<Rightarrow> action_fail i (err_text r) s
     | K_Action_Done \<Rightarrow> upd_main i (\<lambda>m. m\<lparr>m_busy := False\<rparr>) s
     | K_Info_Json r \<Rightarrow> (case rs_json r of
           Fulfilled v \<Rightarrow> upd_prov i (\<lambda>p. p\<lparr>p_info := v\<rparr>) s
         | Rejected m \<Rightarrow> upd_prov i (\<lambda>p. p\<lparr>p_error := Some m\<rparr>) s)
     | K_Copy r ok \<Rightarrow> spawn i K_Copied_Timeout []
         (upd_prov i (\<lambda>p. p\<lparr>p_copied := copied_message (copy_label r) ok\<rparr>) s)
     | K_Copied_Timeout \<Rightarrow> upd_prov i (\<lambda>p. p\<lparr>p_copied := []\<rparr>) s
     | _ \<Rightarrow> s)"

fun got :: "slot \<Rightarrow> response option" where
  "got (Got r) = Some r"
| "got _ = None"

definition resume :: "task \<Rightarrow> spa \<Rightarrow> spa" where
  "resume t s = (case t_rej t of
       Some m \<Rightarrow> resume_rejected (t_inst t) (t_cont t) m s
     | None \<Rightarrow> (if t_slots t = [] then resume_local (t_inst t) (t_cont t) s
                else case those (map got (t_slots t)) of
                  Some rs \<Rightarrow> resume_fetched (t_inst t) (t_cont t) rs s
                | None \<Rightarrow> s))"

definition runnable :: "task \<Rightarrow> bool" where
  "runnable t \<longleftrightarrow> t_rej t \<noteq> None \<or> list_all (\<lambda>x. got x \<noteq> None) (t_slots t)"

section \<open>Firing a handler\<close>

text \<open>
  What the browser passes along with an event: the new text of a field, the file chosen (or
  none), or what the clipboard will do (\<open>None\<close>: there is no \<open>navigator.clipboard\<close>, else
  whether \<open>writeText\<close> resolves).
\<close>

datatype evt = Ev_None | Ev_Text string | Ev_File "string option" | Ev_Clip "bool option"

definition node_url :: "browser \<Rightarrow> jsval \<Rightarrow> string" where
  "node_url b port = ''https://'' @ hostname b @ '':'' @ to_str port @ ''/''"

definition openNode :: "browser \<Rightarrow> jsval \<Rightarrow> spa \<Rightarrow> spa" where
  "openNode b n s = (case get_prop n ''port'' of
       Some port \<Rightarrow> s\<lparr>opened := node_url b port # opened s\<rparr> | None \<Rightarrow> s)"

definition start_action :: "nat \<Rightarrow> request \<Rightarrow> spa \<Rightarrow> spa" where
  "start_action i rq s = spawn i K_Action [rq] (upd_main i (\<lambda>m. m\<lparr>m_busy := True\<rparr>) s)"

definition set_pfx :: "pfx_field \<Rightarrow> string \<Rightarrow> pfx_form \<Rightarrow> pfx_form" where
  "set_pfx f v p = (case f of Pfx_Name \<Rightarrow> p\<lparr>pfx_name := v\<rparr> | Pfx_Address \<Rightarrow> p\<lparr>pfx_address := v\<rparr>
     | Pfx_Password \<Rightarrow> p\<lparr>pfx_password := v\<rparr>)"

definition set_pem :: "pem_field \<Rightarrow> string \<Rightarrow> pem_form \<Rightarrow> pem_form" where
  "set_pem f v p = (case f of Pem_Name \<Rightarrow> p\<lparr>pem_name := v\<rparr> | Pem_Address \<Rightarrow> p\<lparr>pem_address := v\<rparr>
     | Pem_Ca \<Rightarrow> p\<lparr>pem_ca := v\<rparr> | Pem_Cert \<Rightarrow> p\<lparr>pem_cert := v\<rparr> | Pem_Key \<Rightarrow> p\<lparr>pem_key := v\<rparr>)"

text \<open>Changing the mode unmounts the file field, so the file the browser holds is gone.\<close>

definition set_mode :: "add_mode \<Rightarrow> add_state \<Rightarrow> add_state" where
  "set_mode md a = (if md = a_mode a then a else a\<lparr>a_mode := md, a_dom_file := None\<rparr>)"

definition add_submit :: "nat \<Rightarrow> add_state \<Rightarrow> spa \<Rightarrow> spa" where
  "add_submit i a s =
     (let s1 = upd_add i (\<lambda>a. a\<lparr>a_busy := True, a_error := None\<rparr>) s in
      case a_mode a of
        Pfx \<Rightarrow> (case a_file a of
            None \<Rightarrow> form_fail F_Add i ''choose a .pfx file'' s1
          | Some file \<Rightarrow> spawn i (K_Submit F_Add) [req_form ''/api/nodes'' (pfx_body (a_pfx a) file)] s1)
      | Pem \<Rightarrow> spawn i (K_Submit F_Add) [req_json ''/api/nodes'' (pem_body (a_pem a))] s1)"

definition copyToClipboard :: "nat \<Rightarrow> jsval \<Rightarrow> copy_ref \<Rightarrow> bool option \<Rightarrow> spa \<Rightarrow> spa" where
  "copyToClipboard i info r outcome s = (case ref_text info r of
       None \<Rightarrow> s
     | Some t \<Rightarrow> (if outcome = Some True then spawn i (K_Copy r True) [] (s\<lparr>clip := Some t\<rparr>)
                   else spawn i (K_Copy r False) [] s))"

definition fire_main :: "browser \<Rightarrow> nat \<Rightarrow> main_state \<Rightarrow> handler \<Rightarrow> evt \<Rightarrow> spa \<Rightarrow> spa" where
  "fire_main b i m h e s = (case h of
       H_OpenNode n \<Rightarrow> openNode b n s
     | H_Remove v \<Rightarrow> start_action i (req_plain ''DELETE'' (''/api/nodes/'' @ to_str v)) s
     | H_Approve v \<Rightarrow> start_action i (req_plain ''POST'' (''/api/pending/'' @ to_str v @ ''/approve'')) s
     | H_Reject v \<Rightarrow> start_action i (req_plain ''POST'' (''/api/pending/'' @ to_str v @ ''/reject'')) s
     | H_Logout \<Rightarrow> spawn i K_Logout [req_plain ''POST'' ''/api/auth/logout''] s
     | H_SetMode md \<Rightarrow> upd_add i (set_mode md) s
     | H_SetPfx f \<Rightarrow> (case e of Ev_Text v \<Rightarrow> upd_add i (\<lambda>a. a\<lparr>a_pfx := set_pfx f v (a_pfx a)\<rparr>) s | _ \<Rightarrow> s)
     | H_SetPem f \<Rightarrow> (case e of Ev_Text v \<Rightarrow> upd_add i (\<lambda>a. a\<lparr>a_pem := set_pem f v (a_pem a)\<rparr>) s | _ \<Rightarrow> s)
     | H_SetPfxFile \<Rightarrow> (case e of Ev_File fo \<Rightarrow> upd_add i (\<lambda>a. a\<lparr>a_file := fo, a_dom_file := fo\<rparr>) s | _ \<Rightarrow> s)
     | H_AddSubmit \<Rightarrow> add_submit i (m_add m) s
     | H_Copy r \<Rightarrow> (case e of Ev_Clip oc \<Rightarrow> copyToClipboard i (p_info (m_prov m)) r oc s | _ \<Rightarrow> s)
     | _ \<Rightarrow> s)"

definition fire_setup :: "nat \<Rightarrow> setup_state \<Rightarrow> handler \<Rightarrow> evt \<Rightarrow> spa \<Rightarrow> spa" where
  "fire_setup i st h e s = (case h of
       H_SetPassword \<Rightarrow> (case e of Ev_Text v \<Rightarrow> upd_setup i (\<lambda>st. st\<lparr>s_password := v\<rparr>) s | _ \<Rightarrow> s)
     | H_SetConfirm \<Rightarrow> (case e of Ev_Text v \<Rightarrow> upd_setup i (\<lambda>st. st\<lparr>s_confirm := v\<rparr>) s | _ \<Rightarrow> s)
     | H_SetupSubmit \<Rightarrow>
         (if s_password st \<noteq> s_confirm st
          then upd_setup i (\<lambda>st. st\<lparr>s_error := Some ''passwords do not match''\<rparr>) s
          else spawn i (K_Submit F_Setup) [req_json ''/api/auth/setup'' (password_body (s_password st))]
                 (upd_setup i (\<lambda>st. st\<lparr>s_busy := True, s_error := None\<rparr>) s))
     | _ \<Rightarrow> s)"

definition fire_login :: "nat \<Rightarrow> login_state \<Rightarrow> handler \<Rightarrow> evt \<Rightarrow> spa \<Rightarrow> spa" where
  "fire_login i st h e s = (case h of
       H_SetLoginPassword \<Rightarrow> (case e of Ev_Text v \<Rightarrow> upd_login i (\<lambda>st. st\<lparr>l_password := v\<rparr>) s | _ \<Rightarrow> s)
     | H_LoginSubmit \<Rightarrow>
         spawn i (K_Submit F_Login) [req_json ''/api/auth/login'' (password_body (l_password st))]
           (upd_login i (\<lambda>st. st\<lparr>l_busy := True, l_error := None\<rparr>) s)
     | _ \<Rightarrow> s)"

definition fire :: "browser \<Rightarrow> handler \<Rightarrow> evt \<Rightarrow> spa \<Rightarrow> spa" where
  "fire b h e s = (case scr s of
       S_Main i m \<Rightarrow> fire_main b i m h e s
     | S_Setup i st \<Rightarrow> fire_setup i st h e s
     | S_Login i st \<Rightarrow> fire_login i st h e s
     | _ \<Rightarrow> s)"

section \<open>Steps\<close>

datatype reply = Answer response | Net_Error string

datatype event = User handler evt | Reload | Reply nat nat reply | Run nat

fun answer_slot :: "reply \<Rightarrow> slot" where
  "answer_slot (Answer r) = Got r"
| "answer_slot (Net_Error m) = Failed m"

fun reply_error :: "reply \<Rightarrow> string option" where
  "reply_error (Answer r) = None"
| "reply_error (Net_Error m) = Some m"

definition settle_task :: "nat \<Rightarrow> reply \<Rightarrow> task \<Rightarrow> task" where
  "settle_task j x t = t\<lparr>t_slots := (t_slots t)[j := answer_slot x],
     t_rej := (case t_rej t of None \<Rightarrow> reply_error x | Some m \<Rightarrow> Some m)\<rparr>"

definition awaited :: "spa \<Rightarrow> nat \<Rightarrow> nat \<Rightarrow> request option" where
  "awaited s i j =
     (if i < length (tasks s) \<and> j < length (t_slots (tasks s ! i))
      then (case t_slots (tasks s ! i) ! j of Sent rq \<Rightarrow> Some rq | _ \<Rightarrow> None) else None)"

definition offers :: "browser \<Rightarrow> spa \<Rightarrow> handler list" where
  "offers b s = (case render b s of None \<Rightarrow> [] | Some v \<Rightarrow> live_handlers v)"

definition drop_task :: "nat \<Rightarrow> spa \<Rightarrow> spa" where
  "drop_task i s = s\<lparr>tasks := take i (tasks s) @ drop (Suc i) (tasks s)\<rparr>"

fun exec :: "browser \<Rightarrow> event \<Rightarrow> spa \<Rightarrow> spa option" where
  "exec b (User h e) s = (if h \<in> set (offers b s) then Some (commit b (fire b h e s)) else None)"
| "exec b Reload s = Some (reload s)"
| "exec b (Reply i j x) s =
     (if awaited s i j = None then None
      else Some (s\<lparr>tasks := (tasks s)[i := settle_task j x (tasks s ! i)]\<rparr>))"
| "exec b (Run i) s =
     (if i < length (tasks s) \<and> runnable (tasks s ! i)
      then Some (commit b (resume (tasks s ! i) (drop_task i s))) else None)"

fun exec_all :: "browser \<Rightarrow> event list \<Rightarrow> spa \<Rightarrow> spa option" where
  "exec_all b [] s = Some s"
| "exec_all b (ev # evs) s = (case exec b ev s of None \<Rightarrow> None | Some t \<Rightarrow> exec_all b evs t)"

text \<open>\<open>P\<close> says which replies the server may give to a request; without it any reply is possible.\<close>

definition permitted :: "(request \<Rightarrow> reply \<Rightarrow> bool) \<Rightarrow> spa \<Rightarrow> event \<Rightarrow> bool" where
  "permitted P s ev = (case ev of
       Reply i j x \<Rightarrow> (case awaited s i j of Some rq \<Rightarrow> P rq x | None \<Rightarrow> True) | _ \<Rightarrow> True)"

definition background :: "event \<Rightarrow> bool" where
  "background ev = (case ev of Reply _ _ _ \<Rightarrow> True | Run _ \<Rightarrow> True | _ \<Rightarrow> False)"

inductive spa_step :: "browser \<Rightarrow> (request \<Rightarrow> reply \<Rightarrow> bool) \<Rightarrow> spa \<Rightarrow> spa \<Rightarrow> bool" for b P where
  spa_step: "exec b ev s = Some t \<Longrightarrow> permitted P s ev \<Longrightarrow> spa_step b P s t"

inductive_cases spa_stepE: "spa_step b P s t"

definition any_reply :: "request \<Rightarrow> reply \<Rightarrow> bool" where
  "any_reply rq x = True"

end
