(* ===== verification/Spa_Live.thy ===== *)
theory Spa_Live
  imports Spa_Machine
begin

text \<open>
  Which handlers each view of the application offers: the bridge between the trees of
  \<open>Spa_Views\<close> and the guards the machine's invariants need (a button that is disabled while
  a request runs, a form the browser does not let the user submit).
\<close>

lemmas view_defs = cls_def err_view_def Logo_def labelled_def req_input_def req_textarea_def
  mode_radio_def submit_button_def auth_screen_def head_row_def loading_view_def

lemmas live_simps = is_disabled_def field_valid_def field_value_def

definition setup_submittable :: "setup_state \<Rightarrow> bool" where
  "setup_submittable st \<longleftrightarrow> \<not> s_busy st \<and> 8 \<le> length (s_password st) \<and> 8 \<le> length (s_confirm st)"

lemma setup_live:
  "set (live_handlers (SetupForm st)) =
     {H_SetPassword, H_SetConfirm} \<union> (if setup_submittable st then {H_SetupSubmit} else {})"
  by (cases "s_error st") (auto simp: SetupForm_def view_defs live_simps setup_submittable_def)

lemma login_live:
  "set (live_handlers (LoginForm st)) =
     {H_SetLoginPassword} \<union> (if \<not> l_busy st \<and> l_password st \<noteq> [] then {H_LoginSubmit} else {})"
  by (cases "l_error st") (auto simp: LoginForm_def view_defs live_simps)

definition add_submittable :: "add_state \<Rightarrow> bool" where
  "add_submittable a \<longleftrightarrow> \<not> a_busy a \<and> (case a_mode a of
       Pfx \<Rightarrow> pfx_name (a_pfx a) \<noteq> [] \<and> pfx_address (a_pfx a) \<noteq> [] \<and> a_dom_file a \<noteq> None
     | Pem \<Rightarrow> pem_name (a_pem a) \<noteq> [] \<and> pem_address (a_pem a) \<noteq> [] \<and> pem_ca (a_pem a) \<noteq> []
         \<and> pem_cert (a_pem a) \<noteq> [] \<and> pem_key (a_pem a) \<noteq> [])"

lemma err_view_live [simp]:
  "concat (map live_handlers (err_view e)) = []" "list_ex has_submit (err_view e) = False"
  "list_all fields_valid (err_view e)"
  by (cases e; simp add: err_view_def cls_def live_simps)+

lemma add_live_submit: "H_AddSubmit \<in> set (live_handlers (AddNodeForm a)) \<longleftrightarrow> add_submittable a"
  by (cases "a_mode a")
    (auto simp: AddNodeForm_def pfx_fields_def pem_fields_def view_defs live_simps add_submittable_def
      split: option.splits)

text \<open>Server data rendered as a child is text: it never brings a handler of its own.\<close>

definition inert :: "view list \<Rightarrow> bool" where
  "inert ks \<longleftrightarrow> (\<forall>k \<in> set ks. \<exists>s. k = Text s)"

lemma inert_live: "inert ks \<Longrightarrow> concat (map live_handlers ks) = []"
  by (force simp: inert_def)

lemma child_inert: "child v = Some ks \<Longrightarrow> inert ks"
proof (induction v arbitrary: ks rule: child.induct)
  case (6 vs)
  then obtain kss where kss: "map child vs = map Some kss" "ks = concat kss"
    by (auto simp: those_Some_iff)
  have "inert k" if "k \<in> set kss" for k
  proof -
    from that obtain n where n: "n < length kss" "k = kss ! n" by (auto simp: in_set_conv_nth)
    with kss(1) have "n < length vs" "child (vs ! n) = Some k"
      by (metis length_map, metis length_map nth_map)
    then show ?thesis using 6(1) nth_mem by blast
  qed
  with kss(2) show ?case by (auto simp: inert_def)
qed (auto simp: inert_def)

lemma node_row_live:
  "node_row busy n = Some r \<Longrightarrow> \<exists>i. get_prop n ''id'' = Some i \<and>
     set (live_handlers r) = insert (H_OpenNode n) (if busy then {} else {H_Remove i})"
  by (cases busy) (auto simp: node_row_def live_simps view_defs bind_eq_Some_conv
      dest!: child_inert inert_live)

lemma pending_row_live:
  "pending_row fmt busy p = Some r \<Longrightarrow> \<exists>i. get_prop p ''id'' = Some i \<and>
     set (live_handlers r) = (if busy then {} else {H_Approve i, H_Reject i})"
  by (cases busy) (auto simp: pending_row_def live_simps view_defs bind_eq_Some_conv
      dest!: child_inert inert_live)

definition is_action :: "handler \<Rightarrow> bool" where
  "is_action h = (case h of H_Remove _ \<Rightarrow> True | H_Approve _ \<Rightarrow> True | H_Reject _ \<Rightarrow> True | _ \<Rightarrow> False)"

definition row_handler :: "handler \<Rightarrow> bool" where
  "row_handler h \<longleftrightarrow> is_action h \<or> (\<exists>n. h = H_OpenNode n)"

lemma rows_live:
  assumes "those (map f xs) = Some rows" and row: "\<And>x r. f x = Some r \<Longrightarrow> \<forall>h \<in> set (live_handlers r). Q h"
  shows "\<forall>r \<in> set rows. \<forall>h \<in> set (live_handlers r). Q h"
proof
  fix r assume "r \<in> set rows"
  moreover from assms have eq: "map f xs = map Some rows" by (simp add: those_Some_iff)
  ultimately have "Some r \<in> set (map f xs)" by simp
  then obtain x where "f x = Some r" by auto
  then show "\<forall>h \<in> set (live_handlers r). Q h" by (rule row)
qed

lemma head_row_live [simp]: "live_handlers (head_row hs) = []"
  by (induction hs) (auto simp: head_row_def live_simps)

lemma NodeList_live:
  assumes "NodeList nodes busy = Some v" and h: "h \<in> set (live_handlers v)"
  shows "row_handler h \<and> (is_action h \<longrightarrow> \<not> busy)"
proof (cases "get_prop nodes ''length'' = Some (Num 0)")
  case True
  with assms show ?thesis by (auto simp: NodeList_def live_simps cls_def)
next
  case False
  with assms(1) obtain ns rows where rows: "those (map (node_row busy) ns) = Some rows"
    and v: "v = Elem ''table'' [cls ''nodes''] [head_row [''Name'', ''Address'', ''Port'', []], Elem ''tbody'' [] rows]"
    by (auto simp: NodeList_def bind_eq_Some_conv split: if_splits)
  from rows have "\<forall>r \<in> set rows. \<forall>h \<in> set (live_handlers r). row_handler h \<and> (is_action h \<longrightarrow> \<not> busy)"
    by (rule rows_live) (auto dest!: node_row_live simp: row_handler_def is_action_def split: if_splits)
  with h v show ?thesis by (auto simp: live_simps cls_def)
qed

lemma PendingList_live:
  assumes "PendingList fmt pending busy = Some vs" and h: "h \<in> set (concat (map live_handlers vs))"
  shows "is_action h \<and> \<not> busy"
proof (cases "get_prop pending ''length'' = Some (Num 0)")
  case True
  with assms show ?thesis by (auto simp: PendingList_def)
next
  case False
  with assms(1) obtain ps rows where rows: "those (map (pending_row fmt busy) ps) = Some rows"
    and vs: "vs = [Elem ''h2'' [] [Text ''Pending nodes''], Elem ''table'' [cls ''nodes'']
      [head_row [''Name'', ''Address'', ''Announced'', []], Elem ''tbody'' [] rows]]"
    by (auto simp: PendingList_def bind_eq_Some_conv split: if_splits)
  from rows have "\<forall>r \<in> set rows. \<forall>h \<in> set (live_handlers r). is_action h \<and> \<not> busy"
    by (rule rows_live) (auto dest!: pending_row_live simp: is_action_def split: if_splits)
  with h vs show ?thesis by (auto simp: live_simps cls_def)
qed

definition form_handler :: "handler \<Rightarrow> bool" where
  "form_handler h = (case h of H_SetMode _ \<Rightarrow> True | H_SetPfx _ \<Rightarrow> True | H_SetPem _ \<Rightarrow> True
     | H_SetPfxFile \<Rightarrow> True | H_AddSubmit \<Rightarrow> True | _ \<Rightarrow> False)"

lemma AddNodeForm_live:
  "h \<in> set (live_handlers (AddNodeForm a)) \<Longrightarrow> form_handler h"
  by (cases "a_mode a")
    (auto simp: AddNodeForm_def pfx_fields_def pem_fields_def view_defs live_simps form_handler_def
      split: if_splits option.splits)

lemma ProvisionInfo_live:
  "ProvisionInfo p = Some vs \<Longrightarrow> h \<in> set (concat (map live_handlers vs)) \<Longrightarrow> \<exists>r. h = H_Copy r"
  by (auto simp: ProvisionInfo_def bind_eq_Some_conv live_simps cls_def split: if_splits)

text \<open>Everything the main screen offers, and the guard each state-changing handler carries.\<close>

lemma MainApp_live:
  assumes v: "MainApp fmt m = Some v" and h: "h \<in> set (live_handlers v)"
  shows "(is_action h \<longrightarrow> \<not> m_busy m) \<and> (h = H_AddSubmit \<longrightarrow> add_submittable (m_add m))"
proof -
  from v obtain pend nodes prov where
    pend: "(if m_loading m then Some [] else PendingList fmt (m_pending m) (m_busy m)) = Some pend" and
    nodes: "(if m_loading m then Some loading_view else NodeList (m_nodes m) (m_busy m)) = Some nodes" and
    prov: "ProvisionInfo (m_prov m) = Some prov" and
    eq: "v = Elem ''main'' []
       ([Elem ''div'' [cls ''header-row'']
          [Elem ''div'' [cls ''brand''] [Logo 28, Elem ''h1'' [] [Text ''Janus Controller'']],
           Elem ''button'' [On ''onClick'' H_Logout] [Text ''Log out'']]]
        @ err_view (m_error m) @ pend
        @ [Elem ''h2'' [] [Text ''Nodes''], nodes, AddNodeForm (m_add m)] @ prov)"
    by (auto simp: MainApp_def bind_eq_Some_conv)
  have L: "set (live_handlers loading_view) = {}" by (simp add: loading_view_def live_simps)
  from h eq consider "h = H_Logout" | "h \<in> set (concat (map live_handlers pend))"
    | "h \<in> set (live_handlers nodes)" | "h \<in> set (live_handlers (AddNodeForm (m_add m)))"
    | "h \<in> set (concat (map live_handlers prov))"
    using err_view_live(1) [of "m_error m"] by (auto simp: live_simps view_defs)
  then show ?thesis
  proof cases
    case 1 then show ?thesis by (simp add: is_action_def)
  next
    case 2 then show ?thesis using pend PendingList_live [of fmt "m_pending m" "m_busy m" pend h]
      by (auto split: if_splits simp: is_action_def)
  next
    case 3 then show ?thesis using nodes L NodeList_live [of "m_nodes m" "m_busy m" nodes h]
      by (auto split: if_splits simp: row_handler_def is_action_def)
  next
    case 4 then show ?thesis using AddNodeForm_live [OF 4] add_live_submit [of "m_add m"]
      by (auto simp: is_action_def form_handler_def split: handler.splits)
  next
    case 5 then show ?thesis using ProvisionInfo_live [OF prov 5] by (auto simp: is_action_def)
  qed
qed

end
