(* ===== verification/Spa_Invariants.thy ===== *)
theory Spa_Invariants
  imports Spa_Live
begin

text \<open>
  What holds in every reachable state of the application, whatever the user does and in
  whatever order the network answers: each \<open>busy\<close> flag is set exactly while one call that
  will clear it is under way, \<open>loading\<close> only while a refresh is, every task waits for the
  promises its code awaits, and the mounted screen is the one the gate's state asks for.
\<close>

section \<open>Counting the calls under way\<close>

definition is_action_cont :: "cont \<Rightarrow> bool" where
  "is_action_cont k = (case k of
       K_Action \<Rightarrow> True | K_Action_Text _ \<Rightarrow> True | K_Action_Done \<Rightarrow> True
     | K_Refresh c \<Rightarrow> c = By_Action | K_Refresh_Text c _ \<Rightarrow> c = By_Action
     | K_Refresh_Nodes c _ _ \<Rightarrow> c = By_Action | K_Refresh_Pending c _ \<Rightarrow> c = By_Action
     | _ \<Rightarrow> False)"

definition is_refresh_cont :: "cont \<Rightarrow> bool" where
  "is_refresh_cont k = (case k of
       K_Refresh _ \<Rightarrow> True | K_Refresh_Text _ _ \<Rightarrow> True | K_Refresh_Nodes _ _ _ \<Rightarrow> True
     | K_Refresh_Pending _ _ \<Rightarrow> True | _ \<Rightarrow> False)"

definition is_submit_cont :: "form_kind \<Rightarrow> cont \<Rightarrow> bool" where
  "is_submit_cont f k = (case k of K_Submit g \<Rightarrow> g = f | K_Submit_Text g _ \<Rightarrow> g = f | _ \<Rightarrow> False)"

definition cnt :: "(cont \<Rightarrow> bool) \<Rightarrow> nat \<Rightarrow> task list \<Rightarrow> nat" where
  "cnt p i ts = length (filter (\<lambda>t. t_inst t = i \<and> p (t_cont t)) ts)"

lemma cnt_Nil [simp]: "cnt p i [] = 0"
  by (simp add: cnt_def)

lemma cnt_append [simp]: "cnt p i (xs @ ys) = cnt p i xs + cnt p i ys"
  by (simp add: cnt_def)

lemma cnt_Cons [simp]:
  "cnt p i (t # ts) = (if t_inst t = i \<and> p (t_cont t) then 1 else 0) + cnt p i ts"
  by (simp add: cnt_def)

lemma cnt_fresh: "\<forall>t \<in> set ts. t_inst t < n \<Longrightarrow> cnt p n ts = 0"
  by (auto simp: cnt_def filter_empty_conv)

text \<open>How many promises a continuation waits for.\<close>

definition arity :: "cont \<Rightarrow> nat" where
  "arity k = (case k of K_Status \<Rightarrow> 1 | K_Submit _ \<Rightarrow> 1 | K_Refresh _ \<Rightarrow> 2 | K_Action \<Rightarrow> 1
     | K_Logout \<Rightarrow> 1 | K_Info \<Rightarrow> 1 | _ \<Rightarrow> 0)"

definition task_ok :: "task \<Rightarrow> bool" where
  "task_ok t \<longleftrightarrow> length (t_slots t) = arity (t_cont t) \<and> (t_rej t \<noteq> None \<longrightarrow> arity (t_cont t) > 0)
     \<and> (\<forall>m. Failed m \<in> set (t_slots t) \<longrightarrow> t_rej t \<noteq> None)"

definition screen_ok :: "screen \<Rightarrow> nat \<Rightarrow> task list \<Rightarrow> bool" where
  "screen_ok sc n ts = (case sc of
       S_Setup i st \<Rightarrow> i < n \<and> cnt (is_submit_cont F_Setup) i ts = of_bool (s_busy st)
     | S_Login i st \<Rightarrow> i < n \<and> cnt (is_submit_cont F_Login) i ts = of_bool (l_busy st)
     | S_Main i m \<Rightarrow> i < n \<and> cnt is_action_cont i ts = of_bool (m_busy m)
         \<and> (m_loading m \<longrightarrow> cnt is_refresh_cont i ts > 0)
         \<and> cnt (is_submit_cont F_Add) i ts = of_bool (a_busy (m_add m))
     | _ \<Rightarrow> True)"

definition spa_inv :: "spa \<Rightarrow> bool" where
  "spa_inv s \<longleftrightarrow> 0 < fresh s \<and> (\<forall>t \<in> set (tasks s). task_ok t \<and> t_inst t < fresh s)
     \<and> screen_ok (scr s) (fresh s) (tasks s)"

lemmas cont_class = is_action_cont_def is_refresh_cont_def is_submit_cont_def

lemmas upd_defs = upd_setup_def upd_login_def upd_main_def upd_add_def upd_prov_def

lemmas resume_defs = resume_def resume_rejected_def resume_fetched_def resume_local_def
  spawn_def refreshStatus_def refresh_def form_fail_defs form_done_defs end_refresh_def
  action_fail_def

lemma spa_inv_init: "spa_inv spa_init"
  by (simp add: spa_inv_def spa_init_def refreshStatus_def spawn_def screen_ok_def task_ok_def arity_def)

lemma spa_inv_reload: "spa_inv (reload s)"
  using spa_inv_init by (simp add: spa_inv_def reload_def)

section \<open>Mounting keeps the invariant\<close>

lemma spa_inv_reconcile: "spa_inv s \<Longrightarrow> spa_inv (reconcile s)"
proof -
  assume inv: "spa_inv s"
  then have fresh0: "cnt p (fresh s) (tasks s) = 0" for p by (auto simp: spa_inv_def intro: cnt_fresh)
  have less: "t_inst t < Suc (fresh s)" if "t \<in> set (tasks s)" for t
    using inv that by (auto simp: spa_inv_def less_Suc_eq)
  obtain k where "AuthGate (g_status s) (g_error s) = Some k" using AuthGate_total by blast
  with inv fresh0 less show ?thesis
    by (cases k; cases "scr s")
      (auto simp: reconcile_def spa_inv_def screen_ok_def refresh_def load_info_def spawn_def upd_defs
        setup_init_def login_init_def main_init_def add_init_def task_ok_def arity_def cont_class)
qed

lemma spa_inv_crash: "spa_inv s \<Longrightarrow> spa_inv (s\<lparr>scr := S_Crashed\<rparr>)"
  by (simp add: spa_inv_def screen_ok_def)

lemma spa_inv_commit: "spa_inv s \<Longrightarrow> spa_inv (commit b s)"
  by (simp add: commit_def Let_def spa_inv_reconcile spa_inv_crash)

section \<open>Resuming a task keeps the invariant\<close>

text \<open>
  A task being resumed is out of the task list but still counted: the state owes it. Each
  lemma says how one piece of code pays the debt off, by leaving a successor of the same
  kind, by clearing the flag the task stands for, or because no flag depends on it.
\<close>

definition owing :: "task \<Rightarrow> spa \<Rightarrow> bool" where
  "owing t s \<longleftrightarrow> spa_inv (s\<lparr>tasks := t # tasks s\<rparr>)"

definition flagged :: "cont \<Rightarrow> bool" where
  "flagged k \<longleftrightarrow> is_action_cont k \<or> is_refresh_cont k \<or> (\<exists>f. is_submit_cont f k)"

definition same_kind :: "cont \<Rightarrow> cont \<Rightarrow> bool" where
  "same_kind k k' \<longleftrightarrow> is_action_cont k = is_action_cont k' \<and> is_refresh_cont k = is_refresh_cont k'
     \<and> (\<forall>f. is_submit_cont f k = is_submit_cont f k')"

definition keeps_flags :: "(main_state \<Rightarrow> main_state) \<Rightarrow> bool" where
  "keeps_flags f \<longleftrightarrow> (\<forall>m. m_busy (f m) = m_busy m \<and> m_loading (f m) = m_loading m
     \<and> a_busy (m_add (f m)) = a_busy (m_add m))"

lemma owing_drop:
  assumes "spa_inv (s\<lparr>tasks := pre @ t # post\<rparr>)" shows "owing t (s\<lparr>tasks := pre @ post\<rparr>)"
proof -
  have "cnt p i (pre @ t # post) = cnt p i (t # pre @ post)" for p i by simp
  then have "screen_ok sc n (pre @ t # post) = screen_ok sc n (t # pre @ post)" for sc n
    by (simp only: screen_ok_def)
  with assms show ?thesis by (auto simp: owing_def spa_inv_def)
qed

lemma owing_pay: "owing t s \<Longrightarrow> \<not> flagged (t_cont t) \<Longrightarrow> spa_inv s"
  by (cases "scr s") (auto simp: owing_def spa_inv_def screen_ok_def flagged_def)

lemma owing_gate: "owing t s \<Longrightarrow> owing t (s\<lparr>g_error := e\<rparr>)" "owing t s \<Longrightarrow> owing t (s\<lparr>g_status := v\<rparr>)"
  by (simp_all add: owing_def spa_inv_def)

lemma owing_main: "owing t s \<Longrightarrow> keeps_flags f \<Longrightarrow> owing t (upd_main i f s)"
  by (cases "scr s") (simp_all add: owing_def spa_inv_def screen_ok_def upd_main_def keeps_flags_def)

lemma inv_main: "spa_inv s \<Longrightarrow> keeps_flags f \<Longrightarrow> spa_inv (upd_main i f s)"
  by (cases "scr s") (simp_all add: spa_inv_def screen_ok_def upd_main_def keeps_flags_def)

lemma owing_replace:
  assumes "owing t s" and "same_kind (t_cont t) k" and "length rqs = arity k"
  shows "spa_inv (spawn (t_inst t) k rqs s)"
  using assms
  by (cases "scr s") (auto simp: owing_def spa_inv_def screen_ok_def spawn_def same_kind_def task_ok_def)

text \<open>A call no flag depends on, or a refresh nobody awaits, can start at any time.\<close>

lemma inv_spawn:
  assumes "spa_inv s" and "\<not> is_action_cont k" and "\<forall>f. \<not> is_submit_cont f k"
    and "length rqs = arity k" and "i < fresh s"
  shows "spa_inv (spawn i k rqs s)"
  using assms
  by (cases "scr s") (auto simp: spa_inv_def screen_ok_def spawn_def task_ok_def)

lemma inv_refresh:
  assumes "spa_inv s" and "i < fresh s" shows "spa_inv (refresh Detached i s)"
  using assms
  by (cases "scr s") (auto simp: refresh_def spa_inv_def screen_ok_def spawn_def upd_main_def task_ok_def
      arity_def cont_class)

lemma owing_end_refresh:
  assumes "owing t s" and "keeps_flags f" and "is_refresh_cont (t_cont t)"
    and "is_action_cont (t_cont t) \<longleftrightarrow> c = By_Action" and "\<forall>g. \<not> is_submit_cont g (t_cont t)"
  shows "spa_inv (end_refresh c (t_inst t) f s)"
  using assms
  by (cases "scr s"; cases c)
    (auto simp: owing_def spa_inv_def screen_ok_def end_refresh_def upd_main_def spawn_def task_ok_def
      arity_def keeps_flags_def is_action_cont_def [of K_Action_Done] is_refresh_cont_def [of K_Action_Done]
      is_submit_cont_def [of _ K_Action_Done])

lemma owing_action_refresh:
  assumes "owing t s" and "t_cont t = K_Action"
  shows "spa_inv (refresh By_Action (t_inst t) s)"
  using assms
  by (cases "scr s") (auto simp: owing_def spa_inv_def screen_ok_def refresh_def upd_main_def spawn_def
      task_ok_def arity_def cont_class)

lemma owing_action_done:
  assumes "owing t s" and "is_action_cont (t_cont t)" and "\<not> is_refresh_cont (t_cont t)"
    and "\<forall>g. \<not> is_submit_cont g (t_cont t)"
    and "\<And>m. \<not> m_busy (f m) \<and> m_loading (f m) = m_loading m \<and> a_busy (m_add (f m)) = a_busy (m_add m)"
  shows "spa_inv (upd_main (t_inst t) f s)"
  using assms
  by (cases "scr s") (auto simp: owing_def spa_inv_def screen_ok_def upd_main_def)

lemma submit_other:
  "is_submit_cont f k \<Longrightarrow> is_submit_cont g k \<longleftrightarrow> g = f" "is_submit_cont f k \<Longrightarrow> \<not> is_action_cont k"
  "is_submit_cont f k \<Longrightarrow> \<not> is_refresh_cont k"
  by (auto simp: cont_class split: cont.splits)

lemma owing_form_fail:
  assumes "owing t s" and "is_submit_cont f (t_cont t)"
  shows "spa_inv (form_fail f (t_inst t) m s)"
  using assms
  by (cases "scr s"; cases f)
    (auto simp: owing_def spa_inv_def screen_ok_def form_fail_defs upd_defs submit_other)

lemma owing_inst: "owing t s \<Longrightarrow> t_inst t < fresh s" "owing t s \<Longrightarrow> 0 < fresh s"
  by (simp_all add: owing_def spa_inv_def)

lemma owing_form_done:
  assumes "owing t s" and "is_submit_cont f (t_cont t)"
  shows "spa_inv (form_done f (t_inst t) s)"
  using assms
  by (cases "scr s"; cases f)
    (auto simp: owing_def spa_inv_def screen_ok_def form_done_defs upd_defs submit_other refresh_def
      refreshStatus_def spawn_def task_ok_def arity_def is_submit_cont_def [of _ "K_Refresh Detached"]
      is_action_cont_def [of "K_Refresh Detached"] is_refresh_cont_def [of "K_Refresh Detached"]
      is_submit_cont_def [of _ K_Status] is_action_cont_def [of K_Status] is_refresh_cont_def [of K_Status])

lemma keeps_flags_simps [simp]:
  "keeps_flags (\<lambda>m. m\<lparr>m_error := e\<rparr>)" "keeps_flags (\<lambda>m. m\<lparr>m_nodes := v\<rparr>)"
  "keeps_flags (\<lambda>m. m\<lparr>m_pending := w, m_error := e\<rparr>)"
  "keeps_flags (\<lambda>m. m\<lparr>m_prov := g (m_prov m)\<rparr>)"
  by (simp_all add: keeps_flags_def)

lemma unflagged [simp]:
  "\<not> flagged K_Status" "\<not> flagged (K_Status_Text r)" "\<not> flagged (K_Status_Json r)" "\<not> flagged K_Logout"
  "\<not> flagged K_Info" "\<not> flagged (K_Info_Json r)" "\<not> flagged (K_Copy c b)" "\<not> flagged K_Copied_Timeout"
  by (simp_all add: flagged_def cont_class)

lemma inv_gate: "spa_inv s \<Longrightarrow> spa_inv (s\<lparr>g_error := e\<rparr>)" "spa_inv s \<Longrightarrow> spa_inv (s\<lparr>g_status := v\<rparr>)"
  by (simp_all add: spa_inv_def)

lemma inv_prov: "spa_inv s \<Longrightarrow> spa_inv (upd_prov i f s)"
  by (simp add: upd_prov_def inv_main)

lemma spa_inv_resume_local:
  assumes o: "owing t s" and "t_slots t = []"
  shows "spa_inv (resume_local (t_inst t) (t_cont t) s)"
proof (cases "t_cont t")
  case (K_Submit_Text f r)
  then show ?thesis using owing_form_fail [OF o, of f] by (simp add: resume_local_def is_submit_cont_def)
next
  case (K_Refresh_Text c r)
  then show ?thesis using owing_end_refresh [OF o] by (simp add: resume_local_def cont_class)
next
  case (K_Refresh_Nodes c nr pr)
  then show ?thesis using owing_end_refresh [OF o] owing_replace [OF owing_main [OF o], of _ "K_Refresh_Pending c pr" "[]"]
    by (auto simp: resume_local_def cont_class same_kind_def arity_def split: settled.splits)
next
  case (K_Refresh_Pending c pr)
  then show ?thesis using owing_end_refresh [OF o]
    by (auto simp: resume_local_def cont_class split: settled.splits)
next
  case (K_Action_Text r)
  then show ?thesis using owing_action_done [OF o] by (simp add: resume_local_def action_fail_def cont_class)
next
  case K_Action_Done
  then show ?thesis using owing_action_done [OF o] by (simp add: resume_local_def cont_class)
next
  case (K_Copy r ok)
  then show ?thesis
    using owing_replace [OF owing_main [OF o], of _ K_Copied_Timeout "[]"]
    by (simp add: resume_local_def upd_prov_def same_kind_def cont_class arity_def)
qed (use owing_pay [OF o] assms in \<open>auto simp: resume_local_def owing_def spa_inv_def [of "s\<lparr>tasks := t # tasks s\<rparr>"]
  task_ok_def arity_def inv_prov inv_gate split: settled.splits\<close>)

lemma spa_inv_resume_rejected:
  assumes o: "owing t s" and "t_rej t \<noteq> None"
  shows "spa_inv (resume_rejected (t_inst t) (t_cont t) m s)"
proof (cases "t_cont t")
  case (K_Submit f)
  then show ?thesis using owing_form_fail [OF o, of f] by (simp add: resume_rejected_def is_submit_cont_def)
next
  case (K_Refresh c)
  then show ?thesis using owing_end_refresh [OF o] by (simp add: resume_rejected_def cont_class)
next
  case K_Action
  then show ?thesis using owing_action_done [OF o] by (simp add: resume_rejected_def action_fail_def cont_class)
qed (use owing_pay [OF o] assms in \<open>auto simp: resume_rejected_def owing_def
  spa_inv_def [of "s\<lparr>tasks := t # tasks s\<rparr>"] task_ok_def arity_def inv_prov inv_gate\<close>)

lemma spa_inv_resume_fetched:
  assumes o: "owing t s" and ne: "t_slots t \<noteq> []" and len: "length rs = length (t_slots t)"
  shows "spa_inv (resume_fetched (t_inst t) (t_cont t) rs s)"
proof -
  have ar: "length rs = arity (t_cont t)" "0 < arity (t_cont t)"
    using o ne len by (auto simp: owing_def spa_inv_def task_ok_def)
  show ?thesis
  proof (cases "t_cont t")
    case K_Status
    with ar obtain r where "rs = [r]" by (auto simp: arity_def length_Suc_conv)
    with K_Status show ?thesis using owing_replace [OF o, of _ "[]"]
      by (simp add: resume_fetched_def same_kind_def cont_class arity_def)
  next
    case (K_Submit f)
    with ar obtain r where "rs = [r]" by (auto simp: arity_def length_Suc_conv)
    with K_Submit show ?thesis using owing_replace [OF o, of "K_Submit_Text f r" "[]"] owing_form_done [OF o, of f]
      by (simp add: resume_fetched_def same_kind_def cont_class arity_def)
  next
    case (K_Refresh c)
    with ar obtain nr pr where "rs = [nr, pr]" by (auto simp: arity_def length_Suc_conv numeral_2_eq_2)
    with K_Refresh show ?thesis using owing_replace [OF o, of _ "[]"]
      by (simp add: resume_fetched_def same_kind_def cont_class arity_def)
  next
    case K_Action
    with ar obtain r where "rs = [r]" by (auto simp: arity_def length_Suc_conv)
    with K_Action show ?thesis using owing_replace [OF o, of "K_Action_Text r" "[]"] owing_action_refresh [OF o]
      by (simp add: resume_fetched_def same_kind_def cont_class arity_def)
  next
    case K_Logout
    with ar obtain r where "rs = [r]" by (auto simp: arity_def length_Suc_conv)
    with K_Logout show ?thesis by (simp add: resume_fetched_def spa_inv_reload)
  next
    case K_Info
    with ar obtain r where "rs = [r]" by (auto simp: arity_def length_Suc_conv)
    with K_Info show ?thesis using owing_replace [OF o, of "K_Info_Json r" "[]"] owing_pay [OF o]
      by (simp add: resume_fetched_def same_kind_def cont_class arity_def inv_prov)
  qed (use ar in \<open>simp_all add: arity_def\<close>)
qed

lemma spa_inv_resume:
  assumes o: "owing t s" and "runnable t"
  shows "spa_inv (resume t s)"
proof (cases "t_rej t")
  case (Some m)
  then show ?thesis using spa_inv_resume_rejected [OF o] by (simp add: resume_def)
next
  case None
  show ?thesis
  proof (cases "t_slots t = []")
    case True
    with None show ?thesis using spa_inv_resume_local [OF o] by (simp add: resume_def)
  next
    case False
    from None assms(2) have all: "list_all (\<lambda>x. got x \<noteq> None) (t_slots t)" by (simp add: runnable_def)
    then have "those (map got (t_slots t)) \<noteq> None"
      by (auto simp: those_None_iff list_all_iff)
    then obtain rs where rs: "those (map got (t_slots t)) = Some rs" by auto
    then have "length rs = length (t_slots t)" using those_Some_iff by (metis length_map)
    with None False rs show ?thesis using spa_inv_resume_fetched [OF o] by (simp add: resume_def)
  qed
qed

section \<open>The user's steps keep the invariant\<close>

lemma offers_main:
  assumes h: "h \<in> set (offers b s)" and sc: "scr s = S_Main i m"
  shows "is_action h \<Longrightarrow> \<not> m_busy m" and "h = H_AddSubmit \<Longrightarrow> add_submittable (m_add m)"
proof -
  obtain v where "MainApp (locale_date b) m = Some v" "h \<in> set (live_handlers v)"
    using assms by (cases "MainApp (locale_date b) m") (auto simp: offers_def render_def)
  then have "(is_action h \<longrightarrow> \<not> m_busy m) \<and> (h = H_AddSubmit \<longrightarrow> add_submittable (m_add m))"
    by (rule MainApp_live)
  then show "is_action h \<Longrightarrow> \<not> m_busy m" and "h = H_AddSubmit \<Longrightarrow> add_submittable (m_add m)" by auto
qed

lemma offers_setup: "h \<in> set (offers b s) \<Longrightarrow> scr s = S_Setup i st \<Longrightarrow> h = H_SetupSubmit \<Longrightarrow> setup_submittable st"
  by (auto simp: offers_def render_def setup_live split: if_splits)

lemma offers_login:
  "h \<in> set (offers b s) \<Longrightarrow> scr s = S_Login i st \<Longrightarrow> h = H_LoginSubmit \<Longrightarrow> \<not> l_busy st \<and> l_password st \<noteq> []"
  by (auto simp: offers_def render_def login_live split: if_splits)

lemma inv_start_action:
  assumes "spa_inv s" and "scr s = S_Main i m" and "\<not> m_busy m"
  shows "spa_inv (start_action i rq s)"
  using assms
  by (auto simp: start_action_def spa_inv_def screen_ok_def spawn_def upd_main_def task_ok_def arity_def cont_class)

lemma inv_add:
  assumes "spa_inv s" and "\<And>a. a_busy (f a) = a_busy a"
  shows "spa_inv (upd_add i f s)"
  using assms by (cases "scr s") (auto simp: spa_inv_def screen_ok_def upd_add_def upd_main_def)

lemma inv_add_submit:
  assumes "spa_inv s" and "scr s = S_Main i m" and "\<not> a_busy (m_add m)"
  shows "spa_inv (add_submit i (m_add m) s)"
  using assms
  by (cases "a_mode (m_add m)"; cases "a_file (m_add m)")
    (auto simp: add_submit_def form_fail_defs upd_add_def upd_main_def spa_inv_def screen_ok_def spawn_def
      task_ok_def arity_def cont_class)

lemma spa_inv_fire_main:
  assumes inv: "spa_inv s" and sc: "scr s = S_Main i m"
    and act: "is_action h \<Longrightarrow> \<not> m_busy m" and add: "h = H_AddSubmit \<Longrightarrow> add_submittable (m_add m)"
  shows "spa_inv (fire_main b i m h e s)"
proof -
  have i: "i < fresh s" using inv sc by (simp add: spa_inv_def screen_ok_def)
  show ?thesis
  proof (cases h)
    case (H_OpenNode n)
    with inv show ?thesis
      by (cases "get_prop n ''port''") (simp_all add: fire_main_def openNode_def spa_inv_def)
  next
    case (H_SetMode md)
    with inv show ?thesis by (simp add: fire_main_def inv_add set_mode_def)
  next
    case H_Logout
    with inv i show ?thesis by (simp add: fire_main_def inv_spawn cont_class arity_def)
  next
    case (H_Copy r)
    have "spa_inv (s\<lparr>clip := c\<rparr>)" for c using inv by (simp add: spa_inv_def)
    with H_Copy inv i show ?thesis
      by (auto simp: fire_main_def copyToClipboard_def inv_spawn cont_class arity_def split: evt.splits option.splits)
  next
    case H_AddSubmit
    with inv sc add show ?thesis by (simp add: fire_main_def inv_add_submit add_submittable_def)
  qed (use inv inv_start_action [OF inv sc] act in
    \<open>auto simp: fire_main_def is_action_def inv_add split: evt.splits\<close>)
qed

lemma spa_inv_fire_setup:
  assumes "spa_inv s" and "scr s = S_Setup i st" and "h = H_SetupSubmit \<Longrightarrow> setup_submittable st"
  shows "spa_inv (fire_setup i st h e s)"
  using assms
  by (cases h; cases e)
    (auto simp: fire_setup_def upd_setup_def spa_inv_def screen_ok_def spawn_def task_ok_def arity_def
      setup_submittable_def cont_class)

lemma spa_inv_fire_login:
  assumes "spa_inv s" and "scr s = S_Login i st" and "h = H_LoginSubmit \<Longrightarrow> \<not> l_busy st"
  shows "spa_inv (fire_login i st h e s)"
  using assms
  by (cases h; cases e)
    (auto simp: fire_login_def upd_login_def spa_inv_def screen_ok_def spawn_def task_ok_def arity_def cont_class)

lemma spa_inv_fire:
  assumes inv: "spa_inv s" and h: "h \<in> set (offers b s)"
  shows "spa_inv (fire b h e s)"
  using assms spa_inv_fire_main [OF inv] spa_inv_fire_setup [OF inv] spa_inv_fire_login [OF inv]
    offers_main [OF h] offers_setup [OF h] offers_login [OF h]
  by (cases "scr s") (auto simp: fire_def)

section \<open>Every step keeps the invariant\<close>

lemma settle_task_ok: "task_ok t \<Longrightarrow> awaited s i j = Some rq \<Longrightarrow> t = tasks s ! i \<Longrightarrow> task_ok (settle_task j x t)"
  by (cases x) (auto simp: task_ok_def settle_task_def awaited_def split: if_splits option.splits
      dest!: set_update_subset_insert [THEN subsetD])

lemma settle_task_simps [simp]:
  "t_inst (settle_task j x t) = t_inst t" "t_cont (settle_task j x t) = t_cont t"
  by (simp_all add: settle_task_def)

lemma awaited_length: "awaited s i j = Some rq \<Longrightarrow> i < length (tasks s)"
  by (simp add: awaited_def split: if_splits)

lemma cnt_list_update:
  "i < length ts \<Longrightarrow> t_inst u = t_inst (ts ! i) \<Longrightarrow> t_cont u = t_cont (ts ! i) \<Longrightarrow> cnt p k (ts[i := u]) = cnt p k ts"
  by (induction ts arbitrary: i) (auto simp: nth_Cons split: nat.splits)

lemma spa_inv_reply:
  assumes inv: "spa_inv s" and aw: "awaited s i j = Some rq"
  shows "spa_inv (s\<lparr>tasks := (tasks s)[i := settle_task j x (tasks s ! i)]\<rparr>)"
proof -
  let ?u = "settle_task j x (tasks s ! i)"
  have i: "i < length (tasks s)" using aw by (rule awaited_length)
  have cnt: "cnt p k ((tasks s)[i := ?u]) = cnt p k (tasks s)" for p k
    by (rule cnt_list_update) (use i in simp_all)
  then have sc: "screen_ok sc n ((tasks s)[i := ?u]) = screen_ok sc n (tasks s)" for sc n
    by (simp only: screen_ok_def)
  have old: "task_ok (tasks s ! i)" "t_inst (tasks s ! i) < fresh s" using inv i by (auto simp: spa_inv_def)
  with aw have new: "task_ok ?u" by (simp add: settle_task_ok)
  have "task_ok t \<and> t_inst t < fresh s" if "t \<in> set ((tasks s)[i := ?u])" for t
  proof (cases "t = ?u")
    case True then show ?thesis using new old(2) by simp
  next
    case False
    with that have "t \<in> set (tasks s)" using set_update_subset_insert [of "tasks s" i ?u] by blast
    with inv show ?thesis by (simp add: spa_inv_def)
  qed
  with inv sc show ?thesis by (simp add: spa_inv_def)
qed

lemma owing_drop_task:
  assumes "spa_inv s" and "i < length (tasks s)"
  shows "owing (tasks s ! i) (drop_task i s)"
proof -
  have "s = s\<lparr>tasks := take i (tasks s) @ tasks s ! i # drop (Suc i) (tasks s)\<rparr>"
    using id_take_nth_drop [OF assms(2)] by simp
  with assms(1) have "spa_inv (s\<lparr>tasks := take i (tasks s) @ tasks s ! i # drop (Suc i) (tasks s)\<rparr>)" by simp
  then show ?thesis unfolding drop_task_def by (rule owing_drop)
qed

lemma spa_inv_exec:
  assumes inv: "spa_inv s" and ex: "exec b ev s = Some t"
  shows "spa_inv t"
proof (cases ev)
  case (User h e)
  with ex inv show ?thesis by (auto intro: spa_inv_commit spa_inv_fire split: if_splits)
next
  case Reload
  with ex show ?thesis using spa_inv_reload [of s] by simp
next
  case (Reply i j x)
  with ex inv show ?thesis by (auto intro: spa_inv_reply split: if_splits)
next
  case (Run i)
  with ex inv show ?thesis
    by (auto intro!: spa_inv_commit spa_inv_resume owing_drop_task split: if_splits)
qed

end
