(* ===== verification/Spa_Progress.thy ===== *)
theory Spa_Progress
  imports Spa_Invariants
begin

text \<open>
  The application settles: once the user stops, every run of network replies and resumed
  tasks is bounded by a rank, and where it can go no further nothing is under way and every
  control is usable again. Whether the gate still shows its loading text then depends on what the
  status request was answered.
\<close>

section \<open>Reachable states\<close>

definition spa_reachable :: "browser \<Rightarrow> (request \<Rightarrow> reply \<Rightarrow> bool) \<Rightarrow> spa \<Rightarrow> bool" where
  "spa_reachable b P s \<longleftrightarrow> (spa_step b P)\<^sup>*\<^sup>* spa_init s"

interpretation app: automaton "\<lambda>s. s = spa_init" "spa_step b P" for b P .

lemma spa_reachable_reach: "spa_reachable b P s \<longleftrightarrow> app.reach b P s"
  by (simp add: spa_reachable_def app.reach_def)

lemma spa_inv_step: "spa_inv s \<Longrightarrow> spa_step b P s t \<Longrightarrow> spa_inv t"
  by (auto elim!: spa_stepE intro: spa_inv_exec)

lemma reachable_inv: "spa_reachable b P s \<Longrightarrow> spa_inv s"
  unfolding spa_reachable_reach
  by (rule app.invariant [where I = spa_inv]) (auto intro: spa_inv_init spa_inv_step)

lemma reachable_exec_all:
  "spa_reachable b any_reply s \<Longrightarrow> exec_all b evs s = Some t \<Longrightarrow> spa_reachable b any_reply t"
proof (induction evs arbitrary: s)
  case Nil then show ?case by simp
next
  case (Cons ev evs)
  then obtain u where u: "exec b ev s = Some u" "exec_all b evs u = Some t" by (auto split: option.splits)
  have "permitted any_reply s ev" by (simp add: permitted_def any_reply_def split: event.splits option.splits)
  with u(1) have "spa_step b any_reply s u" by (rule spa_step.intros)
  with Cons.prems(1) have "spa_reachable b any_reply u"
    unfolding spa_reachable_def by (rule rtranclp.rtrancl_into_rtrancl)
  then show ?case using u(2) by (rule Cons.IH)
qed

lemma reachable_init: "spa_reachable b P spa_init"
  by (simp add: spa_reachable_def)

text \<open>The steps the application takes without the user, under the replies \<open>P\<close> permits.\<close>

inductive net_step :: "browser \<Rightarrow> (request \<Rightarrow> reply \<Rightarrow> bool) \<Rightarrow> spa \<Rightarrow> spa \<Rightarrow> bool" for b P where
  net_step: "exec b ev s = Some t \<Longrightarrow> background ev \<Longrightarrow> permitted P s ev \<Longrightarrow> net_step b P s t"

inductive_cases net_stepE: "net_step b P s t"

lemma net_step_spa: "net_step b P s t \<Longrightarrow> spa_step b P s t"
  by (auto elim!: net_stepE intro: spa_step.intros)

lemma net_run_reachable: "spa_reachable b P s \<Longrightarrow> (net_step b P ^^ n) s t \<Longrightarrow> spa_reachable b P t"
  by (induction n arbitrary: t)
    (auto simp: spa_reachable_def intro: rtranclp.rtrancl_into_rtrancl dest: net_step_spa)

section \<open>The rank\<close>

definition weight :: "cont \<Rightarrow> nat" where
  "weight k = (case k of
       K_Copied_Timeout \<Rightarrow> 1 | K_Copy _ _ \<Rightarrow> 2
     | K_Action_Done \<Rightarrow> 1 | K_Refresh_Pending _ _ \<Rightarrow> 2 | K_Refresh_Text _ _ \<Rightarrow> 2
     | K_Refresh_Nodes _ _ _ \<Rightarrow> 3 | K_Refresh _ \<Rightarrow> 4 | K_Action_Text _ \<Rightarrow> 1 | K_Action \<Rightarrow> 7
     | K_Info_Json _ \<Rightarrow> 1 | K_Info \<Rightarrow> 2 | K_Status_Json _ \<Rightarrow> 10 | K_Status_Text _ \<Rightarrow> 10
     | K_Status \<Rightarrow> 11 | K_Submit_Text _ _ \<Rightarrow> 1 | K_Submit _ \<Rightarrow> 13 | K_Logout \<Rightarrow> 13)"

definition open_slots :: "slot list \<Rightarrow> nat" where
  "open_slots xs = length (filter (\<lambda>x. case x of Sent _ \<Rightarrow> True | _ \<Rightarrow> False) xs)"

definition task_rank :: "task \<Rightarrow> nat" where
  "task_rank t = weight (t_cont t) + open_slots (t_slots t)"

text \<open>What mounting the main screen will add, when the gate's state already asks for it.\<close>

definition mount_debt :: "spa \<Rightarrow> nat" where
  "mount_debt s = (case scr s of S_Main _ _ \<Rightarrow> 0 | S_Crashed \<Rightarrow> 0
     | _ \<Rightarrow> (if AuthGate (g_status s) (g_error s) = Some G_Main then 9 else 0))"

definition spa_rank :: "spa \<Rightarrow> nat" where
  "spa_rank s = sum_list (map task_rank (tasks s)) + mount_debt s"

lemma open_slots_sent [simp]: "open_slots (map Sent rqs) = length rqs"
  by (induction rqs) (auto simp: open_slots_def)

lemma open_slots_Nil [simp]: "open_slots [] = 0"
  by (simp add: open_slots_def)

lemma spa_rank_spawn: "spa_rank (spawn i k rqs s) = spa_rank s + weight k + length rqs"
  by (simp add: spa_rank_def spawn_def task_rank_def mount_debt_def)

lemma spa_rank_upd [simp]:
  "spa_rank (upd_setup i f1 s) = spa_rank s" "spa_rank (upd_login i f2 s) = spa_rank s"
  "spa_rank (upd_main i g s) = spa_rank s" "spa_rank (upd_add i h s) = spa_rank s"
  "spa_rank (upd_prov i j s) = spa_rank s"
  by (simp_all add: spa_rank_def upd_defs mount_debt_def split: screen.splits)

lemma spa_rank_refresh: "spa_rank (refresh c i s) = spa_rank s + 6"
  by (simp add: refresh_def spa_rank_spawn weight_def)

lemma spa_rank_init: "spa_rank spa_init = 12"
  by (simp add: spa_init_def refreshStatus_def spa_rank_spawn weight_def)
    (simp add: spa_rank_def mount_debt_def AuthGate_def str_or_falsy_def)

lemma spa_rank_reload: "spa_rank (reload s) = 12"
  proof -
  have "spa_rank (u\<lparr>opened := x, clip := y\<rparr>) = spa_rank u" for u x y
    by (simp add: spa_rank_def mount_debt_def)
  then show ?thesis using spa_rank_init by (simp add: reload_def)
qed

lemma spa_rank_commit: "spa_rank (commit b s) \<le> spa_rank s"
proof -
  have crash: "spa_rank (u\<lparr>scr := S_Crashed\<rparr>) \<le> spa_rank u" for u
    by (simp add: spa_rank_def mount_debt_def split: screen.splits)
  obtain k where k: "AuthGate (g_status s) (g_error s) = Some k" using AuthGate_total by blast
  have main: "spa_rank (refresh Detached n (load_info n (s\<lparr>scr := S_Main n m, fresh := n'\<rparr>)))
      = sum_list (map task_rank (tasks s)) + 9" for n n' m
    by (simp add: spa_rank_refresh load_info_def spa_rank_spawn weight_def)
      (simp add: spa_rank_def mount_debt_def)
  have "spa_rank (reconcile s) \<le> spa_rank s"
    using k main
    by (cases k; cases "scr s") (auto simp: reconcile_def, auto simp: spa_rank_def mount_debt_def)
  with crash [of "reconcile s"] show ?thesis by (simp add: commit_def Let_def)
qed

lemma spa_rank_gate:
  "spa_rank (s\<lparr>g_error := e\<rparr>) \<le> spa_rank s + 9" "spa_rank (s\<lparr>g_status := v\<rparr>) \<le> spa_rank s + 9"
  by (simp_all add: spa_rank_def mount_debt_def split: screen.splits)

lemma spa_rank_gate_less:
  "spa_rank (s\<lparr>g_error := e\<rparr>) < spa_rank s + 10" "spa_rank (s\<lparr>g_status := v\<rparr>) < spa_rank s + 10"
  using spa_rank_gate(1) [where s = s and e = e] spa_rank_gate(2) [where s = s and v = v] by simp_all

lemma spa_rank_end_refresh: "spa_rank (end_refresh c i f s) \<le> spa_rank s + 1"
  by (cases c) (simp_all add: end_refresh_def Let_def spa_rank_spawn weight_def)

lemma spa_rank_end_refresh_less:
  "1 < n \<Longrightarrow> spa_rank (end_refresh c i f s) < spa_rank s + n"
  "spa_rank (end_refresh c i f s) < Suc (Suc (spa_rank s))"
  using spa_rank_end_refresh [of c i f s] by simp_all

lemma spa_rank_form_fail [simp]: "spa_rank (form_fail f i m s) = spa_rank s"
  by (cases f) (simp_all add: form_fail_defs)

lemma spa_rank_form_done: "spa_rank (form_done f i s) \<le> spa_rank s + 12"
  by (cases f) (simp_all add: form_done_defs spa_rank_refresh refreshStatus_def spa_rank_spawn weight_def)

lemma weight_pos: "0 < weight k"
  by (cases k) (simp_all add: weight_def)

lemma spa_rank_rejected: "spa_rank (resume_rejected i k m s) < spa_rank s + weight k"
  using weight_pos [of k] spa_rank_gate(1) [where s = s and e = "Some m"]
  by (cases k) (auto simp: resume_rejected_def action_fail_def weight_def spa_rank_end_refresh_less)

lemma spa_rank_local: "spa_rank (resume_local i k s) < spa_rank s + weight k"
proof (cases k)
  case (K_Status_Json r)
  then show ?thesis
    by (cases "rs_json r") (simp_all add: resume_local_def weight_def spa_rank_gate_less)
qed (auto simp: resume_local_def weight_def action_fail_def spa_rank_spawn spa_rank_end_refresh_less
    spa_rank_gate_less split: settled.splits)

lemma spa_rank_fetched:
  assumes "rs \<noteq> []"
  shows "spa_rank (resume_fetched i k rs s) < spa_rank s + weight k"
proof -
  have drop: "spa_rank s < spa_rank s + weight k" by (simp add: weight_pos)
  have done_le: "spa_rank (form_done f i s) < spa_rank s + 13" for f
    using spa_rank_form_done [of f i s] by simp
  consider r where "rs = [r]" | nr pr where "rs = [nr, pr]" | "length rs > 2"
    using assms by (cases rs; cases "tl rs"; cases "tl (tl rs)") auto
  then show ?thesis
  proof cases
    case 1
    then show ?thesis using drop done_le spa_rank_reload [of s]
      by (cases k) (auto simp: resume_fetched_def weight_def spa_rank_spawn spa_rank_refresh)
  next
    case 2
    then show ?thesis using drop
      by (cases k) (auto simp: resume_fetched_def weight_def spa_rank_spawn)
  next
    case 3
    then have "resume_fetched i k rs s = s"
      by (auto simp: resume_fetched_def split: cont.splits list.splits)
    then show ?thesis using drop by simp
  qed
qed

lemma spa_rank_resume:
  assumes "runnable t"
  shows "spa_rank (resume t s) < spa_rank s + weight (t_cont t)"
proof -
  have "spa_rank s < spa_rank s + weight (t_cont t)" by (simp add: weight_pos)
  moreover have "rs \<noteq> []" if "those (map got (t_slots t)) = Some rs" "t_slots t \<noteq> []" for rs
    using that by (auto simp: those_Some_iff)
  ultimately show ?thesis
    by (auto simp: resume_def spa_rank_rejected spa_rank_local spa_rank_fetched split: option.splits)
qed

section \<open>Every background step decreases the rank\<close>

lemma spa_rank_drop_task:
  assumes "i < length (tasks s)"
  shows "spa_rank s = spa_rank (drop_task i s) + task_rank (tasks s ! i)"
proof -
  have "tasks s = take i (tasks s) @ tasks s ! i # drop (Suc i) (tasks s)"
    using assms by (rule id_take_nth_drop)
  then have "sum_list (map task_rank (tasks s)) =
      sum_list (map task_rank (take i (tasks s) @ tasks s ! i # drop (Suc i) (tasks s)))" by simp
  then show ?thesis by (simp add: spa_rank_def drop_task_def mount_debt_def)
qed

lemma open_slots_update:
  "j < length xs \<Longrightarrow> xs ! j = Sent rq \<Longrightarrow> Suc (open_slots (xs[j := answer_slot x])) = open_slots xs"
proof (induction xs arbitrary: j)
  case Nil then show ?case by simp
next
  case (Cons y ys)
  then show ?case by (cases x; cases j) (auto simp: open_slots_def split: slot.splits)
qed

lemma task_rank_settle:
  "j < length (t_slots t) \<Longrightarrow> t_slots t ! j = Sent rq \<Longrightarrow> Suc (task_rank (settle_task j x t)) = task_rank t"
  using open_slots_update [of j "t_slots t" rq x] by (simp add: task_rank_def settle_task_def)

lemma sum_list_update_less:
  fixes ts :: "task list"
  assumes "i < length ts" and "task_rank u < task_rank (ts ! i)"
  shows "sum_list (map task_rank (ts[i := u])) < sum_list (map task_rank ts)"
  using assms
proof (induction ts arbitrary: i)
  case Nil then show ?case by simp
next
  case (Cons t ts) then show ?case by (cases i) auto
qed

lemma net_step_rank: "net_step b P s t \<Longrightarrow> spa_rank t < spa_rank s"
proof (erule net_stepE)
  fix ev assume ex: "exec b ev s = Some t" and bg: "background ev"
  show "spa_rank t < spa_rank s"
  proof (cases ev)
    case (Reply i j x)
    with ex obtain rq where aw: "awaited s i j = Some rq" by (auto split: if_splits)
    then have i: "i < length (tasks s)" and j: "j < length (t_slots (tasks s ! i))"
      "t_slots (tasks s ! i) ! j = Sent rq"
      by (auto simp: awaited_def split: if_splits slot.splits)
    have less: "task_rank (settle_task j x (tasks s ! i)) < task_rank (tasks s ! i)"
      using task_rank_settle [OF j, of x] by simp
    from sum_list_update_less [OF i less] Reply ex aw
    show ?thesis by (auto simp: spa_rank_def mount_debt_def)
  next
    case (Run i)
    with ex have i: "i < length (tasks s)" and r: "runnable (tasks s ! i)"
      and t: "t = commit b (resume (tasks s ! i) (drop_task i s))" by (auto split: if_splits)
    from spa_rank_resume [OF r, of "drop_task i s"] spa_rank_drop_task [OF i]
      spa_rank_commit [of b "resume (tasks s ! i) (drop_task i s)"] t
    show ?thesis by (simp add: task_rank_def)
  qed (use bg in \<open>simp_all add: background_def\<close>)
qed

interpretation net: ranked_automaton "\<lambda>_. True" "net_step b P" spa_rank for b P
  by unfold_locales (rule net_step_rank)

section \<open>Where no background step is possible\<close>

definition settled_screen :: "screen \<Rightarrow> bool" where
  "settled_screen sc \<longleftrightarrow> (case sc of
       S_Setup _ st \<Rightarrow> \<not> s_busy st | S_Login _ st \<Rightarrow> \<not> l_busy st
     | S_Main _ m \<Rightarrow> \<not> m_busy m \<and> \<not> m_loading m \<and> \<not> a_busy (m_add m)
     | _ \<Rightarrow> True)"

text \<open>The gate's loading text; that of the main screen is shown while \<open>m_loading\<close> is set.\<close>

definition gate_loads :: "browser \<Rightarrow> spa \<Rightarrow> bool" where
  "gate_loads b s \<longleftrightarrow> scr s = S_Gate \<and> render b s = Some loading_view"

definition idle :: "browser \<Rightarrow> spa \<Rightarrow> bool" where
  "idle b s \<longleftrightarrow> tasks s = [] \<and> settled_screen (scr s) \<and> \<not> gate_loads b s"

lemma net_progress:
  assumes "spa_inv s" and "tasks s \<noteq> []" and P: "\<And>rq. \<exists>x. P rq x"
  shows "\<exists>t. net_step b P s t"
proof -
  obtain t ts where ts: "tasks s = t # ts" using assms(2) by (cases "tasks s") auto
  have ok: "task_ok t" using assms(1) ts by (simp add: spa_inv_def)
  show ?thesis
  proof (cases "runnable t")
    case True
    with ts have "exec b (Run 0) s = Some (commit b (resume t (drop_task 0 s)))" by simp
    moreover have "background (Run 0)" "permitted P s (Run 0)" by (simp_all add: background_def permitted_def)
    ultimately have "net_step b P s (commit b (resume t (drop_task 0 s)))" by (rule net_step.intros)
    then show ?thesis ..
  next
    case False
    then obtain x where x: "x \<in> set (t_slots t)" "got x = None" and rej: "t_rej t = None"
      by (auto simp: runnable_def list_all_iff)
    from x rej ok obtain rq where "x = Sent rq" by (cases x rule: slot.exhaust) (auto simp: task_ok_def)
    with x obtain j where "j < length (t_slots t)" "t_slots t ! j = Sent rq" by (auto simp: in_set_conv_nth)
    with ts have aw: "awaited s 0 j = Some rq" by (simp add: awaited_def)
    obtain x where "P rq x" using P by blast
    moreover obtain u where "exec b (Reply 0 j x) s = Some u" using aw by simp
    ultimately have "net_step b P s u"
      using aw by (intro net_step.intros [where ev = "Reply 0 j x"]) (simp_all add: background_def permitted_def)
    then show ?thesis ..
  qed
qed

lemma quiet_settled: "spa_inv s \<Longrightarrow> tasks s = [] \<Longrightarrow> settled_screen (scr s)"
  by (auto simp: settled_screen_def spa_inv_def screen_ok_def split: screen.splits)

section \<open>What the gate learns from its status request\<close>

text \<open>
  The answers from which the gate can leave its loading text: an error with a message, or a status
  that is not \<open>null\<close>, \<open>false\<close>, \<open>0\<close> or an empty text.
\<close>

definition tells :: "response \<Rightarrow> bool" where
  "tells r \<longleftrightarrow> (if resp_ok r then (case rs_json r of Fulfilled v \<Rightarrow> truthy v | Rejected m \<Rightarrow> m \<noteq> []) else err_text r \<noteq> [])"

definition informative :: "(request \<Rightarrow> reply \<Rightarrow> bool) \<Rightarrow> bool" where
  "informative P \<longleftrightarrow> (\<forall>x. P (req_get ''/api/auth/status'') x \<longrightarrow> (case x of Answer r \<Rightarrow> tells r | Net_Error m \<Rightarrow> m \<noteq> []))"

definition asking :: "task \<Rightarrow> bool" where
  "asking t \<longleftrightarrow> (case t_cont t of K_Status \<Rightarrow> True | K_Status_Text _ \<Rightarrow> True | K_Status_Json _ \<Rightarrow> True | _ \<Rightarrow> False)"

definition asking_ok :: "task \<Rightarrow> bool" where
  "asking_ok t \<longleftrightarrow> (case t_cont t of
       K_Status \<Rightarrow> (\<forall>x \<in> set (t_slots t). (\<forall>rq. x = Sent rq \<longrightarrow> rq = req_get ''/api/auth/status'') \<and> (\<forall>r. x = Got r \<longrightarrow> tells r))
         \<and> t_rej t \<noteq> Some []
     | K_Status_Text r \<Rightarrow> err_text r \<noteq> []
     | K_Status_Json r \<Rightarrow> (case rs_json r of Fulfilled v \<Rightarrow> truthy v | Rejected m \<Rightarrow> m \<noteq> [])
     | _ \<Rightarrow> True)"

definition knows :: "spa \<Rightarrow> bool" where
  "knows s \<longleftrightarrow> str_or_falsy (g_error s) \<or> truthy (g_status s)"

definition told :: "spa \<Rightarrow> bool" where
  "told s \<longleftrightarrow> list_all asking_ok (tasks s) \<and> (list_ex asking (tasks s) \<or> knows s)"

lemma told_upd [simp]:
  "told (upd_setup i f1 s) = told s" "told (upd_login i f2 s) = told s" "told (upd_main i g s) = told s"
  "told (upd_add i h s) = told s" "told (upd_prov i j s) = told s" "told (s\<lparr>scr := sc\<rparr>) = told s"
  "told (s\<lparr>fresh := n\<rparr>) = told s" "told (s\<lparr>opened := us\<rparr>) = told s" "told (s\<lparr>clip := cl\<rparr>) = told s"
  by (simp_all add: told_def knows_def upd_defs split: screen.splits)

lemma told_spawn: "told s \<Longrightarrow> asking_ok \<lparr>t_inst = i, t_cont = k, t_slots = map Sent rqs, t_rej = None\<rparr> \<Longrightarrow> told (spawn i k rqs s)"
  by (auto simp: told_def knows_def spawn_def)

lemma told_refreshStatus: "told s \<Longrightarrow> told (refreshStatus s)"
  unfolding refreshStatus_def by (rule told_spawn) (simp_all add: asking_ok_def)

lemma told_start: "told spa_init" "told (reload s)"
proof -
  show "told spa_init" by (simp add: told_def spa_init_def refreshStatus_def spawn_def asking_ok_def asking_def)
  then show "told (reload s)" by (simp add: reload_def)
qed

lemma told_refresh: "told s \<Longrightarrow> told (refresh c i s)" "told s \<Longrightarrow> told (load_info i s)"
  by (auto simp: refresh_def load_info_def asking_ok_def intro!: told_spawn)

lemma told_commit: "told s \<Longrightarrow> told (commit b s)"
proof -
  assume s: "told s"
  obtain k where "AuthGate (g_status s) (g_error s) = Some k" using AuthGate_total by blast
  with s show ?thesis
    by (cases k; cases "scr s") (auto simp: commit_def Let_def reconcile_def intro!: told_refresh)
qed

lemma told_end: "told s \<Longrightarrow> told (end_refresh c i f s)"
  by (cases c) (auto simp: end_refresh_def Let_def asking_ok_def intro!: told_spawn)

lemma told_form: "told s \<Longrightarrow> told (form_fail f i m s)" "told s \<Longrightarrow> told (form_done f i s)"
  by (cases f; auto simp: form_fail_defs form_done_defs intro!: told_refresh told_refreshStatus)+

lemma told_other:
  assumes "told s" and "\<not> asking t"
  shows "told (resume t s)"
proof -
  have sp: "told (spawn i k rqs u)" if "told u" "\<not> asking \<lparr>t_inst = i, t_cont = k, t_slots = map Sent rqs, t_rej = None\<rparr>" for i k rqs u
    using that by (intro told_spawn) (auto simp: asking_def asking_ok_def split: cont.splits)
  note rules = told_end told_form told_refresh told_start sp
  show ?thesis using assms
    by (cases "t_cont t") (auto simp: resume_def resume_rejected_def resume_fetched_def resume_local_def action_fail_def asking_def
        intro!: rules split: option.splits list.splits settled.splits)
qed

lemma told_asked:
  assumes all: "list_all asking_ok (tasks s)" and t: "asking_ok t" "asking t" "task_ok t" "runnable t"
  shows "told (resume t s)"
proof (cases "t_cont t")
  case K_Status
  with t(3) obtain x where x: "t_slots t = [x]" by (auto simp: task_ok_def arity_def length_Suc_conv)
  show ?thesis
  proof (cases "t_rej t")
    case None
    with x t(4) obtain r where r: "x = Got r" by (cases x) (auto simp: runnable_def)
    with K_Status x t(1) have "tells r" by (simp add: asking_ok_def)
    with K_Status x None r all show ?thesis
      by (auto simp: resume_def resume_fetched_def told_def spawn_def asking_ok_def asking_def tells_def)
  next
    case (Some m)
    with K_Status t(1) have "m \<noteq> []" by (auto simp: asking_ok_def)
    with K_Status Some all show ?thesis by (simp add: resume_def resume_rejected_def told_def knows_def str_or_falsy_def)
  qed
next
  case (K_Status_Text r)
  with t all show ?thesis
    by (auto simp: resume_def resume_local_def task_ok_def arity_def told_def knows_def str_or_falsy_def asking_ok_def split: option.splits)
next
  case (K_Status_Json r)
  with t all show ?thesis
    by (auto simp: resume_def resume_local_def task_ok_def arity_def told_def knows_def str_or_falsy_def asking_ok_def split: option.splits settled.splits)
qed (use t(2) in \<open>simp_all add: asking_def\<close>)

lemma told_fire: "told s \<Longrightarrow> told (fire b h e s)"
proof -
  assume s: "told s"
  have sp: "told (spawn i k rqs u)" if "told u" "\<not> asking \<lparr>t_inst = i, t_cont = k, t_slots = map Sent rqs, t_rej = None\<rparr>" for i k rqs u
    using that by (intro told_spawn) (auto simp: asking_def asking_ok_def split: cont.splits)
  show ?thesis using s
    by (cases "scr s"; cases h)
      (auto simp: fire_def fire_main_def fire_setup_def fire_login_def start_action_def openNode_def copyToClipboard_def add_submit_def
        asking_def Let_def intro!: sp told_form split: evt.splits option.splits add_mode.splits)
qed

lemma told_settle:
  assumes "told s" and "awaited s i j = Some rq" and "informative P" and "P rq x"
  shows "told (s\<lparr>tasks := (tasks s)[i := settle_task j x (tasks s ! i)]\<rparr>)"
proof -
  let ?t = "tasks s ! i"
  from assms(2) have i: "i < length (tasks s)" and j: "j < length (t_slots ?t)" "t_slots ?t ! j = Sent rq"
    by (auto simp: awaited_def split: if_splits slot.splits)
  from assms(1) i have t: "asking_ok ?t" by (auto simp: told_def list_all_length)
  have ok: "asking_ok (settle_task j x ?t)"
  proof (cases "t_cont ?t = K_Status")
    case True
    with t j have "rq = req_get ''/api/auth/status''" by (force simp: asking_ok_def in_set_conv_nth)
    with assms(3,4) have "case x of Answer r \<Rightarrow> tells r | Net_Error m \<Rightarrow> m \<noteq> []" by (simp add: informative_def)
    with True t show ?thesis
      by (cases x) (auto simp: asking_ok_def settle_task_def split: option.splits dest!: set_update_subset_insert [THEN subsetD])
  qed (use t in \<open>auto simp: asking_ok_def settle_task_def split: cont.splits\<close>)
  have same: "asking (settle_task j x ?t) = asking ?t" by (simp add: asking_def settle_task_def)
  have "list_ex asking ((tasks s)[i := settle_task j x ?t])" if "list_ex asking (tasks s)"
  proof -
    obtain k where k: "k < length (tasks s)" "asking (tasks s ! k)" using \<open>list_ex asking (tasks s)\<close> by (auto simp: list_ex_length)
    then have "asking ((tasks s)[i := settle_task j x ?t] ! k)" by (cases "k = i") (auto simp: same i)
    with k show ?thesis by (auto simp: list_ex_length)
  qed
  moreover have "list_all asking_ok ((tasks s)[i := settle_task j x ?t])"
    using assms(1) ok by (auto simp: told_def list_all_iff dest!: set_update_subset_insert [THEN subsetD])
  ultimately show ?thesis using assms(1) by (auto simp: told_def knows_def)
qed

lemma told_step:
  assumes "spa_step b P s t" and "informative P" and "told s" and inv: "spa_inv s" shows "told t"
  using assms(1)
proof (rule spa_stepE)
  fix ev assume ex: "exec b ev s = Some t" and pm: "permitted P s ev"
  show "told t"
  proof (cases ev)
    case (Reply i j x)
    with ex obtain rq where aw: "awaited s i j = Some rq" by (auto split: if_splits)
    with pm Reply have "P rq x" by (simp add: permitted_def)
    with told_settle [OF assms(3) aw assms(2)] ex aw Reply show ?thesis by auto
  next
    case (Run i)
    let ?t = "tasks s ! i"
    from ex Run have i: "i < length (tasks s)" and r: "runnable ?t" and t: "t = commit b (resume ?t (drop_task i s))"
      by (auto split: if_splits)
    have all: "list_all asking_ok (tasks (drop_task i s))" "asking_ok ?t" "task_ok ?t"
      using assms(3) inv i by (auto simp: told_def drop_task_def list_all_iff spa_inv_def dest!: in_set_takeD in_set_dropD)
    have "told (resume ?t (drop_task i s))"
    proof (cases "asking ?t")
      case True
      with all r show ?thesis by (intro told_asked)
    next
      case False
      have "list_ex asking (take i (tasks s) @ ?t # drop (Suc i) (tasks s)) = list_ex asking (tasks s)"
        using id_take_nth_drop [OF i] by simp
      with False assms(3) all(1) have "told (drop_task i s)" by (auto simp: told_def drop_task_def knows_def)
      with False show ?thesis by (intro told_other)
    qed
    with t show ?thesis by (simp add: told_commit)
  qed (use ex assms(3) in \<open>auto simp: told_start told_commit told_fire split: if_splits\<close>)
qed

definition told_inv :: "spa \<Rightarrow> bool" where
  "told_inv s \<longleftrightarrow> told s \<and> spa_inv s"

lemma reachable_told:
  assumes r: "spa_reachable b P s" and P: "informative P"
  shows "told s"
proof -
  have reach: "app.reach b P s" using r by (simp add: spa_reachable_reach)
  have "told_inv s"
  proof (rule app.invariant [OF _ _ reach])
    show "told_inv u" if "u = spa_init" for u using that by (simp add: told_inv_def told_start spa_inv_init)
    show "told_inv v" if "told_inv u" "spa_step b P u v" for u v
      using that told_step [OF that(2) P] spa_inv_step by (auto simp: told_inv_def)
  qed
  then show ?thesis by (simp add: told_inv_def)
qed

end
