(* ===== verification/Spa_Requests.thy ===== *)
theory Spa_Requests
  imports Spa_Progress
begin

text \<open>
  What the application sends, and behind which screen. The mounted screen is always the one
  the gate's state asks for; every request that is awaited is a well-formed call of the
  Controller's API; and while the server does not say the browser is signed in, the main
  screen is never mounted and only \<open>/api/auth/\<close> is called.
\<close>

section \<open>The mounted screen is the gate's\<close>

definition screen_matches :: "spa \<Rightarrow> bool" where
  "screen_matches s \<longleftrightarrow> (case scr s of
       S_Gate \<Rightarrow> (case AuthGate (g_status s) (g_error s) of
           Some (G_Error _) \<Rightarrow> True | Some G_Loading \<Rightarrow> True | _ \<Rightarrow> False)
     | S_Setup _ _ \<Rightarrow> AuthGate (g_status s) (g_error s) = Some G_Setup
     | S_Login _ _ \<Rightarrow> AuthGate (g_status s) (g_error s) = Some G_Login
     | S_Main _ _ \<Rightarrow> AuthGate (g_status s) (g_error s) = Some G_Main
     | S_Crashed \<Rightarrow> True)"

lemma gate_frame [frame_simps]:
  "g_status (upd_main i f s) = g_status s" "g_error (upd_main i f s) = g_error s"
  "g_status (spawn i k rqs s) = g_status s" "g_error (spawn i k rqs s) = g_error s"
  "scr (spawn i k rqs s) = scr s"
  "g_status (refresh c i s) = g_status s" "g_error (refresh c i s) = g_error s"
  "g_status (load_info i s) = g_status s" "g_error (load_info i s) = g_error s"
  "scr (load_info i s) = scr s"
  by (simp_all add: upd_main_def spawn_def refresh_def load_info_def split: screen.splits)

lemma scr_refresh_main:
  "scr s = S_Main i m \<Longrightarrow> scr (refresh c i s) = S_Main i (m\<lparr>m_loading := True\<rparr>)"
  by (simp add: refresh_def spawn_def upd_main_def)

lemma screen_matches_commit: "screen_matches (commit b s)"
proof -
  obtain k where k: "AuthGate (g_status s) (g_error s) = Some k" using AuthGate_total by blast
  have "screen_matches (reconcile s)"
    using k by (cases k; cases "scr s")
      (auto simp: reconcile_def screen_matches_def frame_simps scr_refresh_main)
  then show ?thesis by (simp add: commit_def Let_def) (simp add: screen_matches_def)
qed

lemma screen_matches_init: "screen_matches spa_init"
  by (simp add: screen_matches_def spa_init_def refreshStatus_def spawn_def AuthGate_def str_or_falsy_def)

lemma screen_matches_frame [simp]:
  "screen_matches (s\<lparr>tasks := ts\<rparr>) = screen_matches s"
  "screen_matches (s\<lparr>opened := us, clip := c\<rparr>) = screen_matches s"
  by (cases "scr s"; simp add: screen_matches_def)+

lemma screen_matches_exec: "exec b ev s = Some t \<Longrightarrow> screen_matches s \<Longrightarrow> screen_matches t"
  by (cases ev) (auto simp: screen_matches_commit screen_matches_init reload_def split: if_splits)

lemma reachable_matches: "spa_reachable b P s \<Longrightarrow> screen_matches s"
  unfolding spa_reachable_reach
  by (rule app.invariant [where I = screen_matches])
    (auto intro: screen_matches_init screen_matches_exec elim!: spa_stepE)

section \<open>The requests under way\<close>

definition sent_all :: "(request \<Rightarrow> bool) \<Rightarrow> spa \<Rightarrow> bool" where
  "sent_all Q s \<longleftrightarrow> (\<forall>t \<in> set (tasks s). \<forall>rq. Sent rq \<in> set (t_slots t) \<longrightarrow> Q rq)"

lemma sent_all_awaited: "sent_all Q s \<Longrightarrow> awaited s i j = Some rq \<Longrightarrow> Q rq"
  by (force simp: sent_all_def awaited_def split: if_splits slot.splits dest: nth_mem)

lemma tasks_upd [frame_simps]:
  "tasks (upd_setup i f1 s) = tasks s" "tasks (upd_login i f2 s) = tasks s"
  "tasks (upd_main i g s) = tasks s" "tasks (upd_add i h s) = tasks s"
  "tasks (upd_prov i j s) = tasks s"
  by (simp_all add: upd_defs split: screen.splits)

lemma sent_all_upd [simp]:
  "sent_all Q (upd_setup i f1 s) = sent_all Q s" "sent_all Q (upd_login i f2 s) = sent_all Q s"
  "sent_all Q (upd_main i g s) = sent_all Q s" "sent_all Q (upd_add i h s) = sent_all Q s"
  "sent_all Q (upd_prov i j s) = sent_all Q s"
  "sent_all Q (s\<lparr>scr := sc\<rparr>) = sent_all Q s" "sent_all Q (s\<lparr>g_error := e\<rparr>) = sent_all Q s"
  "sent_all Q (s\<lparr>g_status := v\<rparr>) = sent_all Q s" "sent_all Q (s\<lparr>fresh := n\<rparr>) = sent_all Q s"
  "sent_all Q (s\<lparr>opened := us\<rparr>) = sent_all Q s" "sent_all Q (s\<lparr>clip := cl\<rparr>) = sent_all Q s"
  by (simp_all add: sent_all_def frame_simps)

lemma sent_all_spawn [simp]:
  "sent_all Q (spawn i k rqs s) \<longleftrightarrow> (\<forall>rq \<in> set rqs. Q rq) \<and> sent_all Q s"
  by (auto simp: sent_all_def spawn_def)

text \<open>The requests the code sends on its own, without a click.\<close>

definition auto_requests :: "request list" where
  "auto_requests = [req_get ''/api/auth/status'', req_get ''/api/nodes'', req_get ''/api/pending'',
     req_get ''/api/controller-info'']"

locale request_contract =
  fixes Q :: "request \<Rightarrow> bool"
  assumes automatic: "rq \<in> set auto_requests \<Longrightarrow> Q rq"
begin

lemma automatic_simps [simp]:
  "Q (req_get ''/api/auth/status'')" "Q (req_get ''/api/nodes'')" "Q (req_get ''/api/pending'')"
  "Q (req_get ''/api/controller-info'')"
  by (simp_all add: automatic auto_requests_def)

lemma refresh_sent [simp]:
  "sent_all Q (refresh c i s) = sent_all Q s" "sent_all Q (load_info i s) = sent_all Q s"
  "sent_all Q (refreshStatus s) = sent_all Q s"
  by (simp_all add: refresh_def load_info_def refreshStatus_def)

lemma init_sent: "sent_all Q spa_init" "sent_all Q (reload s)"
  using automatic by (simp_all add: spa_init_def reload_def) (simp_all add: sent_all_def)

lemma commit_sent: "sent_all Q s \<Longrightarrow> sent_all Q (commit b s)"
proof -
  assume "sent_all Q s"
  moreover obtain k where "AuthGate (g_status s) (g_error s) = Some k" using AuthGate_total by blast
  ultimately show ?thesis
    by (cases k; cases "scr s") (auto simp: commit_def Let_def reconcile_def)
qed

lemma end_refresh_sent [simp]: "sent_all Q (end_refresh c i f s) = sent_all Q s"
  by (cases c) (simp_all add: end_refresh_def Let_def)

lemma form_sent [simp]:
  "sent_all Q (form_fail f i m s) = sent_all Q s" "sent_all Q (form_done f i s) = sent_all Q s"
  by (cases f; simp add: form_fail_defs form_done_defs)+

lemma resume_sent: "sent_all Q s \<Longrightarrow> sent_all Q (resume t s)"
  by (cases "t_cont t")
    (auto simp: resume_def resume_rejected_def resume_local_def resume_fetched_def action_fail_def
      init_sent split: option.splits settled.splits list.splits)

lemma settle_sent:
  "sent_all Q s \<Longrightarrow> i < length (tasks s) \<Longrightarrow> sent_all Q (s\<lparr>tasks := (tasks s)[i := settle_task j x (tasks s ! i)]\<rparr>)"
  by (cases x) (force simp: sent_all_def settle_task_def dest!: set_update_subset_insert [THEN subsetD])+

lemma drop_sent: "sent_all Q s \<Longrightarrow> sent_all Q (drop_task i s)"
  by (auto simp: sent_all_def drop_task_def dest!: in_set_takeD in_set_dropD)

lemma exec_sent:
  assumes "exec b ev s = Some t" and "sent_all Q s"
    and "\<And>h e. ev = User h e \<Longrightarrow> h \<in> set (offers b s) \<Longrightarrow> sent_all Q (fire b h e s)"
  shows "sent_all Q t"
  using assms
  by (cases ev) (auto simp: init_sent commit_sent resume_sent settle_sent drop_sent awaited_def
      split: if_splits)

end

section \<open>Every request is a well-formed call of the API\<close>

definition api_request :: "request \<Rightarrow> bool" where
  "api_request rq \<longleftrightarrow> rq \<in> set auto_requests
     \<or> (\<exists>p. 8 \<le> length p \<and> rq = req_json ''/api/auth/setup'' (password_body p))
     \<or> (\<exists>p. p \<noteq> [] \<and> rq = req_json ''/api/auth/login'' (password_body p))
     \<or> rq = req_plain ''POST'' ''/api/auth/logout''
     \<or> (\<exists>v. rq = req_plain ''DELETE'' (''/api/nodes/'' @ to_str v))
     \<or> (\<exists>v. rq = req_plain ''POST'' (''/api/pending/'' @ to_str v @ ''/approve''))
     \<or> (\<exists>v. rq = req_plain ''POST'' (''/api/pending/'' @ to_str v @ ''/reject''))
     \<or> (\<exists>f file. pfx_name f \<noteq> [] \<and> pfx_address f \<noteq> []
          \<and> rq = req_form ''/api/nodes'' (pfx_body f file))
     \<or> (\<exists>f. pem_name f \<noteq> [] \<and> pem_address f \<noteq> [] \<and> pem_ca f \<noteq> [] \<and> pem_cert f \<noteq> []
          \<and> pem_key f \<noteq> [] \<and> rq = req_json ''/api/nodes'' (pem_body f))"

interpretation api: request_contract api_request
  by unfold_locales (simp add: api_request_def)

lemma add_submit_sent:
  assumes "add_submittable a" and "sent_all api_request s"
  shows "sent_all api_request (add_submit i a s)"
proof (cases "a_mode a")
  case Pfx
  with assms show ?thesis
    by (cases "a_file a") (auto simp: add_submit_def Let_def add_submittable_def,
        auto simp: api_request_def)
next
  case Pem
  with assms show ?thesis
    by (auto simp: add_submit_def Let_def add_submittable_def) (auto simp: api_request_def)
qed

lemma fire_sent:
  assumes h: "h \<in> set (offers b s)" and s: "sent_all api_request s"
  shows "sent_all api_request (fire b h e s)"
proof (cases "scr s")
  case (S_Setup i st)
  with h have "h \<in> set (live_handlers (SetupForm st))" by (simp add: offers_def render_def)
  with S_Setup s show ?thesis
    by (auto simp: fire_def fire_setup_def setup_live setup_submittable_def api_request_def
        split: handler.splits evt.splits if_splits)
next
  case (S_Login i st)
  with h have "h \<in> set (live_handlers (LoginForm st))" by (simp add: offers_def render_def)
  with S_Login s show ?thesis
    by (auto simp: fire_def fire_login_def login_live api_request_def
        split: handler.splits evt.splits if_splits)
next
  case (S_Main i m)
  with h obtain v where "MainApp (locale_date b) m = Some v" "h \<in> set (live_handlers v)"
    by (cases "MainApp (locale_date b) m") (auto simp: offers_def render_def)
  then have "h = H_AddSubmit \<longrightarrow> add_submittable (m_add m)" using MainApp_live by blast
  moreover have "api_request (req_plain ''DELETE'' (''/api/nodes/'' @ to_str v))"
    "api_request (req_plain ''POST'' (''/api/pending/'' @ to_str v @ ''/approve''))"
    "api_request (req_plain ''POST'' (''/api/pending/'' @ to_str v @ ''/reject''))"
    "api_request (req_plain ''POST'' ''/api/auth/logout'')" for v
    by (auto simp: api_request_def)
  ultimately show ?thesis using S_Main s
    by (cases h) (auto simp: fire_def fire_main_def start_action_def openNode_def copyToClipboard_def
        add_submit_sent split: evt.splits option.splits)
qed (use s in \<open>simp_all add: fire_def\<close>)

lemma reachable_sent: "spa_reachable b P s \<Longrightarrow> sent_all api_request s"
  unfolding spa_reachable_reach
  by (rule app.invariant [where I = "sent_all api_request"])
    (auto intro: api.init_sent api.exec_sent fire_sent elim!: spa_stepE)

section \<open>Before the server grants access\<close>

text \<open>The server never answers a status request with a status that opens the main screen.\<close>

definition grants :: "jsval \<Rightarrow> bool" where
  "grants v \<longleftrightarrow> AuthGate v None = Some G_Main"

definition withholds :: "(request \<Rightarrow> reply \<Rightarrow> bool) \<Rightarrow> bool" where
  "withholds P \<longleftrightarrow> (\<forall>r v. P (req_get ''/api/auth/status'') (Answer r) \<longrightarrow> rs_json r = Fulfilled v \<longrightarrow> \<not> grants v)"

definition auth_request :: "request \<Rightarrow> bool" where
  "auth_request rq \<longleftrightarrow> take 10 (rq_path rq) = ''/api/auth/''"

definition ungranted :: "response \<Rightarrow> bool" where
  "ungranted r \<longleftrightarrow> (\<forall>v. rs_json r = Fulfilled v \<longrightarrow> \<not> grants v)"

definition locked_task :: "task \<Rightarrow> bool" where
  "locked_task t \<longleftrightarrow> (case t_cont t of
       K_Status \<Rightarrow> (\<forall>x \<in> set (t_slots t). (\<forall>rq. x = Sent rq \<longrightarrow> rq = req_get ''/api/auth/status'')
         \<and> (\<forall>r. x = Got r \<longrightarrow> ungranted r))
     | K_Status_Text _ \<Rightarrow> True
     | K_Status_Json r \<Rightarrow> ungranted r
     | K_Submit f \<Rightarrow> f \<noteq> F_Add \<and> (\<forall>rq. Sent rq \<in> set (t_slots t) \<longrightarrow> auth_request rq)
     | K_Submit_Text f _ \<Rightarrow> f \<noteq> F_Add
     | _ \<Rightarrow> False)"

definition locked :: "spa \<Rightarrow> bool" where
  "locked s \<longleftrightarrow> \<not> grants (g_status s) \<and> (\<forall>i m. scr s \<noteq> S_Main i m) \<and> list_all locked_task (tasks s)"

lemma AuthGate_main_grants: "AuthGate v e = Some G_Main \<Longrightarrow> grants v"
  by (auto simp: grants_def AuthGate_def str_or_falsy_def split: if_splits)

lemma locked_upd [simp]:
  "locked (upd_setup i f1 s) = locked s" "locked (upd_login i f2 s) = locked s"
  "locked (upd_main i g s) = locked s" "locked (upd_add i h s) = locked s"
  "locked (upd_prov i j s) = locked s" "locked (s\<lparr>g_error := e\<rparr>) = locked s"
  by (simp_all add: locked_def upd_defs split: screen.splits)

lemma locked_spawn [simp]:
  "locked (spawn i k rqs s) \<longleftrightarrow>
     locked_task \<lparr>t_inst = i, t_cont = k, t_slots = map Sent rqs, t_rej = None\<rparr> \<and> locked s"
  by (auto simp: locked_def spawn_def)

lemma locked_status [simp]: "locked (refreshStatus s) = locked s"
  by (simp add: refreshStatus_def) (simp add: locked_task_def)

lemma locked_init: "locked spa_init" "locked (reload s)"
proof -
  show "locked spa_init"
    by (simp add: spa_init_def) (simp add: locked_def grants_def AuthGate_def str_or_falsy_def)
  then show "locked (reload s)" by (simp add: reload_def locked_def)
qed

lemma locked_commit: "locked s \<Longrightarrow> locked (commit b s)"
proof -
  assume s: "locked s"
  obtain k where k: "AuthGate (g_status s) (g_error s) = Some k" using AuthGate_total by blast
  with s have "k \<noteq> G_Main" by (auto simp: locked_def dest: AuthGate_main_grants)
  with s k show ?thesis
    by (cases k; cases "scr s") (auto simp: commit_def Let_def reconcile_def locked_def)
qed

lemma locked_drop: "locked s \<Longrightarrow> locked (drop_task i s)"
  by (auto simp: locked_def drop_task_def list_all_iff dest!: in_set_takeD in_set_dropD)

lemma locked_resume:
  assumes "locked s" and "locked_task t" shows "locked (resume t s)"
proof (cases "t_cont t")
  case K_Status
  with assms show ?thesis
    by (auto simp: resume_def resume_rejected_def resume_fetched_def resume_local_def those_Some_iff
        locked_task_def ungranted_def split: option.splits list.splits elim!: got.elims)
next
  case (K_Status_Json r)
  with assms show ?thesis
    by (auto simp: resume_def resume_rejected_def resume_fetched_def resume_local_def those_Some_iff
        locked_task_def ungranted_def locked_def split: option.splits list.splits settled.splits)
next
  case (K_Submit f)
  with assms show ?thesis
    by (cases f) (auto simp: resume_def resume_rejected_def resume_fetched_def resume_local_def form_fail_defs
        form_done_defs those_Some_iff locked_task_def split: option.splits list.splits)
next
  case (K_Submit_Text f r)
  with assms show ?thesis
    by (cases f) (auto simp: resume_def resume_rejected_def resume_fetched_def resume_local_def form_fail_defs
        locked_task_def split: option.splits list.splits)
qed (use assms in \<open>auto simp: locked_task_def resume_def resume_rejected_def resume_fetched_def
    resume_local_def split: option.splits\<close>)

lemma locked_fire: "locked s \<Longrightarrow> locked (fire b h e s)"
  by (cases "scr s")
    (auto simp: fire_def fire_setup_def fire_login_def locked_task_def auth_request_def req_json_def
      split: handler.splits evt.splits, auto simp: locked_def)

lemma locked_settle:
  assumes "locked s" and "awaited s i j = Some rq" and "withholds P" and "P rq x"
  shows "locked (s\<lparr>tasks := (tasks s)[i := settle_task j x (tasks s ! i)]\<rparr>)"
proof -
  from assms(2) have i: "i < length (tasks s)" and j: "j < length (t_slots (tasks s ! i))"
    "t_slots (tasks s ! i) ! j = Sent rq" by (auto simp: awaited_def split: if_splits slot.splits)
  from assms(1) i have t: "locked_task (tasks s ! i)" by (auto simp: locked_def list_all_length)
  have "locked_task (settle_task j x (tasks s ! i))"
  proof (cases "t_cont (tasks s ! i)")
    case K_Status
    with t j have "rq = req_get ''/api/auth/status''" by (force simp: locked_task_def in_set_conv_nth)
    with assms(3,4) have "answer_slot x = Got r \<Longrightarrow> ungranted r" for r
      by (cases x) (auto simp: withholds_def ungranted_def)
    with K_Status t show ?thesis
      by (cases x) (auto simp: locked_task_def settle_task_def dest!: set_update_subset_insert [THEN subsetD])
  next
    case (K_Submit f)
    with t show ?thesis
      by (cases x) (auto simp: locked_task_def settle_task_def dest!: set_update_subset_insert [THEN subsetD])
  qed (use t in \<open>auto simp: locked_task_def settle_task_def\<close>)
  with assms(1) show ?thesis
    by (auto simp: locked_def list_all_iff dest!: set_update_subset_insert [THEN subsetD])
qed

lemma locked_step:
  assumes "spa_step b P s t" and "withholds P" and "locked s" shows "locked t"
  using assms(1)
proof (rule spa_stepE)
  fix ev assume ex: "exec b ev s = Some t" and pm: "permitted P s ev"
  show "locked t"
  proof (cases ev)
    case (Reply i j x)
    with ex obtain rq where aw: "awaited s i j = Some rq" by (auto split: if_splits)
    with pm Reply have "P rq x" by (simp add: permitted_def)
    with locked_settle [OF assms(3) aw assms(2)] ex aw Reply show ?thesis by auto
  next
    case (Run i)
    with ex have i: "i < length (tasks s)" and t: "t = commit b (resume (tasks s ! i) (drop_task i s))"
      by (auto split: if_splits)
    from i assms(3) have "locked_task (tasks s ! i)" by (auto simp: locked_def list_all_length)
    with t assms(3) show ?thesis by (simp add: locked_commit locked_resume locked_drop)
  qed (use ex assms(3) in \<open>auto simp: locked_init locked_commit locked_fire split: if_splits\<close>)
qed

lemma reachable_locked: "spa_reachable b P s \<Longrightarrow> withholds P \<Longrightarrow> locked s"
  unfolding spa_reachable_reach
  by (rule app.invariant [where I = locked]) (auto intro: locked_init locked_step)

lemma locked_requests: "locked s \<Longrightarrow> spa_inv s \<Longrightarrow> awaited s i j = Some rq \<Longrightarrow> auth_request rq"
proof -
  assume s: "locked s" and inv: "spa_inv s" and aw: "awaited s i j = Some rq"
  then have i: "i < length (tasks s)" and x: "Sent rq \<in> set (t_slots (tasks s ! i))"
    by (auto simp: awaited_def split: if_splits slot.splits dest: nth_mem)
  from s i have "locked_task (tasks s ! i)" by (auto simp: locked_def list_all_length)
  moreover from inv i have "length (t_slots (tasks s ! i)) = arity (t_cont (tasks s ! i))"
    by (auto simp: spa_inv_def task_ok_def)
  ultimately show ?thesis using x
    by (auto simp: locked_task_def auth_request_def req_get_def arity_def split: cont.splits)
qed

end
