(* ===== verification/Spa_Properties.thy ===== *)
theory Spa_Properties
  imports Spa_Requests
begin

text \<open>
  The properties of the single-page application, over the states its machine can reach, with
  concrete runs at which they apply.
\<close>

section \<open>Rendering never fails on its own\<close>

lemma ProvisionInfo_total: "ProvisionInfo p \<noteq> None"
  using get_prop_truthy [of "p_info p" "''address''"] get_prop_truthy [of "p_info p" "''ca_cert_pem''"]
  by (auto simp: ProvisionInfo_def provision_address_def)

definition lists_render :: "(jsval \<Rightarrow> string) \<Rightarrow> main_state \<Rightarrow> bool" where
  "lists_render fmt m \<longleftrightarrow>
     PendingList fmt (m_pending m) (m_busy m) \<noteq> None \<and> NodeList (m_nodes m) (m_busy m) \<noteq> None"

lemma MainApp_None: "MainApp fmt m = None \<longleftrightarrow> \<not> m_loading m \<and> \<not> lists_render fmt m"
  using ProvisionInfo_total [of "m_prov m"]
  by (auto simp: MainApp_def lists_render_def split: if_splits option.splits bind_splits)

lemma commit_main:
  "scr s = S_Main i m \<Longrightarrow> AuthGate (g_status s) (g_error s) = Some G_Main \<Longrightarrow>
     commit b s = (if m_loading m \<or> lists_render (locale_date b) m then s else s\<lparr>scr := S_Crashed\<rparr>)"
  by (auto simp: commit_def Let_def reconcile_def render_def MainApp_None)

lemma PendingList_busy: "PendingList fmt v b = None \<longleftrightarrow> PendingList fmt v b' = None"
proof -
  have "pending_row fmt b p = None \<longleftrightarrow> pending_row fmt b' p = None" for p
    by (auto simp: pending_row_def bind_eq_None_conv)
  then have "those (map (pending_row fmt b) ps) = None \<longleftrightarrow> those (map (pending_row fmt b') ps) = None" for ps
    by (induction ps) (auto split: option.splits, (metis option.distinct(1))+)
  then show ?thesis by (auto simp: PendingList_def bind_eq_None_conv)
qed

lemma NodeList_busy: "NodeList v b = None \<longleftrightarrow> NodeList v b' = None"
proof -
  have "node_row b p = None \<longleftrightarrow> node_row b' p = None" for p
    by (auto simp: node_row_def bind_eq_None_conv)
  then have "those (map (node_row b) ps) = None \<longleftrightarrow> those (map (node_row b') ps) = None" for ps
    by (induction ps) (auto split: option.splits, (metis option.distinct(1))+)
  then show ?thesis by (auto simp: NodeList_def bind_eq_None_conv)
qed

lemma lists_render_frame [simp]:
  "lists_render fmt (m\<lparr>m_busy := x\<rparr>) = lists_render fmt m"
  "lists_render fmt (m\<lparr>m_error := e\<rparr>) = lists_render fmt m"
  "lists_render fmt (m\<lparr>m_loading := l\<rparr>) = lists_render fmt m"
  "lists_render fmt (m\<lparr>m_add := a\<rparr>) = lists_render fmt m"
  "lists_render fmt (m\<lparr>m_prov := p\<rparr>) = lists_render fmt m"
  using PendingList_busy [of fmt "m_pending m" x "m_busy m"] NodeList_busy [of "m_nodes m" x "m_busy m"]
  by (simp_all add: lists_render_def)

definition rendered :: "browser \<Rightarrow> spa \<Rightarrow> bool" where
  "rendered b s \<longleftrightarrow> scr s = S_Crashed \<or> render b s \<noteq> None"

lemma rendered_commit: "rendered b (commit b s)"
  by (auto simp: rendered_def commit_def Let_def)

lemma rendered_tasks [simp]: "rendered b (s\<lparr>tasks := ts\<rparr>) = rendered b s"
  by (cases "scr s"; simp add: rendered_def render_def)

lemma rendered_start: "rendered b spa_init" "rendered b (reload s)"
  by (simp_all add: rendered_def render_def reload_def spa_init_def refreshStatus_def spawn_def
      AuthGate_def str_or_falsy_def)

lemma rendered_exec: "exec b ev s = Some t \<Longrightarrow> rendered b s \<Longrightarrow> rendered b t"
  by (cases ev) (auto simp: rendered_commit rendered_start split: if_splits)

lemma reachable_renders: "spa_reachable b P s \<Longrightarrow> rendered b s"
  unfolding spa_reachable_reach
  by (rule app.invariant [where I = "rendered b"])
    (auto intro: rendered_start rendered_exec elim!: spa_stepE)

lemma reachable_main:
  assumes "spa_reachable b P s" and "scr s = S_Main i m"
  shows "AuthGate (g_status s) (g_error s) = Some G_Main" "m_loading m \<or> lists_render (locale_date b) m"
  using reachable_matches [OF assms(1)] reachable_renders [OF assms(1)] assms(2)
  by (auto simp: screen_matches_def rendered_def render_def MainApp_None)

text \<open>A state that is the gate's and renders is committed as it is.\<close>

lemma commit_same:
  assumes "screen_matches u" and "rendered b u"
  shows "commit b u = u"
proof -
  have "u\<lparr>scr := scr u\<rparr> = u" by simp
  with assms(1) have "reconcile u = u"
    by (auto simp: reconcile_def screen_matches_def split: screen.splits gate_kind.splits option.splits)
  with assms(2) show ?thesis by (cases u) (auto simp: commit_def Let_def rendered_def)
qed

section \<open>Runs to look at\<close>

definition demo_browser :: browser where
  "demo_browser = \<lparr>hostname = ''ctrl'', locale_date = \<lambda>_. ''today''\<rparr>"

definition json_ok :: "jsval \<Rightarrow> response" where
  "json_ok v = \<lparr>rs_status = 200, rs_text = Fulfilled [], rs_json = Fulfilled v\<rparr>"

definition text_error :: "nat \<Rightarrow> string \<Rightarrow> response" where
  "text_error code msg = \<lparr>rs_status = code, rs_text = Fulfilled msg, rs_json = Rejected ''not JSON''\<rparr>"

definition demo_status :: "bool \<Rightarrow> bool \<Rightarrow> jsval" where
  "demo_status setup auth = Obj [(''setup_required'', Bool setup), (''authenticated'', Bool auth)]"

definition to_main :: "event list" where
  "to_main = [Reply 0 0 (Answer (json_ok (demo_status False True))), Run 0, Run 0]"

definition demo_node :: jsval where
  "demo_node = Obj [(''id'', Str ''a1''), (''name'', Str ''edge''), (''address'', Str ''10.0.0.5:9505''),
     (''port'', Num 9600)]"

definition to_listed :: "event list" where
  "to_listed = to_main @ [Reply 1 0 (Answer (json_ok (Arr [demo_node]))), Reply 1 1 (Answer (json_ok Null)),
     Run 1, Run 1, Run 1, Reply 0 0 (Net_Error ''offline''), Run 0]"

lemmas demo_defs = demo_browser_def json_ok_def text_error_def demo_status_def to_main_def demo_node_def
  to_listed_def

lemmas run_defs = commit_def reconcile_def render_def MainApp_None resume_defs load_info_def upd_defs
  awaited_def runnable_def settle_task_def drop_task_def Let_def main_init_def add_init_def
  AuthGate_def str_or_falsy_def spa_init_def resp_ok_def req_get_def

definition main_loaded :: main_state where
  "main_loaded = main_init\<lparr>m_nodes := Arr [demo_node], m_loading := False,
     m_prov := prov_init\<lparr>p_error := Some ''offline''\<rparr>\<rparr>"

definition listed :: spa where
  "listed = \<lparr>g_status = demo_status False True, g_error = None, scr = S_Main 1 main_loaded, tasks = [],
     fresh = 2, opened = [], clip = None\<rparr>"

lemma run_main: "exec_all demo_browser to_main spa_init = Some
   (refresh Detached 1 (load_info 1 (listed\<lparr>scr := S_Main 1 main_init\<rparr>)))"
  by (simp add: demo_defs run_defs listed_def)

lemma run_listed: "exec_all demo_browser to_listed spa_init = Some listed"
  by (simp add: demo_defs run_defs listed_def main_loaded_def NodeList_def node_row_def PendingList_def
      lists_render_def)

lemma reachable_listed: "spa_reachable demo_browser any_reply listed"
  by (rule reachable_exec_all [OF reachable_init run_listed])

section \<open>Calls under way and the flags that stand for them\<close>

lemma offers_guarded:
  "h \<in> set (offers b s) \<Longrightarrow> scr s = S_Main i m \<Longrightarrow>
     (is_action h \<longrightarrow> \<not> m_busy m) \<and> (h = H_AddSubmit \<longrightarrow> add_submittable (m_add m))"
  by (cases "MainApp (locale_date b) m") (auto simp: offers_def render_def dest: MainApp_live)

text \<open>
  C3: On the main screen at most one remove, approve or reject is under way at any time, and
  \<open>busy\<close> is set exactly then; the same holds of the add form and its own flag; the lists are
  hidden behind the loading text only while a refresh that will show them is under way; and
  while a flag is set no control that would start a second call is offered.
\<close>

theorem calls_exclusive:
  assumes "spa_reachable b P s" and "scr s = S_Main i m"
  shows "cnt is_action_cont i (tasks s) = of_bool (m_busy m)
    \<and> cnt (is_submit_cont F_Add) i (tasks s) = of_bool (a_busy (m_add m))
    \<and> (m_loading m \<longrightarrow> 0 < cnt is_refresh_cont i (tasks s))
    \<and> (\<forall>h \<in> set (offers b s). (is_action h \<longrightarrow> \<not> m_busy m) \<and> (h = H_AddSubmit \<longrightarrow> \<not> a_busy (m_add m)))"
  using reachable_inv [OF assms(1)] assms(2) offers_guarded [of _ b s]
  by (fastforce simp: spa_inv_def screen_ok_def add_submittable_def)

theorem calls_exclusive_witness:
  "cnt is_action_cont 1 (tasks listed) = 0 \<and> \<not> m_busy main_loaded"
  using calls_exclusive [OF reachable_listed, of 1 main_loaded]
  by (simp add: listed_def main_loaded_def main_init_def)

lemma quiet_knows:
  assumes "told s" and "tasks s = []" and "screen_matches s"
  shows "\<not> gate_loads b s"
proof
  assume g: "gate_loads b s"
  then have scr: "scr s = S_Gate" and r: "render b s = Some loading_view" by (simp_all add: gate_loads_def)
  have "AuthGate (g_status s) (g_error s) \<noteq> Some G_Loading" using assms(1,2) by (auto simp: told_def knows_def AuthGate_def bind_eq_Some_conv split: if_splits)
  with assms(3) scr obtain m where "AuthGate (g_status s) (g_error s) = Some (G_Error m)"
    by (auto simp: screen_matches_def split: option.splits gate_kind.splits)
  with r scr show False by (simp add: render_def loading_view_def cls_def)
qed

text \<open>
  C8: Left alone, the application settles. From any reachable state, whatever the server answers
  as long as every request is answered or fails, every sequence of answers and resumed calls is at
  most \<open>spa_rank s\<close> steps long; some such sequence leads to a state in which no such step is
  possible any more; and in each of those no call is under way, no busy flag is set and the main
  screen shows no loading text. The gate's own loading text is gone as well when each status request
  is answered by a status that is not a falsy value or by an error that has a message; it is the one
  thing that can stay for good.
\<close>

theorem network_settles:
  assumes "spa_reachable b P s" and "\<And>rq. \<exists>x. P rq x"
  shows "(\<forall>n t. (net_step b P ^^ n) s t \<longrightarrow> n \<le> spa_rank s)
    \<and> (\<exists>n t. (net_step b P ^^ n) s t \<and> (\<nexists>u. net_step b P t u))
    \<and> (\<forall>n t. (net_step b P ^^ n) s t \<longrightarrow> (\<nexists>u. net_step b P t u) \<longrightarrow>
        tasks t = [] \<and> settled_screen (scr t) \<and> (informative P \<longrightarrow> idle b t))"
proof -
  have bound: "n \<le> spa_rank s" if "(net_step b P ^^ n) s t" for n t
    using net.run_bounded [OF that] by simp
  have stuck: "tasks t = [] \<and> settled_screen (scr t) \<and> (informative P \<longrightarrow> idle b t)"
    if run: "(net_step b P ^^ n) s t" and no: "\<nexists>u. net_step b P t u" for n t
  proof -
    have r: "spa_reachable b P t" using assms(1) run by (rule net_run_reachable)
    then have inv: "spa_inv t" by (rule reachable_inv)
    have t: "tasks t = []" using net_progress [of t P b, OF inv _ assms(2)] no by blast
    with quiet_settled [OF inv t] quiet_knows [OF reachable_told [OF r] t reachable_matches [OF r]] show ?thesis by (simp add: idle_def)
  qed
  have "\<exists>n t. (net_step b P ^^ n) s t \<and> (\<nexists>u. net_step b P t u)"
  proof (rule ccontr)
    assume none: "\<not> ?thesis"
    have "\<exists>t. (net_step b P ^^ n) s t" for n
    proof (induction n)
      case 0 show ?case by auto
    next
      case (Suc n)
      with none show ?case by (meson relpowp_Suc_I)
    qed
    then obtain t where "(net_step b P ^^ Suc (spa_rank s)) s t" by blast
    with bound show False by fastforce
  qed
  with bound stuck show ?thesis by blast
qed

theorem network_settles_witness:
  "\<exists>n t. (net_step demo_browser (\<lambda>_ x. x = Net_Error ''offline'') ^^ n) spa_init t \<and> idle demo_browser t"
proof -
  let ?P = "\<lambda>_ x. x = Net_Error ''offline''"
  have "informative ?P" by (simp add: informative_def)
  with network_settles [OF reachable_init, of ?P demo_browser] show ?thesis by blast
qed

text \<open>
  What the last condition excludes can happen: a status request answered 200 \<open>null\<close>, or with an
  error whose text is empty, leaves the gate loading with nothing under way.
\<close>

theorem gate_can_load_for_good:
  assumes "r = json_ok Null \<or> r = text_error 502 []"
  shows "\<exists>s. exec_all b [Reply 0 0 (Answer r), Run 0, Run 0] spa_init = Some s \<and> gate_loads b s \<and> (\<forall>ev. exec b ev s \<noteq> None \<longleftrightarrow> ev = Reload)"
proof -
  define s where "s = spa_init\<lparr>g_error := (if r = json_ok Null then None else Some []), tasks := []\<rparr>"
  have differ: "json_ok Null \<noteq> text_error 502 []" by (simp add: json_ok_def text_error_def)
  have run: "exec_all b [Reply 0 0 (Answer r), Run 0, Run 0] spa_init = Some s"
    using assms differ by (elim disjE) (simp_all add: run_defs s_def json_ok_def text_error_def err_text_def)
  have load: "render b s = Some loading_view" "scr s = S_Gate"
    by (simp_all add: run_defs s_def)
  have "exec b ev s \<noteq> None \<longleftrightarrow> ev = Reload" for ev
    using load by (cases ev) (auto simp: s_def awaited_def offers_def loading_view_def live_simps)
  with run load show ?thesis by (auto simp: gate_loads_def)
qed

section \<open>Behind the gate\<close>

text \<open>
  C10: As long as no answer to the status request says that the browser is signed in (and that
  no set-up is due), the main screen is never mounted and every request the application has
  under way goes to \<open>/api/auth/\<close>.
\<close>

theorem gate_safety:
  assumes "spa_reachable b P s" and "withholds P"
  shows "(\<forall>i m. scr s \<noteq> S_Main i m) \<and> (\<forall>i j rq. awaited s i j = Some rq \<longrightarrow> auth_request rq)"
  using reachable_locked [OF assms] locked_requests [OF reachable_locked [OF assms] reachable_inv [OF assms(1)]]
  by (auto simp: locked_def)

definition signed_out :: "request \<Rightarrow> reply \<Rightarrow> bool" where
  "signed_out rq x \<longleftrightarrow> x = Answer (json_ok (demo_status False False))"

definition at_login :: spa where
  "at_login = \<lparr>g_status = demo_status False False, g_error = None, scr = S_Login 1 login_init, tasks = [],
     fresh = 2, opened = [], clip = None\<rparr>"

lemma reachable_exec:
  "spa_reachable b P s \<Longrightarrow> exec b ev s = Some t \<Longrightarrow> permitted P s ev \<Longrightarrow> spa_reachable b P t"
  unfolding spa_reachable_def by (rule rtranclp.rtrancl_into_rtrancl) (auto intro: spa_step.intros)

lemma reachable_login: "spa_reachable demo_browser signed_out at_login"
proof -
  let ?r = "json_ok (demo_status False False)"
  have "spa_reachable demo_browser signed_out
      (spa_init\<lparr>tasks := [\<lparr>t_inst = 0, t_cont = K_Status, t_slots = [Got ?r], t_rej = None\<rparr>]\<rparr>)"
    by (rule reachable_exec [OF reachable_init, where ev = "Reply 0 0 (Answer ?r)"])
      (simp_all add: run_defs permitted_def signed_out_def)
  then have "spa_reachable demo_browser signed_out
      (spa_init\<lparr>tasks := [\<lparr>t_inst = 0, t_cont = K_Status_Json ?r, t_slots = [], t_rej = None\<rparr>]\<rparr>)"
    by (rule reachable_exec [where ev = "Run 0"]) (simp_all add: demo_defs run_defs permitted_def)
  then show ?thesis
    by (rule reachable_exec [where ev = "Run 0"]) (simp_all add: demo_defs run_defs permitted_def at_login_def)
qed

theorem gate_safety_witness: "\<forall>i m. scr at_login \<noteq> S_Main i m"
  using gate_safety [OF reachable_login]
  by (auto simp: withholds_def signed_out_def json_ok_def demo_status_def grants_def AuthGate_def str_or_falsy_def)

text \<open>
  Submitting the set-up form with different passwords only shows the error: nothing is
  sent and nothing else changes. With equal passwords exactly one request is sent, carrying
  that password, and the form is busy until it is answered. The browser offers the submission
  only for passwords of at least eight characters and while no earlier one is under way.
\<close>

theorem setup_submission:
  assumes "scr s = S_Setup i st" and "AuthGate (g_status s) (g_error s) = Some G_Setup"
  shows "exec b (User H_SetupSubmit Ev_None) s =
    (if s_busy st \<or> length (s_password st) < 8 \<or> length (s_confirm st) < 8 then None
     else if s_password st \<noteq> s_confirm st
     then Some (s\<lparr>scr := S_Setup i (st\<lparr>s_error := Some ''passwords do not match''\<rparr>)\<rparr>)
     else Some (s\<lparr>scr := S_Setup i (st\<lparr>s_busy := True, s_error := None\<rparr>),
       tasks := tasks s @ [\<lparr>t_inst = i, t_cont = K_Submit F_Setup,
         t_slots = [Sent (req_json ''/api/auth/setup'' (password_body (s_password st)))], t_rej = None\<rparr>]\<rparr>))"
  using assms
  by (auto simp: offers_def render_def setup_live setup_submittable_def fire_def fire_setup_def spawn_def
      upd_setup_def commit_def Let_def reconcile_def not_le)

definition at_setup :: "string \<Rightarrow> string \<Rightarrow> spa" where
  "at_setup p q = \<lparr>g_status = demo_status True False, g_error = None,
     scr = S_Setup 1 (setup_init\<lparr>s_password := p, s_confirm := q\<rparr>), tasks = [], fresh = 2, opened = [], clip = None\<rparr>"

theorem setup_submission_witness:
  "exec demo_browser (User H_SetupSubmit Ev_None) (at_setup ''password1'' ''password2'') \<noteq> None
   \<and> map_option tasks (exec demo_browser (User H_SetupSubmit Ev_None) (at_setup ''password1'' ''password2'')) = Some []"
  using setup_submission [of "at_setup ''password1'' ''password2''" 1 _ demo_browser]
  by (simp add: at_setup_def setup_init_def demo_status_def AuthGate_def str_or_falsy_def)

section \<open>What a call leaves behind\<close>

text \<open>
  When both answers of a refresh are in and are JSON, its three resumed steps put exactly
  those lists on the screen (an empty list for \<open>null\<close>), clear the error and the loading text
  and touch nothing else; if the lists cannot be rendered the page goes blank instead.
\<close>

theorem refresh_shows_the_answers:
  assumes reach: "spa_reachable b P s" and main: "scr s = S_Main i m" and loading: "m_loading m"
    and ts: "tasks s = ts @ [\<lparr>t_inst = i, t_cont = K_Refresh Detached, t_slots = [Got nr, Got pr], t_rej = None\<rparr>]"
    and ok: "resp_ok nr" "resp_ok pr" "rs_json nr = Fulfilled v" "rs_json pr = Fulfilled w"
  defines "m' \<equiv> m\<lparr>m_nodes := nullish_else v (Arr []), m_pending := nullish_else w (Arr []),
    m_error := None, m_loading := False\<rparr>"
  shows "exec_all b (replicate 3 (Run (length ts))) s = Some (s\<lparr>tasks := ts,
    scr := (if lists_render (locale_date b) m' then S_Main i m' else S_Crashed)\<rparr>)"
proof -
  note gate = reachable_main(1) [OF reach main]
  show ?thesis
    using main gate loading ok ts
    by (simp add: numeral_3_eq_3 resume_defs upd_defs runnable_def drop_task_def Let_def commit_main m'_def)
qed

definition answered :: spa where
  "answered = listed\<lparr>scr := S_Main 1 (main_init\<lparr>m_prov := prov_init\<lparr>p_error := Some ''offline''\<rparr>\<rparr>),
     tasks := [\<lparr>t_inst = 1, t_cont = K_Refresh Detached,
       t_slots = [Got (json_ok (Arr [demo_node])), Got (json_ok Null)], t_rej = None\<rparr>]\<rparr>"

lemma run_answered: "exec_all demo_browser (to_main @ [Reply 0 0 (Net_Error ''offline''), Run 0,
    Reply 0 0 (Answer (json_ok (Arr [demo_node]))), Reply 0 1 (Answer (json_ok Null))]) spa_init = Some answered"
  by (simp add: demo_defs run_defs answered_def listed_def)

theorem refresh_shows_the_answers_witness:
  "exec_all demo_browser (replicate 3 (Run 0)) answered = Some listed"
  using refresh_shows_the_answers [OF reachable_exec_all [OF reachable_init run_answered], of 1 _ "[]"
      "json_ok (Arr [demo_node])" "json_ok Null" "Arr [demo_node]" Null]
  by (simp add: answered_def listed_def main_loaded_def main_init_def json_ok_def resp_ok_def nullish_else_def
      lists_render_def NodeList_def node_row_def PendingList_def demo_node_def)

text \<open>
  A remove, approve or reject the server refused leaves the lists, the form and every other
  call as they were: its two resumed steps show the server's text as the error and free the
  buttons.
\<close>

theorem refused_action_keeps_lists:
  assumes reach: "spa_reachable b P s" and main: "scr s = S_Main i m"
    and ts: "tasks s = ts @ [\<lparr>t_inst = i, t_cont = K_Action, t_slots = [Got r], t_rej = None\<rparr>]"
    and refused: "\<not> resp_ok r"
  shows "exec_all b [Run (length ts), Run (length ts)] s =
    Some (s\<lparr>tasks := ts, scr := S_Main i (m\<lparr>m_error := Some (err_text r), m_busy := False\<rparr>)\<rparr>)"
  using main reachable_main [OF reach main] refused ts
  by (auto simp: resume_defs upd_defs runnable_def drop_task_def Let_def commit_main)

definition refused :: response where
  "refused = text_error 404 ''node not found''"

definition removing :: spa where
  "removing = listed\<lparr>scr := S_Main 1 (main_loaded\<lparr>m_busy := True\<rparr>),
     tasks := [\<lparr>t_inst = 1, t_cont = K_Action, t_slots = [Got refused], t_rej = None\<rparr>]\<rparr>"

lemma offers_remove: "H_Remove (Str ''a1'') \<in> set (offers demo_browser listed)"
  by (simp add: offers_def render_def listed_def main_loaded_def main_init_def MainApp_def NodeList_def
      PendingList_def node_row_def demo_node_def live_simps view_defs ProvisionInfo_def str_or_falsy_def)

lemma run_removing: "exec_all demo_browser [User (H_Remove (Str ''a1'')) Ev_None, Reply 0 0 (Answer refused)] listed
    = Some removing"
  using offers_remove
  by (simp add: fire_def fire_main_def start_action_def listed_def removing_def commit_def Let_def
      reconcile_def render_def MainApp_None lists_render_def main_loaded_def main_init_def NodeList_def
      node_row_def PendingList_def demo_node_def demo_defs AuthGate_def str_or_falsy_def spawn_def upd_main_def
      awaited_def settle_task_def)

lemma reachable_removing: "spa_reachable demo_browser any_reply removing"
  by (rule reachable_exec_all [OF reachable_listed run_removing])

theorem refused_action_keeps_lists_witness:
  "exec_all demo_browser [Run 0, Run 0] removing =
     Some (listed\<lparr>scr := S_Main 1 (main_loaded\<lparr>m_error := Some ''node not found''\<rparr>)\<rparr>)"
  using refused_action_keeps_lists [OF reachable_removing, of 1 "main_loaded\<lparr>m_busy := True\<rparr>" "[]" refused]
  by (simp add: removing_def listed_def refused_def text_error_def resp_ok_def err_text_def main_loaded_def
      main_init_def)

text \<open>
  A node the server refused to add leaves the form as the user filled it in: its two resumed
  steps show the server's text next to the form and free its button, and change nothing else.
\<close>

theorem refused_add_keeps_form:
  assumes reach: "spa_reachable b P s" and main: "scr s = S_Main i m"
    and ts: "tasks s = ts @ [\<lparr>t_inst = i, t_cont = K_Submit F_Add, t_slots = [Got r], t_rej = None\<rparr>]"
    and refused: "\<not> resp_ok r"
  shows "exec_all b [Run (length ts), Run (length ts)] s = Some (s\<lparr>tasks := ts,
    scr := S_Main i (m\<lparr>m_add := (m_add m)\<lparr>a_error := Some (err_text r), a_busy := False\<rparr>\<rparr>)\<rparr>)"
  using main reachable_main [OF reach main] refused ts
  by (auto simp: resume_defs upd_defs runnable_def drop_task_def Let_def commit_main)

definition typed_pfx :: pfx_form where
  "typed_pfx = emptyPfxForm\<lparr>pfx_name := ''edge2'', pfx_address := ''10.0.0.6:9505''\<rparr>"

definition typed_form :: add_state where
  "typed_form = add_init\<lparr>a_pfx := typed_pfx, a_file := Some ''node.pfx'', a_dom_file := Some ''node.pfx''\<rparr>"

definition fill_form :: "event list" where
  "fill_form = [User H_SetPfxFile (Ev_File (Some ''node.pfx'')), User (H_SetPfx Pfx_Name) (Ev_Text ''edge2''),
     User (H_SetPfx Pfx_Address) (Ev_Text ''10.0.0.6:9505''), User H_AddSubmit Ev_None]"

definition adding :: "response \<Rightarrow> spa" where
  "adding r = listed\<lparr>scr := S_Main 1 (main_loaded\<lparr>m_add := typed_form\<lparr>a_busy := True\<rparr>\<rparr>),
     tasks := [\<lparr>t_inst = 1, t_cont = K_Submit F_Add, t_slots = [Got r], t_rej = None\<rparr>]\<rparr>"

lemma MainApp_form:
  assumes "MainApp fmt m = Some v" and "h \<in> set (live_handlers (AddNodeForm (m_add m)))"
  shows "h \<in> set (live_handlers v)"
proof -
  from assms(1) obtain pend nodes prov where
    "v = Elem ''main'' []
       ([Elem ''div'' [cls ''header-row'']
          [Elem ''div'' [cls ''brand''] [Logo 28, Elem ''h1'' [] [Text ''Janus Controller'']],
           Elem ''button'' [On ''onClick'' H_Logout] [Text ''Log out'']]]
        @ err_view (m_error m) @ pend
        @ [Elem ''h2'' [] [Text ''Nodes''], nodes, AddNodeForm (m_add m)] @ prov)"
    by (auto simp: MainApp_def bind_eq_Some_conv)
  with assms(2) show ?thesis by simp
qed

lemma AddNodeForm_pfx_live:
  "a_mode a = Pfx \<Longrightarrow> H_SetPfxFile \<in> set (live_handlers (AddNodeForm a))"
  "a_mode a = Pfx \<Longrightarrow> H_SetPfx f \<in> set (live_handlers (AddNodeForm a))"
  by (cases f; simp add: AddNodeForm_def pfx_fields_def view_defs live_simps)+

lemma form_offers:
  assumes "a_mode (m_add m) = Pfx" "scr s = S_Main i m" "render b s \<noteq> None"
  shows "H_SetPfxFile \<in> set (offers b s)" "H_SetPfx f \<in> set (offers b s)"
    "add_submittable (m_add m) \<Longrightarrow> H_AddSubmit \<in> set (offers b s)"
  using assms AddNodeForm_pfx_live(1) [OF assms(1)] AddNodeForm_pfx_live(2) [OF assms(1), of f]
    add_live_submit [of "m_add m"]
  by (auto simp: offers_def render_def intro: MainApp_form)

lemma listed_renders:
  "m_nodes m = Arr [demo_node] \<Longrightarrow> m_pending m = Arr [] \<Longrightarrow> lists_render fmt m"
  by (simp add: lists_render_def NodeList_def node_row_def PendingList_def demo_node_def)

lemma run_adding: "exec_all demo_browser (fill_form @ [Reply 0 0 (Answer r)]) listed = Some (adding r)"
proof -
  have offered: "H_SetPfxFile \<in> set (offers demo_browser s)" "H_SetPfx f \<in> set (offers demo_browser s)"
    "add_submittable (m_add m) \<longrightarrow> H_AddSubmit \<in> set (offers demo_browser s)"
    if "scr s = S_Main 1 m" "a_mode (m_add m) = Pfx" "m_nodes m = Arr [demo_node]" "m_pending m = Arr []" for s m f
    using form_offers [OF that(2) that(1), of demo_browser] that listed_renders [OF that(3,4)]
    by (simp_all add: render_def MainApp_None)
  show ?thesis
    by (simp add: fill_form_def offered fire_def fire_main_def add_submit_def add_submittable_def listed_def
        main_loaded_def main_init_def add_init_def listed_renders commit_main upd_defs spawn_def set_pfx_def
        adding_def typed_form_def typed_pfx_def emptyPfxForm_def AuthGate_def str_or_falsy_def demo_status_def
        awaited_def settle_task_def)
qed

theorem refused_add_keeps_form_witness:
  "exec_all demo_browser [Run 0, Run 0] (adding refused) = Some (listed\<lparr>scr := S_Main 1 (main_loaded
     \<lparr>m_add := typed_form\<lparr>a_error := Some ''node not found''\<rparr>\<rparr>)\<rparr>)"
  using refused_add_keeps_form [OF reachable_exec_all [OF reachable_listed run_adding [of refused]],
      of 1 "main_loaded\<lparr>m_add := typed_form\<lparr>a_busy := True\<rparr>\<rparr>" "[]" refused]
  by (simp add: adding_def listed_def refused_def text_error_def resp_ok_def err_text_def main_loaded_def
      main_init_def typed_form_def add_init_def)

text \<open>
  After a node was added from a \<open>.pfx\<close> file, the file field still shows that file but the
  form has forgotten it. The user who then types the next node's name and address is offered
  the submission, and gets the message that a file has to be chosen, with nothing sent.
\<close>

theorem added_file_is_forgotten:
  assumes reach: "spa_reachable b P s" and main: "scr s = S_Main i m"
    and pfx: "a_mode (m_add m) = Pfx" "a_dom_file (m_add m) = Some file"
    and ts: "tasks s = ts @ [\<lparr>t_inst = i, t_cont = K_Submit F_Add, t_slots = [Got r], t_rej = None\<rparr>]"
    and ok: "resp_ok r" and typed: "nm \<noteq> []" "ad \<noteq> []"
  shows "\<exists>s' s'' m''. exec_all b [Run (length ts), User (H_SetPfx Pfx_Name) (Ev_Text nm),
      User (H_SetPfx Pfx_Address) (Ev_Text ad)] s = Some s'
    \<and> exec b (User H_AddSubmit Ev_None) s' = Some s'' \<and> tasks s'' = tasks s'
    \<and> scr s'' = S_Main i m'' \<and> a_dom_file (m_add m'') = Some file
    \<and> a_error (m_add m'') = Some ''choose a .pfx file''"
proof -
  note gate = reachable_main(1) [OF reach main]
  have offered: "H_SetPfx f \<in> set (offers b u)" "add_submittable (m_add w) \<Longrightarrow> H_AddSubmit \<in> set (offers b u)"
    if "scr u = S_Main i w" "a_mode (m_add w) = Pfx" "m_loading w" for u w f
    using form_offers [OF that(2) that(1), of b] that by (simp_all add: render_def MainApp_None)
  show ?thesis
    using main gate pfx ok ts typed
    by (simp add: offered resume_defs upd_defs runnable_def drop_task_def Let_def commit_main fire_def
        fire_main_def add_submit_def add_submittable_def set_pfx_def emptyPfxForm_def)
qed

definition added :: response where
  "added = json_ok demo_node"

lemma reachable_adding: "spa_reachable demo_browser any_reply (adding r)"
  by (rule reachable_exec_all [OF reachable_listed run_adding])

theorem added_file_is_forgotten_witness:
  "\<exists>s'. exec_all demo_browser [Run 0, User (H_SetPfx Pfx_Name) (Ev_Text ''edge3''),
     User (H_SetPfx Pfx_Address) (Ev_Text ''10.0.0.7:9505'')] (adding added) = Some s'
   \<and> H_AddSubmit \<in> set (offers demo_browser s')"
  using added_file_is_forgotten [OF reachable_adding, of added 1
      "main_loaded\<lparr>m_add := typed_form\<lparr>a_busy := True\<rparr>\<rparr>" "''node.pfx''" "[]" added "''edge3''" "''10.0.0.7:9505''"]
  by (auto simp: adding_def typed_form_def add_init_def added_def json_ok_def resp_ok_def
      simp del: exec_all.simps split: if_splits)

text \<open>
  Two refreshes can overlap (a second node added while the list is still being fetched), and
  nothing orders their answers: when the earlier one is answered last, its older lists replace
  the newer ones, and stay on the screen with no error and nothing under way.
\<close>

theorem slow_refresh_overwrites:
  fixes older newer :: jsval
  assumes reach: "spa_reachable b P s" and main: "scr s = S_Main i m" and loading: "m_loading m"
    and ts: "tasks s = [\<lparr>t_inst = i, t_cont = K_Refresh Detached, t_slots = [Sent q1, Sent q2], t_rej = None\<rparr>,
      \<lparr>t_inst = i, t_cont = K_Refresh Detached, t_slots = [Sent q3, Sent q4], t_rej = None\<rparr>]"
    and renders: "lists_render (locale_date b) (m\<lparr>m_nodes := nullish_else older (Arr []), m_pending := Arr []\<rparr>)"
      "lists_render (locale_date b) (m\<lparr>m_nodes := nullish_else newer (Arr []), m_pending := Arr []\<rparr>)"
  shows "exec_all b ([Reply 1 0 (Answer (json_ok newer)), Reply 1 1 (Answer (json_ok Null)), Run 1, Run 1, Run 1]
      @ [Reply 0 0 (Answer (json_ok older)), Reply 0 1 (Answer (json_ok Null)), Run 0, Run 0, Run 0]) s =
    Some (s\<lparr>tasks := [], scr := S_Main i (m\<lparr>m_nodes := nullish_else older (Arr []), m_pending := Arr [],
      m_error := None, m_loading := False\<rparr>)\<rparr>)"
proof -
  show ?thesis
    using main reachable_main(1) [OF reach main] loading ts renders
    by (simp add: resume_defs upd_defs runnable_def drop_task_def Let_def commit_main json_ok_def resp_ok_def
        awaited_def settle_task_def nullish_else_def lists_render_def)
qed

definition adding_again :: "event list" where
  "adding_again = Run 0 # fill_form @ [Reply 1 0 (Answer added), Run 1]"

definition overlapping :: spa where
  "overlapping = listed\<lparr>scr := S_Main 1 (main_loaded\<lparr>m_loading := True,
       m_add := add_init\<lparr>a_dom_file := Some ''node.pfx''\<rparr>\<rparr>),
     tasks := replicate 2 \<lparr>t_inst = 1, t_cont = K_Refresh Detached,
       t_slots = [Sent (req_get ''/api/nodes''), Sent (req_get ''/api/pending'')], t_rej = None\<rparr>\<rparr>"

lemma run_overlapping: "exec_all demo_browser adding_again (adding added) = Some overlapping"
proof -
  have offered: "H_SetPfxFile \<in> set (offers demo_browser s)" "H_SetPfx f \<in> set (offers demo_browser s)"
    "add_submittable (m_add m) \<longrightarrow> H_AddSubmit \<in> set (offers demo_browser s)"
    if "scr s = S_Main 1 m" "a_mode (m_add m) = Pfx" "m_loading m" for s m f
    using form_offers [OF that(2) that(1), of demo_browser] that by (simp_all add: render_def MainApp_None)
  show ?thesis
    by (simp add: fill_form_def offered fire_def fire_main_def add_submit_def add_submittable_def listed_def
        main_loaded_def main_init_def add_init_def commit_main resume_defs upd_defs set_pfx_def drop_task_def
        runnable_def Let_def adding_def adding_again_def overlapping_def typed_form_def typed_pfx_def
        emptyPfxForm_def AuthGate_def str_or_falsy_def demo_status_def awaited_def settle_task_def
        added_def json_ok_def resp_ok_def numeral_2_eq_2)
qed

theorem slow_refresh_overwrites_witness:
  "\<exists>evs t. exec_all demo_browser (evs @ [Reply 0 0 (Answer (json_ok Null)), Reply 0 1 (Answer (json_ok Null)),
       Run 0, Run 0, Run 0]) overlapping = Some t
     \<and> Reply 1 0 (Answer (json_ok (Arr [demo_node]))) \<in> set evs \<and> idle demo_browser t"
  using slow_refresh_overwrites [OF reachable_exec_all [OF reachable_adding run_overlapping], of 1 _ _ _ _ _
      Null "Arr [demo_node]"]
  by (intro exI [where x = "[Reply 1 0 (Answer (json_ok (Arr [demo_node]))), Reply 1 1 (Answer (json_ok Null)),
      Run 1, Run 1, Run 1]"])
    (simp add: overlapping_def listed_def main_loaded_def main_init_def numeral_2_eq_2 nullish_else_def
      lists_render_def NodeList_def node_row_def PendingList_def demo_node_def idle_def settled_screen_def gate_loads_def add_init_def
      del: exec_all.simps)

section \<open>The gate\<close>

text \<open>
  A status request that fails when the page loads is final: the page shows the error and
  offers no control, nothing is under way, and no step but reloading the page is possible.
\<close>

theorem gate_error_is_final:
  assumes "m \<noteq> []"
  shows "\<exists>s. exec_all b [Reply 0 0 (Net_Error m), Run 0] spa_init = Some s
    \<and> render b s = Some (Elem ''p'' [cls ''error''] [Text m])
    \<and> (\<forall>ev. exec b ev s \<noteq> None \<longleftrightarrow> ev = Reload)"
proof -
  define s where "s = spa_init\<lparr>g_error := Some m, tasks := []\<rparr>"
  have run: "exec_all b [Reply 0 0 (Net_Error m), Run 0] spa_init = Some s"
    using assms by (simp add: run_defs s_def)
  have view: "render b s = Some (Elem ''p'' [cls ''error''] [Text m])"
    using assms by (simp add: run_defs s_def)
  have "exec b ev s \<noteq> None \<longleftrightarrow> ev = Reload" for ev
    using view by (cases ev) (auto simp: s_def awaited_def offers_def cls_def live_simps)
  with run view show ?thesis by blast
qed

theorem gate_error_is_final_witness:
  "exec_all demo_browser [Reply 0 0 (Net_Error ''offline''), Run 0] spa_init \<noteq> None"
  using gate_error_is_final [of "''offline''" demo_browser] by (auto simp del: exec_all.simps)

text \<open>
  Signing out ends in the state of a fresh page load (the windows opened and the clipboard
  apart), whatever the server answers and whatever else is under way; only a request that never
  reached the server leaves the page as it was.
\<close>

theorem logout_resets:
  assumes "k < length (tasks s)" and "tasks s ! k = \<lparr>t_inst = i, t_cont = K_Logout, t_slots = [x], t_rej = rej\<rparr>"
    and settled: "(\<exists>r. x = Got r \<and> rej = None) \<or> (\<exists>m. rej = Some m)"
    and reach: "spa_reachable b P s"
  shows "exec b (Run k) s = Some (if rej = None then reload s else drop_task k s)"
proof -
  have "screen_matches (drop_task k s)" "rendered b (drop_task k s)"
    using reachable_matches [OF reach] reachable_renders [OF reach] by (simp_all add: drop_task_def)
  moreover have "screen_matches (reload u)" "rendered b (reload u)" for u
    using screen_matches_init rendered_start(2) [of b u] by (simp_all add: reload_def)
  ultimately show ?thesis
    using assms(1,2) settled commit_same
    by (auto simp: resume_def resume_rejected_def resume_fetched_def runnable_def) (simp add: reload_def drop_task_def)
qed

definition signing_out :: spa where
  "signing_out = listed\<lparr>tasks := [\<lparr>t_inst = 1, t_cont = K_Logout, t_slots = [Got refused], t_rej = None\<rparr>]\<rparr>"

lemma run_signing_out: "exec_all demo_browser [User H_Logout Ev_None, Reply 0 0 (Answer refused)] listed = Some signing_out"
proof -
  have "H_Logout \<in> set (offers demo_browser listed)"
    by (simp add: offers_def render_def listed_def main_loaded_def main_init_def MainApp_def NodeList_def
        PendingList_def node_row_def demo_node_def live_simps view_defs ProvisionInfo_def str_or_falsy_def)
  then show ?thesis
    by (simp add: fire_def fire_main_def listed_def signing_out_def commit_main listed_renders main_loaded_def
        main_init_def AuthGate_def str_or_falsy_def demo_status_def spawn_def awaited_def settle_task_def)
qed

theorem logout_resets_witness: "exec demo_browser (Run 0) signing_out = Some (reload signing_out)"
  using logout_resets [OF _ _ _ reachable_exec_all [OF reachable_listed run_signing_out], of 0 1 "Got refused" None]
  by (simp add: signing_out_def)

end
