(* ===== verification/Registry.thy ===== *)
theory Registry
  imports Prelude
begin

text \<open>
  The two registries the Controller keeps under its data directory: \<open>internal/store\<close> (nodes
  it manages) and \<open>internal/pending\<close> (nodes that announced themselves). Each is a map in
  memory and, per entry, a directory with \<open>meta.json\<close> and three PEM files. What the operating
  system decides is an argument: the random identifier, and which write or removal fails and
  what it leaves behind.
\<close>

section \<open>Files\<close>

text \<open>
  A file is the JSON of a \<open>meta\<close> value or other bytes. An entry of the registry's directory is
  a directory of named files or a plain file.
\<close>

datatype 'm content = Meta 'm | Bytes string

type_synonym 'm nodedir = "(string, 'm content) gomap"

datatype 'm dirent = Dir "'m nodedir" | Plain_File

type_synonym 'm disk = "(string, 'm dirent) gomap"

text \<open>
  What a call meets: \<open>rand.Read\<close> (\<open>None\<close> if it fails, else the hex identifier), whether
  \<open>MkdirAll\<close> succeeds, and the first \<open>WriteFile\<close> to fail, with what is then in that file
  (\<open>None\<close> if it was not even created).
\<close>

record os_env =
  os_id :: "string option"
  os_mkdir :: bool
  os_fault :: "(nat \<times> string option) option"

definition os_fine :: "string \<Rightarrow> os_env" where
  "os_fine i = \<lparr>os_id = Some i, os_mkdir = True, os_fault = None\<rparr>"

text \<open>\<open>MkdirAll\<close> keeps what a directory already holds.\<close>

definition mkdir_all :: "string \<Rightarrow> 'm disk \<Rightarrow> 'm disk" where
  "mkdir_all i d = (case gm_get d i of Some (Dir _) \<Rightarrow> d | _ \<Rightarrow> gm_put i (Dir []) d)"

fun write_files :: "(nat \<times> string option) option \<Rightarrow> (string \<times> 'm content) list \<Rightarrow> 'm nodedir
    \<Rightarrow> string option \<times> 'm nodedir" where
  "write_files flt [] d = (None, d)"
| "write_files flt ((name, f) # ws) d = (case flt of
       Some (0, left) \<Rightarrow> (Some name, case left of None \<Rightarrow> d | Some b \<Rightarrow> gm_put name (Bytes b) d)
     | Some (Suc k, left) \<Rightarrow> write_files (Some (k, left)) ws (gm_put name f d)
     | None \<Rightarrow> write_files None ws (gm_put name f d))"

definition write_dir :: "(nat \<times> string option) option \<Rightarrow> string \<Rightarrow> (string \<times> 'm content) list \<Rightarrow> 'm disk
    \<Rightarrow> string option \<times> 'm disk" where
  "write_dir flt i ws d =
     (let old = (case gm_get d i of Some (Dir fs) \<Rightarrow> fs | _ \<Rightarrow> []); (e, fs) = write_files flt ws old
      in (e, gm_put i (Dir fs) d))"

text \<open>
  \<open>RemoveAll\<close> removes the whole directory, or fails having removed all but the named files.
\<close>

definition remove_all :: "string list option \<Rightarrow> string \<Rightarrow> 'm disk \<Rightarrow> 'm disk" where
  "remove_all kept i d = (case kept of
       None \<Rightarrow> gm_del i d
     | Some names \<Rightarrow> (case gm_get d i of
           Some (Dir fs) \<Rightarrow> gm_put i (Dir (filter (\<lambda>f. fst f \<in> set names) fs)) d
         | _ \<Rightarrow> d))"

definition read_bytes :: "string \<Rightarrow> 'm nodedir \<Rightarrow> string + string" where
  "read_bytes name fs = (case gm_get fs name of
       Some (Bytes b) \<Rightarrow> Inr b | _ \<Rightarrow> Inl (''read '' @ name))"

definition read_meta :: "'m nodedir \<Rightarrow> string + 'm" where
  "read_meta fs = (case gm_get fs ''meta.json'' of
       Some (Meta m) \<Rightarrow> Inr m | Some (Bytes _) \<Rightarrow> Inl ''parse meta.json'' | None \<Rightarrow> Inl ''read meta.json'')"

definition pem_writes :: "'m \<Rightarrow> string \<Rightarrow> string \<Rightarrow> string \<Rightarrow> (string \<times> 'm content) list" where
  "pem_writes m ca cert key = [(''meta.json'', Meta m), (''ca.crt'', Bytes ca), (''service.crt'', Bytes cert),
     (''service.key'', Bytes key)]"

section \<open>Registered nodes (internal/store)\<close>

record node =
  n_id :: string
  n_name :: string
  n_address :: string
  n_port :: int
  n_ca :: string
  n_cert :: string
  n_key :: string

record node_meta =
  nm_id :: string
  nm_name :: string
  nm_address :: string
  nm_port :: int

record store =
  st_disk :: "node_meta disk"
  st_nodes :: "(string, node) gomap"

definition node_meta_of :: "node \<Rightarrow> node_meta" where
  "node_meta_of n = \<lparr>nm_id = n_id n, nm_name = n_name n, nm_address = n_address n, nm_port = n_port n\<rparr>"

definition load_node :: "node_meta nodedir \<Rightarrow> string + node" where
  "load_node fs = bind_r (read_meta fs) (\<lambda>m. bind_r (read_bytes ''ca.crt'' fs) (\<lambda>ca.
     bind_r (read_bytes ''service.crt'' fs) (\<lambda>cert. bind_r (read_bytes ''service.key'' fs) (\<lambda>key.
       Inr \<lparr>n_id = nm_id m, n_name = nm_name m, n_address = nm_address m, n_port = nm_port m,
         n_ca = ca, n_cert = cert, n_key = key\<rparr>))))"

text \<open>\<open>Open\<close> reads the entries in the order the directory lists them.\<close>

fun load_nodes :: "node_meta disk \<Rightarrow> (string, node) gomap \<Rightarrow> string + (string, node) gomap" where
  "load_nodes [] acc = Inr acc"
| "load_nodes ((name, Plain_File) # es) acc = load_nodes es acc"
| "load_nodes ((name, Dir fs) # es) acc = (case load_node fs of
       Inl e \<Rightarrow> Inl (''load node '' @ name @ '': '' @ e)
     | Inr n \<Rightarrow> load_nodes es (gm_put (n_id n) n acc))"

definition store_open :: "node_meta disk \<Rightarrow> string + store" where
  "store_open d = bind_r (load_nodes d []) (\<lambda>ns. Inr \<lparr>st_disk = d, st_nodes = ns\<rparr>)"

definition store_list :: "store \<Rightarrow> node list" where
  "store_list s = sort_key n_name (map snd (st_nodes s))"

definition store_get :: "store \<Rightarrow> string \<Rightarrow> node option" where
  "store_get s i = gm_get (st_nodes s) i"

definition store_used_ports :: "store \<Rightarrow> int list" where
  "store_used_ports s = remdups (map (n_port \<circ> snd) (st_nodes s))"

definition store_add :: "os_env \<Rightarrow> node \<Rightarrow> store \<Rightarrow> store \<times> (string + node)" where
  "store_add e n s = (case os_id e of
       None \<Rightarrow> (s, Inl ''generate node id'')
     | Some i \<Rightarrow>
         let n' = n\<lparr>n_id := i\<rparr> in
         if \<not> os_mkdir e then (s, Inl (''mkdir nodes/'' @ i))
         else case write_dir (os_fault e) i (pem_writes (node_meta_of n') (n_ca n) (n_cert n) (n_key n))
                     (mkdir_all i (st_disk s)) of
             (Some name, d) \<Rightarrow> (s\<lparr>st_disk := d\<rparr>, Inl (''write '' @ name))
           | (None, d) \<Rightarrow> (s\<lparr>st_disk := d, st_nodes := gm_put i n' (st_nodes s)\<rparr>, Inr n'))"

definition store_remove :: "string list option \<Rightarrow> string \<Rightarrow> store \<Rightarrow> store \<times> (string + unit)" where
  "store_remove kept i s =
     (let s' = s\<lparr>st_nodes := gm_del i (st_nodes s)\<rparr> in
      if gm_get (st_nodes s) i = None then (s', Inl (''no such node '' @ go_quote i))
      else (s'\<lparr>st_disk := remove_all kept i (st_disk s)\<rparr>,
            if kept = None then Inr () else Inl (''unlink nodes/'' @ i)))"

section \<open>Announced nodes (internal/pending)\<close>

record pnode =
  p_id :: string
  p_name :: string
  p_address :: string
  p_ca :: string
  p_cert :: string
  p_key :: string
  p_announced :: int

record pnode_meta =
  pm_id :: string
  pm_name :: string
  pm_address :: string
  pm_announced :: int

record pstore =
  ps_disk :: "pnode_meta disk"
  ps_nodes :: "(string, pnode) gomap"

definition pnode_meta_of :: "pnode \<Rightarrow> pnode_meta" where
  "pnode_meta_of n =
     \<lparr>pm_id = p_id n, pm_name = p_name n, pm_address = p_address n, pm_announced = p_announced n\<rparr>"

definition load_pnode :: "pnode_meta nodedir \<Rightarrow> string + pnode" where
  "load_pnode fs = bind_r (read_meta fs) (\<lambda>m. bind_r (read_bytes ''ca.crt'' fs) (\<lambda>ca.
     bind_r (read_bytes ''service.crt'' fs) (\<lambda>cert. bind_r (read_bytes ''service.key'' fs) (\<lambda>key.
       Inr \<lparr>p_id = pm_id m, p_name = pm_name m, p_address = pm_address m, p_ca = ca, p_cert = cert,
         p_key = key, p_announced = pm_announced m\<rparr>))))"

fun load_pnodes :: "pnode_meta disk \<Rightarrow> (string, pnode) gomap \<Rightarrow> string + (string, pnode) gomap" where
  "load_pnodes [] acc = Inr acc"
| "load_pnodes ((name, Plain_File) # es) acc = load_pnodes es acc"
| "load_pnodes ((name, Dir fs) # es) acc = (case load_pnode fs of
       Inl e \<Rightarrow> Inl (''load pending node '' @ name @ '': '' @ e)
     | Inr n \<Rightarrow> load_pnodes es (gm_put (p_id n) n acc))"

definition pending_open :: "pnode_meta disk \<Rightarrow> string + pstore" where
  "pending_open d = bind_r (load_pnodes d []) (\<lambda>ns. Inr \<lparr>ps_disk = d, ps_nodes = ns\<rparr>)"

definition pending_list :: "pstore \<Rightarrow> pnode list" where
  "pending_list s = sort_key p_announced (map snd (ps_nodes s))"

definition pending_get :: "pstore \<Rightarrow> string \<Rightarrow> pnode option" where
  "pending_get s i = gm_get (ps_nodes s) i"

definition pending_add :: "os_env \<Rightarrow> int \<Rightarrow> pnode \<Rightarrow> pstore \<Rightarrow> pstore \<times> (string + pnode)" where
  "pending_add e now n s = (case os_id e of
       None \<Rightarrow> (s, Inl ''generate pending id'')
     | Some i \<Rightarrow>
         let n' = n\<lparr>p_id := i, p_announced := now\<rparr> in
         if \<not> os_mkdir e then (s, Inl (''mkdir pending/'' @ i))
         else case write_dir (os_fault e) i (pem_writes (pnode_meta_of n') (p_ca n) (p_cert n) (p_key n))
                     (mkdir_all i (ps_disk s)) of
             (Some name, d) \<Rightarrow> (s\<lparr>ps_disk := d\<rparr>, Inl (''write '' @ name))
           | (None, d) \<Rightarrow> (s\<lparr>ps_disk := d, ps_nodes := gm_put i n' (ps_nodes s)\<rparr>, Inr n'))"

definition pending_remove :: "string list option \<Rightarrow> string \<Rightarrow> pstore \<Rightarrow> pstore \<times> (string + unit)" where
  "pending_remove kept i s =
     (let s' = s\<lparr>ps_nodes := gm_del i (ps_nodes s)\<rparr> in
      if gm_get (ps_nodes s) i = None then (s', Inl (''no such pending node '' @ go_quote i))
      else (s'\<lparr>ps_disk := remove_all kept i (ps_disk s)\<rparr>,
            if kept = None then Inr () else Inl (''unlink pending/'' @ i)))"

section \<open>Reading the directory back\<close>

text \<open>
  The interface of \<open>Open\<close>: what loading one directory after another into a map does, given
  how one directory is loaded.
\<close>

locale loader =
  fixes load1 :: "'m nodedir \<Rightarrow> string + 'n" and ident :: "'n \<Rightarrow> string"
    and run :: "'m disk \<Rightarrow> (string, 'n) gomap \<Rightarrow> string + (string, 'n) gomap"
  assumes run_Nil: "run [] acc = Inr acc"
    and run_plain: "run ((name, Plain_File) # es) acc = run es acc"
    and run_good: "load1 fs = Inr n \<Longrightarrow> run ((name, Dir fs) # es) acc = run es (gm_put (ident n) n acc)"
    and run_bad: "load1 fs = Inl e \<Longrightarrow> \<exists>e'. run ((name, Dir fs) # es) acc = Inl e'"
begin

definition loads :: "'m disk \<Rightarrow> bool" where
  "loads d \<longleftrightarrow> (\<forall>(i, x) \<in> set d. \<forall>fs. x = Dir fs \<longrightarrow> (\<exists>n. load1 fs = Inr n \<and> ident n = i))"

lemma loads_get: "gm_ok d \<Longrightarrow> loads d \<longleftrightarrow> (\<forall>i fs. gm_get d i = Some (Dir fs) \<longrightarrow> (\<exists>n. load1 fs = Inr n \<and> ident n = i))"
  by (auto simp: loads_def gm_get_Some_iff)

definition entry :: "'m disk \<Rightarrow> string \<Rightarrow> 'n option" where
  "entry d i = (case gm_get d i of Some (Dir fs) \<Rightarrow> Some (projr (load1 fs)) | _ \<Rightarrow> None)"

lemma run_loads:
  "gm_ok d \<Longrightarrow> loads d \<Longrightarrow> gm_ok acc \<Longrightarrow> \<exists>ns. run d acc = Inr ns \<and> gm_ok ns \<and>
     (\<forall>i. gm_get ns i = (case entry d i of Some n \<Rightarrow> Some n | None \<Rightarrow> gm_get acc i))"
proof (induction d arbitrary: acc)
  case Nil
  then show ?case by (simp add: run_Nil entry_def)
next
  case (Cons e d)
  obtain i x where e: "e = (i, x)" by (cases e)
  have d: "gm_ok d" "loads d" and fresh: "gm_get d i = None"
    using Cons.prems(1,2) e by (auto simp: gm_ok_def loads_def gm_get_None_iff)
  have entry_e: "entry (e # d) j = (if j = i then (case x of Dir fs \<Rightarrow> Some (projr (load1 fs)) | _ \<Rightarrow> None)
      else entry d j)" for j
    by (simp add: e entry_def gm_get_def)
  show ?case
  proof (cases x)
    case (Dir fs)
    with Cons.prems(2) e obtain n where n: "load1 fs = Inr n" "ident n = i" by (auto simp: loads_def)
    with Dir e have "run (e # d) acc = run d (gm_put i n acc)" by (simp add: run_good)
    moreover obtain ns where "run d (gm_put i n acc) = Inr ns" "gm_ok ns"
      "\<forall>j. gm_get ns j = (case entry d j of Some n \<Rightarrow> Some n | None \<Rightarrow> gm_get (gm_put i n acc) j)"
      using Cons.IH [OF d, of "gm_put i n acc"] Cons.prems(3) by auto
    moreover have "entry d i = None" using fresh by (simp add: entry_def)
    ultimately show ?thesis using Dir n by (auto simp: entry_e split: option.splits)
  next
    case Plain_File
    with e have "run (e # d) acc = run d acc" by (simp add: run_plain)
    moreover obtain ns where "run d acc = Inr ns" "gm_ok ns"
      "\<forall>j. gm_get ns j = (case entry d j of Some n \<Rightarrow> Some n | None \<Rightarrow> gm_get acc j)"
      using Cons.IH [OF d Cons.prems(3)] by auto
    moreover have "entry d i = None" using fresh by (simp add: entry_def)
    ultimately show ?thesis using Plain_File by (auto simp: entry_e split: option.splits)
  qed
qed

lemma run_fresh: "gm_ok d \<Longrightarrow> loads d \<Longrightarrow> \<exists>ns. run d [] = Inr ns \<and> gm_ok ns \<and> (\<forall>i. gm_get ns i = entry d i)"
  using run_loads [of d "[]"] by (auto split: option.splits) (metis option.exhaust)

lemma run_stops: "(i, Dir fs) \<in> set d \<Longrightarrow> load1 fs = Inl e \<Longrightarrow> \<exists>e'. run d acc = Inl e'"
proof (induction d arbitrary: acc)
  case Nil
  then show ?case by simp
next
  case (Cons x d)
  obtain j y where x: "x = (j, y)" by (cases x)
  show ?case
  proof (cases "x = (i, Dir fs)")
    case True
    with Cons.prems(2) show ?thesis using run_bad by blast
  next
    case False
    with Cons.prems(1) have i: "(i, Dir fs) \<in> set d" by auto
    show ?thesis
    proof (cases y)
      case (Dir gs)
      show ?thesis
      proof (cases "load1 gs")
        case (Inl a)
        with x Dir show ?thesis using run_bad by blast
      next
        case (Inr n)
        with x Dir Cons.IH [OF i Cons.prems(2)] show ?thesis by (simp add: run_good)
      qed
    qed (use x Cons.IH [OF i Cons.prems(2)] in \<open>simp add: run_plain\<close>)
  qed
qed

end

interpretation nodes_dir: loader load_node n_id load_nodes
  by unfold_locales simp_all

interpretation pending_dir: loader load_pnode p_id load_pnodes
  by unfold_locales simp_all

section \<open>What the writes leave on disk\<close>

lemma get_mkdir_all [simp]: "gm_get (mkdir_all i d) j =
   (if j = i then (case gm_get d i of Some (Dir fs) \<Rightarrow> Some (Dir fs) | _ \<Rightarrow> Some (Dir [])) else gm_get d j)"
  by (auto simp: mkdir_all_def split: option.splits dirent.splits)

lemma ok_mkdir_all [simp]: "gm_ok d \<Longrightarrow> gm_ok (mkdir_all i d)"
  by (simp add: mkdir_all_def split: option.splits dirent.splits)

lemma ok_write_dir: "gm_ok d \<Longrightarrow> gm_ok (snd (write_dir flt i ws d))"
  by (auto simp: write_dir_def Let_def split: prod.splits)

lemma get_write_dir:
  "gm_get (snd (write_dir flt i ws d)) j = (if j = i then Some (Dir (snd (write_files flt ws
     (case gm_get d i of Some (Dir fs) \<Rightarrow> fs | _ \<Rightarrow> [])))) else gm_get d j)"
  by (auto simp: write_dir_def Let_def split: prod.splits)

lemma fst_write_dir: "fst (write_dir flt i ws d) = fst (write_files flt ws
     (case gm_get d i of Some (Dir fs) \<Rightarrow> fs | _ \<Rightarrow> []))"
  by (simp add: write_dir_def Let_def split: prod.splits)

lemma write_files_fine [simp]: "fst (write_files None ws d) = None"
  by (induction ws arbitrary: d) auto

lemma read_written:
  "snd (write_files None (pem_writes m ca cert key) d) = gm_put ''service.key'' (Bytes key)
     (gm_put ''service.crt'' (Bytes cert) (gm_put ''ca.crt'' (Bytes ca) (gm_put ''meta.json'' (Meta m) d)))"
  by (simp add: pem_writes_def)

lemma load_node_written [simp]:
  "load_node (snd (write_files None (pem_writes (node_meta_of n) (n_ca n) (n_cert n) (n_key n)) d)) = Inr n"
  by (simp add: read_written load_node_def read_meta_def read_bytes_def node_meta_of_def)

lemma load_pnode_written [simp]:
  "load_pnode (snd (write_files None (pem_writes (pnode_meta_of n) (p_ca n) (p_cert n) (p_key n)) d)) = Inr n"
  by (simp add: read_written load_pnode_def read_meta_def read_bytes_def pnode_meta_of_def)

lemma get_remove_all: "gm_get (remove_all kept i d) j = (if j = i then (case kept of None \<Rightarrow> None
     | Some names \<Rightarrow> (case gm_get d i of Some (Dir fs) \<Rightarrow> Some (Dir (filter (\<lambda>f. fst f \<in> set names) fs)) | r \<Rightarrow> r))
   else gm_get d j)"
  by (auto simp: remove_all_def split: option.splits dirent.splits)

lemma ok_remove_all [simp]: "gm_ok d \<Longrightarrow> gm_ok (remove_all kept i d)"
  by (simp add: remove_all_def split: option.splits dirent.splits)

section \<open>The contract of a registry\<close>

text \<open>
  What the Controller's handlers rely on, whichever of the two registries they use: lookups
  after an insertion and a removal, failed insertions that leave the map alone, and a directory
  that stays in step with the map as long as the file system does what it is asked.
\<close>

datatype ('e, 'n) reg_op = Op_Add 'e 'n | Op_Remove string

fun run_ops :: "('e \<Rightarrow> 'n \<Rightarrow> 's \<Rightarrow> 's \<times> (string + 'n)) \<Rightarrow> (string list option \<Rightarrow> string \<Rightarrow> 's \<Rightarrow> 's \<times> (string + unit))
    \<Rightarrow> ('e, 'n) reg_op list \<Rightarrow> 's \<Rightarrow> 's" where
  "run_ops add rm [] s = s"
| "run_ops add rm (Op_Add e n # ops) s = run_ops add rm ops (fst (add e n s))"
| "run_ops add rm (Op_Remove i # ops) s = run_ops add rm ops (fst (rm None i s))"

locale registry =
  fixes lookup :: "'s \<Rightarrow> string \<Rightarrow> 'n option" and ident :: "'n \<Rightarrow> string" and os :: "'e \<Rightarrow> os_env"
    and add :: "'e \<Rightarrow> 'n \<Rightarrow> 's \<Rightarrow> 's \<times> (string + 'n)"
    and rm :: "string list option \<Rightarrow> string \<Rightarrow> 's \<Rightarrow> 's \<times> (string + unit)"
    and synced :: "'s \<Rightarrow> bool" and reopen :: "'s \<Rightarrow> string + 's"
  assumes add_ok: "add e n s = (s', Inr n') \<Longrightarrow> lookup s' j = (if j = ident n' then Some n' else lookup s j)"
    and add_err: "add e n s = (s', Inl m) \<Longrightarrow> lookup s' = lookup s"
    and add_ident: "add e n s = (s', Inr n') \<Longrightarrow> os_id (os e) = Some (ident n')"
    and rm_lookup: "lookup (fst (rm kept i s)) j = (if j = i then None else lookup s j)"
    and rm_ok: "snd (rm None i s) = Inr () \<longleftrightarrow> lookup s i \<noteq> None"
    and synced_add: "synced s \<Longrightarrow> os_fault (os e) = None \<Longrightarrow> synced (fst (add e n s))"
    and synced_rm: "synced s \<Longrightarrow> synced (fst (rm None i s))"
    and synced_reopen: "synced s \<Longrightarrow> \<exists>s'. reopen s = Inr s' \<and> lookup s' = lookup s \<and> synced s'"
begin

lemma roll_back:
  "add e n s = (s', Inr n') \<Longrightarrow> lookup s (ident n') = None \<Longrightarrow> lookup (fst (rm kept (ident n') s')) = lookup s"
  by (rule ext) (simp add: rm_lookup add_ok)

lemma restart_after:
  "synced s \<Longrightarrow> (\<And>e n. Op_Add e n \<in> set ops \<Longrightarrow> os_fault (os e) = None) \<Longrightarrow>
     \<exists>s'. reopen (run_ops add rm ops s) = Inr s' \<and> lookup s' = lookup (run_ops add rm ops s)"
proof (induction ops arbitrary: s)
  case Nil
  then show ?case using synced_reopen by fastforce
next
  case (Cons x ops)
  show ?case
  proof (cases x)
    case (Op_Add e n)
    with Cons.prems(2) have "os_fault (os e) = None" by auto
    with Cons.prems(1) have "synced (fst (add e n s))" by (rule synced_add)
    moreover have "os_fault (os e') = None" if "Op_Add e' n' \<in> set ops" for e' n'
      using Cons.prems(2) that by (meson list.set_intros(2))
    ultimately show ?thesis using Cons.IH Op_Add by simp
  next
    case (Op_Remove i)
    with Cons.prems have "synced (fst (rm None i s))" by (simp add: synced_rm)
    with Cons.IH Cons.prems(2) Op_Remove show ?thesis by simp
  qed
qed

end

definition store_synced :: "store \<Rightarrow> bool" where
  "store_synced s \<longleftrightarrow> gm_ok (st_nodes s) \<and> gm_ok (st_disk s) \<and> nodes_dir.loads (st_disk s)
     \<and> (\<forall>i. nodes_dir.entry (st_disk s) i = gm_get (st_nodes s) i)"

definition pending_synced :: "pstore \<Rightarrow> bool" where
  "pending_synced s \<longleftrightarrow> gm_ok (ps_nodes s) \<and> gm_ok (ps_disk s) \<and> pending_dir.loads (ps_disk s)
     \<and> (\<forall>i. pending_dir.entry (ps_disk s) i = gm_get (ps_nodes s) i)"

abbreviation node_writes :: "node \<Rightarrow> (string \<times> node_meta content) list" where
  "node_writes n \<equiv> pem_writes (node_meta_of n) (n_ca n) (n_cert n) (n_key n)"

abbreviation pnode_writes :: "pnode \<Rightarrow> (string \<times> pnode_meta content) list" where
  "pnode_writes n \<equiv> pem_writes (pnode_meta_of n) (p_ca n) (p_cert n) (p_key n)"

lemma store_add_result:
  "store_add e n s = (s', r) \<Longrightarrow> (case r of
     Inr n' \<Rightarrow> \<exists>i. os_id e = Some i \<and> n' = n\<lparr>n_id := i\<rparr> \<and>
       s' = s\<lparr>st_disk := snd (write_dir (os_fault e) i (node_writes n') (mkdir_all i (st_disk s))),
         st_nodes := gm_put i n' (st_nodes s)\<rparr>
   | Inl m \<Rightarrow> st_nodes s' = st_nodes s \<and> (os_fault e = None \<longrightarrow> s' = s))"
proof (cases "os_id e")
  case (Some i)
  define n' where "n' = n\<lparr>n_id := i\<rparr>"
  obtain x d where w: "write_dir (os_fault e) i (node_writes n') (mkdir_all i (st_disk s)) = (x, d)"
    by fastforce
  have "os_fault e = None \<Longrightarrow> x = None" using w fst_write_dir by (metis fst_conv write_files_fine)
  moreover assume "store_add e n s = (s', r)"
  ultimately show ?thesis using Some w
    by (cases x) (auto simp: store_add_def Let_def n'_def split: if_splits)
qed (auto simp: store_add_def)

lemma pending_add_result:
  "pending_add e now n s = (s', r) \<Longrightarrow> (case r of
     Inr n' \<Rightarrow> \<exists>i. os_id e = Some i \<and> n' = n\<lparr>p_id := i, p_announced := now\<rparr> \<and>
       s' = s\<lparr>ps_disk := snd (write_dir (os_fault e) i (pnode_writes n') (mkdir_all i (ps_disk s))),
         ps_nodes := gm_put i n' (ps_nodes s)\<rparr>
   | Inl m \<Rightarrow> ps_nodes s' = ps_nodes s \<and> (os_fault e = None \<longrightarrow> s' = s))"
proof (cases "os_id e")
  case (Some i)
  define n' where "n' = n\<lparr>p_id := i, p_announced := now\<rparr>"
  obtain x d where w: "write_dir (os_fault e) i (pnode_writes n') (mkdir_all i (ps_disk s)) = (x, d)"
    by fastforce
  have "os_fault e = None \<Longrightarrow> x = None" using w fst_write_dir by (metis fst_conv write_files_fine)
  moreover assume "pending_add e now n s = (s', r)"
  ultimately show ?thesis using Some w
    by (cases x) (auto simp: pending_add_def Let_def n'_def split: if_splits)
qed (auto simp: pending_add_def)

lemma store_synced_add: "store_synced s \<Longrightarrow> os_fault e = None \<Longrightarrow> store_synced (fst (store_add e n s))"
proof -
  assume s: "store_synced s" and f: "os_fault e = None"
  obtain s' r where a: "store_add e n s = (s', r)" by fastforce
  show ?thesis
  proof (cases r)
    case (Inl m)
    with store_add_result [OF a] f a s show ?thesis by simp
  next
    case (Inr n')
    with store_add_result [OF a] f obtain i where i: "n' = n\<lparr>n_id := i\<rparr>" and
      s': "s' = s\<lparr>st_disk := snd (write_dir None i (node_writes n') (mkdir_all i (st_disk s))),
        st_nodes := gm_put i n' (st_nodes s)\<rparr>" by auto
    have id: "n_id n' = i" by (simp add: i)
    have ok: "gm_ok (st_disk s')" "gm_ok (st_nodes s')" using s s' by (simp_all add: store_synced_def ok_write_dir)
    have "nodes_dir.loads (st_disk s')"
      using s id ok(1) by (auto simp: nodes_dir.loads_get s' get_write_dir store_synced_def split: if_splits)
    moreover have "nodes_dir.entry (st_disk s') j = gm_get (st_nodes s') j" for j
      using s by (auto simp: nodes_dir.entry_def s' get_write_dir store_synced_def)
    ultimately show ?thesis using ok a by (simp add: store_synced_def)
  qed
qed

lemma pending_synced_add:
  "pending_synced s \<Longrightarrow> os_fault e = None \<Longrightarrow> pending_synced (fst (pending_add e now n s))"
proof -
  assume s: "pending_synced s" and f: "os_fault e = None"
  obtain s' r where a: "pending_add e now n s = (s', r)" by fastforce
  show ?thesis
  proof (cases r)
    case (Inl m)
    with pending_add_result [OF a] f a s show ?thesis by simp
  next
    case (Inr n')
    with pending_add_result [OF a] f obtain i where i: "n' = n\<lparr>p_id := i, p_announced := now\<rparr>" and
      s': "s' = s\<lparr>ps_disk := snd (write_dir None i (pnode_writes n') (mkdir_all i (ps_disk s))),
        ps_nodes := gm_put i n' (ps_nodes s)\<rparr>" by auto
    have id: "p_id n' = i" by (simp add: i)
    have ok: "gm_ok (ps_disk s')" "gm_ok (ps_nodes s')" using s s' by (simp_all add: pending_synced_def ok_write_dir)
    have "pending_dir.loads (ps_disk s')"
      using s id ok(1) by (auto simp: pending_dir.loads_get s' get_write_dir pending_synced_def split: if_splits)
    moreover have "pending_dir.entry (ps_disk s') j = gm_get (ps_nodes s') j" for j
      using s by (auto simp: pending_dir.entry_def s' get_write_dir pending_synced_def)
    ultimately show ?thesis using ok a by (simp add: pending_synced_def)
  qed
qed

lemma store_synced_remove: "store_synced s \<Longrightarrow> store_synced (fst (store_remove None i s))"
  by (auto simp: store_remove_def Let_def store_synced_def nodes_dir.loads_get nodes_dir.entry_def
      get_remove_all split: if_splits)

lemma pending_synced_remove: "pending_synced s \<Longrightarrow> pending_synced (fst (pending_remove None i s))"
  by (auto simp: pending_remove_def Let_def pending_synced_def pending_dir.loads_get pending_dir.entry_def
      get_remove_all split: if_splits)

lemma store_synced_reopen: "store_synced s \<Longrightarrow> \<exists>s'. store_open (st_disk s) = Inr s' \<and> store_get s' = store_get s \<and> store_synced s'"
  using nodes_dir.run_fresh [of "st_disk s"]
  by (auto simp: store_synced_def store_open_def store_get_def fun_eq_iff)

lemma pending_synced_reopen:
  "pending_synced s \<Longrightarrow> \<exists>s'. pending_open (ps_disk s) = Inr s' \<and> pending_get s' = pending_get s \<and> pending_synced s'"
  using pending_dir.run_fresh [of "ps_disk s"]
  by (auto simp: pending_synced_def pending_open_def pending_get_def fun_eq_iff)

interpretation nodes: registry store_get n_id "\<lambda>e. e" store_add store_remove store_synced "\<lambda>s. store_open (st_disk s)"
proof unfold_locales
  fix e n s s' n' j m
  show "store_add e n s = (s', Inr n') \<Longrightarrow> store_get s' j = (if j = n_id n' then Some n' else store_get s j)"
    by (drule store_add_result) (auto simp: store_get_def)
  show "store_add e n s = (s', Inl m) \<Longrightarrow> store_get s' = store_get s"
    by (drule store_add_result) (auto simp: store_get_def)
  show "store_add e n s = (s', Inr n') \<Longrightarrow> os_id e = Some (n_id n')"
    by (drule store_add_result) auto
  show "store_synced s \<Longrightarrow> store_synced (fst (store_remove None j s))" by (rule store_synced_remove)
qed (auto simp: store_get_def store_remove_def Let_def store_synced_add store_synced_reopen)

interpretation announced: registry pending_get p_id fst "\<lambda>e. pending_add (fst e) (snd e)" pending_remove
  pending_synced "\<lambda>s. pending_open (ps_disk s)"
proof unfold_locales
  fix e :: "os_env \<times> int" and n s s' n' j m
  show "pending_add (fst e) (snd e) n s = (s', Inr n') \<Longrightarrow>
      pending_get s' j = (if j = p_id n' then Some n' else pending_get s j)"
    by (drule pending_add_result) (auto simp: pending_get_def)
  show "pending_add (fst e) (snd e) n s = (s', Inl m) \<Longrightarrow> pending_get s' = pending_get s"
    by (drule pending_add_result) (auto simp: pending_get_def)
  show "pending_add (fst e) (snd e) n s = (s', Inr n') \<Longrightarrow> os_id (fst e) = Some (p_id n')"
    by (drule pending_add_result) auto
  show "pending_synced s \<Longrightarrow> pending_synced (fst (pending_remove None j s))" by (rule pending_synced_remove)
qed (auto simp: pending_get_def pending_remove_def Let_def pending_synced_add pending_synced_reopen)

section \<open>Restarts\<close>

definition store_empty :: store where
  "store_empty = \<lparr>st_disk = [], st_nodes = []\<rparr>"

definition pending_empty :: pstore where
  "pending_empty = \<lparr>ps_disk = [], ps_nodes = []\<rparr>"

lemma empty_synced: "store_synced store_empty" "pending_synced pending_empty"
  by (simp_all add: store_synced_def pending_synced_def store_empty_def pending_empty_def nodes_dir.loads_def
      nodes_dir.entry_def pending_dir.loads_def pending_dir.entry_def)

text \<open>
  C21: A restart loses nothing as long as no write or removal of a file has failed: after any
  sequence of additions and removals of which that holds (random identifiers and directory creation
  may still fail), opening the data directory again gives registries with exactly the same entries,
  down to the certificates and keys.
\<close>

theorem registry_survives_restart:
  assumes "\<And>e n. Op_Add e n \<in> set ops \<Longrightarrow> os_fault e = None"
    and "\<And>e now n. Op_Add (e, now) n \<in> set pops \<Longrightarrow> os_fault e = None"
  shows "(\<exists>s'. store_open (st_disk (run_ops store_add store_remove ops store_empty)) = Inr s'
      \<and> store_get s' = store_get (run_ops store_add store_remove ops store_empty))
    \<and> (\<exists>s'. pending_open (ps_disk (run_ops (\<lambda>e. pending_add (fst e) (snd e)) pending_remove pops pending_empty)) = Inr s'
      \<and> pending_get s' = pending_get (run_ops (\<lambda>e. pending_add (fst e) (snd e)) pending_remove pops pending_empty))"
  using nodes.restart_after [OF empty_synced(1), of ops] announced.restart_after [OF empty_synced(2), of pops] assms
  by fastforce

definition demo_reg_node :: node where
  "demo_reg_node = \<lparr>n_id = [], n_name = ''edge'', n_address = ''10.0.0.5:9505'', n_port = 9500, n_ca = ''CA'',
     n_cert = ''CERT'', n_key = ''KEY''\<rparr>"

theorem registry_survives_restart_witness:
  "\<exists>s'. store_open (st_disk (run_ops store_add store_remove [Op_Add (os_fine ''a1'') demo_reg_node] store_empty)) = Inr s'
    \<and> store_get s' ''a1'' = Some (demo_reg_node\<lparr>n_id := ''a1''\<rparr>)"
proof -
  have "store_get (run_ops store_add store_remove [Op_Add (os_fine ''a1'') demo_reg_node] store_empty) ''a1''
      = Some (demo_reg_node\<lparr>n_id := ''a1''\<rparr>)"
    by (simp add: store_add_def os_fine_def store_empty_def write_dir_def pem_writes_def store_get_def Let_def)
  then show ?thesis
    using registry_survives_restart [of "[Op_Add (os_fine ''a1'') demo_reg_node]" "[]"]
    by (auto simp: os_fine_def simp del: run_ops.simps)
qed

lemma load_half_written:
  assumes "k < 3 \<or> k = 3 \<and> left = None"
  shows "\<exists>e. load_node (snd (write_files (Some (k, left)) (node_writes n) [])) = Inl e"
proof -
  consider "k = 0" | "k = 1" | "k = 2" | "k = 3" "left = None" using assms by linarith
  then show ?thesis
    by cases (auto simp: pem_writes_def load_node_def read_meta_def read_bytes_def numeral_2_eq_2 numeral_3_eq_3
        split: option.splits)
qed

lemma write_files_fault: "k < length ws \<Longrightarrow> \<exists>name. fst (write_files (Some (k, left)) ws d) = Some name"
  by (induction ws arbitrary: k d) (auto split: nat.splits)

text \<open>
  An addition that fails half-way (a full disk while the files are written) reports its
  error and keeps the map as it was, but leaves its directory behind: the next start fails to
  open the registry at all, and no removal through the registry can repair it, because the
  entry was never in the map.
\<close>

theorem half_written_node_blocks_open:
  assumes "store_synced s" and "os_id e = Some i" and "os_mkdir e" and "gm_get (st_disk s) i = None"
    and "os_fault e = Some (k, left)" and "k < 3 \<or> k = 3 \<and> left = None"
  shows "\<exists>s' m. store_add e n s = (s', Inl m) \<and> store_get s' = store_get s
    \<and> (\<exists>err. store_open (st_disk s') = Inl err)
    \<and> (\<forall>kept. \<exists>err. snd (store_remove kept i s') = Inl err \<and> st_disk (fst (store_remove kept i s')) = st_disk s')"
proof -
  define n' where "n' = n\<lparr>n_id := i\<rparr>"
  define d where "d = snd (write_dir (os_fault e) i (node_writes n') (mkdir_all i (st_disk s)))"
  have fs: "(case gm_get (mkdir_all i (st_disk s)) i of Some (Dir fs) \<Rightarrow> fs | _ \<Rightarrow> []) = []"
    using assms(4) by simp
  obtain name where "fst (write_files (Some (k, left)) (node_writes n') []) = Some name"
    using write_files_fault [of k "node_writes n'" left "[]"] assms(6) by (auto simp: pem_writes_def)
  then have "write_dir (os_fault e) i (node_writes n') (mkdir_all i (st_disk s)) = (Some name, d)"
    using fst_write_dir [of "os_fault e" i "node_writes n'" "mkdir_all i (st_disk s)"] fs assms(5)
    by (simp add: d_def prod_eq_iff)
  then have add: "store_add e n s = (s\<lparr>st_disk := d\<rparr>, Inl (''write '' @ name))"
    using assms(2,3) by (simp add: store_add_def n'_def [symmetric] Let_def) (simp add: n'_def)
  have "gm_get d i = Some (Dir (snd (write_files (Some (k, left)) (node_writes n') [])))"
    using fs assms(5) by (simp add: d_def get_write_dir)
  moreover have "gm_ok d" using assms(1) by (simp add: d_def store_synced_def ok_write_dir)
  ultimately have "(i, Dir (snd (write_files (Some (k, left)) (node_writes n') []))) \<in> set d"
    by (simp add: gm_get_Some_iff)
  moreover obtain e1 where "load_node (snd (write_files (Some (k, left)) (node_writes n') [])) = Inl e1"
    using load_half_written [OF assms(6), of n'] by blast
  ultimately obtain err where "load_nodes d [] = Inl err" using nodes_dir.run_stops by blast
  then have err: "store_open d = Inl err" by (simp add: store_open_def)
  have "gm_get (st_nodes s) i = nodes_dir.entry (st_disk s) i" using assms(1) by (simp add: store_synced_def)
  then have none: "gm_get (st_nodes s) i = None" using assms(4) by (simp add: nodes_dir.entry_def)
  show ?thesis
    using add err none by (auto simp: store_get_def store_remove_def Let_def)
qed

definition disk_full :: os_env where
  "disk_full = (os_fine ''a1'')\<lparr>os_fault := Some (1, Some [])\<rparr>"

theorem half_written_node_blocks_open_witness:
  "\<exists>s'. fst (store_add disk_full demo_reg_node store_empty) = s' \<and> (\<exists>err. store_open (st_disk s') = Inl err)"
  using half_written_node_blocks_open [OF empty_synced(1), of disk_full "''a1''" 1 "Some []" demo_reg_node]
  by (auto simp: disk_full_def os_fine_def store_empty_def)

end
