(* ===== verification/Auth_Store.thy ===== *)
theory Auth_Store
  imports Prelude
begin

text \<open>
  \<open>dashboard/backend/internal/auth\<close>: the one admin password and the sessions in memory. The
  hash function is \<open>golang.org/x/crypto/bcrypt\<close>, an argument; so are the clock, the random
  token and what a failed write leaves in \<open>auth.json\<close>.
\<close>

text \<open>\<open>GenerateFromPassword\<close> (with the salt it draws) and \<open>CompareHashAndPassword\<close>.\<close>

record bcrypt =
  bc_hash :: "string \<Rightarrow> string \<Rightarrow> string + string"
  bc_check :: "string \<Rightarrow> string \<Rightarrow> bool"

text \<open>The file: absent, the JSON of the credentials, or bytes that are not JSON.\<close>

datatype cred_file = No_File | Creds "string option" | Not_Json

record auth_store =
  au_file :: cred_file
  au_hash :: "string option"
  au_sessions :: "(string, int) gomap"

definition sessionTTL :: int where
  "sessionTTL = 24 * 60 * 60 * 1000000000"

definition minPasswordLen :: nat where
  "minPasswordLen = 8"

definition auth_open :: "cred_file \<Rightarrow> string + auth_store" where
  "auth_open f = (case f of
       No_File \<Rightarrow> Inr \<lparr>au_file = f, au_hash = None, au_sessions = []\<rparr>
     | Not_Json \<Rightarrow> Inl ''parse auth.json''
     | Creds h \<Rightarrow> Inr \<lparr>au_file = f, au_hash = h, au_sessions = []\<rparr>)"

definition setup_required :: "auth_store \<Rightarrow> bool" where
  "setup_required a \<longleftrightarrow> au_hash a = None"

text \<open>\<open>wr\<close> is \<open>None\<close> when \<open>WriteFile\<close> succeeds, else what it left in the file.\<close>

definition auth_setup :: "bcrypt \<Rightarrow> string \<Rightarrow> cred_file option \<Rightarrow> string \<Rightarrow> auth_store \<Rightarrow> auth_store \<times> (string + unit)" where
  "auth_setup bc salt wr password a =
     (if length password < minPasswordLen then (a, Inl ''password must be at least 8 characters'')
      else if au_hash a \<noteq> None then (a, Inl ''admin password already set'')
      else case bc_hash bc password salt of
          Inl e \<Rightarrow> (a, Inl (''hash password: '' @ e))
        | Inr h \<Rightarrow> (case wr of
              Some left \<Rightarrow> (a\<lparr>au_file := left\<rparr>, Inl ''write auth.json'')
            | None \<Rightarrow> (a\<lparr>au_file := Creds (Some h), au_hash := Some h\<rparr>, Inr ())))"

definition verify_password :: "bcrypt \<Rightarrow> string \<Rightarrow> auth_store \<Rightarrow> bool" where
  "verify_password bc password a = (case au_hash a of None \<Rightarrow> False | Some h \<Rightarrow> bc_check bc h password)"

definition new_session :: "string option \<Rightarrow> int \<Rightarrow> auth_store \<Rightarrow> auth_store \<times> (string + string)" where
  "new_session rand now a = (case rand of
       None \<Rightarrow> (a, Inl ''generate session token'')
     | Some token \<Rightarrow> (a\<lparr>au_sessions := gm_put token (now + sessionTTL) (au_sessions a)\<rparr>, Inr token))"

text \<open>\<open>ValidSession\<close> forgets an expired session when it is asked about it.\<close>

definition valid_session :: "int \<Rightarrow> string \<Rightarrow> auth_store \<Rightarrow> auth_store \<times> bool" where
  "valid_session now token a =
     (if token = [] then (a, False)
      else case gm_get (au_sessions a) token of
          None \<Rightarrow> (a, False)
        | Some expiry \<Rightarrow> if now > expiry
            then (a\<lparr>au_sessions := gm_del token (au_sessions a)\<rparr>, False) else (a, True))"

definition revoke :: "string \<Rightarrow> auth_store \<Rightarrow> auth_store" where
  "revoke token a = a\<lparr>au_sessions := gm_del token (au_sessions a)\<rparr>"

section \<open>The contract of a session service\<close>

text \<open>
  What the request handlers rely on: a session is live from its issue until its lifetime is
  over or it is revoked, and asking about a session changes the answer to no later question.
\<close>

locale session_service =
  fixes live :: "int \<Rightarrow> string \<Rightarrow> 's \<Rightarrow> bool" and issue :: "int \<Rightarrow> string \<Rightarrow> 's \<Rightarrow> 's"
    and ask :: "int \<Rightarrow> string \<Rightarrow> 's \<Rightarrow> 's" and drop_session :: "string \<Rightarrow> 's \<Rightarrow> 's" and ttl :: int
  assumes issued: "live now' u (issue now t s) \<longleftrightarrow> u \<noteq> [] \<and> (if u = t then now' \<le> now + ttl else live now' u s)"
    and dropped: "live now' u (drop_session t s) \<longleftrightarrow> u \<noteq> t \<and> live now' u s"
    and asked: "now \<le> now' \<Longrightarrow> live now' u (ask now t s) = live now' u s"
    and ages: "live now' u s \<Longrightarrow> now \<le> now' \<Longrightarrow> live now u s"
begin

lemma revoked_stays_dead: "now \<le> now' \<Longrightarrow> \<not> live now' t (ask now u (drop_session t s))"
  by (simp add: dropped asked)

lemma expired_stays_dead: "\<not> live now u s \<Longrightarrow> now \<le> now' \<Longrightarrow> \<not> live now' u s"
  using ages by blast

lemma issue_other: "u \<noteq> t \<Longrightarrow> live now' u (issue now t s) \<Longrightarrow> live now' u s"
  by (simp add: issued)

end

definition live_session :: "int \<Rightarrow> string \<Rightarrow> auth_store \<Rightarrow> bool" where
  "live_session now token a = snd (valid_session now token a)"

lemma live_session_iff:
  "live_session now t a \<longleftrightarrow> t \<noteq> [] \<and> (\<exists>e. gm_get (au_sessions a) t = Some e \<and> now \<le> e)"
  by (auto simp: live_session_def valid_session_def split: option.splits)

lemma valid_session_frame [simp]:
  "au_hash (fst (valid_session now t a)) = au_hash a" "au_file (fst (valid_session now t a)) = au_file a"
  by (simp_all add: valid_session_def split: option.splits)

lemma live_after_ask: "now \<le> now' \<Longrightarrow> live_session now' u (fst (valid_session now t a)) = live_session now' u a"
  by (auto simp: live_session_iff valid_session_def split: option.splits)

interpretation session: session_service live_session
  "\<lambda>now t a. fst (new_session (Some t) now a)" "\<lambda>now t a. fst (valid_session now t a)" revoke sessionTTL
proof unfold_locales
  fix now now' :: int and u t and s :: auth_store
  show "live_session now' u (fst (new_session (Some t) now s)) \<longleftrightarrow>
      u \<noteq> [] \<and> (if u = t then now' \<le> now + sessionTTL else live_session now' u s)"
    by (auto simp: live_session_iff new_session_def)
  show "live_session now' u (revoke t s) \<longleftrightarrow> u \<noteq> t \<and> live_session now' u s"
    by (auto simp: live_session_iff revoke_def)
  show "now \<le> now' \<Longrightarrow> live_session now' u (fst (valid_session now t s)) = live_session now' u s"
    by (rule live_after_ask)
  show "live_session now' u s \<Longrightarrow> now \<le> now' \<Longrightarrow> live_session now u s"
    by (auto simp: live_session_iff)
qed

end
