(* ===== verification/Controller.thy ===== *)
theory Controller
  imports Registry Auth_Store Js_Runtime
begin

text \<open>
  The Controller's HTTP surface (\<open>dashboard/backend/main.go\<close>, \<open>auth_handlers.go\<close>,
  \<open>register.go\<close> and the start and stop of \<open>nodeproxy\<close>'s listeners): one function per handler
  from the application's state to its new state and the response. Everything the handlers get
  from third-party code, the operating system or a remote node is a field of \<open>server_env\<close>.
\<close>

section \<open>State, responses, and what comes from outside\<close>

record app =
  ap_store :: store
  ap_pending :: pstore
  ap_auth :: auth_store
  ap_listeners :: "(string, node) gomap"
  ap_cert_pem :: string
  ap_suggested :: string

datatype resp_body = Resp_Text string | Resp_Json jsval | Resp_Empty | Resp_File string

datatype cookie_op = Keep_Cookie | Set_Session string | Clear_Session

record http_response =
  hs_status :: nat
  hs_body :: resp_body
  hs_cookie :: cookie_op

type_synonym pem3 = "string \<times> string \<times> string"

record server_env =
  se_now :: int
  se_token :: "string option"
  se_salt :: string
  se_bcrypt :: bcrypt
  se_auth_write :: "cred_file option"
  se_os :: os_env
  se_rm :: "string list option"
  se_decode_chain :: "string \<Rightarrow> string \<Rightarrow> string + (string \<times> string \<times> string list)"
  se_pkcs8 :: "string \<Rightarrow> string + string"
  se_pem :: "string \<Rightarrow> string \<Rightarrow> string"
  se_has_certs :: "string \<Rightarrow> bool"
  se_key_pair :: "string \<Rightarrow> string \<Rightarrow> string option"
  se_dial :: "string \<Rightarrow> string option"
  se_generate :: "string \<Rightarrow> pem3 \<Rightarrow> string + pem3"
  se_listen :: "int \<Rightarrow> string option"
  se_time_json :: "int \<Rightarrow> string"
  se_static :: "string \<Rightarrow> http_response"

type_synonym 'x handler_result = "app \<times> http_response"

definition http_error :: "string \<Rightarrow> nat \<Rightarrow> http_response" where
  "http_error msg code = \<lparr>hs_status = code, hs_body = Resp_Text (msg @ [CHR 0x0A]), hs_cookie = Keep_Cookie\<rparr>"

definition writeJSON :: "nat \<Rightarrow> jsval \<Rightarrow> http_response" where
  "writeJSON code v = \<lparr>hs_status = code, hs_body = Resp_Json v, hs_cookie = Keep_Cookie\<rparr>"

definition no_content :: http_response where
  "no_content = \<lparr>hs_status = 204, hs_body = Resp_Empty, hs_cookie = Keep_Cookie\<rparr>"

text \<open>A nil slice is encoded as \<open>null\<close>.\<close>

definition slice_json :: "jsval list \<Rightarrow> jsval" where
  "slice_json vs = (if vs = [] then Null else Arr vs)"

section \<open>Decoding request bodies\<close>

text \<open>
  \<open>json.NewDecoder(r.Body).Decode\<close> into a struct of strings: object keys match a field without
  regard to case, the last one counts, \<open>null\<close> leaves a field alone and any other value of a
  matching key is an error, as is a body that is no JSON object.
\<close>

definition key_match :: "string \<Rightarrow> string \<Rightarrow> bool" where
  "key_match key k \<longleftrightarrow> to_lower_case k = to_lower_case key"

fun field_values :: "string \<Rightarrow> (string \<times> jsval) list \<Rightarrow> string \<Rightarrow> string + string" where
  "field_values key [] acc = Inr acc"
| "field_values key ((k, v) # kvs) acc =
     (if key_match key k then (case v of
          Str s \<Rightarrow> field_values key kvs s
        | Null \<Rightarrow> field_values key kvs acc
        | _ \<Rightarrow> Inl (''json: cannot unmarshal into field '' @ key))
      else field_values key kvs acc)"

definition decode_field :: "body \<Rightarrow> string \<Rightarrow> string + string" where
  "decode_field b key = (case b of
       JsonBody (Obj kvs) \<Rightarrow> field_values key kvs []
     | JsonBody Null \<Rightarrow> Inr []
     | JsonBody _ \<Rightarrow> Inl ''json: cannot unmarshal into struct''
     | FormBody _ \<Rightarrow> Inl ''invalid character''
     | NoBody \<Rightarrow> Inl ''EOF'')"

text \<open>\<open>r.FormValue\<close> (empty when absent) and \<open>r.FormFile\<close>.\<close>

fun form_value :: "(string \<times> formval) list \<Rightarrow> string \<Rightarrow> string" where
  "form_value [] k = []"
| "form_value ((j, FText s) # fs) k = (if j = k then s else form_value fs k)"
| "form_value ((j, FFile _) # fs) k = form_value fs k"

fun form_file :: "(string \<times> formval) list \<Rightarrow> string \<Rightarrow> string option" where
  "form_file [] k = None"
| "form_file ((j, FFile s) # fs) k = (if j = k then Some s else form_file fs k)"
| "form_file ((j, FText _) # fs) k = form_file fs k"

record add_node_request =
  an_name :: string
  an_address :: string
  an_ca :: string
  an_cert :: string
  an_key :: string

definition parse_add_node_request :: "server_env \<Rightarrow> request \<Rightarrow> string + add_node_request" where
  "parse_add_node_request e rq =
     (if has_prefix (rq_ctype rq) ''multipart/form-data'' then
        (case rq_body rq of
           FormBody fs \<Rightarrow>
             (case form_file fs ''pfx'' of
                None \<Rightarrow> Inl ''read pfx upload: http: no such file''
              | Some pfx \<Rightarrow>
                  (case se_decode_chain e pfx (form_value fs ''pfx_password'') of
                     Inl err \<Rightarrow> Inl (''decode pfx (wrong password?): '' @ err)
                   | Inr (key, cert, []) \<Rightarrow> Inl ''pfx has no CA certificate bundled - it needs to include the node's ca.crt (e.g. openssl pkcs12 -export -certfile ca.crt ...)''
                   | Inr (key, cert, ca # _) \<Rightarrow>
                       (case se_pkcs8 e key of
                          Inl err \<Rightarrow> Inl (''marshal private key from pfx: '' @ err)
                        | Inr der \<Rightarrow> Inr \<lparr>an_name = form_value fs ''name'', an_address = form_value fs ''address'',
                            an_ca = se_pem e ''CERTIFICATE'' ca, an_cert = se_pem e ''CERTIFICATE'' cert,
                            an_key = se_pem e ''PRIVATE KEY'' der\<rparr>)))
         | _ \<Rightarrow> Inl ''parse form'')
      else bind_r (decode_field (rq_body rq) ''name'') (\<lambda>name.
           bind_r (decode_field (rq_body rq) ''address'') (\<lambda>address.
           bind_r (decode_field (rq_body rq) ''ca_cert_pem'') (\<lambda>ca.
           bind_r (decode_field (rq_body rq) ''bootstrap_cert_pem'') (\<lambda>cert.
           bind_r (decode_field (rq_body rq) ''bootstrap_key_pem'') (\<lambda>key.
             Inr \<lparr>an_name = name, an_address = address, an_ca = ca, an_cert = cert, an_key = key\<rparr>))))))"

section \<open>Listeners and ports\<close>

definition portRangeStart :: int where
  "portRangeStart = 9500"

definition portRangeEnd :: int where
  "portRangeEnd = 9599"

text \<open>The loop of \<open>allocatePort\<close> from \<open>p\<close> on, over the \<open>fuel\<close> ports that are left.\<close>

fun free_port :: "nat \<Rightarrow> int \<Rightarrow> int list \<Rightarrow> int option" where
  "free_port 0 p used = None"
| "free_port (Suc fuel) p used = (if p \<in> set used then free_port fuel (p + 1) used else Some p)"

definition allocate_port :: "store \<Rightarrow> string + int" where
  "allocate_port s = (case free_port (nat (portRangeEnd - portRangeStart + 1)) portRangeStart (store_used_ports s) of
       Some p \<Rightarrow> Inr p
     | None \<Rightarrow> Inl (''no free port in [9500, 9599] - '' @ show_nat (length (store_used_ports s))
         @ '' nodes already registered''))"

text \<open>
  \<open>nodeproxy.Start\<close> and \<open>startListener\<close>: the node's CA has to hold a certificate and the port
  has to be free, both of this process's own listeners and for the operating system.
\<close>

definition start_listener :: "server_env \<Rightarrow> node \<Rightarrow> app \<Rightarrow> app \<times> (string + unit)" where
  "start_listener e n a =
     (if \<not> se_has_certs e (n_ca n) then (a, Inl ''no valid certificates in stored ca.crt'')
      else if n_port n \<in> n_port ` snd ` set (ap_listeners a) then (a, Inl ''listen: address already in use'')
      else case se_listen e (n_port n) of
          Some err \<Rightarrow> (a, Inl err)
        | None \<Rightarrow> (a\<lparr>ap_listeners := gm_put (n_id n) n (ap_listeners a)\<rparr>, Inr ()))"

section \<open>Authentication handlers\<close>

definition cookie_valid :: "server_env \<Rightarrow> string option \<Rightarrow> app \<Rightarrow> app \<times> bool" where
  "cookie_valid e cookie a = (case cookie of
       None \<Rightarrow> (a, False)
     | Some c \<Rightarrow> let (au, ok) = valid_session (se_now e) c (ap_auth a) in (a\<lparr>ap_auth := au\<rparr>, ok))"

definition status_json :: "bool \<Rightarrow> bool \<Rightarrow> jsval" where
  "status_json setup auth = Obj [(''setup_required'', Bool setup), (''authenticated'', Bool auth)]"

definition handleAuthStatus :: "server_env \<Rightarrow> string option \<Rightarrow> app \<Rightarrow> app \<times> http_response" where
  "handleAuthStatus e cookie a =
     (let (a', ok) = cookie_valid e cookie a in
      (a', writeJSON 200 (status_json (setup_required (ap_auth a')) ok)))"

definition startSession :: "server_env \<Rightarrow> app \<Rightarrow> app \<times> http_response" where
  "startSession e a = (case new_session (se_token e) (se_now e) (ap_auth a) of
       (au, Inl err) \<Rightarrow> (a, http_error (''create session: '' @ err) 500)
     | (au, Inr token) \<Rightarrow> (a\<lparr>ap_auth := au\<rparr>, no_content\<lparr>hs_cookie := Set_Session token\<rparr>))"

definition handleAuthSetup :: "server_env \<Rightarrow> request \<Rightarrow> app \<Rightarrow> app \<times> http_response" where
  "handleAuthSetup e rq a = (case decode_field (rq_body rq) ''password'' of
       Inl err \<Rightarrow> (a, http_error (''decode request: '' @ err) 400)
     | Inr password \<Rightarrow>
         (case auth_setup (se_bcrypt e) (se_salt e) (se_auth_write e) password (ap_auth a) of
            (au, Inl err) \<Rightarrow> (a\<lparr>ap_auth := au\<rparr>, http_error err 400)
          | (au, Inr _) \<Rightarrow> startSession e (a\<lparr>ap_auth := au\<rparr>)))"

definition handleAuthLogin :: "server_env \<Rightarrow> request \<Rightarrow> app \<Rightarrow> app \<times> http_response" where
  "handleAuthLogin e rq a = (case decode_field (rq_body rq) ''password'' of
       Inl err \<Rightarrow> (a, http_error (''decode request: '' @ err) 400)
     | Inr password \<Rightarrow>
         (if \<not> verify_password (se_bcrypt e) password (ap_auth a) then (a, http_error ''invalid credentials'' 401)
          else startSession e a))"

definition handleAuthLogout :: "string option \<Rightarrow> app \<Rightarrow> app \<times> http_response" where
  "handleAuthLogout cookie a =
     ((case cookie of Some c \<Rightarrow> a\<lparr>ap_auth := revoke c (ap_auth a)\<rparr> | None \<Rightarrow> a),
      no_content\<lparr>hs_cookie := Clear_Session\<rparr>)"

definition requireAuth :: "server_env \<Rightarrow> string option \<Rightarrow> (app \<Rightarrow> app \<times> http_response) \<Rightarrow> app \<Rightarrow> app \<times> http_response" where
  "requireAuth e cookie next a = (case cookie_valid e cookie a of
       (a', False) \<Rightarrow> (a', http_error ''authentication required'' 401)
     | (a', True) \<Rightarrow> next a')"

section \<open>Registered nodes\<close>

definition node_view :: "node \<Rightarrow> jsval" where
  "node_view n = Obj [(''id'', Str (n_id n)), (''name'', Str (n_name n)), (''address'', Str (n_address n)),
     (''port'', Num (n_port n))]"

definition created_json :: "node \<Rightarrow> jsval" where
  "created_json n = Obj [(''id'', Str (n_id n)), (''port'', Num (n_port n))]"

text \<open>\<open>pki.ClientTLSConfig\<close>: a CA with a certificate and a matching certificate and key.\<close>

definition client_tls_config :: "server_env \<Rightarrow> pem3 \<Rightarrow> string + pem3" where
  "client_tls_config e c = (case c of (ca, cert, key) \<Rightarrow>
     (if \<not> se_has_certs e ca then Inl ''no valid certificates found in CA PEM''
      else case se_key_pair e cert key of
          Some err \<Rightarrow> Inl (''load client certificate/key: '' @ err) | None \<Rightarrow> Inr c))"

text \<open>
  \<open>handleAddNode\<close> up to the fresh credential: every early return, or the node to register
  (without its port) with the certificate and key the remote node issued.
\<close>

definition issue_credential :: "server_env \<Rightarrow> request \<Rightarrow> http_response + node" where
  "issue_credential e rq = (case parse_add_node_request e rq of
       Inl err \<Rightarrow> Inl (http_error err 400)
     | Inr r \<Rightarrow>
         if an_name r = [] \<or> an_address r = [] then Inl (http_error ''name and address are required'' 400)
         else (case client_tls_config e (an_ca r, an_cert r, an_key r) of
             Inl err \<Rightarrow> Inl (http_error (''build TLS config from provided credentials: '' @ err) 400)
           | Inr creds \<Rightarrow> (case se_dial e (an_address r) of
             Some err \<Rightarrow> Inl (http_error (''dial '' @ an_address r @ '': '' @ err) 502)
           | None \<Rightarrow> (case se_generate e (an_address r) creds of
             Inl err \<Rightarrow> Inl (http_error (''GenerateClientConfiguration against '' @ an_address r @ '': '' @ err
               @ '' - the provided bootstrap credential couldn't reach or authenticate to that node'') 502)
           | Inr (ca, cert, key) \<Rightarrow> Inr \<lparr>n_id = [], n_name = an_name r, n_address = an_address r, n_port = 0,
               n_ca = ca, n_cert = cert, n_key = key\<rparr>))))"

definition handleAddNode :: "server_env \<Rightarrow> request \<Rightarrow> app \<Rightarrow> app \<times> http_response" where
  "handleAddNode e rq a = (case issue_credential e rq of
       Inl resp \<Rightarrow> (a, resp)
     | Inr n0 \<Rightarrow> (case allocate_port (ap_store a) of
       Inl err \<Rightarrow> (a, http_error err 507)
     | Inr port \<Rightarrow> (case store_add (se_os e) (n0\<lparr>n_port := port\<rparr>) (ap_store a) of
       (st, Inl err) \<Rightarrow> (a\<lparr>ap_store := st\<rparr>, http_error (''persist node: '' @ err) 500)
     | (st, Inr n) \<Rightarrow> (case start_listener e n (a\<lparr>ap_store := st\<rparr>) of
       (a', Inl err) \<Rightarrow> (a', http_error (''node registered but its listener failed to start: '' @ err) 500)
     | (a', Inr _) \<Rightarrow> (a', writeJSON 201 (created_json n))))))"

definition handleNodes :: "server_env \<Rightarrow> request \<Rightarrow> app \<Rightarrow> app \<times> http_response" where
  "handleNodes e rq a =
     (if rq_method rq = ''GET'' then (a, writeJSON 200 (slice_json (map node_view (store_list (ap_store a)))))
      else if rq_method rq = ''POST'' then handleAddNode e rq a
      else (a, http_error ''method not allowed'' 405))"

definition handleNode :: "server_env \<Rightarrow> request \<Rightarrow> app \<Rightarrow> app \<times> http_response" where
  "handleNode e rq a =
     (let i = drop (length ''/api/nodes/'') (rq_path rq) in
      if rq_method rq \<noteq> ''DELETE'' then (a, http_error ''method not allowed'' 405)
      else if i = [] then (a, http_error ''missing node id'' 400)
      else let a' = a\<lparr>ap_listeners := gm_del i (ap_listeners a)\<rparr> in
        case store_remove (se_rm e) i (ap_store a') of
          (st, Inl err) \<Rightarrow> (a'\<lparr>ap_store := st\<rparr>, http_error err 404)
        | (st, Inr _) \<Rightarrow> (a'\<lparr>ap_store := st\<rparr>, no_content))"

section \<open>Announced nodes\<close>

definition pending_view :: "server_env \<Rightarrow> pnode \<Rightarrow> jsval" where
  "pending_view e n = Obj [(''id'', Str (p_id n)), (''name'', Str (p_name n)), (''address'', Str (p_address n)),
     (''announced_at'', Str (se_time_json e (p_announced n)))]"

definition handlePendingList :: "server_env \<Rightarrow> request \<Rightarrow> app \<Rightarrow> app \<times> http_response" where
  "handlePendingList e rq a =
     (if rq_method rq \<noteq> ''GET'' then (a, http_error ''method not allowed'' 405)
      else (a, writeJSON 200 (slice_json (map (pending_view e) (pending_list (ap_pending a))))))"

definition pending_to_node :: "int \<Rightarrow> pnode \<Rightarrow> node" where
  "pending_to_node port p = \<lparr>n_id = [], n_name = p_name p, n_address = p_address p, n_port = port,
     n_ca = p_ca p, n_cert = p_cert p, n_key = p_key p\<rparr>"

definition approvePending :: "server_env \<Rightarrow> string \<Rightarrow> app \<Rightarrow> app \<times> http_response" where
  "approvePending e i a = (case pending_get (ap_pending a) i of
       None \<Rightarrow> (a, http_error (''no pending node '' @ go_quote i) 404)
     | Some p \<Rightarrow> (case allocate_port (ap_store a) of
       Inl err \<Rightarrow> (a, http_error err 507)
     | Inr port \<Rightarrow> (case store_add (se_os e) (pending_to_node port p) (ap_store a) of
       (st, Inl err) \<Rightarrow> (a\<lparr>ap_store := st\<rparr>, http_error (''persist node: '' @ err) 500)
     | (st, Inr n) \<Rightarrow> (case start_listener e n (a\<lparr>ap_store := st\<rparr>) of
       (a', Inl err) \<Rightarrow> (a'\<lparr>ap_store := fst (store_remove (se_rm e) (n_id n) (ap_store a'))\<rparr>,
           http_error (''node approved but its listener failed to start: '' @ err) 500)
     | (a', Inr _) \<Rightarrow> (a'\<lparr>ap_pending := fst (pending_remove (se_rm e) i (ap_pending a'))\<rparr>,
           writeJSON 201 (created_json n))))))"

definition rejectPending :: "server_env \<Rightarrow> string \<Rightarrow> app \<Rightarrow> app \<times> http_response" where
  "rejectPending e i a = (case pending_remove (se_rm e) i (ap_pending a) of
       (ps, Inl err) \<Rightarrow> (a\<lparr>ap_pending := ps\<rparr>, http_error err 404)
     | (ps, Inr _) \<Rightarrow> (a\<lparr>ap_pending := ps\<rparr>, no_content))"

text \<open>\<open>strings.Cut\<close>: the text before and after the first separator, if there is one.\<close>

fun cut :: "char \<Rightarrow> string \<Rightarrow> (string \<times> string) option" where
  "cut sep [] = None"
| "cut sep (c # cs) = (if c = sep then Some ([], cs)
     else map_option (\<lambda>(x, y). (c # x, y)) (cut sep cs))"

definition handlePendingAction :: "server_env \<Rightarrow> request \<Rightarrow> app \<Rightarrow> app \<times> http_response" where
  "handlePendingAction e rq a =
     (if rq_method rq \<noteq> ''POST'' then (a, http_error ''method not allowed'' 405)
      else case cut (CHR ''/'') (drop (length ''/api/pending/'') (rq_path rq)) of
          None \<Rightarrow> (a, http_error ''usage: POST /api/pending/{id}/approve or /reject'' 400)
        | Some (i, action) \<Rightarrow>
            if i = [] \<or> action = [] then (a, http_error ''usage: POST /api/pending/{id}/approve or /reject'' 400)
            else if action = ''approve'' then approvePending e i a
            else if action = ''reject'' then rejectPending e i a
            else (a, http_error (''unknown action '' @ go_quote action @ '' (want approve or reject)'') 400))"

record register_request =
  rr_name :: string
  rr_address :: string
  rr_ca :: string
  rr_cert :: string
  rr_key :: string

definition decode_register :: "body \<Rightarrow> string + register_request" where
  "decode_register b =
     bind_r (decode_field b ''name'') (\<lambda>name. bind_r (decode_field b ''address'') (\<lambda>address.
     bind_r (decode_field b ''ca_cert_pem'') (\<lambda>ca. bind_r (decode_field b ''service_cert_pem'') (\<lambda>cert.
     bind_r (decode_field b ''service_key_pem'') (\<lambda>key.
       Inr \<lparr>rr_name = name, rr_address = address, rr_ca = ca, rr_cert = cert, rr_key = key\<rparr>)))))"

definition handleRegister :: "server_env \<Rightarrow> request \<Rightarrow> app \<Rightarrow> app \<times> http_response" where
  "handleRegister e rq a =
     (if rq_method rq \<noteq> ''POST'' then (a, http_error ''method not allowed'' 405)
      else case decode_register (rq_body rq) of
          Inl err \<Rightarrow> (a, http_error (''decode request: '' @ err) 400)
        | Inr r \<Rightarrow>
            if rr_name r = [] \<or> rr_address r = [] \<or> rr_ca r = [] \<or> rr_cert r = [] \<or> rr_key r = []
            then (a, http_error ''name, address, ca_cert_pem, service_cert_pem, and service_key_pem are all required'' 400)
            else (case se_key_pair e (rr_cert r) (rr_key r) of
              Some err \<Rightarrow> (a, http_error (''service_cert_pem/service_key_pem don't form a valid certificate: '' @ err) 400)
            | None \<Rightarrow> (case pending_add (se_os e) (se_now e) \<lparr>p_id = [], p_name = rr_name r, p_address = rr_address r,
                  p_ca = rr_ca r, p_cert = rr_cert r, p_key = rr_key r, p_announced = 0\<rparr> (ap_pending a) of
              (ps, Inl err) \<Rightarrow> (a\<lparr>ap_pending := ps\<rparr>, http_error (''record registration: '' @ err) 500)
            | (ps, Inr n) \<Rightarrow> (a\<lparr>ap_pending := ps\<rparr>, writeJSON 201 (Obj [(''id'', Str (p_id n))])))))"

definition handleControllerInfo :: "request \<Rightarrow> app \<Rightarrow> app \<times> http_response" where
  "handleControllerInfo rq a =
     (if rq_method rq \<noteq> ''GET'' then (a, http_error ''method not allowed'' 405)
      else (a, writeJSON 200 (Obj [(''address'', Str (ap_suggested a)), (''ca_cert_pem'', Str (ap_cert_pem a))])))"

section \<open>Routing and starting\<close>

text \<open>
  The two servers. \<open>ServeMux\<close> prefers the exact pattern and then the longest prefix; the
  paths are already clean, as the mux redirects any that are not.
\<close>

definition protected_handler :: "server_env \<Rightarrow> request \<Rightarrow> (app \<Rightarrow> app \<times> http_response) option" where
  "protected_handler e rq =
     (if rq_path rq = ''/api/nodes'' then Some (handleNodes e rq)
      else if has_prefix (rq_path rq) ''/api/nodes/'' then Some (handleNode e rq)
      else if rq_path rq = ''/api/pending'' then Some (handlePendingList e rq)
      else if has_prefix (rq_path rq) ''/api/pending/'' then Some (handlePendingAction e rq)
      else if rq_path rq = ''/api/controller-info'' then Some (handleControllerInfo rq)
      else None)"

definition serve_main :: "server_env \<Rightarrow> string option \<Rightarrow> request \<Rightarrow> app \<Rightarrow> app \<times> http_response" where
  "serve_main e cookie rq a =
     (if rq_path rq = ''/api/auth/status'' then handleAuthStatus e cookie a
      else if rq_path rq = ''/api/auth/setup'' then handleAuthSetup e rq a
      else if rq_path rq = ''/api/auth/login'' then handleAuthLogin e rq a
      else if rq_path rq = ''/api/auth/logout'' then handleAuthLogout cookie a
      else case protected_handler e rq of
          Some h \<Rightarrow> requireAuth e cookie h a
        | None \<Rightarrow> (a, se_static e (rq_path rq)))"

definition serve_register :: "server_env \<Rightarrow> request \<Rightarrow> app \<Rightarrow> app \<times> http_response" where
  "serve_register e rq a =
     (if rq_path rq = ''/register'' then handleRegister e rq a else (a, http_error ''404 page not found'' 404))"

text \<open>\<open>main\<close> up to the servers: open the three stores, start every node's listener.\<close>

fun start_all :: "server_env \<Rightarrow> node list \<Rightarrow> app \<Rightarrow> app" where
  "start_all e [] a = a"
| "start_all e (n # ns) a = start_all e ns (fst (start_listener e n a))"

definition boot :: "server_env \<Rightarrow> node_meta disk \<Rightarrow> pnode_meta disk \<Rightarrow> cred_file \<Rightarrow> string \<Rightarrow> string \<Rightarrow> string + app" where
  "boot e nd pd cf cert suggested =
     bind_r (store_open nd) (\<lambda>st. bind_r (pending_open pd) (\<lambda>ps. bind_r (auth_open cf) (\<lambda>au.
       Inr (start_all e (store_list st) \<lparr>ap_store = st, ap_pending = ps, ap_auth = au, ap_listeners = [],
         ap_cert_pem = cert, ap_suggested = suggested\<rparr>))))"

text \<open>
  One request on either port, or a restart of the process. \<open>G\<close> says which environments a
  step may meet in a state; where it is always true, anything can happen.
\<close>

inductive app_step :: "(server_env \<Rightarrow> app \<Rightarrow> bool) \<Rightarrow> app \<Rightarrow> app \<Rightarrow> bool" for G where
  main_step: "G e a \<Longrightarrow> app_step G a (fst (serve_main e cookie rq a))"
| register_step: "G e a \<Longrightarrow> app_step G a (fst (serve_register e rq a))"
| restart_step: "G e a \<Longrightarrow> boot e (st_disk (ap_store a)) (ps_disk (ap_pending a)) (au_file (ap_auth a)) cert sug = Inr a'
    \<Longrightarrow> app_step G a a'"

inductive_cases app_stepE: "app_step G a a'"

definition app_first :: "app \<Rightarrow> bool" where
  "app_first a \<longleftrightarrow> (\<exists>cert sug. a = \<lparr>ap_store = store_empty, ap_pending = pending_empty,
     ap_auth = \<lparr>au_file = No_File, au_hash = None, au_sessions = []\<rparr>, ap_listeners = [], ap_cert_pem = cert,
     ap_suggested = sug\<rparr>)"

definition app_reachable :: "(server_env \<Rightarrow> app \<Rightarrow> bool) \<Rightarrow> app \<Rightarrow> bool" where
  "app_reachable G a \<longleftrightarrow> (\<exists>a0. app_first a0 \<and> (app_step G)\<^sup>*\<^sup>* a0 a)"

interpretation ctl: automaton app_first "app_step G" for G .

lemma app_reachable_reach: "app_reachable G a \<longleftrightarrow> ctl.reach G a"
  by (simp add: app_reachable_def ctl.reach_def)

end
