(* ===== verification/Controller_Properties.thy ===== *)
theory Controller_Properties
  imports Controller
begin

text \<open>
  What the Controller guarantees: nothing but its authentication changes without a live
  session, the password is set once, sessions come from the password and end, ports are never
  shared, approving a node happens completely or not at all, and no answer to a GET depends on
  a certificate or key.
\<close>

section \<open>What each handler leaves alone\<close>

lemma cookie_valid_frame [simp]:
  "ap_store (fst (cookie_valid e c a)) = ap_store a" "ap_pending (fst (cookie_valid e c a)) = ap_pending a"
  "ap_listeners (fst (cookie_valid e c a)) = ap_listeners a"
  "au_hash (ap_auth (fst (cookie_valid e c a))) = au_hash (ap_auth a)"
  "au_file (ap_auth (fst (cookie_valid e c a))) = au_file (ap_auth a)"
  by (cases c; simp add: cookie_valid_def Let_def case_prod_beta)+

lemma cookie_valid_live: "snd (cookie_valid e c a) \<longleftrightarrow> (\<exists>t. c = Some t \<and> live_session (se_now e) t (ap_auth a))"
  by (auto simp: cookie_valid_def live_session_def split: option.splits prod.splits)

definition registries :: "app \<Rightarrow> store \<times> pstore \<times> (string, node) gomap" where
  "registries a = (ap_store a, ap_pending a, ap_listeners a)"

lemma startSession_frame [simp]: "registries (fst (startSession e a)) = registries a"
  by (auto simp: startSession_def registries_def split: prod.splits sum.splits)

lemma auth_handlers_frame [simp]:
  "registries (fst (handleAuthStatus e c a)) = registries a" "registries (fst (handleAuthSetup e rq a)) = registries a"
  "registries (fst (handleAuthLogin e rq a)) = registries a" "registries (fst (handleAuthLogout c a)) = registries a"
proof -
  show "registries (fst (handleAuthStatus e c a)) = registries a"
    by (simp add: handleAuthStatus_def registries_def Let_def case_prod_beta)
  show "registries (fst (handleAuthSetup e rq a)) = registries a"
  proof (cases "decode_field (rq_body rq) ''password''")
    case (Inr pw)
    obtain au x where x: "auth_setup (se_bcrypt e) (se_salt e) (se_auth_write e) pw (ap_auth a) = (au, x)"
      by fastforce
    have "registries (a\<lparr>ap_auth := au\<rparr>) = registries a" by (simp add: registries_def)
    with Inr x show ?thesis by (cases x) (simp_all add: handleAuthSetup_def)
  qed (simp add: handleAuthSetup_def)
  show "registries (fst (handleAuthLogin e rq a)) = registries a"
    by (auto simp: handleAuthLogin_def split: sum.splits)
  show "registries (fst (handleAuthLogout c a)) = registries a"
    by (auto simp: handleAuthLogout_def registries_def split: option.splits)
qed

lemma requireAuth_cases:
  "requireAuth e c h a = (if \<exists>t. c = Some t \<and> live_session (se_now e) t (ap_auth a)
     then h (fst (cookie_valid e c a)) else (fst (cookie_valid e c a), http_error ''authentication required'' 401))"
  using cookie_valid_live [of e c a] by (auto simp: requireAuth_def split: prod.splits bool.splits)

lemma start_listener_result:
  "start_listener e n a = (a', r) \<Longrightarrow> (case r of
     Inl m \<Rightarrow> a' = a
   | Inr u \<Rightarrow> se_has_certs e (n_ca n) \<and> se_listen e (n_port n) = None \<and> n_port n \<notin> n_port ` snd ` set (ap_listeners a)
       \<and> a' = a\<lparr>ap_listeners := gm_put (n_id n) n (ap_listeners a)\<rparr>)"
  by (auto simp: start_listener_def split: if_splits option.splits)

text \<open>
  Every way \<open>handleAddNode\<close> and \<open>approvePending\<close> end: the state untouched, an entry that was
  not added, one whose listener did not start, or one that is up.
\<close>

definition not_added :: "server_env \<Rightarrow> node \<Rightarrow> app \<Rightarrow> app \<Rightarrow> bool" where
  "not_added e n a a' \<longleftrightarrow> (\<exists>st m. store_add (se_os e) n (ap_store a) = (st, Inl m) \<and> a' = a\<lparr>ap_store := st\<rparr>)"

definition added_up :: "server_env \<Rightarrow> node \<Rightarrow> app \<Rightarrow> node \<Rightarrow> app \<Rightarrow> bool" where
  "added_up e n a n' a' \<longleftrightarrow> (\<exists>st. store_add (se_os e) n (ap_store a) = (st, Inr n') \<and> n_port n' = n_port n
     \<and> se_listen e (n_port n') = None \<and> n_port n' \<notin> n_port ` snd ` set (ap_listeners a)
     \<and> a' = a\<lparr>ap_store := st, ap_listeners := gm_put (n_id n') n' (ap_listeners a)\<rparr>)"

definition added_down :: "server_env \<Rightarrow> node \<Rightarrow> app \<Rightarrow> node \<Rightarrow> app \<Rightarrow> bool" where
  "added_down e n a n' a' \<longleftrightarrow> (\<exists>st. store_add (se_os e) n (ap_store a) = (st, Inr n') \<and> n_port n' = n_port n
     \<and> a' = a\<lparr>ap_store := st\<rparr>)"

lemma store_add_port: "store_add e n s = (st, Inr n') \<Longrightarrow> n_port n' = n_port n"
  by (drule store_add_result) auto

lemma issue_credential_refuses: "issue_credential e rq = Inl r \<Longrightarrow> hs_status r = 400 \<or> hs_status r = 502"
  by (auto simp: issue_credential_def http_error_def split: sum.splits if_splits option.splits prod.splits)

lemma handleAddNode_result:
  assumes "handleAddNode e rq a = (a', r)"
  shows "a' = a \<and> hs_status r \<noteq> 201
    \<or> (\<exists>n. allocate_port (ap_store a) = Inr (n_port n) \<and> (not_added e n a a' \<and> hs_status r = 500
        \<or> (\<exists>n'. added_down e n a n' a' \<and> hs_status r = 500) \<or> (\<exists>n'. added_up e n a n' a' \<and> hs_status r = 201)))"
proof (cases "issue_credential e rq")
  case (Inl x)
  with assms issue_credential_refuses [OF Inl] show ?thesis by (auto simp: handleAddNode_def)
next
  case q: (Inr n0)
  show ?thesis
  proof (cases "allocate_port (ap_store a)")
    case (Inl err)
    with assms q show ?thesis by (auto simp: handleAddNode_def http_error_def)
  next
    case port: (Inr port)
    define n where "n = n0\<lparr>n_port := port\<rparr>"
    obtain st x where add: "store_add (se_os e) n (ap_store a) = (st, x)" by fastforce
    have ok: "allocate_port (ap_store a) = Inr (n_port n)" using port by (simp add: n_def)
    show ?thesis
    proof (cases x)
      case (Inl m)
      with assms q port add have "not_added e n a a' \<and> hs_status r = 500"
        by (auto simp: handleAddNode_def n_def [symmetric] not_added_def http_error_def)
      with ok show ?thesis by blast
    next
      case (Inr n')
      obtain a2 y where l: "start_listener e n' (a\<lparr>ap_store := st\<rparr>) = (a2, y)" by fastforce
      have step: "handleAddNode e rq a = (case y of
          Inl err \<Rightarrow> (a2, http_error (''node registered but its listener failed to start: '' @ err) 500)
        | Inr u \<Rightarrow> (a2, writeJSON 201 (created_json n')))"
        using q port add Inr l by (simp add: handleAddNode_def n_def split: sum.splits)
      have "added_down e n a n' a' \<and> hs_status r = 500 \<or> added_up e n a n' a' \<and> hs_status r = 201"
      proof (cases y)
        case (Inl err)
        with step assms start_listener_result [OF l] have "a' = a\<lparr>ap_store := st\<rparr>" "hs_status r = 500"
          by (simp_all add: http_error_def)
        with add \<open>x = Inr n'\<close> show ?thesis by (simp add: added_down_def store_add_port)
      next
        case (Inr u)
        with step assms start_listener_result [OF l]
        have "a' = a\<lparr>ap_store := st, ap_listeners := gm_put (n_id n') n' (ap_listeners a)\<rparr>" "hs_status r = 201"
          "n_port n' \<notin> n_port ` snd ` set (ap_listeners a)" "se_listen e (n_port n') = None"
          by (simp_all add: writeJSON_def)
        with add \<open>x = Inr n'\<close> show ?thesis by (simp add: added_up_def store_add_port)
      qed
      with ok show ?thesis by blast
    qed
  qed
qed

lemma approvePending_result:
  assumes "approvePending e i a = (a', r)"
  shows "a' = a \<and> hs_status r \<noteq> 201
    \<or> (\<exists>p port. pending_get (ap_pending a) i = Some p \<and> allocate_port (ap_store a) = Inr port \<and>
        (not_added e (pending_to_node port p) a a' \<and> hs_status r = 500
         \<or> (\<exists>n b. added_down e (pending_to_node port p) a n b \<and> hs_status r = 500
              \<and> a' = b\<lparr>ap_store := fst (store_remove (se_rm e) (n_id n) (ap_store b))\<rparr>)
         \<or> (\<exists>n b. added_up e (pending_to_node port p) a n b \<and> hs_status r = 201
              \<and> a' = b\<lparr>ap_pending := fst (pending_remove (se_rm e) i (ap_pending b))\<rparr>)))"
proof (cases "pending_get (ap_pending a) i")
  case None
  with assms show ?thesis by (auto simp: approvePending_def http_error_def)
next
  case p: (Some p)
  show ?thesis
  proof (cases "allocate_port (ap_store a)")
    case (Inl err)
    with assms p show ?thesis by (auto simp: approvePending_def http_error_def)
  next
    case port: (Inr port)
    obtain st x where add: "store_add (se_os e) (pending_to_node port p) (ap_store a) = (st, x)" by fastforce
    show ?thesis
    proof (cases x)
      case (Inl m)
      with assms p port add have "not_added e (pending_to_node port p) a a' \<and> hs_status r = 500"
        by (auto simp: approvePending_def not_added_def http_error_def)
      with p port show ?thesis by blast
    next
      case x: (Inr n)
      obtain b y where l: "start_listener e n (a\<lparr>ap_store := st\<rparr>) = (b, y)" by fastforce
      show ?thesis
      proof (cases y)
        case (Inl err)
        with p port add x l have "approvePending e i a = (b\<lparr>ap_store := fst (store_remove (se_rm e) (n_id n) (ap_store b))\<rparr>,
            http_error (''node approved but its listener failed to start: '' @ err) 500)"
          by (simp add: approvePending_def)
        moreover from Inl start_listener_result [OF l] add x have "added_down e (pending_to_node port p) a n b"
          by (simp add: added_down_def store_add_port)
        ultimately have "added_down e (pending_to_node port p) a n b \<and> hs_status r = 500
            \<and> a' = b\<lparr>ap_store := fst (store_remove (se_rm e) (n_id n) (ap_store b))\<rparr>"
          using assms by (auto simp: http_error_def)
        with p port show ?thesis by blast
      next
        case (Inr u)
        with p port add x l have "approvePending e i a =
            (b\<lparr>ap_pending := fst (pending_remove (se_rm e) i (ap_pending b))\<rparr>, writeJSON 201 (created_json n))"
          by (simp add: approvePending_def)
        moreover from Inr start_listener_result [OF l] add x have "added_up e (pending_to_node port p) a n b"
          by (simp add: added_up_def store_add_port)
        ultimately have "added_up e (pending_to_node port p) a n b \<and> hs_status r = 201
            \<and> a' = b\<lparr>ap_pending := fst (pending_remove (se_rm e) i (ap_pending b))\<rparr>"
          using assms by (auto simp: writeJSON_def)
        with p port show ?thesis by blast
      qed
    qed
  qed
qed

section \<open>Access\<close>

lemma auth_paths_unprotected [simp]:
  "rq_path rq = ''/api/auth/status'' \<Longrightarrow> protected_handler e rq = None"
  "rq_path rq = ''/api/auth/setup'' \<Longrightarrow> protected_handler e rq = None"
  "rq_path rq = ''/api/auth/login'' \<Longrightarrow> protected_handler e rq = None"
  "rq_path rq = ''/api/auth/logout'' \<Longrightarrow> protected_handler e rq = None"
  by (simp_all add: protected_handler_def has_prefix_def)

definition signed_in :: "server_env \<Rightarrow> string option \<Rightarrow> app \<Rightarrow> bool" where
  "signed_in e cookie a \<longleftrightarrow> (\<exists>t. cookie = Some t \<and> live_session (se_now e) t (ap_auth a))"

lemma requireAuth_signed_out:
  "\<not> signed_in e cookie a \<Longrightarrow> requireAuth e cookie h a =
     (fst (cookie_valid e cookie a), http_error ''authentication required'' 401)"
  by (auto simp: requireAuth_cases signed_in_def)

lemma handleRegister_frame:
  "ap_store (fst (handleRegister e rq a)) = ap_store a" "ap_listeners (fst (handleRegister e rq a)) = ap_listeners a"
  "ap_auth (fst (handleRegister e rq a)) = ap_auth a"
  by (simp_all add: handleRegister_def split: sum.splits option.splits prod.splits)

text \<open>
  The registration port writes to one entry of the queue, the one under the identifier it draws;
  the others stay as they are, in memory and on disk, and a refused announcement changes nothing
  in memory.
\<close>

lemma pending_add_one:
  assumes "pending_add e now n s = (s', r)" and "os_id e \<noteq> Some i"
  shows "pending_get s' i = pending_get s i" "gm_get (ps_disk s') i = gm_get (ps_disk s) i"
  using assms by (auto simp: pending_add_def pending_get_def write_dir_def mkdir_all_def Let_def
      split: option.splits if_splits prod.splits dirent.splits)

lemma pending_add_refused: "pending_add e now n s = (s', Inl err) \<Longrightarrow> pending_get s' = pending_get s"
  by (auto simp: pending_add_def pending_get_def fun_eq_iff Let_def split: option.splits if_splits prod.splits)

lemma handleRegister_queue:
  assumes "handleRegister e rq a = (a', r)"
  shows "os_id (se_os e) \<noteq> Some i \<Longrightarrow> pending_get (ap_pending a') i = pending_get (ap_pending a) i
      \<and> gm_get (ps_disk (ap_pending a')) i = gm_get (ps_disk (ap_pending a)) i"
    and "hs_status r \<noteq> 201 \<Longrightarrow> pending_get (ap_pending a') = pending_get (ap_pending a)"
proof -
  consider "ap_pending a' = ap_pending a"
    | now n ps x where "pending_add (se_os e) now n (ap_pending a) = (ps, x)" "ap_pending a' = ps"
        "case x of Inl _ \<Rightarrow> True | Inr _ \<Rightarrow> hs_status r = 201"
    using assms by (auto simp: handleRegister_def writeJSON_def split: sum.splits option.splits if_splits prod.splits)
  then show "os_id (se_os e) \<noteq> Some i \<Longrightarrow> pending_get (ap_pending a') i = pending_get (ap_pending a) i
      \<and> gm_get (ps_disk (ap_pending a')) i = gm_get (ps_disk (ap_pending a)) i"
    and "hs_status r \<noteq> 201 \<Longrightarrow> pending_get (ap_pending a') = pending_get (ap_pending a)"
    by (cases; auto simp: pending_add_one dest: pending_add_refused split: sum.splits)+
qed

section \<open>A concrete controller\<close>

text \<open>
  An environment in which everything succeeds: a hash that is the reversed password, a
  \<open>.pfx\<close> decoder that finds one CA, nodes that answer with fresh credentials.
\<close>

definition demo_env :: "string \<Rightarrow> server_env" where
  "demo_env fresh_id = \<lparr>se_now = 1000, se_token = Some ''tok'', se_salt = ''salt'',
     se_bcrypt = \<lparr>bc_hash = \<lambda>p _. Inr (rev p), bc_check = \<lambda>h p. h = rev p\<rparr>, se_auth_write = None,
     se_os = os_fine fresh_id, se_rm = None, se_decode_chain = \<lambda>_ _. Inr (''key'', ''cert'', [''ca'']),
     se_pkcs8 = Inr, se_pem = \<lambda>_ b. b, se_has_certs = \<lambda>ca. ca \<noteq> [], se_key_pair = \<lambda>_ _. None,
     se_dial = \<lambda>_. None, se_generate = \<lambda>_ _. Inr (''CA'', ''CRT'', ''KEY''), se_listen = \<lambda>_. None,
     se_time_json = show_int, se_static = \<lambda>p. \<lparr>hs_status = 200, hs_body = Resp_File p, hs_cookie = Keep_Cookie\<rparr>\<rparr>"

definition first_app :: app where
  "first_app = \<lparr>ap_store = store_empty, ap_pending = pending_empty,
     ap_auth = \<lparr>au_file = No_File, au_hash = None, au_sessions = []\<rparr>, ap_listeners = [], ap_cert_pem = ''PEM'',
     ap_suggested = []\<rparr>"

definition setup_request :: request where
  "setup_request = \<lparr>rq_method = ''POST'', rq_path = ''/api/auth/setup'', rq_ctype = ''application/json'',
     rq_body = JsonBody (Obj [(''password'', Str ''hunter22'')])\<rparr>"

definition app_with_session :: app where
  "app_with_session = first_app\<lparr>ap_auth := \<lparr>au_file = Creds (Some ''22retnuh''), au_hash = Some ''22retnuh'',
     au_sessions = [(''tok'', 1000 + sessionTTL)]\<rparr>\<rparr>"

definition any_env :: "server_env \<Rightarrow> app \<Rightarrow> bool" where
  "any_env e a = True"

lemma reachable_first: "app_reachable G first_app"
  by (auto simp: app_reachable_def app_first_def first_app_def)

lemma reachable_main_step: "app_reachable G a \<Longrightarrow> G e a \<Longrightarrow> app_reachable G (fst (serve_main e c rq a))"
  unfolding app_reachable_def by (blast intro: rtranclp.rtrancl_into_rtrancl app_step.main_step)

lemma reachable_register_step: "app_reachable G a \<Longrightarrow> G e a \<Longrightarrow> app_reachable G (fst (serve_register e rq a))"
  unfolding app_reachable_def by (blast intro: rtranclp.rtrancl_into_rtrancl app_step.register_step)

lemma setup_run: "serve_main (demo_env i) None setup_request first_app =
    (app_with_session, no_content\<lparr>hs_cookie := Set_Session ''tok''\<rparr>)"
  by (simp add: serve_main_def setup_request_def handleAuthSetup_def decode_field_def key_match_def first_app_def
      auth_setup_def minPasswordLen_def demo_env_def startSession_def new_session_def app_with_session_def
      gm_put_def gm_del_def)

lemma reachable_with_session: "G (demo_env i) first_app \<Longrightarrow> app_reachable G app_with_session"
  using reachable_main_step [OF reachable_first, of G "demo_env i" None setup_request] by (simp add: setup_run)

section \<open>Nothing without a session\<close>

lemma signed_out_registries:
  assumes "\<not> signed_in e cookie a"
  shows "registries (fst (serve_main e cookie rq a)) = registries a"
proof -
  have "registries (fst (cookie_valid e cookie a)) = registries a" by (simp add: registries_def)
  then show ?thesis using assms by (auto simp: serve_main_def requireAuth_signed_out split: option.splits)
qed

text \<open>
  C1: Without a live session nothing about the nodes can be read or changed. A request to the
  main port whose cookie is not a live session leaves both registries and every listener as
  they were, and on every path that is about nodes it is answered with status 401. Whatever is
  sent to the registration port leaves the registered nodes, the listeners and the authentication
  state as they were, and of the queue it can touch only the entry under the identifier that the
  handler itself draws: every other announcement stays as it was, in memory and on disk, and an
  answer other than 201 leaves the whole queue in memory as it was.
\<close>

theorem nothing_without_a_session:
  assumes "\<not> signed_in e cookie a"
  shows "registries (fst (serve_main e cookie rq a)) = registries a
    \<and> (protected_handler e rq \<noteq> None \<longrightarrow> hs_status (snd (serve_main e cookie rq a)) = 401)
    \<and> ap_store (fst (serve_register e rq a)) = ap_store a
    \<and> ap_listeners (fst (serve_register e rq a)) = ap_listeners a
    \<and> ap_auth (fst (serve_register e rq a)) = ap_auth a
    \<and> (\<forall>i. os_id (se_os e) \<noteq> Some i \<longrightarrow> pending_get (ap_pending (fst (serve_register e rq a))) i = pending_get (ap_pending a) i
        \<and> gm_get (ps_disk (ap_pending (fst (serve_register e rq a)))) i = gm_get (ps_disk (ap_pending a)) i)
    \<and> (hs_status (snd (serve_register e rq a)) \<noteq> 201 \<longrightarrow>
        pending_get (ap_pending (fst (serve_register e rq a))) = pending_get (ap_pending a))"
proof -
  have "registries (fst (serve_main e cookie rq a)) = registries a" using assms by (rule signed_out_registries)
  moreover have "hs_status (snd (serve_main e cookie rq a)) = 401" if "protected_handler e rq \<noteq> None"
    using assms that by (auto simp: serve_main_def requireAuth_signed_out http_error_def split: option.splits)
  moreover note handleRegister_queue [OF surjective_pairing [of "handleRegister e rq a"]]
  ultimately show ?thesis by (simp add: serve_register_def handleRegister_frame)
qed

definition list_request :: request where
  "list_request = \<lparr>rq_method = ''GET'', rq_path = ''/api/nodes'', rq_ctype = [], rq_body = NoBody\<rparr>"

theorem nothing_without_a_session_witness:
  "hs_status (snd (serve_main (demo_env ''a1'') (Some ''guess'') list_request app_with_session)) = 401"
  using nothing_without_a_session [of "demo_env ''a1''" "Some ''guess''" app_with_session list_request]
  by (simp add: signed_in_def live_session_iff app_with_session_def protected_handler_def list_request_def gm_get_def)

section \<open>The password and the sessions\<close>

definition password_durable :: "app \<Rightarrow> bool" where
  "password_durable a \<longleftrightarrow> (\<forall>h. au_hash (ap_auth a) = Some h \<longrightarrow> au_file (ap_auth a) = Creds (Some h))"

lemma ap_auth_frame [simp]:
  "ap_auth (fst (start_listener e n a)) = ap_auth a" "ap_auth (start_all e ns a) = ap_auth a"
proof -
  have one: "ap_auth (fst (start_listener e n a)) = ap_auth a" for n a
    by (simp add: start_listener_def split: option.splits)
  show "ap_auth (fst (start_listener e n a)) = ap_auth a" by (rule one)
  show "ap_auth (start_all e ns a) = ap_auth a" by (induction ns arbitrary: a) (simp_all add: one)
qed

lemma handleAddNode_auth: "ap_auth (fst (handleAddNode e rq a)) = ap_auth a"
  using handleAddNode_result [of e rq a] by (fastforce simp: not_added_def added_up_def added_down_def prod_eq_iff)

lemma approvePending_auth: "ap_auth (fst (approvePending e i a)) = ap_auth a"
  using approvePending_result [of e i a] by (fastforce simp: not_added_def added_up_def added_down_def prod_eq_iff)

lemma rejectPending_auth: "ap_auth (fst (rejectPending e i a)) = ap_auth a"
  by (simp add: rejectPending_def split: prod.splits sum.splits)

lemma protected_auth: "protected_handler e rq = Some h \<Longrightarrow> ap_auth (fst (h a)) = ap_auth a"
proof -
  have "ap_auth (fst (handleNode e rq a)) = ap_auth a"
    by (auto simp: handleNode_def Let_def split: prod.splits sum.splits)
  moreover have "ap_auth (fst (handlePendingAction e rq a)) = ap_auth a"
    by (auto simp: handlePendingAction_def approvePending_auth rejectPending_auth split: option.splits prod.splits)
  moreover assume "protected_handler e rq = Some h"
  ultimately show ?thesis
    by (auto simp: protected_handler_def handleNodes_def handlePendingList_def handleControllerInfo_def
        handleAddNode_auth split: if_splits)
qed

text \<open>The authentication state after a request is that of its authentication handler.\<close>

lemma serve_main_auth:
  "ap_auth (fst (serve_main e cookie rq a)) =
    (if rq_path rq = ''/api/auth/setup'' then ap_auth (fst (handleAuthSetup e rq a))
     else if rq_path rq = ''/api/auth/login'' then ap_auth (fst (handleAuthLogin e rq a))
     else if rq_path rq = ''/api/auth/logout'' then ap_auth (fst (handleAuthLogout cookie a))
     else if rq_path rq = ''/api/auth/status'' \<or> protected_handler e rq \<noteq> None then ap_auth (fst (cookie_valid e cookie a))
     else ap_auth a)"
proof (cases "protected_handler e rq")
  case (Some h)
  then have "rq_path rq \<noteq> ''/api/auth/status''" "rq_path rq \<noteq> ''/api/auth/setup''" "rq_path rq \<noteq> ''/api/auth/login''"
    "rq_path rq \<noteq> ''/api/auth/logout''" using auth_paths_unprotected [of rq e] by fastforce+
  with Some protected_auth [OF Some] show ?thesis by (simp add: serve_main_def requireAuth_cases)
qed (simp add: serve_main_def handleAuthStatus_def Let_def case_prod_beta)

lemma auth_setup_result:
  "auth_setup bc salt wr pw au = (au', r) \<Longrightarrow> (case r of
     Inl m \<Rightarrow> au_hash au' = au_hash au \<and> au_sessions au' = au_sessions au \<and> (au_hash au \<noteq> None \<longrightarrow> au' = au)
   | Inr _ \<Rightarrow> au_hash au = None \<and> 8 \<le> length pw \<and> (\<exists>h. bc_hash bc pw salt = Inr h
       \<and> au' = au\<lparr>au_file := Creds (Some h), au_hash := Some h\<rparr>))"
  by (auto simp: auth_setup_def minPasswordLen_def split: if_splits sum.splits option.splits)

lemma startSession_auth:
  "startSession e a = (a', r) \<Longrightarrow> (ap_auth a' = ap_auth a \<and> hs_status r = 500 \<and> hs_cookie r = Keep_Cookie)
     \<or> (\<exists>t. se_token e = Some t \<and> ap_auth a' = fst (new_session (Some t) (se_now e) (ap_auth a))
          \<and> hs_status r = 204 \<and> hs_cookie r = Set_Session t)"
  by (cases "se_token e") (auto simp: startSession_def new_session_def http_error_def no_content_def)

lemma new_session_frame [simp]:
  "au_hash (fst (new_session r now a)) = au_hash a" "au_file (fst (new_session r now a)) = au_file a"
  by (simp_all add: new_session_def split: option.splits)

lemma startSession_hash [simp]:
  "au_hash (ap_auth (fst (startSession e a))) = au_hash (ap_auth a)"
  "au_file (ap_auth (fst (startSession e a))) = au_file (ap_auth a)"
  using startSession_auth [of e a "fst (startSession e a)" "snd (startSession e a)"] by auto

lemma handleAuthSetup_result:
  assumes "handleAuthSetup e rq a = (a', r)"
  shows "(ap_auth a' = ap_auth a \<or> au_hash (ap_auth a) = None \<and> (\<exists>f. ap_auth a' = (ap_auth a)\<lparr>au_file := f\<rparr>)) \<and> hs_status r = 400 \<and> hs_cookie r = Keep_Cookie
    \<or> (\<exists>pw h b. decode_field (rq_body rq) ''password'' = Inr pw \<and> 8 \<le> length pw \<and> au_hash (ap_auth a) = None
         \<and> bc_hash (se_bcrypt e) pw (se_salt e) = Inr h
         \<and> b = a\<lparr>ap_auth := (ap_auth a)\<lparr>au_file := Creds (Some h), au_hash := Some h\<rparr>\<rparr> \<and> startSession e b = (a', r))"
proof (cases "decode_field (rq_body rq) ''password''")
  case (Inl m)
  with assms show ?thesis by (auto simp: handleAuthSetup_def http_error_def)
next
  case pw: (Inr pw)
  obtain au x where x: "auth_setup (se_bcrypt e) (se_salt e) (se_auth_write e) pw (ap_auth a) = (au, x)"
    by fastforce
  show ?thesis
  proof (cases x)
    case (Inl m)
    have "au = ap_auth a \<or> au_hash (ap_auth a) = None \<and> (\<exists>f. au = (ap_auth a)\<lparr>au_file := f\<rparr>)"
      using x Inl by (auto simp: auth_setup_def split: if_splits sum.splits option.splits)
    with assms pw x Inl show ?thesis by (auto simp: handleAuthSetup_def http_error_def)
  next
    case (Inr u)
    with assms pw x auth_setup_result [OF x] show ?thesis by (auto simp: handleAuthSetup_def)
  qed
qed

lemma boot_auth:
  "boot e nd pd f cert sug = Inr a \<Longrightarrow> au_hash (ap_auth a) = (case f of Creds h \<Rightarrow> h | _ \<Rightarrow> None)
     \<and> au_file (ap_auth a) = f \<and> au_sessions (ap_auth a) = []"
  by (auto simp: boot_def ok_iff auth_open_def split: cred_file.splits)

lemma handleAuthLogin_hash [simp]:
  "au_hash (ap_auth (fst (handleAuthLogin e rq a))) = au_hash (ap_auth a)"
  "au_file (ap_auth (fst (handleAuthLogin e rq a))) = au_file (ap_auth a)"
  by (simp_all add: handleAuthLogin_def split: sum.splits)

lemma handleAuthLogout_hash [simp]:
  "au_hash (ap_auth (fst (handleAuthLogout c a))) = au_hash (ap_auth a)"
  "au_file (ap_auth (fst (handleAuthLogout c a))) = au_file (ap_auth a)"
  by (simp_all add: handleAuthLogout_def revoke_def split: option.splits)

lemma handleAuthSetup_kept:
  "au_hash (ap_auth a) = Some h \<Longrightarrow> ap_auth (fst (handleAuthSetup e rq a)) = ap_auth a"
proof -
  assume h: "au_hash (ap_auth a) = Some h"
  obtain a' r where r: "handleAuthSetup e rq a = (a', r)" by fastforce
  from handleAuthSetup_result [OF r] h r show ?thesis by auto
qed

lemma handleAuthSetup_new:
  assumes "au_hash (ap_auth (fst (handleAuthSetup e rq a))) = Some h" and "au_hash (ap_auth a) = None"
  shows "au_file (ap_auth (fst (handleAuthSetup e rq a))) = Creds (Some h)"
proof -
  obtain a' r where r: "handleAuthSetup e rq a = (a', r)" by fastforce
  from handleAuthSetup_result [OF r] show ?thesis
  proof (elim disjE exE conjE)
    fix pw g b
    assume b: "b = a\<lparr>ap_auth := (ap_auth a)\<lparr>au_file := Creds (Some g), au_hash := Some g\<rparr>\<rparr>"
      and st: "startSession e b = (a', r)"
    have "au_hash (ap_auth a') = au_hash (ap_auth b)" "au_file (ap_auth a') = au_file (ap_auth b)"
      using startSession_hash [of e b] st by simp_all
    with b r assms(1) show ?thesis by simp
  qed (use assms r in auto)
qed

lemma serve_main_hash:
  "au_hash (ap_auth a) = Some h \<Longrightarrow> au_hash (ap_auth (fst (serve_main e cookie rq a))) = Some h"
  "password_durable a \<Longrightarrow> password_durable (fst (serve_main e cookie rq a))"
proof -
  show "au_hash (ap_auth (fst (serve_main e cookie rq a))) = Some h" if "au_hash (ap_auth a) = Some h"
    using that handleAuthSetup_kept [OF that, of e rq] by (simp add: serve_main_auth)
  show "password_durable (fst (serve_main e cookie rq a))" if "password_durable a"
    using that handleAuthSetup_kept [of a _ e rq] handleAuthSetup_new [of e rq a]
    by (cases "au_hash (ap_auth a)") (auto simp: serve_main_auth password_durable_def)
qed

lemma durable_step: "app_step G a a' \<Longrightarrow> password_durable a \<Longrightarrow>
    password_durable a' \<and> (\<forall>h. au_hash (ap_auth a) = Some h \<longrightarrow> au_hash (ap_auth a') = Some h)"
proof (erule app_stepE)
  fix e cert sug
  assume "boot e (st_disk (ap_store a)) (ps_disk (ap_pending a)) (au_file (ap_auth a)) cert sug = Inr a'"
    "password_durable a"
  with boot_auth [OF this(1)] show ?thesis by (auto simp: password_durable_def split: cred_file.splits)
next
  fix e cookie rq
  assume "a' = fst (serve_main e cookie rq a)" "password_durable a"
  then show ?thesis by (simp add: serve_main_hash)
next
  fix e rq
  assume "a' = fst (serve_register e rq a)" "password_durable a"
  then show ?thesis by (simp add: serve_register_def handleRegister_frame password_durable_def)
qed

lemma first_durable: "app_first a \<Longrightarrow> password_durable a"
  by (auto simp: app_first_def password_durable_def)

text \<open>
  C19: The administrator's password is set once. Whatever requests arrive on either port, with
  whatever failures of the disk or the network, and however often the process restarts, a
  password hash that is set is never changed or lost.
\<close>

theorem password_set_once:
  assumes "app_reachable G a" and "au_hash (ap_auth a) = Some h" and "(app_step G)\<^sup>*\<^sup>* a a'"
  shows "au_hash (ap_auth a') = Some h"
proof -
  have "password_durable a"
    using assms(1) unfolding app_reachable_reach
    by (rule ctl.invariant [where I = password_durable, rotated 2]) (auto intro: first_durable dest: durable_step)
  with assms(2) have start: "password_durable a \<and> au_hash (ap_auth a) = Some h" by simp
  have "password_durable a' \<and> au_hash (ap_auth a') = Some h"
    by (rule ctl.invariant_run [where I = "\<lambda>x. password_durable x \<and> au_hash (ap_auth x) = Some h", OF _ start assms(3)])
      (auto dest: durable_step)
  then show ?thesis by simp
qed

theorem password_set_once_witness:
  "au_hash (ap_auth (fst (serve_main (demo_env ''a1'') None setup_request app_with_session))) = Some ''22retnuh''"
proof (rule password_set_once [where G = any_env])
  show "app_reachable any_env app_with_session"
    by (rule reachable_with_session [where i = "''a1''"]) (simp add: any_env_def)
  show "(app_step any_env)\<^sup>*\<^sup>* app_with_session (fst (serve_main (demo_env ''a1'') None setup_request app_with_session))"
    by (rule r_into_rtranclp, rule app_step.main_step) (simp add: any_env_def)
qed (simp add: app_with_session_def)

lemma session_origin:
  assumes "serve_main e cookie rq a = (a', r)"
    and "live_session t u (ap_auth a')" and "\<not> live_session t u (ap_auth a)"
  shows "se_token e = Some u \<and> hs_cookie r = Set_Session u \<and> t \<le> se_now e + sessionTTL
    \<and> (\<exists>pw. decode_field (rq_body rq) ''password'' = Inr pw
        \<and> (rq_path rq = ''/api/auth/login'' \<and> verify_password (se_bcrypt e) pw (ap_auth a)
           \<or> rq_path rq = ''/api/auth/setup'' \<and> setup_required (ap_auth a) \<and> 8 \<le> length pw))"
proof -
  have issued: "se_token e = Some u \<and> hs_cookie r = Set_Session u \<and> t \<le> se_now e + sessionTTL"
    if "startSession e b = (a', r)" "au_sessions (ap_auth b) = au_sessions (ap_auth a)" for b
  proof -
    have same: "live_session t u (ap_auth b) = live_session t u (ap_auth a)" using that(2) by (simp add: live_session_iff)
    from startSession_auth [OF that(1)] assms(2,3) same obtain tok where
      tok: "se_token e = Some tok" "ap_auth a' = fst (new_session (Some tok) (se_now e) (ap_auth b))" "hs_cookie r = Set_Session tok" by auto
    with assms(2,3) same session.issued [where now' = t and u = u and now = "se_now e" and t = tok and s = "ap_auth b"] show ?thesis
      by (cases "u = tok") auto
  qed
  have dead: "\<not> live_session t u (ap_auth (fst (cookie_valid e cookie a)))"
    using assms(3) by (cases cookie) (auto simp: cookie_valid_def Let_def case_prod_beta live_session_iff valid_session_def
        split: option.splits)
  have a': "a' = fst (serve_main e cookie rq a)" using assms(1) by simp
  consider "rq_path rq = ''/api/auth/setup''" | "rq_path rq = ''/api/auth/login''"
    | "rq_path rq \<noteq> ''/api/auth/setup''" "rq_path rq \<noteq> ''/api/auth/login''" by blast
  then show ?thesis
  proof cases
    case 1
    then have h: "handleAuthSetup e rq a = (a', r)" using assms(1) by (simp add: serve_main_def)
    from handleAuthSetup_result [OF h] show ?thesis
    proof (elim disjE exE conjE)
      fix pw g b
      assume "decode_field (rq_body rq) ''password'' = Inr pw" "8 \<le> length pw" "au_hash (ap_auth a) = None"
        "b = a\<lparr>ap_auth := (ap_auth a)\<lparr>au_file := Creds (Some g), au_hash := Some g\<rparr>\<rparr>" "startSession e b = (a', r)"
      with 1 issued [of b] show ?thesis by (simp add: setup_required_def)
    qed (use assms(2,3) in \<open>auto simp: live_session_iff\<close>)
  next
    case 2
    then have h: "handleAuthLogin e rq a = (a', r)" using assms(1) by (simp add: serve_main_def)
    show ?thesis
    proof (cases "decode_field (rq_body rq) ''password''")
      case (Inl m)
      with h assms(2,3) show ?thesis by (auto simp: handleAuthLogin_def)
    next
      case (Inr pw)
      with h assms(2,3) have v: "verify_password (se_bcrypt e) pw (ap_auth a)" "startSession e a = (a', r)"
        by (auto simp: handleAuthLogin_def split: if_splits)
      with 2 Inr issued [of a] show ?thesis by simp
    qed
  next
    case 3
    have "\<not> live_session t u (ap_auth (fst (handleAuthLogout cookie a)))"
      using assms(3) session.dropped [of t u] by (auto simp: handleAuthLogout_def split: option.splits)
    with 3 dead a' assms(2,3) have False by (auto simp: serve_main_auth split: if_splits)
    then show ?thesis ..
  qed
qed

text \<open>
  C20: Sessions come from the password. If a request makes a session live that was not live
  before, it was a sign-in whose password verified against the stored hash, or the one set-up
  with a password of at least eight bytes; the session is the one the response's cookie hands
  out, and it is live for 24 hours at most.
\<close>

theorem sessions_need_the_password:
  assumes "serve_main e cookie rq a = (a', r)"
    and "live_session t u (ap_auth a')" and "\<not> live_session t u (ap_auth a)"
  shows "hs_cookie r = Set_Session u \<and> t \<le> se_now e + sessionTTL
    \<and> (\<exists>pw. decode_field (rq_body rq) ''password'' = Inr pw
        \<and> (rq_path rq = ''/api/auth/login'' \<and> verify_password (se_bcrypt e) pw (ap_auth a)
           \<or> rq_path rq = ''/api/auth/setup'' \<and> setup_required (ap_auth a) \<and> 8 \<le> length pw))"
  using session_origin [OF assms] by blast

theorem sessions_need_the_password_witness:
  "hs_cookie (snd (serve_main (demo_env ''a1'') None setup_request first_app)) = Set_Session ''tok''"
proof -
  have live: "live_session 2000 ''tok'' (ap_auth app_with_session)" "\<not> live_session 2000 ''tok'' (ap_auth first_app)"
    by (simp_all add: live_session_iff app_with_session_def first_app_def gm_get_def sessionTTL_def)
  show ?thesis
    unfolding setup_run snd_conv
    by (rule conjunct1 [OF sessions_need_the_password [OF setup_run [of "''a1''"] live]])
qed

text \<open>A sequence of requests to the main port, each with its environment and cookie.\<close>

fun serve_all :: "(server_env \<times> string option \<times> request) list \<Rightarrow> app \<Rightarrow> app" where
  "serve_all [] a = a"
| "serve_all ((e, cookie, rq) # xs) a = serve_all xs (fst (serve_main e cookie rq a))"

text \<open>
  Signing out ends the session for good. After a request to \<open>/api/auth/logout\<close> with a
  cookie, no sequence of later requests makes that cookie a live session again at any time, as
  long as the random generator does not produce the same 256-bit token again.
\<close>

theorem logout_ends_the_session:
  assumes "rq_path rq = ''/api/auth/logout''"
    and "\<forall>(e', _, _) \<in> set later. se_token e' \<noteq> Some c"
  shows "\<not> live_session t c (ap_auth (serve_all later (fst (serve_main e (Some c) rq a))))"
proof -
  have keeps: "\<not> live_session t c (ap_auth b) \<Longrightarrow> \<forall>(e', _, _) \<in> set xs. se_token e' \<noteq> Some c \<Longrightarrow>
      \<not> live_session t c (ap_auth (serve_all xs b))" for xs b
  proof (induction xs arbitrary: b)
    case Nil then show ?case by simp
  next
    case (Cons x xs)
    obtain e' ck rq' where x: "x = (e', ck, rq')" by (cases x)
    obtain b' r where s: "serve_main e' ck rq' b = (b', r)" by fastforce
    from session_origin [OF s, of t c] Cons.prems x have "\<not> live_session t c (ap_auth b')" by auto
    with Cons x s show ?case by simp
  qed
  have "\<not> live_session t c (ap_auth (fst (serve_main e (Some c) rq a)))"
    using assms(1) session.dropped [where now' = t and u = c and t = c and s = "ap_auth a"] by (simp add: serve_main_auth handleAuthLogout_def)
  then show ?thesis using keeps assms(2) by blast
qed

definition logout_request :: request where
  "logout_request = \<lparr>rq_method = ''POST'', rq_path = ''/api/auth/logout'', rq_ctype = [], rq_body = NoBody\<rparr>"

theorem logout_ends_the_session_witness:
  "\<not> live_session 2000 ''tok'' (ap_auth (serve_all [((demo_env ''a1'')\<lparr>se_token := Some ''new''\<rparr>, Some ''tok'', list_request)]
     (fst (serve_main (demo_env ''a1'') (Some ''tok'') logout_request app_with_session))))"
  by (rule logout_ends_the_session) (simp_all add: logout_request_def)

section \<open>Ports\<close>

lemma int_range_step:
  fixes p q :: int
  shows "(\<forall>r. p \<le> r \<and> r < q \<longrightarrow> P r) \<longleftrightarrow> (p < q \<longrightarrow> P p) \<and> (\<forall>r. p + 1 \<le> r \<and> r < q \<longrightarrow> P r)"
proof -
  have "p \<le> r \<longleftrightarrow> r = p \<or> p + 1 \<le> r" for r by linarith
  then show ?thesis by auto
qed

lemma free_port_Some: "free_port fuel p used = Some q \<longleftrightarrow>
    p \<le> q \<and> q < p + int fuel \<and> q \<notin> set used \<and> (\<forall>r. p \<le> r \<and> r < q \<longrightarrow> r \<in> set used)"
proof (induction fuel arbitrary: p)
  case 0 then show ?case by auto
next
  case (Suc fuel)
  consider "q < p" | "q = p" | "p < q" by linarith
  then show ?case
  proof cases
    case 3
    then have "p + 1 \<le> q" by linarith
    with 3 Suc.IH [of "p + 1"] int_range_step [of p q "\<lambda>r. r \<in> set used"] show ?thesis by auto
  qed (use Suc.IH [of "p + 1"] in auto)
qed

lemma free_port_None: "free_port fuel p used = None \<longleftrightarrow> (\<forall>r. p \<le> r \<and> r < p + int fuel \<longrightarrow> r \<in> set used)"
proof (induction fuel arbitrary: p)
  case 0 then show ?case by auto
next
  case (Suc fuel)
  have "p + int (Suc fuel) = p + 1 + int fuel" by simp
  with Suc.IH [of "p + 1"] int_range_step [of p "p + int (Suc fuel)" "\<lambda>r. r \<in> set used"] show ?case by auto
qed

definition ports_in_use :: "store \<Rightarrow> int set" where
  "ports_in_use s = {n_port n | n i. store_get s i = Some n}"

lemma used_ports_set: "gm_ok (st_nodes s) \<Longrightarrow> set (store_used_ports s) = ports_in_use s"
  by (force simp: store_used_ports_def ports_in_use_def store_get_def gm_get_Some_iff image_iff)

lemma allocate_port_spec:
  assumes "gm_ok (st_nodes s)"
  shows "(allocate_port s = Inr p \<longleftrightarrow>
      9500 \<le> p \<and> p \<le> 9599 \<and> p \<notin> ports_in_use s \<and> (\<forall>q. 9500 \<le> q \<and> q < p \<longrightarrow> q \<in> ports_in_use s))
    \<and> ((\<exists>err. allocate_port s = Inl err) \<longleftrightarrow> {9500..9599} \<subseteq> ports_in_use s)"
proof -
  have fuel: "allocate_port s = (case free_port 100 9500 (store_used_ports s) of
       Some p \<Rightarrow> Inr p
     | None \<Rightarrow> Inl (''no free port in [9500, 9599] - '' @ show_nat (length (store_used_ports s))
         @ '' nodes already registered''))"
    by (simp add: allocate_port_def portRangeEnd_def portRangeStart_def)
  have "(\<exists>err. allocate_port s = Inl err) \<longleftrightarrow> free_port 100 9500 (store_used_ports s) = None"
    by (simp add: fuel split: option.splits)
  also have "\<dots> \<longleftrightarrow> {9500..9599} \<subseteq> ports_in_use s"
    by (auto simp: free_port_None used_ports_set [OF assms])
  finally have none: "(\<exists>err. allocate_port s = Inl err) \<longleftrightarrow> {9500..9599} \<subseteq> ports_in_use s" .
  have "allocate_port s = Inr p \<longleftrightarrow> free_port 100 9500 (store_used_ports s) = Some p"
    by (simp add: fuel split: option.splits)
  with none show ?thesis by (auto simp: free_port_Some used_ports_set [OF assms])
qed

text \<open>
  The port a new node gets is the lowest one of 9500 to 9599 that no registered node has,
  and the allocation fails exactly when registered nodes have all hundred.
\<close>

theorem allocate_port_lowest_free:
  assumes "gm_ok (st_nodes s)"
  shows "(allocate_port s = Inr p \<longleftrightarrow>
      9500 \<le> p \<and> p \<le> 9599 \<and> p \<notin> ports_in_use s \<and> (\<forall>q. 9500 \<le> q \<and> q < p \<longrightarrow> q \<in> ports_in_use s))
    \<and> ((\<exists>err. allocate_port s = Inl err) \<longleftrightarrow> {9500..9599} \<subseteq> ports_in_use s)"
  by (rule allocate_port_spec [OF assms])

theorem allocate_port_lowest_free_witness: "allocate_port store_empty = Inr 9500"
  using allocate_port_lowest_free [of store_empty 9500]
  by (simp add: store_empty_def ports_in_use_def store_get_def)

section \<open>The registry stays consistent\<close>

text \<open>
  What a step meets: \<open>fresh_ids\<close> when its random identifier is not in use, whatever its writes and
  removals do; \<open>sound_env\<close> when, besides, no write or removal of a file fails.
\<close>

definition fresh_ids :: "server_env \<Rightarrow> app \<Rightarrow> bool" where
  "fresh_ids e a \<longleftrightarrow>
     (\<forall>i. os_id (se_os e) = Some i \<longrightarrow> store_get (ap_store a) i = None \<and> pending_get (ap_pending a) i = None)"

definition sound_env :: "server_env \<Rightarrow> app \<Rightarrow> bool" where
  "sound_env e a \<longleftrightarrow> os_fault (se_os e) = None \<and> se_rm e = None \<and>
     (\<forall>i. os_id (se_os e) = Some i \<longrightarrow> store_get (ap_store a) i = None \<and> pending_get (ap_pending a) i = None)"

definition consistent :: "(string \<Rightarrow> node option) \<Rightarrow> (string \<Rightarrow> node option) \<Rightarrow> bool" where
  "consistent reg lst \<longleftrightarrow>
     (\<forall>i n. reg i = Some n \<longrightarrow> n_id n = i \<and> 9500 \<le> n_port n \<and> n_port n \<le> 9599)
   \<and> (\<forall>i j n m. reg i = Some n \<longrightarrow> reg j = Some m \<longrightarrow> n_port n = n_port m \<longrightarrow> i = j)
   \<and> (\<forall>i n. lst i = Some n \<longrightarrow> reg i = Some n)"

definition app_inv :: "app \<Rightarrow> bool" where
  "app_inv a \<longleftrightarrow> store_synced (ap_store a) \<and> pending_synced (ap_pending a)
     \<and> consistent (store_get (ap_store a)) (gm_get (ap_listeners a))"

text \<open>What holds in memory whatever happens to the files.\<close>

definition memory_inv :: "app \<Rightarrow> bool" where
  "memory_inv a \<longleftrightarrow> gm_ok (st_nodes (ap_store a)) \<and> consistent (store_get (ap_store a)) (gm_get (ap_listeners a))"

lemma app_memory_inv: "app_inv a \<Longrightarrow> memory_inv a"
  by (simp add: app_inv_def memory_inv_def store_synced_def)

lemma sound_fresh: "sound_env e a \<Longrightarrow> fresh_ids e a"
  by (simp add: sound_env_def fresh_ids_def)

lemma consistent_fewer: "consistent reg lst \<Longrightarrow> (\<And>i n. lst' i = Some n \<Longrightarrow> lst i = Some n) \<Longrightarrow> consistent reg lst'"
  by (simp add: consistent_def)

lemma consistent_remove:
  "consistent reg lst \<Longrightarrow> consistent (\<lambda>j. if j = i then None else reg j) (\<lambda>j. if j = i then None else lst j)"
  by (auto simp: consistent_def split: if_splits)

lemma consistent_add:
  assumes "consistent reg lst" and "reg (n_id n) = None" and "9500 \<le> n_port n" "n_port n \<le> 9599"
    and "\<And>j m. reg j = Some m \<Longrightarrow> n_port m \<noteq> n_port n"
  shows "consistent (\<lambda>j. if j = n_id n then Some n else reg j) lst"
    "consistent (\<lambda>j. if j = n_id n then Some n else reg j) (\<lambda>j. if j = n_id n then Some n else lst j)"
  using assms by (auto simp: consistent_def split: if_splits) (metis option.distinct(1))+

lemma synced_ok: "store_synced s \<Longrightarrow> gm_ok (st_nodes s)"
  by (simp add: store_synced_def)

lemma allocated_fresh:
  assumes "gm_ok (st_nodes s)" and "allocate_port s = Inr p"
  shows "9500 \<le> p \<and> p \<le> 9599 \<and> (\<forall>j m. store_get s j = Some m \<longrightarrow> n_port m \<noteq> p)"
  using allocate_port_spec [OF assms(1), of p] assms(2) by (auto simp: ports_in_use_def)

lemma gm_ok_store_add: "store_add e n s = (st, r) \<Longrightarrow> gm_ok (st_nodes s) \<Longrightarrow> gm_ok (st_nodes st)"
  by (drule store_add_result) (auto split: sum.splits)

lemma gm_ok_store_remove: "gm_ok (st_nodes s) \<Longrightarrow> gm_ok (st_nodes (fst (store_remove kept i s)))"
  by (simp add: store_remove_def Let_def)

lemma added_memory:
  assumes inv: "memory_inv a" and env: "fresh_ids e a" and port: "allocate_port (ap_store a) = Inr (n_port n)"
    and add: "store_add (se_os e) n (ap_store a) = (st, Inr n')"
  shows "store_get (ap_store a) (n_id n') = None" "gm_ok (st_nodes st)"
    "consistent (store_get st) (gm_get (ap_listeners a))"
    "consistent (store_get st) (\<lambda>j. if j = n_id n' then Some n' else gm_get (ap_listeners a) j)"
proof -
  show fresh: "store_get (ap_store a) (n_id n') = None"
    using nodes.add_ident [OF add] env by (simp add: fresh_ids_def)
  have ok: "gm_ok (st_nodes (ap_store a))" "consistent (store_get (ap_store a)) (gm_get (ap_listeners a))"
    using inv by (simp_all add: memory_inv_def)
  show "gm_ok (st_nodes st)" using add ok(1) by (rule gm_ok_store_add)
  have same: "n_port n' = n_port n" using add by (rule store_add_port)
  have get: "store_get st = (\<lambda>j. if j = n_id n' then Some n' else store_get (ap_store a) j)"
    using nodes.add_ok [OF add] by auto
  from allocated_fresh [OF ok(1) port] fresh same ok(2)
  show "consistent (store_get st) (gm_get (ap_listeners a))"
    "consistent (store_get st) (\<lambda>j. if j = n_id n' then Some n' else gm_get (ap_listeners a) j)"
    unfolding get by (auto intro!: consistent_add)
qed

text \<open>
  An invariant of the registries that every elementary change of the handlers keeps, in the
  environments \<open>Env\<close>, is kept by every request. It is used twice: for what holds in memory
  whatever fails, and for what holds in memory and on disk when no write or removal fails.
\<close>

locale registry_invariant =
  fixes Inv :: "app \<Rightarrow> bool" and Env :: "server_env \<Rightarrow> app \<Rightarrow> bool"
  assumes depends: "registries a' = registries a \<Longrightarrow> Inv a \<Longrightarrow> Inv a'"
    and env_depends: "registries a' = registries a \<Longrightarrow> Env e a \<Longrightarrow> Env e a'"
    and keeps_failed: "Inv a \<Longrightarrow> Env e a \<Longrightarrow> not_added e n a a' \<Longrightarrow> Inv a'"
    and keeps_down: "Inv a \<Longrightarrow> Env e a \<Longrightarrow> allocate_port (ap_store a) = Inr (n_port n) \<Longrightarrow> added_down e n a n' a' \<Longrightarrow> Inv a'"
    and keeps_up: "Inv a \<Longrightarrow> Env e a \<Longrightarrow> allocate_port (ap_store a) = Inr (n_port n) \<Longrightarrow> added_up e n a n' a' \<Longrightarrow> Inv a'"
    and keeps_back: "Inv a \<Longrightarrow> Env e a \<Longrightarrow> allocate_port (ap_store a) = Inr (n_port n) \<Longrightarrow> added_down e n a n' b
      \<Longrightarrow> Inv (b\<lparr>ap_store := fst (store_remove (se_rm e) (n_id n') (ap_store b))\<rparr>)"
    and keeps_removed: "Inv a \<Longrightarrow> Env e a
      \<Longrightarrow> Inv (a\<lparr>ap_listeners := gm_del i (ap_listeners a), ap_store := fst (store_remove (se_rm e) i (ap_store a))\<rparr>)"
    and keeps_unqueued: "Inv b \<Longrightarrow> Env e a \<Longrightarrow> Inv (b\<lparr>ap_pending := fst (pending_remove (se_rm e) i (ap_pending b))\<rparr>)"
    and keeps_queued: "Inv a \<Longrightarrow> Env e a \<Longrightarrow> Inv (a\<lparr>ap_pending := fst (pending_add (se_os e) now p (ap_pending a))\<rparr>)"
begin

lemma keeps_handleAddNode: "Inv a \<Longrightarrow> Env e a \<Longrightarrow> Inv (fst (handleAddNode e rq a))"
proof -
  assume inv: "Inv a" and env: "Env e a"
  obtain a' r where r: "handleAddNode e rq a = (a', r)" by fastforce
  from handleAddNode_result [OF r] have "Inv a'"
    by (elim disjE exE conjE) (blast intro: inv keeps_failed [OF inv env] keeps_down [OF inv env] keeps_up [OF inv env])+
  with r show ?thesis by simp
qed

lemma keeps_handleNode: "Inv a \<Longrightarrow> Env e a \<Longrightarrow> Inv (fst (handleNode e rq a))"
proof -
  assume inv: "Inv a" and env: "Env e a"
  obtain st x where st: "store_remove (se_rm e) (drop (length ''/api/nodes/'') (rq_path rq)) (ap_store a) = (st, x)"
    by fastforce
  with keeps_removed [OF inv env, of "drop (length ''/api/nodes/'') (rq_path rq)"]
  have "Inv (a\<lparr>ap_listeners := gm_del (drop (length ''/api/nodes/'') (rq_path rq)) (ap_listeners a), ap_store := st\<rparr>)"
    by simp
  with st inv show ?thesis by (cases x) (simp_all add: handleNode_def Let_def)
qed

lemma keeps_approvePending: "Inv a \<Longrightarrow> Env e a \<Longrightarrow> Inv (fst (approvePending e i a))"
proof -
  assume inv: "Inv a" and env: "Env e a"
  obtain a' r where r: "approvePending e i a = (a', r)" by fastforce
  from approvePending_result [OF r] have "Inv a'"
  proof (elim disjE exE conjE)
    fix p port
    assume "allocate_port (ap_store a) = Inr port"
    then have port: "allocate_port (ap_store a) = Inr (n_port (pending_to_node port p))"
      by (simp add: pending_to_node_def)
    show "not_added e (pending_to_node port p) a a' \<Longrightarrow> Inv a'" using inv env by (rule keeps_failed)
    fix n b
    show "Inv a'" if "added_down e (pending_to_node port p) a n b"
      and "a' = b\<lparr>ap_store := fst (store_remove (se_rm e) (n_id n) (ap_store b))\<rparr>"
      using keeps_back [OF inv env port] that by simp
    show "Inv a'" if "added_up e (pending_to_node port p) a n b"
      and "a' = b\<lparr>ap_pending := fst (pending_remove (se_rm e) i (ap_pending b))\<rparr>"
      using keeps_unqueued [OF keeps_up [OF inv env port that(1)] env] that(2) by simp
  qed (use inv in simp)
  with r show ?thesis by simp
qed

lemma keeps_rejectPending: "Inv a \<Longrightarrow> Env e a \<Longrightarrow> Inv (fst (rejectPending e i a))"
  using keeps_unqueued [of a e a i]
  by (cases "pending_remove (se_rm e) i (ap_pending a)") (auto simp: rejectPending_def split: sum.splits)

lemma keeps_protected:
  assumes "protected_handler e rq = Some h" "Inv a" "Env e a" shows "Inv (fst (h a))"
proof -
  from assms(1) consider "h = handleNodes e rq" | "h = handleNode e rq" | "h = handlePendingList e rq"
    | "h = handlePendingAction e rq" | "h = handleControllerInfo rq"
    by (auto simp: protected_handler_def split: if_splits)
  then show ?thesis
    by cases (use assms(2,3) keeps_handleAddNode keeps_handleNode keeps_approvePending keeps_rejectPending in
      \<open>auto simp: handleNodes_def handlePendingList_def handleControllerInfo_def handlePendingAction_def split: option.splits\<close>)
qed

lemma keeps_serve_main: "Inv a \<Longrightarrow> Env e a \<Longrightarrow> Inv (fst (serve_main e cookie rq a))"
proof -
  assume inv: "Inv a" and env: "Env e a"
  have same: "registries (fst (cookie_valid e cookie a)) = registries a" by (simp add: registries_def)
  have "Inv (fst (requireAuth e cookie h a))" if "protected_handler e rq = Some h" for h
    using keeps_protected [OF that depends [OF same inv] env_depends [OF same env]] depends [OF same inv]
    by (simp add: requireAuth_cases)
  then show ?thesis
    using inv by (auto simp: serve_main_def intro: depends [OF auth_handlers_frame(1)] depends [OF auth_handlers_frame(2)]
        depends [OF auth_handlers_frame(3)] depends [OF auth_handlers_frame(4)] split: option.splits)
qed

lemma keeps_serve_register: "Inv a \<Longrightarrow> Env e a \<Longrightarrow> Inv (fst (serve_register e rq a))"
proof -
  assume inv: "Inv a" and env: "Env e a"
  have "fst (handleRegister e rq a) = a \<or>
      (\<exists>now p. fst (handleRegister e rq a) = a\<lparr>ap_pending := fst (pending_add (se_os e) now p (ap_pending a))\<rparr>)"
    unfolding handleRegister_def by (auto split: sum.splits option.splits prod.splits) (metis fst_conv)+
  then show ?thesis using inv keeps_queued [OF inv env] by (auto simp: serve_register_def)
qed

end

interpretation memory: registry_invariant memory_inv fresh_ids
proof unfold_locales
  fix a a' b :: app and e :: server_env and n n' :: node and i :: string
  assume inv: "memory_inv a" and env: "fresh_ids e a"
  {
    assume "not_added e n a a'"
    then obtain st m where add: "store_add (se_os e) n (ap_store a) = (st, Inl m)" and a': "a' = a\<lparr>ap_store := st\<rparr>"
      by (auto simp: not_added_def)
    with inv nodes.add_err [OF add] gm_ok_store_add [OF add] show "memory_inv a'" by (simp add: memory_inv_def)
  next
    show "memory_inv (a\<lparr>ap_listeners := gm_del i (ap_listeners a), ap_store := fst (store_remove (se_rm e) i (ap_store a))\<rparr>)"
    proof -
      have "store_get (fst (store_remove (se_rm e) i (ap_store a))) = (\<lambda>j. if j = i then None else store_get (ap_store a) j)"
        "gm_get (gm_del i (ap_listeners a)) = (\<lambda>j. if j = i then None else gm_get (ap_listeners a) j)"
        by (auto simp: nodes.rm_lookup fun_eq_iff)
      with inv show ?thesis by (simp add: memory_inv_def consistent_remove gm_ok_store_remove)
    qed
  next
    assume port: "allocate_port (ap_store a) = Inr (n_port n)"
    note add = added_memory [OF inv env port]
    show "memory_inv a'" if d: "added_down e n a n' a'"
      using d add(2,3) by (auto simp: added_down_def memory_inv_def)
    show "memory_inv a'" if d: "added_up e n a n' a'"
    proof -
      obtain st where st: "store_add (se_os e) n (ap_store a) = (st, Inr n')"
        and a': "a' = a\<lparr>ap_store := st, ap_listeners := gm_put (n_id n') n' (ap_listeners a)\<rparr>"
        using d by (auto simp: added_up_def)
      have "gm_get (ap_listeners a') = (\<lambda>j. if j = n_id n' then Some n' else gm_get (ap_listeners a) j)"
        by (auto simp: a')
      with add(2,4) [OF st] a' show ?thesis by (simp add: memory_inv_def)
    qed
    show "memory_inv (b\<lparr>ap_store := fst (store_remove (se_rm e) (n_id n') (ap_store b))\<rparr>)" if d: "added_down e n a n' b"
    proof -
      obtain st where st: "store_add (se_os e) n (ap_store a) = (st, Inr n')" and b: "b = a\<lparr>ap_store := st\<rparr>"
        using d by (auto simp: added_down_def)
      show ?thesis
        using nodes.roll_back [OF st add(1) [OF st]] inv gm_ok_store_remove [OF add(2) [OF st]] by (simp add: b memory_inv_def)
    qed
  }
qed (auto simp: registries_def memory_inv_def fresh_ids_def)

interpretation files: registry_invariant app_inv sound_env
proof unfold_locales
  fix a a' b :: app and e :: server_env and n n' :: node and i :: string and now :: int and p :: pnode
  assume inv: "app_inv a" and env: "sound_env e a"
  note mem = app_memory_inv [OF inv] and fresh = sound_fresh [OF env]
  have disk: "os_fault (se_os e) = None" "se_rm e = None" using env by (simp_all add: sound_env_def)
  have sync: "store_synced (ap_store a)" "pending_synced (ap_pending a)" using inv by (simp_all add: app_inv_def)
  have added: "store_synced st" if "store_add (se_os e) n (ap_store a) = (st, r)" for st r
    using nodes.synced_add [OF sync(1) disk(1), of n] that by simp
  have split: "app_inv x" if "memory_inv x" "store_synced (ap_store x)" "pending_synced (ap_pending x)" for x
    using that by (simp add: app_inv_def memory_inv_def)
  {
    assume d: "not_added e n a a'"
    show "app_inv a'"
      by (rule split [OF memory.keeps_failed [OF mem fresh d]]) (use d added sync in \<open>auto simp: not_added_def\<close>)
  next
    show "app_inv (a\<lparr>ap_listeners := gm_del i (ap_listeners a), ap_store := fst (store_remove (se_rm e) i (ap_store a))\<rparr>)"
      by (rule split [OF memory.keeps_removed [OF mem fresh]]) (use nodes.synced_rm sync disk(2) in auto)
  next
    assume port: "allocate_port (ap_store a) = Inr (n_port n)"
    show "app_inv a'" if d: "added_down e n a n' a'"
      by (rule split [OF memory.keeps_down [OF mem fresh port d]]) (use d added sync in \<open>auto simp: added_down_def\<close>)
    show "app_inv a'" if d: "added_up e n a n' a'"
      by (rule split [OF memory.keeps_up [OF mem fresh port d]]) (use d added sync in \<open>auto simp: added_up_def\<close>)
    show "app_inv (b\<lparr>ap_store := fst (store_remove (se_rm e) (n_id n') (ap_store b))\<rparr>)" if d: "added_down e n a n' b"
      by (rule split [OF memory.keeps_back [OF mem fresh port d]])
        (use d added sync disk(2) nodes.synced_rm in \<open>auto simp: added_down_def\<close>)
  next
    show "app_inv (a\<lparr>ap_pending := fst (pending_add (se_os e) now p (ap_pending a))\<rparr>)"
      using inv announced.synced_add [of "ap_pending a" "(se_os e, now)" p] disk(1) by (simp add: app_inv_def)
  }
qed (auto simp: registries_def app_inv_def sound_env_def announced.synced_rm)

lemma start_all_inv:
  assumes "app_inv a" and "\<forall>n \<in> set ns. store_get (ap_store a) (n_id n) = Some n"
  shows "app_inv (start_all e ns a)"
  using assms
proof (induction ns arbitrary: a)
  case Nil then show ?case by simp
next
  case (Cons n ns)
  obtain b x where l: "start_listener e n a = (b, x)" by fastforce
  have "app_inv b \<and> ap_store b = ap_store a"
  proof (cases x)
    case (Inl m) with start_listener_result [OF l] Cons.prems(1) show ?thesis by simp
  next
    case (Inr u)
    with start_listener_result [OF l] have b: "b = a\<lparr>ap_listeners := gm_put (n_id n) n (ap_listeners a)\<rparr>" by simp
    with Cons.prems show ?thesis by (auto simp: app_inv_def consistent_def)
  qed
  with Cons l show ?case by simp
qed

lemma boot_inv:
  assumes "app_inv a" and "boot e (st_disk (ap_store a)) (ps_disk (ap_pending a)) f cert sug = Inr a'"
  shows "app_inv a'"
proof -
  obtain st where st: "store_open (st_disk (ap_store a)) = Inr st" "store_get st = store_get (ap_store a)" "store_synced st"
    using nodes.synced_reopen assms(1) by (auto simp: app_inv_def)
  obtain ps where ps: "pending_open (ps_disk (ap_pending a)) = Inr ps" "pending_synced ps"
    using announced.synced_reopen assms(1) by (auto simp: app_inv_def)
  from assms(2) st(1) ps(1) obtain au where a': "a' = start_all e (store_list st) \<lparr>ap_store = st, ap_pending = ps,
      ap_auth = au, ap_listeners = [], ap_cert_pem = cert, ap_suggested = sug\<rparr>" (is "_ = start_all e _ ?a0")
    by (auto simp: boot_def ok_iff)
  have cons: "consistent (store_get st) (gm_get [])"
    using assms(1) st(2) by (auto simp: app_inv_def intro: consistent_fewer)
  with st(3) ps(2) have "app_inv ?a0" by (simp add: app_inv_def)
  moreover have "store_get st (n_id n) = Some n" if "n \<in> set (store_list st)" for n
  proof -
    from that obtain i where "(i, n) \<in> set (st_nodes st)" by (auto simp: store_list_def)
    then have i: "store_get st i = Some n" using st(3) by (simp add: store_get_def store_synced_def gm_get_Some_iff)
    with cons have "n_id n = i" by (auto simp: consistent_def)
    with i show ?thesis by simp
  qed
  ultimately show ?thesis unfolding a' by (intro start_all_inv) auto
qed

lemma app_inv_step: "app_inv a \<Longrightarrow> app_step sound_env a a' \<Longrightarrow> app_inv a'"
  by (erule app_stepE) (auto intro: files.keeps_serve_main files.keeps_serve_register boot_inv)

lemma app_inv_first: "app_first a \<Longrightarrow> app_inv a"
  using empty_synced by (auto simp: app_first_def app_inv_def consistent_def store_get_def store_empty_def)

lemma reachable_app_inv: "app_reachable sound_env a \<Longrightarrow> app_inv a"
  unfolding app_reachable_reach
  by (rule ctl.invariant [where I = app_inv, rotated 2]) (auto intro: app_inv_first app_inv_step)

text \<open>One request on either port, with the process left running.\<close>

definition request_step :: "(server_env \<Rightarrow> app \<Rightarrow> bool) \<Rightarrow> app \<Rightarrow> app \<Rightarrow> bool" where
  "request_step G a a' \<longleftrightarrow> (\<exists>e cookie rq. G e a \<and> (a' = fst (serve_main e cookie rq a) \<or> a' = fst (serve_register e rq a)))"

lemma memory_inv_requests:
  assumes "(request_step fresh_ids)\<^sup>*\<^sup>* a a'" and "memory_inv a" shows "memory_inv a'"
  using assms by (induction rule: rtranclp_induct) (auto simp: request_step_def intro: memory.keeps_serve_main memory.keeps_serve_register)

text \<open>
  C5: Take requests one at a time, each drawing an identifier that is not in use. As long as no
  write or removal of a file has failed, restarts included (the state \<open>a\<close>), the data directory holds
  exactly the registered and announced nodes, so a restart would find them all. And whatever
  writes and removals fail from there on, until the next restart (the state \<open>a'\<close>), each registered
  node has its own port between 9500 and 9599 and every running listener serves a registered node
  on that node's port.
\<close>

theorem registry_stays_consistent:
  assumes "app_reachable sound_env a" and "(request_step fresh_ids)\<^sup>*\<^sup>* a a'"
  shows "(\<forall>i n. store_get (ap_store a') i = Some n \<longrightarrow> n_id n = i \<and> 9500 \<le> n_port n \<and> n_port n \<le> 9599)
    \<and> (\<forall>i j n m. store_get (ap_store a') i = Some n \<longrightarrow> store_get (ap_store a') j = Some m \<longrightarrow> i \<noteq> j \<longrightarrow> n_port n \<noteq> n_port m)
    \<and> (\<forall>i n. gm_get (ap_listeners a') i = Some n \<longrightarrow> store_get (ap_store a') i = Some n)
    \<and> (\<exists>st ps. store_open (st_disk (ap_store a)) = Inr st \<and> store_get st = store_get (ap_store a)
        \<and> pending_open (ps_disk (ap_pending a)) = Inr ps \<and> pending_get ps = pending_get (ap_pending a))"
proof -
  have inv: "app_inv a" using assms(1) by (rule reachable_app_inv)
  have c: "consistent (store_get (ap_store a')) (gm_get (ap_listeners a'))"
    using memory_inv_requests [OF assms(2) app_memory_inv [OF inv]] by (simp add: memory_inv_def)
  obtain st where "store_open (st_disk (ap_store a)) = Inr st" "store_get st = store_get (ap_store a)"
    using nodes.synced_reopen [of "ap_store a"] inv by (auto simp: app_inv_def)
  moreover obtain ps where "pending_open (ps_disk (ap_pending a)) = Inr ps" "pending_get ps = pending_get (ap_pending a)"
    using announced.synced_reopen [of "ap_pending a"] inv by (auto simp: app_inv_def)
  ultimately show ?thesis using c unfolding consistent_def by blast
qed

definition announce_request :: request where
  "announce_request = \<lparr>rq_method = ''POST'', rq_path = ''/register'', rq_ctype = ''application/json'',
     rq_body = JsonBody (Obj [(''name'', Str ''edge''), (''address'', Str ''10.0.0.5:9505''),
       (''ca_cert_pem'', Str ''CA''), (''service_cert_pem'', Str ''CRT''), (''service_key_pem'', Str ''KEY'')])\<rparr>"

definition announced_node :: pnode where
  "announced_node = \<lparr>p_id = ''p1'', p_name = ''edge'', p_address = ''10.0.0.5:9505'', p_ca = ''CA'', p_cert = ''CRT'',
     p_key = ''KEY'', p_announced = 1000\<rparr>"

definition app_announced :: app where
  "app_announced = app_with_session\<lparr>ap_pending := \<lparr>ps_disk = [(''p1'', Dir (rev (pnode_writes announced_node)))],
     ps_nodes = [(''p1'', announced_node)]\<rparr>\<rparr>"

lemma announce_run: "serve_register (demo_env ''p1'') announce_request app_with_session =
    (app_announced, writeJSON 201 (Obj [(''id'', Str ''p1'')]))"
  by (simp add: serve_register_def announce_request_def handleRegister_def decode_register_def decode_field_def
      key_match_def to_lower_case_def lower_char_def demo_env_def os_fine_def pending_add_def write_dir_def mkdir_all_def
      pem_writes_def app_with_session_def first_app_def pending_empty_def gm_put_def gm_del_def gm_get_def
      app_announced_def announced_node_def pnode_meta_of_def Let_def)

lemma reachable_announced: "app_reachable sound_env app_announced"
proof -
  have "app_reachable sound_env app_with_session"
    by (rule reachable_with_session [where i = "''x''"])
      (simp add: sound_env_def demo_env_def os_fine_def first_app_def store_empty_def pending_empty_def store_get_def
        pending_get_def)
  moreover have "sound_env (demo_env ''p1'') app_with_session"
    by (simp add: sound_env_def demo_env_def os_fine_def app_with_session_def first_app_def store_empty_def
        pending_empty_def store_get_def pending_get_def)
  ultimately show ?thesis
    using reachable_register_step [of sound_env app_with_session "demo_env ''p1''" announce_request]
    by (simp add: announce_run)
qed

theorem registry_stays_consistent_witness:
  "\<exists>ps. pending_open (ps_disk (ap_pending app_announced)) = Inr ps \<and> pending_get ps = pending_get (ap_pending app_announced)"
  using registry_stays_consistent [OF reachable_announced rtranclp.rtrancl_refl] by blast

section \<open>Approving and adding\<close>

lemma store_add_node: "store_add e n s = (st, Inr n') \<Longrightarrow> n' = n\<lparr>n_id := n_id n'\<rparr>"
  by (drule store_add_result) auto

text \<open>
  C9: Approving an announced node happens completely or not at all. On success the node is in
  the registry exactly as it announced itself, under a new identifier and a port no other node
  has, its listener is running and the announcement is gone; on any failure (no such
  announcement, no port, a failed write, a listener that does not start) the registry, the
  listeners and the queue are what they were, so the approval can be retried.
\<close>

theorem approve_all_or_nothing:
  assumes "approvePending e i a = (a', r)" and synced: "store_synced (ap_store a)"
    and fresh: "\<And>j. os_id (se_os e) = Some j \<Longrightarrow> store_get (ap_store a) j = None"
  shows "if hs_status r = 201
    then \<exists>p n. pending_get (ap_pending a) i = Some p \<and> n_port n \<notin> ports_in_use (ap_store a)
      \<and> n = (pending_to_node (n_port n) p)\<lparr>n_id := n_id n\<rparr>
      \<and> store_get (ap_store a') = (store_get (ap_store a))(n_id n \<mapsto> n)
      \<and> gm_get (ap_listeners a') = (gm_get (ap_listeners a))(n_id n \<mapsto> n)
      \<and> pending_get (ap_pending a') = (pending_get (ap_pending a))(i := None)
    else store_get (ap_store a') = store_get (ap_store a) \<and> ap_listeners a' = ap_listeners a
      \<and> ap_pending a' = ap_pending a"
  using approvePending_result [OF assms(1)]
proof (elim disjE exE conjE)
  fix p port assume p: "pending_get (ap_pending a) i = Some p" and port: "allocate_port (ap_store a) = Inr port"
  show ?thesis if "not_added e (pending_to_node port p) a a'" "hs_status r = 500"
    using that nodes.add_err by (auto simp: not_added_def)
  fix n b
  show ?thesis if d: "added_down e (pending_to_node port p) a n b" and r: "hs_status r = 500"
    and a': "a' = b\<lparr>ap_store := fst (store_remove (se_rm e) (n_id n) (ap_store b))\<rparr>"
  proof -
    from d obtain st where add: "store_add (se_os e) (pending_to_node port p) (ap_store a) = (st, Inr n)"
      and b: "b = a\<lparr>ap_store := st\<rparr>" by (auto simp: added_down_def)
    have "store_get (ap_store a) (n_id n) = None" using nodes.add_ident [OF add] by (rule fresh)
    with nodes.roll_back [OF add] have "store_get (fst (store_remove (se_rm e) (n_id n) st)) = store_get (ap_store a)" .
    with r show ?thesis by (simp add: a' b)
  qed
  show ?thesis if d: "added_up e (pending_to_node port p) a n b" and r: "hs_status r = 201"
    and a': "a' = b\<lparr>ap_pending := fst (pending_remove (se_rm e) i (ap_pending b))\<rparr>"
  proof -
    from d obtain st where add: "store_add (se_os e) (pending_to_node port p) (ap_store a) = (st, Inr n)"
      and n: "n_port n = port" and b: "b = a\<lparr>ap_store := st, ap_listeners := gm_put (n_id n) n (ap_listeners a)\<rparr>"
      by (auto simp: added_up_def pending_to_node_def)
    have "store_get st = (store_get (ap_store a))(n_id n \<mapsto> n)" using nodes.add_ok [OF add] by auto
    moreover have "n_port n \<notin> ports_in_use (ap_store a)"
      using allocated_fresh [OF synced_ok [OF synced] port] n by (fastforce simp: ports_in_use_def)
    moreover have "pending_get (fst (pending_remove (se_rm e) i (ap_pending a))) = (pending_get (ap_pending a))(i := None)"
      using announced.rm_lookup by auto
    moreover have "gm_get (gm_put (n_id n) n (ap_listeners a)) = (gm_get (ap_listeners a))(n_id n \<mapsto> n)" by auto
    moreover have "n = (pending_to_node (n_port n) p)\<lparr>n_id := n_id n\<rparr>" using store_add_node [OF add] n by simp
    ultimately show ?thesis using p r by (auto simp: a' b)
  qed
qed auto

theorem approve_all_or_nothing_witness:
  "hs_status (snd (approvePending (demo_env ''a1'') ''p1'' app_announced)) = 201
   \<and> pending_get (ap_pending (fst (approvePending (demo_env ''a1'') ''p1'' app_announced))) ''p1'' = None"
proof -
  have "hs_status (snd (approvePending (demo_env ''a1'') ''p1'' app_announced)) = 201"
    by (simp add: approvePending_def app_announced_def app_with_session_def first_app_def pending_get_def gm_get_def
        allocate_port_def portRangeStart_def portRangeEnd_def store_used_ports_def store_empty_def store_add_def
        demo_env_def os_fine_def write_dir_def pem_writes_def Let_def start_listener_def pending_to_node_def
        announced_node_def writeJSON_def eval_nat_numeral)
  with approve_all_or_nothing [of "demo_env ''a1''" "''p1''" app_announced, OF prod.collapse [symmetric]]
  show ?thesis
    using empty_synced(1)
    by (auto simp: app_announced_def app_with_session_def first_app_def store_empty_def store_get_def)
qed

lemma start_listener_taken: "se_listen e (n_port n) = Some err \<Longrightarrow> \<exists>m. start_listener e n b = (b, Inl m)"
  by (simp add: start_listener_def)

lemma approve_without_listener:
  assumes "allocate_port (ap_store a) = Inr p" and "se_listen e p = Some err"
    and fresh: "\<And>j. os_id (se_os e) = Some j \<Longrightarrow> store_get (ap_store a) j = None"
  shows "store_get (ap_store (fst (approvePending e j a))) = store_get (ap_store a)"
proof -
  obtain a' r where r: "approvePending e j a = (a', r)" by fastforce
  from approvePending_result [OF r] have "store_get (ap_store a') = store_get (ap_store a)"
  proof (elim disjE exE conjE)
    fix q port assume port: "allocate_port (ap_store a) = Inr port"
    show ?thesis if "not_added e (pending_to_node port q) a a'"
      using that nodes.add_err by (auto simp: not_added_def)
    fix n b
    show ?thesis if "added_up e (pending_to_node port q) a n b"
      using that port assms(1,2) by (auto simp: added_up_def pending_to_node_def)
    show ?thesis if d: "added_down e (pending_to_node port q) a n b"
      and a': "a' = b\<lparr>ap_store := fst (store_remove (se_rm e) (n_id n) (ap_store b))\<rparr>"
    proof -
      from d obtain st where add: "store_add (se_os e) (pending_to_node port q) (ap_store a) = (st, Inr n)"
        and b: "b = a\<lparr>ap_store := st\<rparr>" by (auto simp: added_down_def)
      from nodes.roll_back [OF add fresh [OF nodes.add_ident [OF add]]] show ?thesis by (simp add: a' b)
    qed
  qed simp
  with r show ?thesis by simp
qed

lemma store_add_fine: "\<exists>st. store_add (os_fine i) n s = (st, Inr (n\<lparr>n_id := i\<rparr>))"
proof -
  obtain st x where add: "store_add (os_fine i) n s = (st, x)" by fastforce
  have "fst (write_dir None i ws d) = None" for ws :: "(string \<times> node_meta content) list" and d
    by (simp add: fst_write_dir)
  then obtain d where "write_dir None i (node_writes (n\<lparr>n_id := i\<rparr>)) (mkdir_all i (st_disk s)) = (None, d)"
    by (metis prod.collapse)
  then show ?thesis by (simp add: store_add_def os_fine_def Let_def)
qed

text \<open>
  Adding a node by hand has no such rollback. When the listener of a freshly registered node
  does not start (its port is taken by another program), the request is answered with an error
  but the node stays registered, without a listener and keeping the port; an approval that
  meets the same failure leaves no trace in the registry.
\<close>

theorem failed_add_leaves_a_dead_node:
  assumes cred: "issue_credential e rq = Inr n0" and port: "allocate_port (ap_store a) = Inr p"
    and taken: "se_listen e p = Some err" and os: "se_os e = os_fine i"
    and fresh: "gm_get (ap_listeners a) i = None" "store_get (ap_store a) i = None"
  shows "(\<exists>a' r n. handleAddNode e rq a = (a', r) \<and> hs_status r = 500
      \<and> store_get (ap_store a') i = Some n \<and> n_name n = n_name n0 \<and> n_port n = p \<and> gm_get (ap_listeners a') i = None)
    \<and> (\<forall>j. store_get (ap_store (fst (approvePending e j a))) = store_get (ap_store a))"
proof -
  define n where "n = n0\<lparr>n_port := p, n_id := i\<rparr>"
  obtain st where add: "store_add (os_fine i) (n0\<lparr>n_port := p\<rparr>) (ap_store a) = (st, Inr n)"
    using store_add_fine [of i "n0\<lparr>n_port := p\<rparr>" "ap_store a"] by (auto simp: n_def)
  obtain m where "start_listener e n (a\<lparr>ap_store := st\<rparr>) = (a\<lparr>ap_store := st\<rparr>, Inl m)"
    using start_listener_taken [of e n err] taken by (auto simp: n_def)
  then have "handleAddNode e rq a =
      (a\<lparr>ap_store := st\<rparr>, http_error (''node registered but its listener failed to start: '' @ m) 500)"
    using cred port add by (simp add: handleAddNode_def os)
  moreover have "store_get st i = Some n" using nodes.add_ok [OF add] by (simp add: n_def)
  moreover have "store_get (ap_store (fst (approvePending e j a))) = store_get (ap_store a)" for j
    using approve_without_listener [OF port taken] os fresh(2) by (simp add: os_fine_def)
  ultimately show ?thesis using fresh(1) by (auto simp: n_def http_error_def)
qed

definition add_request :: request where
  "add_request = \<lparr>rq_method = ''POST'', rq_path = ''/api/nodes'', rq_ctype = ''multipart/form-data'',
     rq_body = FormBody [(''name'', FText ''edge''), (''address'', FText ''10.0.0.5:9505''),
       (''pfx_password'', FText []), (''pfx'', FFile ''PFX'')]\<rparr>"

definition port_taken :: server_env where
  "port_taken = (demo_env ''a1'')\<lparr>se_listen := \<lambda>p. if p = 9500 then Some ''address already in use'' else None\<rparr>"

theorem failed_add_leaves_a_dead_node_witness:
  "\<exists>n. store_get (ap_store (fst (handleAddNode port_taken add_request app_with_session))) ''a1'' = Some n \<and> n_port n = 9500"
proof -
  have "issue_credential port_taken add_request = Inr \<lparr>n_id = [], n_name = ''edge'', n_address = ''10.0.0.5:9505'', n_port = 0,
      n_ca = ''CA'', n_cert = ''CRT'', n_key = ''KEY''\<rparr>"
    by (simp add: issue_credential_def parse_add_node_request_def add_request_def has_prefix_def port_taken_def demo_env_def
        client_tls_config_def)
  moreover have "allocate_port (ap_store app_with_session) = Inr 9500"
    using allocate_port_spec [of store_empty 9500]
    by (simp add: app_with_session_def first_app_def store_empty_def ports_in_use_def store_get_def)
  ultimately show ?thesis
    using failed_add_leaves_a_dead_node [of port_taken add_request _ app_with_session 9500 "''address already in use''" "''a1''"]
    by (fastforce simp: port_taken_def demo_env_def app_with_session_def first_app_def store_empty_def store_get_def)
qed

section \<open>What the answers depend on\<close>

definition public_node :: "node \<Rightarrow> node" where
  "public_node n = n\<lparr>n_ca := [], n_cert := [], n_key := []\<rparr>"

definition public_pnode :: "pnode \<Rightarrow> pnode" where
  "public_pnode n = n\<lparr>p_ca := [], p_cert := [], p_key := []\<rparr>"

text \<open>The state without any node's certificates and keys (and without files and listeners).\<close>

definition public_app :: "app \<Rightarrow> app" where
  "public_app a = a\<lparr>ap_store := \<lparr>st_disk = [], st_nodes = map (apsnd public_node) (st_nodes (ap_store a))\<rparr>,
     ap_pending := \<lparr>ps_disk = [], ps_nodes = map (apsnd public_pnode) (ps_nodes (ap_pending a))\<rparr>, ap_listeners := []\<rparr>"

lemma map_insort_key: "(\<And>y. g (f y) = h y) \<Longrightarrow> map f (insort_key h x xs) = insort_key g (f x) (map f xs)"
  by (induction xs) auto

lemma map_sort_key_comm: "(\<And>y. g (f y) = h y) \<Longrightarrow> map f (sort_key h xs) = sort_key g (map f xs)"
  by (induction xs) (simp_all add: map_insort_key [of g f h])

lemma node_views: "map node_view (store_list s) =
    map node_view (sort_key n_name (map snd (map (apsnd public_node) (st_nodes s))))"
proof -
  have "map node_view (store_list s) = map node_view (map public_node (store_list s))"
    by (simp add: node_view_def public_node_def)
  also have "map public_node (store_list s) = sort_key n_name (map public_node (map snd (st_nodes s)))"
    unfolding store_list_def by (rule map_sort_key_comm) (simp add: public_node_def)
  also have "map public_node (map snd (st_nodes s)) = map snd (map (apsnd public_node) (st_nodes s))" by simp
  finally show ?thesis .
qed

lemma pending_views: "map (pending_view e) (pending_list s) =
    map (pending_view e) (sort_key p_announced (map snd (map (apsnd public_pnode) (ps_nodes s))))"
proof -
  have "map (pending_view e) (pending_list s) = map (pending_view e) (map public_pnode (pending_list s))"
    by (simp add: pending_view_def public_pnode_def)
  also have "map public_pnode (pending_list s) = sort_key p_announced (map public_pnode (map snd (ps_nodes s)))"
    unfolding pending_list_def by (rule map_sort_key_comm) (simp add: public_pnode_def)
  also have "map public_pnode (map snd (ps_nodes s)) = map snd (map (apsnd public_pnode) (ps_nodes s))" by simp
  finally show ?thesis .
qed

lemma public_app_eq:
  assumes "public_app a = public_app b"
  shows "ap_auth a = ap_auth b" "ap_cert_pem a = ap_cert_pem b" "ap_suggested a = ap_suggested b"
    "map node_view (store_list (ap_store a)) = map node_view (store_list (ap_store b))"
    "map (pending_view e) (pending_list (ap_pending a)) = map (pending_view e) (pending_list (ap_pending b))"
proof -
  have eq: "ap_auth (public_app a) = ap_auth (public_app b)" "ap_cert_pem (public_app a) = ap_cert_pem (public_app b)"
    "ap_suggested (public_app a) = ap_suggested (public_app b)"
    "st_nodes (ap_store (public_app a)) = st_nodes (ap_store (public_app b))"
    "ps_nodes (ap_pending (public_app a)) = ps_nodes (ap_pending (public_app b))"
    by (simp_all only: assms)
  show "ap_auth a = ap_auth b" "ap_cert_pem a = ap_cert_pem b" "ap_suggested a = ap_suggested b"
    using eq(1-3) by (simp_all add: public_app_def)
  have "map (apsnd public_node) (st_nodes (ap_store a)) = map (apsnd public_node) (st_nodes (ap_store b))"
    "map (apsnd public_pnode) (ps_nodes (ap_pending a)) = map (apsnd public_pnode) (ps_nodes (ap_pending b))"
    using eq(4,5) by (simp_all add: public_app_def)
  then show "map node_view (store_list (ap_store a)) = map node_view (store_list (ap_store b))"
    "map (pending_view e) (pending_list (ap_pending a)) = map (pending_view e) (pending_list (ap_pending b))"
    by (simp_all only: node_views pending_views)
qed

lemma auth_responses:
  assumes "ap_auth a = ap_auth b"
  shows "snd (startSession e a) = snd (startSession e b)" "snd (cookie_valid e c a) = snd (cookie_valid e c b)"
    "snd (handleAuthStatus e c a) = snd (handleAuthStatus e c b)" "snd (handleAuthSetup e rq a) = snd (handleAuthSetup e rq b)"
    "snd (handleAuthLogin e rq a) = snd (handleAuthLogin e rq b)" "snd (handleAuthLogout c a) = snd (handleAuthLogout c b)"
proof -
  have start: "snd (startSession e x) = snd (startSession e y)" if "ap_auth x = ap_auth y" for x y
    using that by (simp add: startSession_def split: prod.splits sum.splits)
  show "snd (startSession e a) = snd (startSession e b)" using assms by (rule start)
  show cv: "snd (cookie_valid e c a) = snd (cookie_valid e c b)"
    using assms by (simp add: cookie_valid_def Let_def case_prod_beta split: option.splits)
  show "snd (handleAuthStatus e c a) = snd (handleAuthStatus e c b)"
    using assms cv by (simp add: handleAuthStatus_def Let_def case_prod_beta setup_required_def)
  show "snd (handleAuthLogin e rq a) = snd (handleAuthLogin e rq b)"
    using assms start [OF assms] by (simp add: handleAuthLogin_def split: sum.splits)
  show "snd (handleAuthLogout c a) = snd (handleAuthLogout c b)" by (simp add: handleAuthLogout_def)
  show "snd (handleAuthSetup e rq a) = snd (handleAuthSetup e rq b)"
  proof (cases "decode_field (rq_body rq) ''password''")
    case (Inr pw)
    obtain au x where x: "auth_setup (se_bcrypt e) (se_salt e) (se_auth_write e) pw (ap_auth b) = (au, x)"
      by fastforce
    have "snd (startSession e (a\<lparr>ap_auth := au\<rparr>)) = snd (startSession e (b\<lparr>ap_auth := au\<rparr>))" by (rule start) simp
    with Inr x assms show ?thesis by (cases x) (simp_all add: handleAuthSetup_def)
  qed (simp add: handleAuthSetup_def)
qed

text \<open>
  No answer to a GET on the main port depends on a certificate or a key: two Controllers
  that agree on everything but the nodes' certificates and keys, registered or announced, answer
  every GET with the same response, on every path and whoever asks.
\<close>

theorem get_reveals_no_keys:
  assumes "public_app a = public_app b" and "rq_method rq = ''GET''"
  shows "snd (serve_main e cookie rq a) = snd (serve_main e cookie rq b)"
proof -
  note auth = auth_responses [OF public_app_eq(1) [OF assms(1)]]
  let ?a = "fst (cookie_valid e cookie a)" and ?b = "fst (cookie_valid e cookie b)"
  have frame: "ap_cert_pem (fst (cookie_valid e cookie c)) = ap_cert_pem c"
    "ap_suggested (fst (cookie_valid e cookie c)) = ap_suggested c" for c
    by (cases cookie; simp add: cookie_valid_def Let_def case_prod_beta)+
  have "snd (h ?a) = snd (h ?b)" if "protected_handler e rq = Some h" for h
  proof -
    from that consider "h = handleNodes e rq" | "h = handleNode e rq" | "h = handlePendingList e rq"
      | "h = handlePendingAction e rq" | "h = handleControllerInfo rq"
      by (auto simp: protected_handler_def split: if_splits)
    then show ?thesis
      by cases (use assms(2) public_app_eq [OF assms(1)] in
        \<open>simp_all add: handleNodes_def handleNode_def handlePendingList_def handlePendingAction_def
          handleControllerInfo_def Let_def frame\<close>)
  qed
  moreover have "(\<exists>t. cookie = Some t \<and> live_session (se_now e) t (ap_auth a)) =
      (\<exists>t. cookie = Some t \<and> live_session (se_now e) t (ap_auth b))"
    using public_app_eq(1) [OF assms(1)] by simp
  ultimately have "snd (requireAuth e cookie h a) = snd (requireAuth e cookie h b)"
    if "protected_handler e rq = Some h" for h
    using that by (auto simp: requireAuth_cases)
  then show ?thesis using auth by (simp add: serve_main_def split: option.splits)
qed

definition with_key :: "string \<Rightarrow> app" where
  "with_key k = app_with_session\<lparr>ap_store := \<lparr>st_disk = [], st_nodes = [(''a1'', demo_reg_node\<lparr>n_id := ''a1'', n_key := k\<rparr>)]\<rparr>\<rparr>"

theorem get_reveals_no_keys_witness:
  "snd (serve_main (demo_env ''x'') (Some ''tok'') list_request (with_key ''secret'')) =
   snd (serve_main (demo_env ''x'') (Some ''tok'') list_request (with_key ''other''))"
  by (rule get_reveals_no_keys) (simp_all add: with_key_def public_app_def public_node_def list_request_def)

end
