(* ===== verification/Fullstack.thy ===== *)
theory Fullstack
  imports Spa_Properties Controller_Properties
begin

text \<open>
  The application and the Controller together: what the application makes of the Controller's
  answers, and what the Controller makes of the application's requests.
\<close>

section \<open>A response as the browser sees it\<close>

text \<open>\<open>enc\<close> is the JSON text the server writes; \<open>resp.json()\<close> reads the value back.\<close>

definition to_response :: "(jsval \<Rightarrow> string) \<Rightarrow> http_response \<Rightarrow> response" where
  "to_response enc r = \<lparr>rs_status = hs_status r,
     rs_text = Fulfilled (case hs_body r of Resp_Text t \<Rightarrow> t | Resp_Json v \<Rightarrow> enc v | Resp_Empty \<Rightarrow> [] | Resp_File f \<Rightarrow> f),
     rs_json = (case hs_body r of Resp_Json v \<Rightarrow> Fulfilled v | _ \<Rightarrow> Rejected ''not JSON'')\<rparr>"

text \<open>
  The replies of a Controller to a browser that has no live session: any of its states, any
  environment, any cookie that is not a live session; or a network error.
\<close>

definition locked_out :: "(jsval \<Rightarrow> string) \<Rightarrow> request \<Rightarrow> reply \<Rightarrow> bool" where
  "locked_out enc rq x \<longleftrightarrow> (\<exists>m. x = Net_Error m)
     \<or> (\<exists>e cookie a. \<not> signed_in e cookie a \<and> x = Answer (to_response enc (snd (serve_main e cookie rq a))))"

lemma status_response:
  "snd (serve_main e cookie (req_get ''/api/auth/status'') a) =
     writeJSON 200 (status_json (setup_required (ap_auth a)) (snd (cookie_valid e cookie a)))"
  by (simp add: serve_main_def req_get_def handleAuthStatus_def Let_def case_prod_beta setup_required_def)

lemma locked_out_withholds: "withholds (locked_out enc)"
proof -
  have "\<not> grants v" if "locked_out enc (req_get ''/api/auth/status'') (Answer r)" "rs_json r = Fulfilled v" for r v
  proof -
    from that(1) obtain e cookie a where out: "\<not> signed_in e cookie a"
      and r: "r = to_response enc (snd (serve_main e cookie (req_get ''/api/auth/status'') a))"
      by (auto simp: locked_out_def)
    from out have "\<not> snd (cookie_valid e cookie a)" by (simp add: cookie_valid_live signed_in_def)
    with that(2) r have "v = status_json (setup_required (ap_auth a)) False"
      by (simp add: status_response to_response_def writeJSON_def)
    then show ?thesis by (simp add: grants_def AuthGate_def status_json_def str_or_falsy_def)
  qed
  then show ?thesis by (simp add: withholds_def)
qed

text \<open>
  C11: Application and Controller agree on who is signed in: against a Controller for which the
  browser's cookie is not a live session, whatever the user does, the application never mounts
  the main screen and calls nothing but \<open>/api/auth/\<close>; and what it does send leaves the
  Controller's nodes and listeners alone.
\<close>

theorem locked_out_end_to_end:
  assumes "spa_reachable b (locked_out enc) s"
  shows "(\<forall>i m. scr s \<noteq> S_Main i m)
    \<and> (\<forall>i j rq. awaited s i j = Some rq \<longrightarrow> auth_request rq
        \<and> (\<forall>e cookie a. \<not> signed_in e cookie a \<longrightarrow> registries (fst (serve_main e cookie rq a)) = registries a))"
proof -
  have l: "locked s" using assms locked_out_withholds by (rule reachable_locked)
  with l locked_requests [OF l reachable_inv [OF assms]] show ?thesis
    by (auto simp: locked_def signed_out_registries)
qed

theorem locked_out_end_to_end_witness:
  "\<exists>rq. awaited spa_init 0 0 = Some rq \<and> auth_request rq"
proof -
  have "awaited spa_init 0 0 = Some (req_get ''/api/auth/status'')"
    by (simp add: awaited_def spa_init_def refreshStatus_def spawn_def)
  with locked_out_end_to_end [OF reachable_init [of demo_browser "locked_out (\<lambda>_. [])"]] show ?thesis by blast
qed

section \<open>The lists on the screen\<close>

lemma node_row_view: "\<exists>r. node_row busy (node_view n) = Some r"
  by (simp add: node_row_def node_view_def)

lemma node_rows_view: "\<exists>rows. those (map (node_row busy) (map node_view ns)) = Some rows"
proof (induction ns)
  case (Cons n ns)
  with node_row_view [of busy n] show ?case by auto
qed simp

lemma live_rows:
  "those (map (node_row busy) (map node_view ns)) = Some rows \<Longrightarrow>
     set (concat (map live_handlers rows)) =
     (\<Union>n \<in> set ns. insert (H_OpenNode (node_view n)) (if busy then {} else {H_Remove (Str (n_id n))}))"
proof (induction ns arbitrary: rows)
  case Nil then show ?case by simp
next
  case (Cons n ns)
  obtain r where r: "node_row busy (node_view n) = Some r" using node_row_view by blast
  moreover obtain rs where rs: "those (map (node_row busy) (map node_view ns)) = Some rs" using node_rows_view by blast
  ultimately have rows: "rows = r # rs" using Cons.prems by simp
  have "get_prop (node_view n) ''id'' = Some (Str (n_id n))" by (simp add: node_view_def)
  with node_row_live [OF r] have "set (live_handlers r) =
      insert (H_OpenNode (node_view n)) (if busy then {} else {H_Remove (Str (n_id n))})" by auto
  with Cons.IH [OF rs] rows show ?case by auto
qed

lemma pending_rows_view: "\<exists>rows. those (map (pending_row fmt busy) (map (pending_view e) ns)) = Some rows"
proof (induction ns)
  case (Cons n ns)
  moreover have "\<exists>r. pending_row fmt busy (pending_view e n) = Some r" by (simp add: pending_row_def pending_view_def)
  ultimately show ?case by auto
qed simp

text \<open>
  C29: The application shows the Controller's lists, whatever they hold (none at all is
  \<open>null\<close>): the main screen renders, and the node table offers, for exactly the registered
  nodes, to open each one and, unless a call is under way, to remove it by its own identifier.
\<close>

theorem controller_lists_render:
  assumes "hs_body (snd (handleNodes e rq a)) = Resp_Json v" and "rq_method rq = ''GET''"
    and "hs_body (snd (handlePendingList e' rq a')) = Resp_Json w"
  shows "lists_render fmt (m\<lparr>m_nodes := nullish_else v (Arr []), m_pending := nullish_else w (Arr [])\<rparr>)
    \<and> (\<exists>t. NodeList (nullish_else v (Arr [])) busy = Some t \<and> set (live_handlers t) =
        (\<Union>n \<in> snd ` set (st_nodes (ap_store a)). insert (H_OpenNode (node_view n)) (if busy then {} else {H_Remove (Str (n_id n))})))"
proof -
  define ns where "ns = store_list (ap_store a)"
  define ps where "ps = pending_list (ap_pending a')"
  have v: "v = slice_json (map node_view ns)" and w: "w = slice_json (map (pending_view e') ps)"
    using assms by (simp_all add: handleNodes_def handlePendingList_def writeJSON_def ns_def ps_def)
  have ns: "set ns = snd ` set (st_nodes (ap_store a))" by (simp add: ns_def store_list_def)
  have table: "\<exists>t. NodeList (nullish_else v (Arr [])) busy = Some t \<and> set (live_handlers t) =
      (\<Union>n \<in> set ns. insert (H_OpenNode (node_view n)) (if busy then {} else {H_Remove (Str (n_id n))}))" for busy
  proof (cases "ns = []")
    case True
    then show ?thesis by (simp add: v slice_json_def nullish_else_def NodeList_def view_defs live_simps)
  next
    case False
    obtain rows where rows: "those (map (node_row busy) (map node_view ns)) = Some rows" using node_rows_view by blast
    with False live_rows [OF rows] show ?thesis
      by (simp add: v slice_json_def nullish_else_def NodeList_def view_defs live_simps)
  qed
  have "PendingList fmt (nullish_else w (Arr [])) busy \<noteq> None" for busy
    using pending_rows_view [of fmt busy e' ps]
    by (cases "ps = []") (auto simp: w slice_json_def nullish_else_def PendingList_def)
  with table [of "m_busy m"] have "lists_render fmt (m\<lparr>m_nodes := nullish_else v (Arr []), m_pending := nullish_else w (Arr [])\<rparr>)"
    by (auto simp: lists_render_def)
  with table [of busy] ns show ?thesis by simp
qed

theorem controller_lists_render_witness:
  "\<exists>t. NodeList (Arr [node_view (demo_reg_node\<lparr>n_id := ''a1'', n_key := ''k''\<rparr>)]) False = Some t
     \<and> H_Remove (Str ''a1'') \<in> set (live_handlers t)"
proof -
  have "hs_body (snd (handleNodes (demo_env ''x'') list_request (with_key ''k''))) =
      Resp_Json (Arr [node_view (demo_reg_node\<lparr>n_id := ''a1'', n_key := ''k''\<rparr>)])"
    "hs_body (snd (handlePendingList (demo_env ''x'') list_request first_app)) = Resp_Json Null"
    by (simp_all add: handleNodes_def handlePendingList_def list_request_def writeJSON_def slice_json_def
        with_key_def store_list_def first_app_def pending_empty_def pending_list_def)
  from controller_lists_render [OF this(1) _ this(2), of _ main_init False] show ?thesis
    by (auto simp: list_request_def nullish_else_def with_key_def)
qed

section \<open>The application's requests at the Controller\<close>



text \<open>The buttons in the rows of a tree: the row's key, the text on the button, and its callback.\<close>

fun buttons :: "view \<Rightarrow> (string \<times> handler) list" where
  "buttons (Text _) = []"
| "buttons (Elem t as ks) = (if t = ''button'' then map (Pair (concat (map texts ks))) (attr_on ''onClick'' as) else concat (map buttons ks))"

fun row_buttons :: "view \<Rightarrow> (jsval \<times> string \<times> handler) list" where
  "row_buttons (Text _) = []"
| "row_buttons (Elem t as ks) =
     (if t = ''tr'' then map (Pair (attr_val ''key'' as)) (concat (map buttons ks)) else concat (map row_buttons ks))"






lemma head_row_buttons [simp]: "row_buttons (head_row hs) = []"
  by (induction hs) (auto simp: head_row_def)



lemma err_view_buttons [simp]: "r \<in> set (err_view e) \<Longrightarrow> row_buttons r = []"
  by (cases e) (auto simp: err_view_def split: if_splits)

lemma AddNodeForm_buttons [simp]: "row_buttons (AddNodeForm a) = []"
  by (cases "a_mode a") (simp_all add: AddNodeForm_def pfx_fields_def pem_fields_def cls_def labelled_def req_input_def
      req_textarea_def mode_radio_def submit_button_def)

lemma auth_buttons [simp]: "row_buttons (SetupForm st) = []" "row_buttons (LoginForm l) = []"
  by (simp_all add: SetupForm_def LoginForm_def cls_def labelled_def auth_screen_def Logo_def submit_button_def)










section \<open>The forms\<close>






lemma offers_add: "scr s = S_Main i m \<Longrightarrow> H_AddSubmit \<in> set (offers b s) \<Longrightarrow> add_submittable (m_add m)"
  using offers_guarded [of H_AddSubmit b s i m] by simp










section \<open>The routes\<close>

text \<open>The Controller has a route for the path, so the static files do not answer; a route behind the session check takes the method.\<close>

definition routed :: "request \<Rightarrow> bool" where
  "routed rq \<longleftrightarrow> (\<forall>e a. (rq_path rq \<in> {''/api/auth/status'', ''/api/auth/setup'', ''/api/auth/login'', ''/api/auth/logout''} \<or> protected_handler e rq \<noteq> None)
     \<and> (\<forall>h. protected_handler e rq = Some h \<longrightarrow> hs_status (snd (h a)) \<noteq> 405))"

lemma add_node_status: "hs_status (snd (handleAddNode e rq a)) \<noteq> 405"
proof -
  have "hs_status r \<noteq> 405" if "issue_credential e rq = Inl r" for r
    using that by (auto simp: issue_credential_def http_error_def Let_def split: sum.splits option.splits prod.splits if_splits)
  then show ?thesis
    by (auto simp: handleAddNode_def http_error_def writeJSON_def split: sum.splits option.splits prod.splits)
qed

lemma node_status: "rq_method rq = ''DELETE'' \<Longrightarrow> hs_status (snd (handleNode e rq a)) \<noteq> 405"
  by (auto simp: handleNode_def http_error_def no_content_def Let_def split: sum.splits prod.splits)

lemma pending_status: "rq_method rq = ''POST'' \<Longrightarrow> hs_status (snd (handlePendingAction e rq a)) \<noteq> 405"
  by (auto simp: handlePendingAction_def approvePending_def rejectPending_def http_error_def writeJSON_def no_content_def Let_def
      split: sum.splits option.splits prod.splits)

lemma api_request_routed: "api_request rq \<Longrightarrow> routed rq"
  unfolding api_request_def
  by (elim disjE exE conjE)
    (auto simp: routed_def auto_requests_def req_get_def req_plain_def req_json_def req_form_def protected_handler_def has_prefix_def
      handleNodes_def handlePendingList_def handleControllerInfo_def writeJSON_def add_node_status node_status pending_status)

text \<open>
  Application and Controller agree on the routes. Every request the application has under way, in any
  reachable state and whatever it was answered before, is for a path on which the Controller has a
  handler, and behind the session check with a method that this handler takes, whatever
  identifiers the lists held.
\<close>

theorem requests_are_routed:
  assumes "spa_reachable b P s" and "awaited s i j = Some rq"
  shows "routed rq"
  by (rule api_request_routed [OF sent_all_awaited [OF reachable_sent [OF assms(1)] assms(2)]])

end
