(* ===== verification/Diskimage.thy ===== *)
theory Diskimage
  imports Prelude "HOL-Library.Word" "HOL-Library.Signed_Division"
begin

text \<open>
  \<open>internal/diskimage\<close>: the sectors of the six partitions \<open>Install\<close> lays a disk out with. The
  arithmetic is Go's, on \<open>uint64\<close> sectors and \<open>int64\<close> bytes; both are 64-bit words here, the
  signed one read with \<open>sint\<close> and compared with the signed order.
\<close>

section \<open>The package\<close>

definition ESPMB :: "64 word" where "ESPMB = 64"
definition DataMB :: "64 word" where "DataMB = 64"
definition HashMB :: "64 word" where "HashMB = 4"
definition MinStateMB :: "64 word" where "MinStateMB = 16"
definition SectorSize :: "64 word" where "SectorSize = 512"
definition AlignSectors :: "64 word" where "AlignSectors = 2048"

record layout =
  ESPStart :: "64 word"
  ESPEnd :: "64 word"
  ADataStart :: "64 word"
  ADataEnd :: "64 word"
  AHashStart :: "64 word"
  AHashEnd :: "64 word"
  BDataStart :: "64 word"
  BDataEnd :: "64 word"
  BHashStart :: "64 word"
  BHashEnd :: "64 word"
  StateStart :: "64 word"
  StateEnd :: "64 word"

definition mb :: "64 word \<Rightarrow> 64 word" where
  "mb n = n * 1024 * 1024"

text \<open>Go's division of \<open>int64\<close> values truncates towards zero.\<close>

definition int64_div :: "64 word \<Rightarrow> 64 word \<Rightarrow> 64 word" where
  "int64_div a b = word_of_int (sint a sdiv sint b)"

definition alignUp :: "64 word \<Rightarrow> 64 word" where
  "alignUp sector = ((sector + AlignSectors - 1) div AlignSectors) * AlignSectors"

text \<open>The closure \<open>next\<close>: the start and the end of a partition, and the moved cursor.\<close>

definition next_partition :: "64 word \<Rightarrow> 64 word \<Rightarrow> (64 word \<times> 64 word) \<times> 64 word" where
  "next_partition cur sizeMB =
     (let sectors = int64_div (mb sizeMB) SectorSize; start = cur; end' = start + sectors - 1 in
      ((start, end'), alignUp (end' + 1)))"

text \<open>
  Too small a disk is an error that names the bytes left for STATE and the least size of a disk
  in bytes (the message prints it in MiB).
\<close>

datatype compute_error = Disk_too_small (ce_remaining: int) (ce_min_total: int)

definition Compute :: "64 word \<Rightarrow> compute_error + layout" where
  "Compute diskBytes =
     (let (esp, c1) = next_partition AlignSectors ESPMB;
          (ad, c2) = next_partition c1 DataMB;
          (ah, c3) = next_partition c2 HashMB;
          (bd, c4) = next_partition c3 DataMB;
          (bh, c5) = next_partition c4 HashMB;
          usedBytes = c5 * SectorSize;
          remaining = diskBytes - usedBytes in
      if remaining <s mb MinStateMB
      then Inl (Disk_too_small (sint remaining) (sint (usedBytes + mb MinStateMB)))
      else Inr \<lparr>ESPStart = fst esp, ESPEnd = snd esp, ADataStart = fst ad, ADataEnd = snd ad,
        AHashStart = fst ah, AHashEnd = snd ah, BDataStart = fst bd, BDataEnd = snd bd,
        BHashStart = fst bh, BHashEnd = snd bh,
        StateStart = c5, StateEnd = c5 + int64_div remaining SectorSize - 1\<rparr>)"

section \<open>Evaluating the arithmetic\<close>

lemmas size_defs = ESPMB_def DataMB_def HashMB_def MinStateMB_def SectorSize_def AlignSectors_def mb_def

lemma next_partition_ground:
  "next_partition AlignSectors ESPMB = ((2048, 133119), 133120)"
  "next_partition 133120 DataMB = ((133120, 264191), 264192)"
  "next_partition 264192 HashMB = ((264192, 272383), 272384)"
  "next_partition 272384 DataMB = ((272384, 403455), 403456)"
  "next_partition 403456 HashMB = ((403456, 411647), 411648)"
  by (simp_all add: next_partition_def Let_def size_defs alignUp_def int64_div_def signed_divide_int_def)

lemma Compute_unfold:
  "Compute d = (let remaining = d - 210763776 in
     if remaining <s 16777216 then Inl (Disk_too_small (sint remaining) 227540992)
     else Inr \<lparr>ESPStart = 2048, ESPEnd = 133119, ADataStart = 133120, ADataEnd = 264191,
       AHashStart = 264192, AHashEnd = 272383, BDataStart = 272384, BDataEnd = 403455,
       BHashStart = 403456, BHashEnd = 411647,
       StateStart = 411648, StateEnd = 411648 + int64_div remaining 512 - 1\<rparr>)"
  unfolding Compute_def next_partition_ground Let_def prod.case fst_conv snd_conv
  by (simp add: size_defs)

text \<open>On a disk whose size is not negative the signed subtraction does not wrap.\<close>

lemma remaining_exact: "0 \<le> sint d \<Longrightarrow> sint (d - (210763776 :: 64 word)) = sint d - 210763776"
  using sint_lt [of d] by (simp add: sint_word_diff signed_take_bit_int_eq_self)

lemma state_end:
  assumes "227540992 \<le> sint d"
  shows "uint (411648 + int64_div (d - 210763776) 512 - 1 :: 64 word) = sint d div 512 - 1"
proof -
  have hi: "sint d < 2 ^ 63" using sint_lt [of d] by simp
  have q: "int64_div (d - 210763776) 512 = word_of_int (sint d div 512 - 411648)"
    using assms div_mult_self1 [of 512 "sint d" "- 411648"]
    by (simp add: int64_div_def remaining_exact signed_divide_int_def)
  have "411648 + int64_div (d - 210763776) 512 - 1 = (word_of_int (sint d div 512 - 1) :: 64 word)"
    unfolding q by simp
  moreover have "0 \<le> sint d div 512 - 1" "sint d div 512 - 1 < 2 ^ 64" using assms hi by simp_all
  ultimately show ?thesis by (simp only: uint_word_of_int_eq) (simp add: take_bit_int_eq_self)
qed

lemma Compute_cases:
  assumes "0 \<le> sint d"
  obtains (small) "sint d < 227540992" "Compute d = Inl (Disk_too_small (sint d - 210763776) 227540992)"
  | (fits) l where "227540992 \<le> sint d" "Compute d = Inr l" "uint (StateEnd l) = sint d div 512 - 1"
      "ESPStart l = 2048" "ESPEnd l = 133119" "ADataStart l = 133120" "ADataEnd l = 264191"
      "AHashStart l = 264192" "AHashEnd l = 272383" "BDataStart l = 272384" "BDataEnd l = 403455"
      "BHashStart l = 403456" "BHashEnd l = 411647" "StateStart l = 411648"
proof (cases "sint d < 227540992")
  case True
  then show ?thesis using assms small by (simp add: Compute_unfold Let_def word_sless_alt remaining_exact)
next
  case False
  then have big: "227540992 \<le> sint d" by simp
  have "\<not> sint (d - 210763776) < sint (16777216 :: 64 word)" using assms big by (simp add: remaining_exact)
  then have c: "Compute d = Inr \<lparr>ESPStart = 2048, ESPEnd = 133119, ADataStart = 133120, ADataEnd = 264191,
       AHashStart = 264192, AHashEnd = 272383, BDataStart = 272384, BDataEnd = 403455,
       BHashStart = 403456, BHashEnd = 411647,
       StateStart = 411648, StateEnd = 411648 + int64_div (d - 210763776) 512 - 1\<rparr>"
    unfolding Compute_unfold Let_def word_sless_alt by (simp only: if_False)
  show ?thesis by (rule fits [OF big c]) (simp_all only: layout.select_convs state_end [OF big])
qed

section \<open>Properties\<close>

text \<open>The partitions of a layout in disk order, as pairs of first and last sector.\<close>

definition extents :: "layout \<Rightarrow> (int \<times> int) list" where
  "extents l = [(uint (ESPStart l), uint (ESPEnd l)), (uint (ADataStart l), uint (ADataEnd l)),
     (uint (AHashStart l), uint (AHashEnd l)), (uint (BDataStart l), uint (BDataEnd l)),
     (uint (BHashStart l), uint (BHashEnd l)), (uint (StateStart l), uint (StateEnd l))]"

definition mib :: int where "mib = 1024 * 1024"

text \<open>
  C32: A disk gets a layout exactly when it has at least 217 MiB; the error of a smaller one names
  the bytes left. In a layout the six partitions follow one another without overlap, each starts
  on a 1 MiB boundary, the first five have their fixed sizes, STATE has at least 16 MiB and no
  partition runs past the end of the disk.
\<close>

theorem layout_of_disk:
  assumes "0 \<le> sint d"
  shows "case Compute d of
      Inl e \<Rightarrow> sint d < 217 * mib \<and> e = Disk_too_small (sint d - 201 * mib) (217 * mib)
    | Inr l \<Rightarrow> 217 * mib \<le> sint d
        \<and> sorted_wrt (\<lambda>p q. snd p < fst q) (extents l)
        \<and> (\<forall>p \<in> set (extents l). fst p \<le> snd p \<and> mib dvd 512 * fst p)
        \<and> map (\<lambda>p. 512 * (snd p - fst p + 1)) (butlast (extents l)) = [64 * mib, 64 * mib, 4 * mib, 64 * mib, 4 * mib]
        \<and> 16 * mib \<le> 512 * (snd (last (extents l)) - fst (last (extents l)) + 1)
        \<and> 512 * (snd (last (extents l)) + 1) \<le> sint d"
  using assms
proof (cases rule: Compute_cases)
  case small
  then show ?thesis by (simp add: mib_def)
next
  case (fits l)
  then have "411648 + 32768 \<le> sint d div 512" by simp
  with fits show ?thesis by (simp add: mib_def extents_def)
qed

theorem layout_of_disk_witness:
  "case Compute (512 * 1024 * 1024) of Inl e \<Rightarrow> False
   | Inr l \<Rightarrow> sorted_wrt (\<lambda>p q. snd p < fst q) (extents l) \<and> 512 * (snd (last (extents l)) + 1) \<le> 512 * mib"
  using layout_of_disk [of "512 * 1024 * 1024"] by (simp add: mib_def split: sum.splits)

text \<open>
  STATE takes every whole sector up to the end of the disk. No sector is left unused behind
  it, so it also covers the last 33, where a GPT keeps its backup header and table.
\<close>

theorem state_reaches_the_last_sector:
  assumes "0 \<le> sint d" and "Compute d = Inr l"
  shows "uint (StateEnd l) + 1 = sint d div 512
    \<and> (\<forall>s \<in> {sint d div 512 - 33 ..< sint d div 512}. uint (StateStart l) \<le> s \<and> s \<le> uint (StateEnd l))"
proof -
  from assms(1) have "uint (StateEnd l) = sint d div 512 - 1 \<and> StateStart l = 411648 \<and> 227540992 \<le> sint d"
    by (cases rule: Compute_cases) (use assms(2) in simp_all)
  then show ?thesis by auto
qed

theorem state_reaches_the_last_sector_witness:
  "\<exists>l. Compute (512 * 1024 * 1024) = Inr l \<and> uint (StateEnd l) + 1 = 1048576"
proof -
  obtain l where l: "Compute (512 * 1024 * 1024) = Inr l"
    by (simp add: Compute_unfold Let_def)
  show ?thesis using state_reaches_the_last_sector [OF _ l] l by simp
qed

end
