(* ===== verification/Go_Strings.thy ===== *)
theory Go_Strings
  imports Prelude
begin

text \<open>
  The functions of Go's \<open>strings\<close>, \<open>strconv\<close> and \<open>regexp\<close> packages that the node's code uses, on
  ASCII text.
\<close>

section \<open>Searching and splitting\<close>

text \<open>What follows the first occurrence of \<open>key\<close> (\<open>strings.Index\<close> and the slice after it).\<close>

fun after_first :: "string \<Rightarrow> string \<Rightarrow> string option" where
  "after_first key s = (if take (length key) s = key then Some (drop (length key) s)
     else case s of [] \<Rightarrow> None | _ # cs \<Rightarrow> after_first key cs)"

declare after_first.simps [simp del]

text \<open>The text before the first occurrence of a byte.\<close>

fun before_char :: "char \<Rightarrow> string \<Rightarrow> string option" where
  "before_char c [] = None"
| "before_char c (x # xs) = (if x = c then Some [] else map_option ((#) x) (before_char c xs))"

text \<open>\<open>strings.SplitN(s, sep, n)\<close> for a separator of one byte and \<open>n\<close> at least one.\<close>

fun split_n :: "char \<Rightarrow> nat \<Rightarrow> string \<Rightarrow> string list" where
  "split_n c (Suc (Suc n)) s = (case before_char c s of
       None \<Rightarrow> [s] | Some p \<Rightarrow> p # split_n c (Suc n) (drop (Suc (length p)) s))"
| "split_n c n s = [s]"

definition is_space :: "char \<Rightarrow> bool" where
  "is_space c \<longleftrightarrow> c \<in> {CHR '' '', CHR 0x09, CHR 0x0A, CHR 0x0B, CHR 0x0C, CHR 0x0D}"

text \<open>\<open>strings.Fields\<close> on ASCII text, collecting the current field.\<close>

fun fields_acc :: "string \<Rightarrow> string \<Rightarrow> string list" where
  "fields_acc acc [] = (if acc = [] then [] else [acc])"
| "fields_acc acc (c # cs) = (if is_space c then (if acc = [] then [] else [acc]) @ fields_acc [] cs
     else fields_acc (acc @ [c]) cs)"

definition str_fields :: "string \<Rightarrow> string list" where
  "str_fields s = fields_acc [] s"

text \<open>\<open>strings.Split\<close> with a separator of one byte.\<close>

fun split_on :: "char \<Rightarrow> string \<Rightarrow> string list" where
  "split_on c [] = [[]]"
| "split_on c (x # xs) = (if x = c then [] # split_on c xs
     else case split_on c xs of [] \<Rightarrow> [[x]] | w # ws \<Rightarrow> (x # w) # ws)"

definition newline :: char where
  "newline = CHR 0x0A"

definition trim_space :: "string \<Rightarrow> string" where
  "trim_space s = rev (dropWhile is_space (rev (dropWhile is_space s)))"

text \<open>\<open>strings.Cut\<close> and \<open>strings.Contains\<close>.\<close>

fun cut_str :: "string \<Rightarrow> string \<Rightarrow> (string \<times> string) option" where
  "cut_str sep s = (if take (length sep) s = sep then Some ([], drop (length sep) s)
     else case s of [] \<Rightarrow> None | c # cs \<Rightarrow> map_option (\<lambda>(a, b). (c # a, b)) (cut_str sep cs))"

declare cut_str.simps [simp del]

definition contains :: "string \<Rightarrow> string \<Rightarrow> bool" where
  "contains s sub \<longleftrightarrow> cut_str sub s \<noteq> None"

text \<open>
  The number \<open>strconv.ParseUint\<close> returns when its error is ignored: zero on a syntax error, the
  greatest value as soon as the digits read so far exceed it.
\<close>

fun parse_digits :: "nat \<Rightarrow> nat \<Rightarrow> string \<Rightarrow> nat" where
  "parse_digits limit acc [] = acc"
| "parse_digits limit acc (c # cs) = (if \<not> is_digit c then 0
     else let n = 10 * acc + digit_val c in if limit < n then limit else parse_digits limit n cs)"

definition parse_uint :: "nat \<Rightarrow> string \<Rightarrow> nat" where
  "parse_uint bits s = parse_digits (2 ^ bits - 1) 0 s"

section \<open>Lemmas\<close>

lemma before_char_append: "c \<notin> set x \<Longrightarrow> before_char c (x @ c # y) = Some x"
  by (induction x) auto

lemma after_first_append:
  "(\<And>k. k < length p \<Longrightarrow> take (length key) (drop k (p @ key @ r)) \<noteq> key) \<Longrightarrow> after_first key (p @ key @ r) = Some r"
proof (induction p)
  case Nil
  then show ?case by (simp add: after_first.simps)
next
  case (Cons c p)
  have "take (length key) (c # p @ key @ r) \<noteq> key" using Cons.prems [of 0] by simp
  moreover have "after_first key (p @ key @ r) = Some r"
  proof (rule Cons.IH)
    fix k assume "k < length p"
    with Cons.prems [of "Suc k"] show "take (length key) (drop k (p @ key @ r)) \<noteq> key" by simp
  qed
  ultimately show ?case by (subst after_first.simps) simp
qed

lemma fields_acc_word:
  "\<forall>c \<in> set w. \<not> is_space c \<Longrightarrow> fields_acc acc (w @ s) = fields_acc (acc @ w) s"
  by (induction w arbitrary: acc) auto

lemma fields_join: "\<forall>w \<in> set ws. w \<noteq> [] \<and> (\<forall>c \<in> set w. \<not> is_space c) \<Longrightarrow> str_fields (join_with '' '' ws) = ws"
proof (induction "'' ''" ws rule: join_with.induct)
  case (2 w)
  then show ?case using fields_acc_word [of w "[]" "[]"] by (simp add: str_fields_def)
next
  case (3 w v ws)
  then show ?case using fields_acc_word [of w "[]" "CHR '' '' # join_with '' '' (v # ws)"]
    by (simp add: str_fields_def is_space_def [of "CHR '' ''"])
qed (simp add: str_fields_def)

lemma fields_acc_spaces: "acc \<noteq> [] \<Longrightarrow> fields_acc acc (replicate (Suc n) (CHR '' '') @ s) = acc # fields_acc [] s"
proof -
  have "fields_acc [] (replicate n (CHR '' '') @ s) = fields_acc [] s" by (induction n) (simp_all add: is_space_def)
  then show "acc \<noteq> [] \<Longrightarrow> ?thesis" by (simp add: is_space_def)
qed

lemma split_n_Suc: "c \<notin> set p \<Longrightarrow> split_n c (Suc (Suc n)) (p @ c # s) = p # split_n c (Suc n) s"
  by (simp add: before_char_append)

text \<open>Lines: what \<open>split_on\<close> makes of joined pieces without the separator.\<close>

lemma split_on_plain: "c \<notin> set s \<Longrightarrow> split_on c s = [s]"
  by (induction s) auto

lemma split_on_append: "c \<notin> set s \<Longrightarrow> split_on c (s @ c # t) = s # split_on c t"
  by (induction s) auto

lemma split_lines: "\<forall>l \<in> set ls. c \<notin> set l \<Longrightarrow> split_on c (concat (map (\<lambda>l. l @ [c]) ls)) = ls @ [[]]"
  by (induction ls) (simp_all add: split_on_append)

lemma cut_str_char: "CHR 0x3A \<notin> set a \<Longrightarrow> cut_str '': '' (a @ '': '' @ b) = Some (a, b)"
proof (induction a)
  case (Cons x a)
  then have "take 2 (x # a @ '': '' @ b) \<noteq> '': ''" by (auto simp: numeral_2_eq_2)
  with Cons show ?case by (subst cut_str.simps) simp
qed (subst cut_str.simps, simp)

lemma trim_space_id: "\<forall>c \<in> set s. \<not> is_space c \<Longrightarrow> trim_space s = s"
proof -
  assume "\<forall>c \<in> set s. \<not> is_space c"
  then have "dropWhile is_space t = t" if "set t = set s" for t
    using that by (cases t) auto
  then have "dropWhile is_space s = s" "dropWhile is_space (rev s) = rev s" by simp_all
  then show ?thesis by (simp add: trim_space_def)
qed

lemma parse_digits_show:
  assumes "list_all is_digit s" and "acc \<le> limit"
  shows "parse_digits limit acc s = min limit (foldl (\<lambda>acc c. 10 * acc + digit_val c) acc s)"
  using assms
proof (induction s arbitrary: acc)
  case (Cons c s)
  have mono: "a \<le> foldl (\<lambda>acc c. 10 * acc + digit_val c) a s" for a :: nat
  proof (induction s arbitrary: a)
    case (Cons c s)
    have "a \<le> 10 * a + digit_val c" by simp
    also have "\<dots> \<le> foldl (\<lambda>acc c. 10 * acc + digit_val c) (10 * a + digit_val c) s" by (rule Cons.IH)
    finally show ?case by simp
  qed simp
  show ?case
  proof (cases "limit < 10 * acc + digit_val c")
    case True
    then show ?thesis using Cons.prems mono [of "10 * acc + digit_val c"] by simp
  qed (use Cons in simp)
qed simp

lemma parse_uint_show: "parse_uint bits (show_nat n) = min (2 ^ bits - 1) n"
  using nat_of_digits_show [of n]
  by (simp add: parse_uint_def parse_digits_show show_nat_digits nat_of_digits_def)

end
