(* ===== verification/Bootslot.thy ===== *)
theory Bootslot
  imports Go_Strings
begin

text \<open>
  \<open>internal/bootslot\<close>: which A/B slot a node runs from, by parsing the kernel command line, and
  the device paths of the other partitions by the fixed layout (1 ESP, 2 and 3 slot A's data and
  hash, 4 and 5 slot B's, 6 STATE).
\<close>

section \<open>The package\<close>

definition quote :: char where
  "quote = CHR 0x22"

definition dm_key :: string where
  "dm_key = ''dm-mod.create='' @ [quote]"

definition DataDevice :: "string \<Rightarrow> string option" where
  "DataDevice cmdline = (case after_first dm_key cmdline of
       None \<Rightarrow> None
     | Some rest \<Rightarrow> (case before_char quote rest of
           None \<Rightarrow> None
         | Some v \<Rightarrow>
             let parts = split_n (CHR '','') 5 v in
             if length parts \<noteq> 5 then None
             else let fs = str_fields (parts ! 4) in
               if length fs < 5 \<or> fs ! 2 \<noteq> ''verity'' then None else Some (fs ! 4)))"

text \<open>The loop that strips trailing digits.\<close>

definition disk_and_partition :: "string \<Rightarrow> (string \<times> string) option" where
  "disk_and_partition dev =
     (let part = rev (takeWhile is_digit (rev dev)); disk = rev (dropWhile is_digit (rev dev)) in
      if part = [] \<or> disk = [] then None else Some (disk, part))"

definition StateDevice :: "string \<Rightarrow> string option" where
  "StateDevice dev = map_option (\<lambda>(disk, _). disk @ ''6'') (disk_and_partition dev)"

definition ESPDevice :: "string \<Rightarrow> string option" where
  "ESPDevice dev = map_option (\<lambda>(disk, _). disk @ ''1'') (disk_and_partition dev)"

datatype slot_id = Slot_A | Slot_B

definition slot_name :: "slot_id \<Rightarrow> string" where
  "slot_name s = (case s of Slot_A \<Rightarrow> ''A'' | Slot_B \<Rightarrow> ''B'')"

definition ActiveSlot :: "string \<Rightarrow> slot_id option" where
  "ActiveSlot dev = (case disk_and_partition dev of
       None \<Rightarrow> None
     | Some (_, part) \<Rightarrow> if part = ''2'' then Some Slot_A else if part = ''4'' then Some Slot_B else None)"

definition OtherSlot :: "slot_id \<Rightarrow> slot_id" where
  "OtherSlot s = (case s of Slot_A \<Rightarrow> Slot_B | Slot_B \<Rightarrow> Slot_A)"

definition SlotDataDevice :: "string \<Rightarrow> slot_id \<Rightarrow> string" where
  "SlotDataDevice disk s = (case s of Slot_A \<Rightarrow> disk @ ''2'' | Slot_B \<Rightarrow> disk @ ''4'')"

definition SlotHashDevice :: "string \<Rightarrow> slot_id \<Rightarrow> string" where
  "SlotHashDevice disk s = (case s of Slot_A \<Rightarrow> disk @ ''3'' | Slot_B \<Rightarrow> disk @ ''5'')"

definition disk_of :: "string \<Rightarrow> string option" where
  "disk_of dev = map_option fst (disk_and_partition dev)"

instantiation slot_id :: linorder
begin

definition less_eq_slot_id :: "slot_id \<Rightarrow> slot_id \<Rightarrow> bool" where
  "less_eq_slot_id s t \<longleftrightarrow> s = Slot_A \<or> t = Slot_B"

definition less_slot_id :: "slot_id \<Rightarrow> slot_id \<Rightarrow> bool" where
  "less_slot_id s t \<longleftrightarrow> s = Slot_A \<and> t = Slot_B"

instance
proof
  fix x y z :: slot_id
  show "x < y \<longleftrightarrow> x \<le> y \<and> \<not> y \<le> x" by (cases x; cases y) (simp_all add: less_eq_slot_id_def less_slot_id_def)
  show "x \<le> x" by (cases x) (simp_all add: less_eq_slot_id_def)
  show "x \<le> y \<Longrightarrow> y \<le> z \<Longrightarrow> x \<le> z" by (cases x; cases y; cases z) (simp_all add: less_eq_slot_id_def)
  show "x \<le> y \<Longrightarrow> y \<le> x \<Longrightarrow> x = y" by (cases x; cases y) (simp_all add: less_eq_slot_id_def)
  show "x \<le> y \<or> y \<le> x" by (cases x; cases y) (simp_all add: less_eq_slot_id_def)
qed

end

section \<open>Devices\<close>

lemma OtherSlot_simps [simp]: "OtherSlot s \<noteq> s" "OtherSlot (OtherSlot s) = s"
  by (cases s; simp add: OtherSlot_def)+

text \<open>A device path is a disk path that does not end in a digit and a partition number.\<close>

definition plain_disk :: "string \<Rightarrow> bool" where
  "plain_disk d \<longleftrightarrow> d \<noteq> [] \<and> \<not> is_digit (last d)"

lemma digit_literals [simp]:
  "is_digit (CHR ''1'')" "is_digit (CHR ''2'')" "is_digit (CHR ''3'')" "is_digit (CHR ''4'')"
  "is_digit (CHR ''5'')" "is_digit (CHR ''6'')"
  by (simp_all add: is_digit_def)

lemma disk_and_partition_iff:
  "disk_and_partition dev = Some (d, p) \<longleftrightarrow> plain_disk d \<and> p \<noteq> [] \<and> list_all is_digit p \<and> dev = d @ p"
proof
  assume h: "disk_and_partition dev = Some (d, p)"
  then have p: "p = rev (takeWhile is_digit (rev dev))" "p \<noteq> []"
    and d: "d = rev (dropWhile is_digit (rev dev))" "d \<noteq> []"
    by (auto simp: disk_and_partition_def Let_def split: if_splits)
  have "rev dev = takeWhile is_digit (rev dev) @ dropWhile is_digit (rev dev)" by simp
  then have "dev = d @ p" using p(1) d(1) by (metis rev_append rev_rev_ident)
  moreover have "list_all is_digit p" using p(1) by (auto simp: list_all_iff dest: set_takeWhileD)
  moreover have "\<not> is_digit (last d)" using d hd_dropWhile [of is_digit "rev dev"] by (simp add: last_rev)
  ultimately show "plain_disk d \<and> p \<noteq> [] \<and> list_all is_digit p \<and> dev = d @ p" using p(2) d(2) by (simp add: plain_disk_def)
next
  assume h: "plain_disk d \<and> p \<noteq> [] \<and> list_all is_digit p \<and> dev = d @ p"
  then obtain c cs where d: "rev d = c # cs" "\<not> is_digit c"
    by (cases d rule: rev_cases) (auto simp: plain_disk_def)
  have p: "\<forall>x \<in> set (rev p). is_digit x" using h by (auto simp: list_all_iff)
  have "takeWhile is_digit (rev dev) = rev p" "dropWhile is_digit (rev dev) = rev d"
    using h d p by (simp_all add: takeWhile_append dropWhile_append)
  then show "disk_and_partition dev = Some (d, p)" using h by (simp add: disk_and_partition_def Let_def plain_disk_def)
qed

text \<open>
  The two directions agree: if a root device belongs to a slot, the slot's data device on
  that device's disk is that very device, and the other slot's data and hash devices, the ESP
  and STATE are four further distinct devices, none of them the running slot's own data or hash.
\<close>

theorem slot_devices_roundtrip:
  assumes "ActiveSlot dev = Some s"
  shows "\<exists>d. disk_of dev = Some d \<and> SlotDataDevice d s = dev
    \<and> ESPDevice dev = Some (d @ ''1'') \<and> StateDevice dev = Some (d @ ''6'')
    \<and> distinct [SlotDataDevice d s, SlotHashDevice d s, SlotDataDevice d (OtherSlot s), SlotHashDevice d (OtherSlot s),
        d @ ''1'', d @ ''6'']
    \<and> ActiveSlot (SlotDataDevice d (OtherSlot s)) = Some (OtherSlot s)"
proof -
  obtain d p where dp: "disk_and_partition dev = Some (d, p)" "p = (case s of Slot_A \<Rightarrow> ''2'' | Slot_B \<Rightarrow> ''4'')"
    using assms by (auto simp: ActiveSlot_def split: option.splits if_splits)
  then have dev: "dev = d @ p" and d: "plain_disk d" by (simp_all add: disk_and_partition_iff)
  have split: "disk_and_partition (d @ [c]) = Some (d, [c])" if "is_digit c" for c
    using that d by (simp add: disk_and_partition_iff)
  show ?thesis
    using dp dev split
    by (cases s) (auto simp: disk_of_def SlotDataDevice_def SlotHashDevice_def ESPDevice_def StateDevice_def
        OtherSlot_def ActiveSlot_def)
qed

theorem slot_devices_roundtrip_witness: "SlotDataDevice ''/dev/nvme0n1p'' Slot_B = ''/dev/nvme0n1p4''"
proof -
  have dev: "disk_and_partition ''/dev/nvme0n1p4'' = Some (''/dev/nvme0n1p'', ''4'')"
    by (simp add: disk_and_partition_iff plain_disk_def is_digit_def)
  then have "ActiveSlot ''/dev/nvme0n1p4'' = Some Slot_B" by (simp add: ActiveSlot_def)
  from slot_devices_roundtrip [OF this] dev show ?thesis by (auto simp: disk_of_def)
qed

section \<open>The command line\<close>

text \<open>A command line as the boot scripts write it.\<close>

record dm_spec =
  dm_name :: string
  dm_uuid :: string
  dm_minor :: string
  dm_flags :: string
  dm_start :: string
  dm_sectors :: string
  dm_version :: string
  dm_data :: string
  dm_rest :: "string list"

definition dm_value :: "dm_spec \<Rightarrow> string" where
  "dm_value d = dm_name d @ '','' @ dm_uuid d @ '','' @ dm_minor d @ '','' @ dm_flags d @ '',''
     @ join_with '' '' ([dm_start d, dm_sectors d, ''verity'', dm_version d, dm_data d] @ dm_rest d)"

definition dm_wf :: "dm_spec \<Rightarrow> bool" where
  "dm_wf d \<longleftrightarrow> quote \<notin> set (dm_value d)
     \<and> (\<forall>f \<in> {dm_name d, dm_uuid d, dm_minor d, dm_flags d}. CHR '','' \<notin> set f)
     \<and> (\<forall>w \<in> set ([dm_start d, dm_sectors d, dm_version d, dm_data d] @ dm_rest d). w \<noteq> [] \<and> (\<forall>c \<in> set w. \<not> is_space c))"

text \<open>
  On a command line that carries a \<open>dm-mod.create\<close> parameter in the form the boot scripts
  write it, wherever it stands and whatever surrounds it, the parser returns exactly the data
  device the parameter names.
\<close>

theorem DataDevice_of_cmdline:
  assumes "dm_wf d" and "\<And>k. k < length pre \<Longrightarrow>
    take (length dm_key) (drop k (pre @ dm_key @ dm_value d @ quote # post)) \<noteq> dm_key"
  shows "DataDevice (pre @ dm_key @ dm_value d @ quote # post) = Some (dm_data d)"
proof -
  let ?ws = "[dm_start d, dm_sectors d, ''verity'', dm_version d, dm_data d] @ dm_rest d"
  have 1: "after_first dm_key (pre @ dm_key @ dm_value d @ quote # post) = Some (dm_value d @ quote # post)"
    using assms(2) by (rule after_first_append)
  have 2: "before_char quote (dm_value d @ quote # post) = Some (dm_value d)"
    using assms(1) by (intro before_char_append) (simp add: dm_wf_def)
  have commas: "CHR '','' \<notin> set (dm_name d)" "CHR '','' \<notin> set (dm_uuid d)" "CHR '','' \<notin> set (dm_minor d)"
    "CHR '','' \<notin> set (dm_flags d)"
    using assms(1) by (simp_all add: dm_wf_def)
  have "dm_value d = dm_name d @ CHR '','' # dm_uuid d @ CHR '','' # dm_minor d @ CHR '','' # dm_flags d @ CHR '','' # join_with '' '' ?ws"
    by (simp add: dm_value_def)
  then have 3: "split_n (CHR '','') 5 (dm_value d) = [dm_name d, dm_uuid d, dm_minor d, dm_flags d, join_with '' '' ?ws]"
    using commas by (simp add: eval_nat_numeral split_n_Suc del: join_with.simps split_n.simps(1))
  have "\<forall>w \<in> set ?ws. w \<noteq> [] \<and> (\<forall>c \<in> set w. \<not> is_space c)" using assms(1) by (auto simp: dm_wf_def is_space_def)
  then have 4: "str_fields (join_with '' '' ?ws) = ?ws" by (rule fields_join)
  show ?thesis unfolding DataDevice_def 1 2 option.case Let_def 3 using 4 by simp
qed

definition demo_dm :: dm_spec where
  "demo_dm = \<lparr>dm_name = ''root'', dm_uuid = [], dm_minor = [], dm_flags = ''ro'', dm_start = ''0'', dm_sectors = ''131072'',
     dm_version = ''1'', dm_data = ''/dev/vda2'', dm_rest = [''/dev/vda3'', ''4096'']\<rparr>"

theorem DataDevice_of_cmdline_witness:
  "DataDevice (''ro '' @ dm_key @ dm_value demo_dm @ quote # '' quiet'') = Some ''/dev/vda2''"
proof -
  have "DataDevice (''ro '' @ dm_key @ dm_value demo_dm @ quote # '' quiet'') = Some (dm_data demo_dm)"
  proof (rule DataDevice_of_cmdline)
    show "dm_wf demo_dm" by (simp add: dm_wf_def demo_dm_def dm_value_def quote_def is_space_def)
    fix k assume "k < length ''ro ''"
    then consider "k = 0" | "k = 1" | "k = 2" by force
    then show "take (length dm_key) (drop k (''ro '' @ dm_key @ dm_value demo_dm @ quote # '' quiet'')) \<noteq> dm_key"
      by cases (simp_all add: dm_key_def)
  qed
  then show ?thesis by (simp add: demo_dm_def)
qed

end
