(* ===== verification/Supervisor.thy ===== *)
theory Supervisor
  imports Prelude
begin

text \<open>
  \<open>rootfs/init/supervisor.go\<close>: PID 1's restart loop around the daemon. Times are nanoseconds of
  the clock. What the kernel reports is an input: for each start either a failure or a pid with
  the events \<open>wait4\<close> returns from then on. A loop over finitely many starts stands for that
  part of an endless loop; \<open>Blocked\<close> is the supervisor waiting for a child that does not exit.
\<close>

section \<open>The supervisor\<close>

type_synonym duration = int

definition second :: duration where "second = 1000000000"
definition millisecond :: duration where "millisecond = 1000000"

record supervisor =
  MinBackoff :: duration
  MaxBackoff :: duration
  StableAfter :: duration
  GiveUpAfter :: duration

definition growBackoff :: "supervisor \<Rightarrow> duration \<Rightarrow> duration" where
  "growBackoff s b = (let b' = b * 2 in if b' > MaxBackoff s then MaxBackoff s else b')"

datatype reap = Wait_error | Reaped nat duration

text \<open>The wait loop: other children reaped on the way are ignored, an error costs a second.\<close>

fun wait_child :: "nat \<Rightarrow> duration \<Rightarrow> reap list \<Rightarrow> duration option" where
  "wait_child pid now [] = None"
| "wait_child pid now (Wait_error # es) = wait_child pid (now + second) es"
| "wait_child pid now (Reaped p dt # es) = (if p \<noteq> pid then wait_child pid (now + dt) es else Some (now + dt))"

datatype child = Start_failed | Started nat "reap list"

definition runOnce :: "supervisor \<Rightarrow> duration \<Rightarrow> duration \<Rightarrow> child \<Rightarrow> (int \<times> duration \<times> duration) option" where
  "runOnce s backoff now c = (case c of
       Start_failed \<Rightarrow> Some (- 1, growBackoff s backoff, now)
     | Started pid es \<Rightarrow> (case wait_child pid now es of
           None \<Rightarrow> None
         | Some t \<Rightarrow> Some (int pid, if StableAfter s \<le> t - now then MinBackoff s else growBackoff s backoff, t)))"

datatype run_end = Running duration duration | Blocked | Gave_up duration

record attempt =
  spawned_at :: duration
  exited_at :: duration
  delay :: duration

text \<open>
  The loop of \<open>Run\<close> from a given backoff and time, with the log of its finished attempts
  (start, exit, and the backoff chosen for the next start).
\<close>

fun run_loop :: "supervisor \<Rightarrow> duration option \<Rightarrow> duration \<Rightarrow> duration \<Rightarrow> child list \<Rightarrow> attempt list \<times> run_end" where
  "run_loop s dl backoff now [] = ([], Running backoff now)"
| "run_loop s dl backoff now (c # cs) = (case runOnce s backoff now c of
       None \<Rightarrow> ([], Blocked)
     | Some (_, b, t) \<Rightarrow>
         let a = \<lparr>spawned_at = now, exited_at = t, delay = b\<rparr> in
         if (case dl of None \<Rightarrow> False | Some d \<Rightarrow> d \<le> t) then ([a], Gave_up t)
         else (let (l, e) = run_loop s dl b (t + b) cs in (a # l, e)))"

definition Run :: "supervisor \<Rightarrow> duration \<Rightarrow> child list \<Rightarrow> attempt list \<times> run_end" where
  "Run s now cs = run_loop s (if GiveUpAfter s > 0 then Some (now + GiveUpAfter s) else None) (MinBackoff s) now cs"

section \<open>Backoff\<close>

definition sv_ok :: "supervisor \<Rightarrow> bool" where
  "sv_ok s \<longleftrightarrow> 0 < MinBackoff s \<and> MinBackoff s \<le> MaxBackoff s"

definition backoff_ok :: "supervisor \<Rightarrow> duration \<Rightarrow> bool" where
  "backoff_ok s b \<longleftrightarrow> MinBackoff s \<le> b \<and> b \<le> MaxBackoff s"

lemma growBackoff_ok: "sv_ok s \<Longrightarrow> backoff_ok s b \<Longrightarrow> backoff_ok s (growBackoff s b)"
  by (auto simp: sv_ok_def backoff_ok_def growBackoff_def Let_def)

text \<open>Elapsed times are not negative, and the awaited child is reaped at some point.\<close>

definition exits :: "child \<Rightarrow> bool" where
  "exits c = (case c of Start_failed \<Rightarrow> True
     | Started pid es \<Rightarrow> (\<exists>e \<in> set es. case e of Reaped p _ \<Rightarrow> p = pid | Wait_error \<Rightarrow> False)
         \<and> (\<forall>e \<in> set es. case e of Reaped _ dt \<Rightarrow> 0 \<le> dt | Wait_error \<Rightarrow> True))"

lemma wait_child_exits:
  assumes "exits (Started pid es)"
  shows "\<exists>t \<ge> now. wait_child pid now es = Some t"
  using assms
proof (induction pid now es rule: wait_child.induct)
  case (2 pid now es)
  then obtain t where "now + second \<le> t" "wait_child pid (now + second) es = Some t"
    by (auto simp: exits_def)
  then show ?case by (auto simp: second_def)
next
  case (3 pid now p dt es)
  then show ?case
    by (cases "p = pid") (fastforce simp: exits_def)+
qed (simp add: exits_def)

lemma runOnce_exits:
  assumes "sv_ok s" and "backoff_ok s b" and "exits c"
  obtains p b' t where "runOnce s b now c = Some (p, b', t)" and "now \<le> t" and "backoff_ok s b'"
    and "t - now < StableAfter s \<Longrightarrow> b' = growBackoff s b"
proof (cases c)
  case Start_failed
  then show ?thesis using assms growBackoff_ok that by (simp add: runOnce_def)
next
  case (Started pid es)
  with assms(3) obtain t where t: "now \<le> t" "wait_child pid now es = Some t"
    using wait_child_exits by blast
  have "backoff_ok s (MinBackoff s)" using assms(1) by (simp add: sv_ok_def backoff_ok_def)
  then show ?thesis
    using that [of "int pid" "if StableAfter s \<le> t - now then MinBackoff s else growBackoff s b" t] Started t assms growBackoff_ok
    by (simp add: runOnce_def)
qed

section \<open>The log of a run\<close>

text \<open>
  A log whose first start is at the given time and whose every later start comes exactly the
  chosen delay after the exit before it, each delay within the bounds.
\<close>

fun paced :: "supervisor \<Rightarrow> duration \<Rightarrow> attempt list \<Rightarrow> bool" where
  "paced s now [] = True"
| "paced s now (a # as) = (spawned_at a = now \<and> now \<le> exited_at a \<and> backoff_ok s (delay a)
     \<and> paced s (exited_at a + delay a) as)"

definition quick :: "supervisor \<Rightarrow> attempt \<Rightarrow> bool" where
  "quick s a \<longleftrightarrow> exited_at a - spawned_at a < StableAfter s"

lemma run_loop_forever:
  assumes "sv_ok s" and "backoff_ok s b" and "\<forall>c \<in> set cs. exits c"
  shows "\<exists>as b' t. run_loop s None b now cs = (as, Running b' t) \<and> length as = length cs \<and> paced s now as
    \<and> (list_all (quick s) as \<longrightarrow> map delay as = map (\<lambda>i. min (MaxBackoff s) (b * 2 ^ Suc i)) [0..<length cs])"
  using assms
proof (induction cs arbitrary: b now)
  case (Cons c cs)
  obtain p b1 t where one: "runOnce s b now c = Some (p, b1, t)" "now \<le> t" "backoff_ok s b1"
    and grow: "t - now < StableAfter s \<Longrightarrow> b1 = growBackoff s b"
    using runOnce_exits [OF Cons.prems(1,2), of c now] Cons.prems(3) by auto
  obtain as b' t' where rest: "run_loop s None b1 (t + b1) cs = (as, Running b' t')" "length as = length cs"
      "paced s (t + b1) as"
    and doubling: "list_all (quick s) as \<longrightarrow> map delay as = map (\<lambda>i. min (MaxBackoff s) (b1 * 2 ^ Suc i)) [0..<length cs]"
    using Cons.IH [OF Cons.prems(1) one(3), of "t + b1"] Cons.prems(3) by auto
  let ?a = "\<lparr>spawned_at = now, exited_at = t, delay = b1\<rparr>"
  have "map delay (?a # as) = map (\<lambda>i. min (MaxBackoff s) (b * 2 ^ Suc i)) [0..<length (c # cs)]"
    if q: "list_all (quick s) (?a # as)"
  proof -
    have b1: "b1 = min (MaxBackoff s) (b * 2)" using q grow by (simp add: quick_def growBackoff_def Let_def)
    have pos: "0 < b" "b \<le> MaxBackoff s" using Cons.prems(1,2) by (simp_all add: sv_ok_def backoff_ok_def)
    have "min (MaxBackoff s) (b1 * 2 ^ Suc i) = min (MaxBackoff s) (b * 2 ^ Suc (Suc i))" for i :: nat
    proof (cases "b * 2 \<le> MaxBackoff s")
      case False
      have one: "(1::int) \<le> 2 ^ Suc i" by (rule one_le_power) simp
      have "MaxBackoff s * 1 \<le> MaxBackoff s * 2 ^ Suc i" "b * 2 * 1 \<le> b * 2 * 2 ^ Suc i"
        using pos by (intro mult_left_mono one; simp)+
      then show ?thesis using False b1 by simp
    qed (simp add: b1 mult.assoc)
    then show ?thesis using doubling q b1 by (simp add: map_upt_Suc del: upt_Suc)
  qed
  then show ?case using one rest by (simp del: upt_Suc)
qed simp

lemma run_loop_gives_up:
  assumes "sv_ok s" and "backoff_ok s b" and "\<forall>c \<in> set cs. exits c" and "d - now \<le> MinBackoff s * (int (length cs) - 1)"
    and "cs \<noteq> []" and "now < d + MaxBackoff s"
  shows "\<exists>as t. run_loop s (Some d) b now cs = (as, Gave_up t) \<and> d \<le> t \<and> paced s now as \<and> as \<noteq> []
    \<and> exited_at (last as) = t \<and> (\<forall>a \<in> set as. spawned_at a < d + MaxBackoff s) \<and> (\<forall>a \<in> set (butlast as). exited_at a < d)"
  using assms
proof (induction cs arbitrary: b now)
  case (Cons c cs)
  obtain p b1 t where one: "runOnce s b now c = Some (p, b1, t)" "now \<le> t" "backoff_ok s b1"
    using runOnce_exits [OF Cons.prems(1,2), of c now] Cons.prems(3) by (metis list.set_intros(1))
  show ?case
  proof (cases "d \<le> t")
    case True
    then show ?thesis using one Cons.prems(6) by simp
  next
    case False
    have b1: "MinBackoff s \<le> b1" "b1 \<le> MaxBackoff s" "0 < MinBackoff s"
      using one(3) Cons.prems(1) by (simp_all add: backoff_ok_def sv_ok_def)
    have "cs \<noteq> []" using Cons.prems(4) False one(2) by auto
    moreover have "d - (t + b1) \<le> MinBackoff s * (int (length cs) - 1)"
      using Cons.prems(4) one(2) b1 by (simp add: algebra_simps)
    ultimately obtain as t' where "run_loop s (Some d) b1 (t + b1) cs = (as, Gave_up t')" "d \<le> t'" "paced s (t + b1) as"
      "as \<noteq> []" "exited_at (last as) = t'" "\<forall>a \<in> set as. spawned_at a < d + MaxBackoff s" "\<forall>a \<in> set (butlast as). exited_at a < d"
      using Cons.IH [OF Cons.prems(1) one(3), of "t + b1"] Cons.prems(3) False b1 by auto
    then show ?thesis using one False Cons.prems(6) by simp
  qed
qed simp

section \<open>Properties\<close>

text \<open>
  Without a give-up bound the daemon is restarted after every exit, as often as it exits,
  each time after a delay between \<open>MinBackoff\<close> and \<open>MaxBackoff\<close>; while no instance stays up for
  \<open>StableAfter\<close> the delays double up to the maximum.
\<close>

theorem restarts_forever:
  assumes "sv_ok s" and "GiveUpAfter s = 0" and "\<forall>c \<in> set cs. exits c"
  shows "\<exists>as b t. Run s now cs = (as, Running b t) \<and> length as = length cs \<and> paced s now as
    \<and> (list_all (quick s) as \<longrightarrow>
         map delay as = map (\<lambda>i. min (MaxBackoff s) (MinBackoff s * 2 ^ Suc i)) [0..<length cs])"
proof -
  have "backoff_ok s (MinBackoff s)" using assms(1) by (simp add: sv_ok_def backoff_ok_def)
  then show ?thesis using run_loop_forever [OF assms(1) _ assms(3)] assms(2) by (simp add: Run_def)
qed

definition init_supervisor :: supervisor where
  "init_supervisor = \<lparr>MinBackoff = 1 * second, MaxBackoff = 30 * second, StableAfter = 60 * second, GiveUpAfter = 0\<rparr>"

theorem restarts_forever_witness:
  "\<exists>as b t. Run init_supervisor 0 [Start_failed, Started 7 [Reaped 3 5, Wait_error, Reaped 7 9]] = (as, Running b t)
    \<and> length as = 2 \<and> paced init_supervisor 0 as"
  using restarts_forever [of init_supervisor "[Start_failed, Started 7 [Reaped 3 5, Wait_error, Reaped 7 9]]" 0]
  by (fastforce simp: init_supervisor_def sv_ok_def exits_def second_def)

text \<open>
  With a give-up bound and a daemon that keeps exiting, the supervisor gives up: at the first
  exit at or after the deadline, at the latest after \<open>GiveUpAfter / MinBackoff + 1\<close> starts, and
  no instance is started later than \<open>MaxBackoff\<close> past the deadline.
\<close>

theorem gives_up_after_the_deadline:
  assumes "sv_ok s" and "0 < GiveUpAfter s" and "\<forall>c \<in> set cs. exits c"
    and "GiveUpAfter s \<le> MinBackoff s * (int (length cs) - 1)"
  shows "\<exists>as t. Run s now cs = (as, Gave_up t) \<and> now + GiveUpAfter s \<le> t \<and> paced s now as \<and> as \<noteq> []
    \<and> exited_at (last as) = t \<and> (\<forall>a \<in> set as. spawned_at a < now + GiveUpAfter s + MaxBackoff s)
    \<and> (\<forall>a \<in> set (butlast as). exited_at a < now + GiveUpAfter s)"
proof -
  have "backoff_ok s (MinBackoff s)" "0 < MaxBackoff s" using assms(1) by (simp_all add: sv_ok_def backoff_ok_def)
  moreover have "cs \<noteq> []" using assms by (auto simp: sv_ok_def)
  ultimately show ?thesis
    using run_loop_gives_up [OF assms(1) _ assms(3), of "MinBackoff s" "now + GiveUpAfter s" now] assms(2,4)
    by (simp add: Run_def)
qed

theorem gives_up_after_the_deadline_witness:
  "\<exists>as t. Run (init_supervisor\<lparr>GiveUpAfter := 2 * second\<rparr>) 0 (replicate 3 Start_failed) = (as, Gave_up t) \<and> 2 * second \<le> t"
  using gives_up_after_the_deadline [of "init_supervisor\<lparr>GiveUpAfter := 2 * second\<rparr>" "replicate 3 Start_failed" 0]
  by (fastforce simp: init_supervisor_def sv_ok_def exits_def second_def)

end
