(* ===== verification/Bootcommit.thy ===== *)
theory Bootcommit
  imports Supervisor
begin

text \<open>
  \<open>internal/bootcommit\<close>: the marker of an upgrade that waits for its confirmation, and the loop
  that confirms it. The marker's file is absent, holds a marker, or cannot be read back (an I/O
  error, or the torn JSON a crash during \<open>os.WriteFile\<close> leaves).
\<close>

section \<open>The marker\<close>

record marker =
  Slot :: string
  RevertTo :: string
  TriesLeft :: int
  HealthTimeoutSeconds :: int

datatype marker_file = Absent | Unreadable | Stored marker

text \<open>\<open>Inl ()\<close> is an error, \<open>Inr None\<close> the absence of a marker.\<close>

definition read_marker :: "marker_file \<Rightarrow> unit + marker option" where
  "read_marker f = (case f of Absent \<Rightarrow> Inr None | Unreadable \<Rightarrow> Inl () | Stored m \<Rightarrow> Inr (Some m))"

text \<open>The time a marker allows, with the caller's default when it names none.\<close>

definition health_timeout :: "duration \<Rightarrow> marker \<Rightarrow> duration" where
  "health_timeout def m = (if HealthTimeoutSeconds m > 0 then HealthTimeoutSeconds m * second else def)"

section \<open>Confirm\<close>

text \<open>
  The checks are an input: the answer of each call of \<open>healthy\<close> and the time it took. \<open>Polling\<close>
  is the loop with all of them used up.
\<close>

datatype confirm_end = Polling duration | Confirmed_at duration | Deadline_at duration

fun confirm_loop :: "duration \<Rightarrow> nat \<Rightarrow> duration \<Rightarrow> nat \<Rightarrow> duration \<Rightarrow> (bool \<times> duration) list \<Rightarrow> confirm_end" where
  "confirm_loop pollInterval stableChecks deadline consecutive now [] = Polling now"
| "confirm_loop pollInterval stableChecks deadline consecutive now ((healthy, dt) # hs) =
     (let t = now + dt; consecutive' = (if healthy then Suc consecutive else 0) in
      if healthy \<and> stableChecks \<le> consecutive' then Confirmed_at t
      else if deadline \<le> t then Deadline_at t
      else confirm_loop pollInterval stableChecks deadline consecutive' (t + pollInterval) hs)"

text \<open>
  \<open>Confirm\<close> with what it does at the end: it clears the marker or reverts, and returns whether
  the boot is confirmed with that action's error.
\<close>

definition Confirm :: "marker \<Rightarrow> ('s \<Rightarrow> ('e + unit) \<times> 's) \<Rightarrow> ('s \<Rightarrow> ('e + unit) \<times> 's) \<Rightarrow> duration \<Rightarrow> nat \<Rightarrow> duration
    \<Rightarrow> duration \<Rightarrow> (bool \<times> duration) list \<Rightarrow> 's \<Rightarrow> ((bool \<times> ('e + unit)) \<times> 's) option" where
  "Confirm m clear revert pollInterval stableChecks defaultTimeout now hs s =
     (let deadline = now + health_timeout defaultTimeout m in
      case confirm_loop pollInterval stableChecks deadline 0 now hs of
        Polling _ \<Rightarrow> None
      | Confirmed_at _ \<Rightarrow> (let (r, s') = clear s in Some ((True, r), s'))
      | Deadline_at _ \<Rightarrow> (let (r, s') = revert s in Some ((False, r), s')))"

section \<open>What the loop decides\<close>

text \<open>When the \<open>n\<close>th check ends, and whether it completes \<open>k\<close> successes in a row.\<close>

definition check_time :: "duration \<Rightarrow> duration \<Rightarrow> (bool \<times> duration) list \<Rightarrow> nat \<Rightarrow> duration" where
  "check_time poll now hs n = now + sum_list (map snd (take (Suc n) hs)) + int n * poll"

definition streak :: "nat \<Rightarrow> (bool \<times> duration) list \<Rightarrow> nat \<Rightarrow> bool" where
  "streak k hs n \<longleftrightarrow> k \<le> Suc n \<and> (\<forall>j \<in> {Suc n - k ..< Suc n}. fst (hs ! j))"

text \<open>The same for a loop that has already seen \<open>c\<close> successes in a row.\<close>

fun streak_len :: "nat \<Rightarrow> bool list \<Rightarrow> nat" where
  "streak_len c [] = c"
| "streak_len c (b # bs) = streak_len (if b then Suc c else 0) bs"

lemma streak_len_snoc [simp]: "streak_len c (bs @ [b]) = (if b then Suc (streak_len c bs) else 0)"
  by (induction c bs rule: streak_len.induct) simp_all

lemma streak_len_iff: "k \<le> streak_len 0 bs \<longleftrightarrow> k \<le> length bs \<and> (\<forall>j \<in> {length bs - k ..< length bs}. bs ! j)"
proof (induction bs arbitrary: k rule: rev_induct)
  case (snoc b bs)
  show ?case
  proof (cases k)
    case (Suc k')
    have "(\<forall>j \<in> {length bs - k' ..< Suc (length bs)}. (bs @ [b]) ! j) \<longleftrightarrow> b \<and> (\<forall>j \<in> {length bs - k' ..< length bs}. bs ! j)"
      by (simp add: atLeastLessThanSuc nth_append)
    then show ?thesis using Suc snoc.IH [of k'] by auto
  qed simp
qed simp

lemma streak_iff_len: "n < length hs \<Longrightarrow> streak k hs n \<longleftrightarrow> k \<le> streak_len 0 (map fst (take (Suc n) hs))"
  by (auto simp: streak_def streak_len_iff min_def)

lemma check_time_Cons [simp]:
  "check_time poll now ((h, dt) # hs) 0 = now + dt"
  "check_time poll now ((h, dt) # hs) (Suc n) = check_time poll (now + dt + poll) hs n"
  by (simp_all add: check_time_def algebra_simps)

lemma confirm_loop_decides:
  assumes "0 < poll" and "\<forall>h \<in> set hs. 0 \<le> snd h" and "0 < k" and "deadline - now \<le> int (length hs - 1) * poll" and "hs \<noteq> []"
  shows "\<exists>n < length hs. (\<forall>j < n. \<not> k \<le> streak_len c (map fst (take (Suc j) hs)) \<and> check_time poll now hs j < deadline)
     \<and> (if k \<le> streak_len c (map fst (take (Suc n) hs)) \<and> fst (hs ! n)
        then confirm_loop poll k deadline c now hs = Confirmed_at (check_time poll now hs n)
        else deadline \<le> check_time poll now hs n \<and> confirm_loop poll k deadline c now hs = Deadline_at (check_time poll now hs n))"
  using assms
proof (induction hs arbitrary: c now)
  case (Cons h hs)
  obtain ok dt where h: "h = (ok, dt)" by (cases h)
  let ?c = "if ok then Suc c else 0"
  consider (yes) "ok" "k \<le> ?c" | (late) "\<not> (ok \<and> k \<le> ?c)" "deadline \<le> now + dt"
    | (on) "\<not> (ok \<and> k \<le> ?c)" "now + dt < deadline" by linarith
  then show ?case
  proof cases
    case on
    have dt: "0 \<le> dt" using Cons.prems(2) h by simp
    have "hs \<noteq> []" using on Cons.prems(4) dt by auto
    moreover from this have "deadline - (now + dt + poll) \<le> int (length hs - 1) * poll"
      using Cons.prems(1,4) dt by (cases hs) (simp_all add: algebra_simps)
    ultimately obtain n where "n < length hs"
      and "\<forall>j < n. \<not> k \<le> streak_len ?c (map fst (take (Suc j) hs)) \<and> check_time poll (now + dt + poll) hs j < deadline"
      and "if k \<le> streak_len ?c (map fst (take (Suc n) hs)) \<and> fst (hs ! n)
        then confirm_loop poll k deadline ?c (now + dt + poll) hs = Confirmed_at (check_time poll (now + dt + poll) hs n)
        else deadline \<le> check_time poll (now + dt + poll) hs n
          \<and> confirm_loop poll k deadline ?c (now + dt + poll) hs = Deadline_at (check_time poll (now + dt + poll) hs n)"
      using Cons.IH [of "now + dt + poll" ?c] Cons.prems(1,2,3) by auto
    moreover have "\<not> k \<le> ?c" using on(1) Cons.prems(3) by auto
    ultimately show ?thesis using on h
      by (intro exI [of _ "Suc n"]) (auto simp: less_Suc_eq_0_disj)
  qed (use h Cons.prems(3) in \<open>auto intro!: exI [of _ 0]\<close>)
qed simp

section \<open>Properties\<close>

text \<open>
  C18: The confirmation loop always ends, within as many checks as fit into the timeout: at the
  first check that either completes the required number of successes in a row, and then confirms,
  or ends at or after the deadline without completing them, and then reverts.
\<close>

theorem confirm_decides:
  assumes "0 < poll" and "0 < k" and "\<forall>h \<in> set hs. 0 \<le> snd h" and "hs \<noteq> []"
    and "health_timeout def m \<le> int (length hs - 1) * poll"
  shows "\<exists>n < length hs.
     (\<forall>j < n. \<not> streak k hs j \<and> check_time poll now hs j < now + health_timeout def m)
     \<and> (streak k hs n \<or> now + health_timeout def m \<le> check_time poll now hs n)
     \<and> Confirm m clear revert poll k def now hs s =
         (let (r, s') = (if streak k hs n then clear s else revert s) in Some ((streak k hs n, r), s'))"
proof -
  let ?d = "now + health_timeout def m"
  obtain n where n: "n < length hs" and below: "\<forall>j < n. \<not> k \<le> streak_len 0 (map fst (take (Suc j) hs)) \<and> check_time poll now hs j < ?d"
    and ends: "if k \<le> streak_len 0 (map fst (take (Suc n) hs)) \<and> fst (hs ! n)
        then confirm_loop poll k ?d 0 now hs = Confirmed_at (check_time poll now hs n)
        else ?d \<le> check_time poll now hs n \<and> confirm_loop poll k ?d 0 now hs = Deadline_at (check_time poll now hs n)"
    using confirm_loop_decides [OF assms(1,3,2), of ?d now 0] assms(4,5) by auto
  have hit: "streak k hs n \<longleftrightarrow> k \<le> streak_len 0 (map fst (take (Suc n) hs)) \<and> fst (hs ! n)"
    using n assms(2) by (auto simp: streak_iff_len take_Suc_conv_app_nth split: if_splits)
  have "\<forall>j < n. \<not> streak k hs j" using below n by (simp add: streak_iff_len)
  moreover have "streak k hs n \<or> ?d \<le> check_time poll now hs n" using ends hit by meson
  moreover have "Confirm m clear revert poll k def now hs s =
         (let (r, s') = (if streak k hs n then clear s else revert s) in Some ((streak k hs n, r), s'))"
  proof (cases "streak k hs n")
    case True
    then have "confirm_loop poll k ?d 0 now hs = Confirmed_at (check_time poll now hs n)" using ends hit by meson
    then show ?thesis using True by (simp add: Confirm_def)
  next
    case False
    then have "confirm_loop poll k ?d 0 now hs = Deadline_at (check_time poll now hs n)" using ends hit by meson
    then show ?thesis using False by (simp add: Confirm_def)
  qed
  ultimately show ?thesis using n below by blast
qed

definition demo_marker :: marker where
  "demo_marker = \<lparr>Slot = ''B'', RevertTo = ''A'', TriesLeft = 0, HealthTimeoutSeconds = 1\<rparr>"

definition demo_checks :: "(bool \<times> duration) list" where
  "demo_checks = [(True, 1), (False, 1), (True, 1), (True, 1)]"

theorem confirm_decides_witness:
  "\<exists>n < length demo_checks. Confirm demo_marker (\<lambda>s. (Inr () :: unit + unit, ''cleared'')) (\<lambda>s. (Inr (), ''reverted''))
      (500 * millisecond) 3 (60 * second) 0 demo_checks [] =
      Some ((streak 3 demo_checks n, Inr ()), if streak 3 demo_checks n then ''cleared'' else ''reverted'')"
proof -
  obtain n where "n < length demo_checks" and "Confirm demo_marker (\<lambda>s. (Inr () :: unit + unit, ''cleared'')) (\<lambda>s. (Inr (), ''reverted''))
      (500 * millisecond) 3 (60 * second) 0 demo_checks [] =
         (let (r, s') = (if streak 3 demo_checks n then (Inr (), ''cleared'') else (Inr (), ''reverted''))
          in Some ((streak 3 demo_checks n, r), s'))"
    using confirm_decides [of "500 * millisecond" 3 demo_checks "60 * second" demo_marker 0
      "\<lambda>s. (Inr () :: unit + unit, ''cleared'')" "\<lambda>s. (Inr (), ''reverted'')" "[]"]
    by (auto simp: demo_marker_def demo_checks_def health_timeout_def second_def millisecond_def)
  then show ?thesis by (intro exI [of _ n]) simp
qed

end
