(* ===== verification/Lifecycle.thy ===== *)
theory Lifecycle
  imports Bootslot Bootcommit
begin

text \<open>
  What moves a node between its two slots: \<open>internal/espswitch\<close>, \<open>internal/bootrevert\<close> and the
  RPCs \<open>Rollback\<close> and \<open>Upgrade\<close> of \<open>internal/api/lifecycle.go\<close>.

  A disk holds its partitions by device path, the kernel images of the ESP (one staged per slot
  and the one the firmware boots) and the marker of a pending upgrade on STATE. An operation
  yields its result and the list of its writes in order; all its reads come before its writes, so
  they see the disk it starts on. An environment says what each operation of the system returns.
\<close>

section \<open>The disk\<close>

record node_disk =
  partition :: "string \<Rightarrow> string option"
  uki_staged :: "string \<Rightarrow> string option"
  uki_active :: "string option"
  pending :: marker_file

datatype disk_write = W_partition string string | W_staged string string | W_active string | W_marker marker_file

text \<open>Writing to a block device replaces its first bytes.\<close>

definition overwrite :: "string \<Rightarrow> string \<Rightarrow> string" where
  "overwrite new old = new @ drop (length new) old"

fun apply_write :: "disk_write \<Rightarrow> node_disk \<Rightarrow> node_disk" where
  "apply_write (W_partition dev s) d = d\<lparr>partition := (partition d)(dev := map_option (overwrite s) (partition d dev))\<rparr>"
| "apply_write (W_staged slot s) d = d\<lparr>uki_staged := (uki_staged d)(slot \<mapsto> s)\<rparr>"
| "apply_write (W_active s) d = d\<lparr>uki_active := Some s\<rparr>"
| "apply_write (W_marker f) d = d\<lparr>pending := f\<rparr>"

definition apply_writes :: "disk_write list \<Rightarrow> node_disk \<Rightarrow> node_disk" where
  "apply_writes ws d = fold apply_write ws d"

section \<open>The environment\<close>

datatype op = Op_mkdir_esp | Op_mount_esp string | Op_read_staged | Op_write_active | Op_write_staged
  | Op_open_partition string | Op_write_partition string | Op_write_marker | Op_clear_marker | Op_send string | Op_reboot

text \<open>
  \<open>fails\<close> says which operations fail and \<open>torn\<close> what a failed write has left behind, when it has
  written anything; \<open>proc_cmdline\<close> and \<open>bundle_file\<close> are files the node reads.
\<close>

record node_env =
  proc_cmdline :: "string option"
  bundle_file :: "string \<Rightarrow> string \<Rightarrow> string option"
  sha256Hex :: "string \<Rightarrow> string"
  fails :: "op \<Rightarrow> bool"
  torn :: "op \<Rightarrow> string option"

text \<open>A result with the writes made for it; the composition is the same for writes of any kind.\<close>

type_synonym ('e, 'a) act = "('e + 'a) \<times> disk_write list"

fun bind_a :: "('e + 'a) \<times> 'w list \<Rightarrow> ('a \<Rightarrow> ('e + 'b) \<times> 'w list) \<Rightarrow> ('e + 'b) \<times> 'w list" where
  "bind_a (Inl e, ws) f = (Inl e, ws)"
| "bind_a (Inr x, ws) f = (let (r, ws') = f x in (r, ws @ ws'))"

definition lift_r :: "'e + 'a \<Rightarrow> ('e + 'a) \<times> 'w list" where
  "lift_r r = (r, [])"

definition check_a :: "bool \<Rightarrow> 'e \<Rightarrow> ('e + unit) \<times> 'w list" where
  "check_a b e = lift_r (guard_r b e)"

text \<open>A write that may fail: it writes what it should, or what is left of it.\<close>

definition write_a :: "node_env \<Rightarrow> op \<Rightarrow> (string \<Rightarrow> disk_write) \<Rightarrow> string \<Rightarrow> 'e \<Rightarrow> ('e, unit) act" where
  "write_a E oper w s e = (if fails E oper
     then (Inl e, case torn E oper of None \<Rightarrow> [] | Some g \<Rightarrow> [w g]) else (Inr (), [w s]))"

definition write_marker :: "node_env \<Rightarrow> marker \<Rightarrow> 'e \<Rightarrow> ('e, unit) act" where
  "write_marker E m e = (if fails E Op_write_marker
     then (Inl e, case torn E Op_write_marker of None \<Rightarrow> [] | Some _ \<Rightarrow> [W_marker Unreadable])
     else (Inr (), [W_marker (Stored m)]))"

definition clear_marker :: "node_env \<Rightarrow> 'e \<Rightarrow> ('e, unit) act" where
  "clear_marker E e = (if fails E Op_clear_marker then (Inl e, []) else (Inr (), [W_marker Absent]))"

section \<open>Switching the ESP\<close>

datatype switch_error = E_mkdir_esp | E_mount_esp | ErrUKINotStaged string | E_read_staged | E_write_active
  | E_write_staged | E_read_cmdline | E_no_data_device | E_no_esp | E_not_a_slot | E_no_disk
  | E_activate switch_error | E_clear_marker

definition esp_mount :: "node_env \<Rightarrow> string \<Rightarrow> (switch_error, unit) act" where
  "esp_mount E espDevice = bind_a (check_a (\<not> fails E Op_mkdir_esp) E_mkdir_esp)
     (\<lambda>_. check_a (\<not> fails E (Op_mount_esp espDevice)) E_mount_esp)"

definition Activate :: "node_env \<Rightarrow> node_disk \<Rightarrow> string \<Rightarrow> string \<Rightarrow> (switch_error, unit) act" where
  "Activate E d espDevice slot =
     bind_a (esp_mount E espDevice) (\<lambda>_.
     bind_a (check_a (\<not> fails E Op_read_staged) E_read_staged) (\<lambda>_.
     bind_a (lift_r (of_opt (ErrUKINotStaged slot) (uki_staged d slot))) (\<lambda>staged.
     write_a E Op_write_active W_active staged E_write_active)))"

text \<open>\<open>bootrevert.To\<close>.\<close>

definition revert_to :: "node_env \<Rightarrow> node_disk \<Rightarrow> marker \<Rightarrow> (switch_error, unit) act" where
  "revert_to E d m =
     bind_a (lift_r (of_opt E_read_cmdline (proc_cmdline E))) (\<lambda>cmdline.
     bind_a (lift_r (of_opt E_no_data_device (DataDevice cmdline))) (\<lambda>dataDev.
     bind_a (lift_r (of_opt E_no_esp (ESPDevice dataDev))) (\<lambda>espDevice.
     bind_a (case Activate E d espDevice (RevertTo m) of (r, ws) \<Rightarrow> (map_sum E_activate id r, ws)) (\<lambda>_.
     clear_marker E E_clear_marker))))"

section \<open>The RPCs\<close>

datatype code = InvalidArgument | FailedPrecondition | Internal

text \<open>
  An RPC fails with a status (the code, and which of the errors it reports) or with what the
  stream returned when it could not send a message of the named stage.
\<close>

datatype rpc_problem = No_reference | Switch switch_error | Read_failed string | Too_large string nat
  | Sha_mismatch string | Write_failed string | Marker_failed

datatype rpc_error = Status code rpc_problem | Stream_error string

record boot_context =
  bc_disk :: string
  currentSlot :: slot_id
  targetSlot :: slot_id
  espDevice :: string

definition resolveBootContext :: "node_env \<Rightarrow> rpc_error + boot_context" where
  "resolveBootContext E =
     bind_r (of_opt (Status Internal (Switch E_read_cmdline)) (proc_cmdline E)) (\<lambda>cmdline.
     bind_r (of_opt (Status FailedPrecondition (Switch E_no_data_device)) (DataDevice cmdline)) (\<lambda>dataDev.
     bind_r (of_opt (Status FailedPrecondition (Switch E_not_a_slot)) (ActiveSlot dataDev)) (\<lambda>current.
     bind_r (of_opt (Status Internal (Switch E_no_disk)) (disk_of dataDev)) (\<lambda>disk.
     bind_r (of_opt (Status Internal (Switch E_no_esp)) (ESPDevice dataDev)) (\<lambda>esp.
     Inr \<lparr>bc_disk = disk, currentSlot = current, targetSlot = OtherSlot current, espDevice = esp\<rparr>)))))"

text \<open>\<open>Rollback\<close> answers with the slot the next boot will run and schedules the reboot.\<close>

definition Rollback :: "node_env \<Rightarrow> node_disk \<Rightarrow> (rpc_error, slot_id) act" where
  "Rollback E d =
     bind_a (lift_r (resolveBootContext E)) (\<lambda>bc.
     case Activate E d (espDevice bc) (slot_name (targetSlot bc)) of
       (Inr _, ws) \<Rightarrow> (Inr (targetSlot bc), ws)
     | (Inl e, ws) \<Rightarrow> (Inl (case e of
           ErrUKINotStaged s \<Rightarrow> Status FailedPrecondition (Switch e) | _ \<Rightarrow> Status Internal (Switch e)), ws))"

definition upgradeMaxDataBytes :: nat where "upgradeMaxDataBytes = 64 * 1024 * 1024"
definition upgradeMaxHashBytes :: nat where "upgradeMaxHashBytes = 4 * 1024 * 1024"

record upgrade_request =
  reference :: string
  sha256 :: string
  wait_for_health :: bool
  health_timeout_seconds :: int

definition send_stage :: "node_env \<Rightarrow> string \<Rightarrow> (rpc_error, unit) act" where
  "send_stage E stage = check_a (\<not> fails E (Op_send stage)) (Stream_error stage)"

text \<open>A device that does not exist cannot be opened; a write past its end fails after filling it.\<close>

definition writePartitionFile :: "node_env \<Rightarrow> node_disk \<Rightarrow> string \<Rightarrow> string \<Rightarrow> rpc_error \<Rightarrow> (rpc_error, unit) act" where
  "writePartitionFile E d device data e = (case partition d device of
       None \<Rightarrow> (Inl e, [])
     | Some old \<Rightarrow>
         if fails E (Op_open_partition device) then (Inl e, [])
         else if length old < length data then (Inl e, [W_partition device (take (length old) data)])
         else write_a E (Op_write_partition device) (W_partition device) data e)"

text \<open>What \<open>Upgrade\<close> reads and checks before it writes: the squashfs, the verity tree, the UKI.\<close>

definition uki_name :: "slot_id \<Rightarrow> string" where
  "uki_name s = (case s of Slot_A \<Rightarrow> ''uki-a.efi'' | Slot_B \<Rightarrow> ''uki-b.efi'')"

definition read_bundle :: "node_env \<Rightarrow> upgrade_request \<Rightarrow> slot_id \<Rightarrow> rpc_error + string \<times> string \<times> string" where
  "read_bundle E req target =
     bind_r (of_opt (Status FailedPrecondition (Read_failed ''rootfs.squashfs'')) (bundle_file E (reference req) ''rootfs.squashfs'')) (\<lambda>squashfs.
     bind_r (guard_r (length squashfs \<le> upgradeMaxDataBytes) (Status FailedPrecondition (Too_large ''rootfs.squashfs'' (length squashfs)))) (\<lambda>_.
     bind_r (guard_r (sha256 req = [] \<or> sha256Hex E squashfs = sha256 req) (Status FailedPrecondition (Sha_mismatch (sha256Hex E squashfs)))) (\<lambda>_.
     bind_r (of_opt (Status FailedPrecondition (Read_failed ''rootfs.verity'')) (bundle_file E (reference req) ''rootfs.verity'')) (\<lambda>verity.
     bind_r (guard_r (length verity \<le> upgradeMaxHashBytes) (Status FailedPrecondition (Too_large ''rootfs.verity'' (length verity)))) (\<lambda>_.
     bind_r (of_opt (Status FailedPrecondition (Read_failed (uki_name target))) (bundle_file E (reference req) (uki_name target))) (\<lambda>uki.
     Inr (squashfs, verity, uki)))))))"

definition upgrade_marker :: "upgrade_request \<Rightarrow> boot_context \<Rightarrow> marker" where
  "upgrade_marker req bc = \<lparr>Slot = slot_name (targetSlot bc), RevertTo = slot_name (currentSlot bc),
     TriesLeft = 1, HealthTimeoutSeconds = health_timeout_seconds req\<rparr>"

text \<open>The ESP write of \<open>Upgrade\<close>: stage the new UKI, then make it the one that boots.\<close>

definition switch_esp :: "node_env \<Rightarrow> boot_context \<Rightarrow> string \<Rightarrow> (rpc_error, unit) act" where
  "switch_esp E bc uki =
     bind_a (case esp_mount E (espDevice bc) of (r, ws) \<Rightarrow> (map_sum (\<lambda>e. Status Internal (Switch e)) id r, ws)) (\<lambda>_.
     bind_a (write_a E Op_write_staged (W_staged (slot_name (targetSlot bc))) uki (Status Internal (Switch E_write_staged))) (\<lambda>_.
     write_a E Op_write_active W_active uki (Status Internal (Switch E_write_active))))"

definition Upgrade :: "node_env \<Rightarrow> upgrade_request \<Rightarrow> node_disk \<Rightarrow> (rpc_error, unit) act" where
  "Upgrade E req d =
     bind_a (check_a (reference req \<noteq> []) (Status InvalidArgument No_reference)) (\<lambda>_.
     bind_a (lift_r (resolveBootContext E)) (\<lambda>bc.
     bind_a (send_stage E ''verifying'') (\<lambda>_.
     bind_a (lift_r (read_bundle E req (targetSlot bc))) (\<lambda>(squashfs, verity, uki).
     let dataDev = SlotDataDevice (bc_disk bc) (targetSlot bc); hashDev = SlotHashDevice (bc_disk bc) (targetSlot bc) in
     bind_a (send_stage E ''writing-data'') (\<lambda>_.
     bind_a (writePartitionFile E d dataDev squashfs (Status Internal (Write_failed dataDev))) (\<lambda>_.
     bind_a (send_stage E ''writing-hash'') (\<lambda>_.
     bind_a (writePartitionFile E d hashDev verity (Status Internal (Write_failed hashDev))) (\<lambda>_.
     bind_a (if wait_for_health req then write_marker E (upgrade_marker req bc) (Status Internal Marker_failed) else (Inr (), [])) (\<lambda>_.
     bind_a (send_stage E ''switching-slot'') (\<lambda>_.
     bind_a (switch_esp E bc uki) (\<lambda>_.
     send_stage E ''rebooting'')))))))))))"

section \<open>Lemmas on the writer\<close>

lemma apply_writes_simps [simp]:
  "apply_writes [] d = d" "apply_writes (w # ws) d = apply_writes ws (apply_write w d)"
  "apply_writes (ws @ ws') d = apply_writes ws' (apply_writes ws d)"
  by (simp_all add: apply_writes_def)

lemma bind_a_Inr [simp]: "bind_a (Inr x, []) f = f x"
  by (simp split: prod.splits)

lemma writes_bind: "snd (bind_a m f) = snd m @ (case fst m of Inl _ \<Rightarrow> [] | Inr x \<Rightarrow> snd (f x))"
  by (cases "(m, f)" rule: bind_a.cases) (auto split: prod.splits)

lemma ok_bind: "fst (bind_a m f) = Inr y \<longleftrightarrow> (\<exists>x. fst m = Inr x \<and> fst (f x) = Inr y)"
  by (cases "(m, f)" rule: bind_a.cases) (auto split: prod.splits)

lemma writes_pure [simp]: "snd (lift_r r) = []" "snd (check_a b e) = []" "snd (send_stage E s) = []" "snd (esp_mount E v) = []"
  by (simp_all add: lift_r_def check_a_def send_stage_def esp_mount_def writes_bind split: sum.splits)

lemma ok_pure [simp]: "fst (lift_r r) = Inr y \<longleftrightarrow> r = Inr y" "fst (check_a b e) = Inr u \<longleftrightarrow> b"
  "fst (send_stage E s) = Inr u \<longleftrightarrow> \<not> fails E (Op_send s)"
  by (simp_all add: lift_r_def check_a_def send_stage_def ok_iff)

end
