(* ===== verification/Boot_Init.thy ===== *)
theory Boot_Init
  imports Lifecycle
begin

text \<open>
  What a boot does about a pending upgrade: PID 1's side (\<open>rootfs/init/main.go\<close>: the check at
  boot, the supervised daemon and its give-up hook) and the daemon's (\<open>cmd/janusd/main.go\<close>:
  confirming by HAProxy's health), and one boot of the node as a step on its disk.
\<close>

section \<open>PID 1\<close>

text \<open>\<open>revertAndReboot\<close>: whether the machine goes down, and the writes. It returns only on failure.\<close>

definition revertAndReboot :: "node_env \<Rightarrow> node_disk \<Rightarrow> marker \<Rightarrow> bool \<times> disk_write list" where
  "revertAndReboot E d m = (case revert_to E d m of
       (Inl _, ws) \<Rightarrow> (False, ws)
     | (Inr _, ws) \<Rightarrow> (\<not> fails E Op_reboot, ws))"

datatype init_boot = Boot_on "marker option" | Reboots

definition checkBootCommit :: "node_env \<Rightarrow> node_disk \<Rightarrow> init_boot \<times> disk_write list" where
  "checkBootCommit E d = (case read_marker (pending d) of
       Inl _ \<Rightarrow> (Boot_on None, [])
     | Inr None \<Rightarrow> (Boot_on None, [])
     | Inr (Some m) \<Rightarrow> (case Option.bind (proc_cmdline E) (\<lambda>c. Option.bind (DataDevice c) ActiveSlot) of
           None \<Rightarrow> (Boot_on None, [])
         | Some current \<Rightarrow>
             if Slot m \<noteq> slot_name current then (Boot_on None, snd (clear_marker E E_clear_marker))
             else if TriesLeft m > 0 then
               let m' = m\<lparr>TriesLeft := TriesLeft m - 1\<rparr> in (Boot_on (Some m'), snd (write_marker E m' E_clear_marker))
             else let (down, ws) = revertAndReboot E d m in (if down then Reboots else Boot_on None, ws)))"

definition defaultGiveUpAfter :: duration where "defaultGiveUpAfter = 60 * second"

text \<open>The supervisor \<open>startDaemon\<close> sets up.\<close>

definition startDaemon :: "marker option \<Rightarrow> supervisor" where
  "startDaemon pendingMarker = \<lparr>MinBackoff = 1 * second, MaxBackoff = 30 * second, StableAfter = 60 * second,
     GiveUpAfter = (case pendingMarker of None \<Rightarrow> 0 | Some m \<Rightarrow> health_timeout defaultGiveUpAfter m)\<rparr>"

definition giveUpBootCommit :: "node_env \<Rightarrow> node_disk \<Rightarrow> marker \<Rightarrow> bool \<times> disk_write list" where
  "giveUpBootCommit E d m = (case read_marker (pending d) of
       Inr (Some cur) \<Rightarrow> if Slot cur \<noteq> Slot m then (False, []) else revertAndReboot E d cur
     | _ \<Rightarrow> (False, []))"

text \<open>
  The rest of \<open>main\<close> once the check is done: supervise the daemon; when the supervisor gives up,
  run the hook on the disk of that moment. When the hook returns, so do \<open>Run\<close>, \<open>startDaemon\<close> and
  \<open>main\<close>: PID 1 exits.
\<close>

datatype init_end = Supervising | Init_rebooting | Init_exited

definition supervise :: "node_env \<Rightarrow> marker option \<Rightarrow> duration \<Rightarrow> child list \<Rightarrow> node_disk \<Rightarrow> init_end \<times> disk_write list" where
  "supervise E pm now cs d = (case snd (Run (startDaemon pm) now cs) of
       Gave_up _ \<Rightarrow>
         (case pm of None \<Rightarrow> (Init_exited, [])
          | Some m \<Rightarrow> (let (down, ws) = giveUpBootCommit E d m in (if down then Init_rebooting else Init_exited, ws)))
     | _ \<Rightarrow> (Supervising, []))"

section \<open>The daemon\<close>

definition healthPollInterval :: duration where "healthPollInterval = 500 * millisecond"
definition healthStableChecks :: nat where "healthStableChecks = 3"
definition defaultHealthTimeout :: duration where "defaultHealthTimeout = 60 * second"

text \<open>
  \<open>confirmBootHealth\<close> on the writes so far: the revert callback switches the ESP back, and reboots.
\<close>

definition confirmBootHealth :: "node_env \<Rightarrow> node_disk \<Rightarrow> marker \<Rightarrow> duration \<Rightarrow> (bool \<times> duration) list
    \<Rightarrow> ((bool \<times> (switch_error + unit)) \<times> disk_write list) option" where
  "confirmBootHealth E d m now hs = Confirm m
     (\<lambda>ws. case clear_marker E E_clear_marker of (r, ws') \<Rightarrow> (r, ws @ ws'))
     (\<lambda>ws. case revert_to E d m of (r, ws') \<Rightarrow> (r, ws @ ws'))
     healthPollInterval healthStableChecks defaultHealthTimeout now hs []"

text \<open>\<open>main\<close> reads the marker once, when the daemon starts.\<close>

definition janusd_confirms :: "node_env \<Rightarrow> node_disk \<Rightarrow> duration \<Rightarrow> (bool \<times> duration) list \<Rightarrow> disk_write list" where
  "janusd_confirms E d now hs = (case read_marker (pending d) of
       Inr (Some m) \<Rightarrow> (case confirmBootHealth E d m now hs of None \<Rightarrow> [] | Some (_, ws) \<Rightarrow> ws)
     | _ \<Rightarrow> [])"

section \<open>One boot\<close>

text \<open>
  How far a boot gets: it dies before PID 1 looks at the marker, it is cut off afterwards without
  any verdict, the supervisor gives up on the daemon, or the daemon runs its health checks.
\<close>

datatype boot_course = Dies_early | Cut_off | Daemon_crashes | Health_checks "(bool \<times> duration) list"

text \<open>The firmware boots the active UKI, whose command line is \<open>uki_cmdline\<close>.\<close>

definition booted_env :: "node_env \<Rightarrow> (string \<Rightarrow> string) \<Rightarrow> node_disk \<Rightarrow> node_env" where
  "booted_env E uki_cmdline d = E\<lparr>proc_cmdline := map_option uki_cmdline (uki_active d)\<rparr>"

definition boot_node :: "node_env \<Rightarrow> (string \<Rightarrow> string) \<Rightarrow> boot_course \<Rightarrow> node_disk \<Rightarrow> node_disk" where
  "boot_node E0 uki_cmdline course d =
     (if course = Dies_early then d else
      let E = booted_env E0 uki_cmdline d; (ib, ws) = checkBootCommit E d; d1 = apply_writes ws d in
      case ib of
        Reboots \<Rightarrow> d1
      | Boot_on pm \<Rightarrow> (case course of
            Daemon_crashes \<Rightarrow> (case pm of None \<Rightarrow> d1 | Some m \<Rightarrow> apply_writes (snd (giveUpBootCommit E d1 m)) d1)
          | Health_checks hs \<Rightarrow> apply_writes (janusd_confirms E d1 0 hs) d1
          | _ \<Rightarrow> d1))"

section \<open>Lemmas\<close>

definition io_ok :: "node_env \<Rightarrow> bool" where
  "io_ok E \<longleftrightarrow> (\<forall>x. \<not> fails E x)"

definition slot_of_cmdline :: "string \<Rightarrow> slot_id option" where
  "slot_of_cmdline c = Option.bind (DataDevice c) ActiveSlot"

lemma slot_of_cmdline_esp:
  assumes "slot_of_cmdline c = Some s"
  obtains dev esp where "DataDevice c = Some dev" "ActiveSlot dev = Some s" "ESPDevice dev = Some esp"
  using assms that by (auto simp: slot_of_cmdline_def ActiveSlot_def ESPDevice_def bind_eq_Some_conv split: option.splits)

lemma revert_to_ok:
  assumes "io_ok E" and "proc_cmdline E = Some c" and "slot_of_cmdline c = Some s" and "uki_staged d (RevertTo m) = Some u"
  shows "revert_to E d m = (Inr (), [W_active u, W_marker Absent])"
  using assms by (elim slot_of_cmdline_esp)
    (simp add: revert_to_def of_opt_def lift_r_def Activate_def esp_mount_def check_a_def guard_r_def io_ok_def write_a_def clear_marker_def)

lemma revertAndReboot_ok:
  assumes "io_ok E" and "proc_cmdline E = Some c" and "slot_of_cmdline c = Some s" and "uki_staged d (RevertTo m) = Some u"
  shows "revertAndReboot E d m = (True, [W_active u, W_marker Absent])"
  using assms by (simp add: revertAndReboot_def revert_to_ok [OF assms]) (simp add: io_ok_def)

text \<open>The three outcomes of the check on a disk with a marker, without I/O errors.\<close>

lemma checkBootCommit_ok:
  assumes "io_ok E" and "proc_cmdline E = Some c" and "slot_of_cmdline c = Some s" and "pending d = Stored m"
  shows "Slot m \<noteq> slot_name s \<Longrightarrow> checkBootCommit E d = (Boot_on None, [W_marker Absent])"
    and "Slot m = slot_name s \<Longrightarrow> TriesLeft m > 0 \<Longrightarrow>
      checkBootCommit E d = (Boot_on (Some (m\<lparr>TriesLeft := TriesLeft m - 1\<rparr>)), [W_marker (Stored (m\<lparr>TriesLeft := TriesLeft m - 1\<rparr>))])"
    and "Slot m = slot_name s \<Longrightarrow> TriesLeft m \<le> 0 \<Longrightarrow> uki_staged d (RevertTo m) = Some u \<Longrightarrow>
      checkBootCommit E d = (Reboots, [W_active u, W_marker Absent])"
  using assms revertAndReboot_ok [OF assms(1,2,3), of d m u]
  by (simp_all add: checkBootCommit_def read_marker_def clear_marker_def write_marker_def io_ok_def
      slot_of_cmdline_def Let_def)

lemma io_ok_booted [simp]: "io_ok (booted_env E f d) \<longleftrightarrow> io_ok E"
  by (simp add: io_ok_def booted_env_def)

lemma proc_cmdline_booted [simp]: "proc_cmdline (booted_env E f d) = map_option f (uki_active d)"
  by (simp add: booted_env_def)

text \<open>The daemon's verdict, without I/O errors.\<close>

definition verdict_healthy :: "marker \<Rightarrow> (bool \<times> duration) list \<Rightarrow> bool option" where
  "verdict_healthy m hs = (case confirm_loop healthPollInterval healthStableChecks (health_timeout defaultHealthTimeout m) 0 0 hs of
       Polling _ \<Rightarrow> None | Confirmed_at _ \<Rightarrow> Some True | Deadline_at _ \<Rightarrow> Some False)"

lemma janusd_confirms_ok:
  assumes "io_ok E" and "proc_cmdline E = Some c" and "slot_of_cmdline c = Some s" and "pending d = Stored m"
    and "uki_staged d (RevertTo m) = Some u"
  shows "janusd_confirms E d 0 hs = (case verdict_healthy m hs of
      None \<Rightarrow> [] | Some True \<Rightarrow> [W_marker Absent] | Some False \<Rightarrow> [W_active u, W_marker Absent])"
  using assms revert_to_ok [OF assms(1,2,3,5)]
  by (simp add: janusd_confirms_def read_marker_def confirmBootHealth_def Confirm_def Let_def verdict_healthy_def
      clear_marker_def io_ok_def split: confirm_end.splits)

end
