(* ===== verification/Lifecycle_Properties.thy ===== *)
theory Lifecycle_Properties
  imports Boot_Init
begin

text \<open>
  Properties of moving between slots: what an upgrade may write and in which order, where a crash
  at any point leaves the node, and what the following boots make of an upgrade.
\<close>

section \<open>The writes of Upgrade\<close>

definition upgrade_target :: "boot_context \<Rightarrow> disk_write \<Rightarrow> bool" where
  "upgrade_target bc w = (case w of
       W_partition dev _ \<Rightarrow> dev = SlotDataDevice (bc_disk bc) (targetSlot bc) \<or> dev = SlotHashDevice (bc_disk bc) (targetSlot bc)
     | W_staged s _ \<Rightarrow> s = slot_name (targetSlot bc)
     | _ \<Rightarrow> True)"

definition is_active_write :: "disk_write \<Rightarrow> bool" where
  "is_active_write w = (case w of W_active _ \<Rightarrow> True | _ \<Rightarrow> False)"

definition inactive_target :: "boot_context \<Rightarrow> disk_write \<Rightarrow> bool" where
  "inactive_target bc w \<longleftrightarrow> upgrade_target bc w \<and> \<not> is_active_write w"

lemma fst_map_pair: "fst (case m of (r, ws) \<Rightarrow> (g r, ws)) = g (fst m)" "snd (case m of (r, ws) \<Rightarrow> (g r, ws)) = snd m"
  by (simp_all split: prod.splits)

lemma writePartitionFile_targets:
  "dev = SlotDataDevice (bc_disk bc) (targetSlot bc) \<or> dev = SlotHashDevice (bc_disk bc) (targetSlot bc)
   \<Longrightarrow> \<forall>w \<in> set (snd (writePartitionFile E d dev data e)). inactive_target bc w"
  by (auto simp: writePartitionFile_def write_a_def inactive_target_def upgrade_target_def is_active_write_def split: option.splits)

lemma writePartitionFile_ok:
  "fst (writePartitionFile E d dev data e) = Inr u \<Longrightarrow> snd (writePartitionFile E d dev data e) = [W_partition dev data] \<and> (\<exists>old. partition d dev = Some old)"
  by (auto simp: writePartitionFile_def write_a_def split: option.splits if_splits)

definition marker_step :: "node_env \<Rightarrow> upgrade_request \<Rightarrow> boot_context \<Rightarrow> (rpc_error, unit) act" where
  "marker_step E req bc = (if wait_for_health req then write_marker E (upgrade_marker req bc) (Status Internal Marker_failed) else (Inr (), []))"

definition marker_writes :: "upgrade_request \<Rightarrow> boot_context \<Rightarrow> disk_write list" where
  "marker_writes req bc = (if wait_for_health req then [W_marker (Stored (upgrade_marker req bc))] else [])"

lemma marker_step_targets: "\<forall>w \<in> set (snd (marker_step E req bc)). inactive_target bc w"
  by (auto simp: marker_step_def write_marker_def inactive_target_def upgrade_target_def is_active_write_def split: option.splits)

lemma marker_step_ok: "fst (marker_step E req bc) = Inr u \<Longrightarrow> snd (marker_step E req bc) = marker_writes req bc"
  by (auto simp: marker_step_def marker_writes_def write_marker_def split: if_splits)

text \<open>The ESP is switched by a list of writes that ends in the active UKI, or has no such write.\<close>

lemma switch_esp_shape:
  "(\<forall>w \<in> set (snd (switch_esp E bc uki)). inactive_target bc w)
   \<or> (\<exists>g. snd (switch_esp E bc uki) = [W_staged (slot_name (targetSlot bc)) uki, W_active g]
        \<and> (g = uki \<or> fails E Op_write_active))"
  by (auto simp: switch_esp_def writes_bind fst_map_pair write_a_def inactive_target_def upgrade_target_def is_active_write_def
      split: sum.splits option.splits)

lemma switch_esp_ok:
  "fst (switch_esp E bc uki) = Inr u \<Longrightarrow> snd (switch_esp E bc uki) = [W_staged (slot_name (targetSlot bc)) uki, W_active uki]"
  by (auto simp: switch_esp_def writes_bind ok_bind fst_map_pair write_a_def split: if_splits sum.splits)

text \<open>The writes that come before the active UKI in a run that gets that far.\<close>

definition staged_writes :: "upgrade_request \<Rightarrow> boot_context \<Rightarrow> string \<times> string \<times> string \<Rightarrow> disk_write list" where
  "staged_writes req bc b = (case b of (squashfs, verity, uki) \<Rightarrow>
     [W_partition (SlotDataDevice (bc_disk bc) (targetSlot bc)) squashfs, W_partition (SlotHashDevice (bc_disk bc) (targetSlot bc)) verity]
     @ marker_writes req bc @ [W_staged (slot_name (targetSlot bc)) uki])"

text \<open>The part of \<open>Upgrade\<close> after the bundle has been read.\<close>

definition upgrade_tail :: "node_env \<Rightarrow> upgrade_request \<Rightarrow> node_disk \<Rightarrow> boot_context \<Rightarrow> string \<times> string \<times> string \<Rightarrow> (rpc_error, unit) act" where
  "upgrade_tail E req d bc b = (case b of (squashfs, verity, uki) \<Rightarrow>
     let dataDev = SlotDataDevice (bc_disk bc) (targetSlot bc); hashDev = SlotHashDevice (bc_disk bc) (targetSlot bc) in
     bind_a (send_stage E ''writing-data'') (\<lambda>_.
     bind_a (writePartitionFile E d dataDev squashfs (Status Internal (Write_failed dataDev))) (\<lambda>_.
     bind_a (send_stage E ''writing-hash'') (\<lambda>_.
     bind_a (writePartitionFile E d hashDev verity (Status Internal (Write_failed hashDev))) (\<lambda>_.
     bind_a (marker_step E req bc) (\<lambda>_.
     bind_a (send_stage E ''switching-slot'') (\<lambda>_.
     bind_a (switch_esp E bc uki) (\<lambda>_.
     send_stage E ''rebooting''))))))))"

lemma Upgrade_tail:
  "Upgrade E req d =
     bind_a (check_a (reference req \<noteq> []) (Status InvalidArgument No_reference)) (\<lambda>_.
     bind_a (lift_r (resolveBootContext E)) (\<lambda>bc.
     bind_a (send_stage E ''verifying'') (\<lambda>_.
     bind_a (lift_r (read_bundle E req (targetSlot bc))) (upgrade_tail E req d bc))))"
  by (simp add: Upgrade_def marker_step_def case_prod_unfold upgrade_tail_def [abs_def])

lemma inactive_appendI: "\<forall>w \<in> set xs. P w \<Longrightarrow> \<forall>w \<in> set ys. P w \<Longrightarrow> \<forall>w \<in> set (xs @ ys). P w"
  by auto

lemma upgrade_tail_shape:
  "(\<forall>w \<in> set (snd (upgrade_tail E req d bc (squashfs, verity, uki))). inactive_target bc w)
   \<or> (\<exists>g. snd (upgrade_tail E req d bc (squashfs, verity, uki)) = staged_writes req bc (squashfs, verity, uki) @ [W_active g]
        \<and> (g = uki \<or> fails E Op_write_active))"
proof -
  let ?dd = "SlotDataDevice (bc_disk bc) (targetSlot bc)" and ?hd = "SlotHashDevice (bc_disk bc) (targetSlot bc)"
  define p where "p = writePartitionFile E d ?dd squashfs (Status Internal (Write_failed ?dd))"
  define q where "q = writePartitionFile E d ?hd verity (Status Internal (Write_failed ?hd))"
  define r where "r = marker_step E req bc"
  define s where "s = switch_esp E bc uki"
  note defs = p_def q_def r_def s_def
  have eq: "snd (upgrade_tail E req d bc (squashfs, verity, uki)) =
    (if fails E (Op_send ''writing-data'') then [] else snd p @ (case fst p of Inl _ \<Rightarrow> [] | Inr _ \<Rightarrow>
     if fails E (Op_send ''writing-hash'') then [] else snd q @ (case fst q of Inl _ \<Rightarrow> [] | Inr _ \<Rightarrow>
     snd r @ (case fst r of Inl _ \<Rightarrow> [] | Inr _ \<Rightarrow>
     if fails E (Op_send ''switching-slot'') then [] else snd s))))"
    by (simp add: upgrade_tail_def writes_bind Let_def flip: defs)
      (auto simp: send_stage_def check_a_def lift_r_def guard_r_def writes_bind split: sum.splits)
  have t: "\<forall>w \<in> set (snd p). inactive_target bc w" "\<forall>w \<in> set (snd q). inactive_target bc w" "\<forall>w \<in> set (snd r). inactive_target bc w"
    unfolding defs by (intro writePartitionFile_targets marker_step_targets; simp)+
  show ?thesis
  proof (cases "fails E (Op_send ''writing-data'') \<or> isl (fst p) \<or> fails E (Op_send ''writing-hash'') \<or> isl (fst q) \<or> isl (fst r)
      \<or> fails E (Op_send ''switching-slot'')")
    case True
    then show ?thesis unfolding eq using t by (auto split: sum.splits)
  next
    case False
    then have ok: "fst p = Inr ()" "fst q = Inr ()" "fst r = Inr ()" by (auto simp: isl_def) (metis (full_types) old.sum.exhaust old.unit.exhaust)+
    have "snd p = [W_partition ?dd squashfs]" "snd q = [W_partition ?hd verity]" "snd r = marker_writes req bc"
      using ok writePartitionFile_ok marker_step_ok unfolding defs by blast+
    then have "snd (upgrade_tail E req d bc (squashfs, verity, uki)) =
        [W_partition ?dd squashfs, W_partition ?hd verity] @ marker_writes req bc @ snd s"
      unfolding eq using False ok by simp
    then show ?thesis
      using switch_esp_shape [of E bc uki] t(3) \<open>snd r = _\<close> unfolding s_def
      by (auto simp: staged_writes_def inactive_target_def upgrade_target_def is_active_write_def)
  qed
qed

lemma check_if: "check_a b e = (if b then (Inr (), []) else (Inl e, []))"
  "send_stage E st = (if fails E (Op_send st) then (Inl (Stream_error st), []) else (Inr (), []))"
  by (simp_all add: check_a_def send_stage_def lift_r_def guard_r_def)

text \<open>An upgrade that stops before its first write, or the rest of it on the bundle it read.\<close>

lemma Upgrade_cases:
  assumes "resolveBootContext E = Inr bc"
  obtains (early) e where "Upgrade E req d = (Inl e, [])"
  | (writes) b where "read_bundle E req (targetSlot bc) = Inr b" "Upgrade E req d = upgrade_tail E req d bc b"
proof (cases "reference req \<noteq> [] \<and> \<not> fails E (Op_send ''verifying'')")
  case True
  then show ?thesis using that assms
    by (cases "read_bundle E req (targetSlot bc)") (simp_all add: Upgrade_tail check_if lift_r_def)
next
  case False
  then show ?thesis using assms
    by (cases "reference req = []") (auto intro: that(1) simp: Upgrade_tail check_if lift_r_def)
qed

lemma upgrade_shape:
  assumes "resolveBootContext E = Inr bc"
  shows "(\<forall>w \<in> set (snd (Upgrade E req d)). inactive_target bc w)
   \<or> (\<exists>b g. read_bundle E req (targetSlot bc) = Inr b \<and> snd (Upgrade E req d) = staged_writes req bc b @ [W_active g]
        \<and> (g = snd (snd b) \<or> fails E Op_write_active))"
proof (cases rule: Upgrade_cases [OF assms, of req d])
  case (2 b)
  then show ?thesis using upgrade_tail_shape [of E req d bc] by (cases b) auto
qed simp

lemma upgrade_ok:
  assumes "fst (Upgrade E req d) = Inr u" and "resolveBootContext E = Inr bc"
  shows "\<exists>squashfs verity uki. read_bundle E req (targetSlot bc) = Inr (squashfs, verity, uki)
    \<and> snd (Upgrade E req d) = staged_writes req bc (squashfs, verity, uki) @ [W_active uki]"
proof -
  obtain b where b: "read_bundle E req (targetSlot bc) = Inr b" "fst (upgrade_tail E req d bc b) = Inr u"
    "snd (Upgrade E req d) = snd (upgrade_tail E req d bc b)"
    using assms(1) by (cases rule: Upgrade_cases [OF assms(2), of req d]) auto
  obtain squashfs verity uki where e: "b = (squashfs, verity, uki)" by (cases b)
  have "snd (upgrade_tail E req d bc b) = staged_writes req bc b @ [W_active uki]"
    using b(2) unfolding e upgrade_tail_def
    by (auto simp: ok_bind writes_bind Let_def staged_writes_def check_if split: if_splits
        dest!: writePartitionFile_ok marker_step_ok switch_esp_ok)
  with b e show ?thesis by auto
qed

section \<open>Crashes\<close>

text \<open>
  What a crash leaves: some of the writes in order, the next one possibly torn (garbage in its
  target; a torn marker cannot be read back). \<open>P\<close> says which writes may be torn.
\<close>

fun tear :: "string \<Rightarrow> disk_write \<Rightarrow> disk_write" where
  "tear g (W_partition dev _) = W_partition dev g"
| "tear g (W_staged slot _) = W_staged slot g"
| "tear g (W_active _) = W_active g"
| "tear g (W_marker _) = W_marker Unreadable"

inductive crash_state :: "(disk_write \<Rightarrow> bool) \<Rightarrow> disk_write list \<Rightarrow> node_disk \<Rightarrow> node_disk \<Rightarrow> bool" for P where
  stop: "crash_state P ws d d"
| torn: "P w \<Longrightarrow> crash_state P (w # ws) d (apply_write (tear g w) d)"
| on: "crash_state P ws (apply_write w d) d' \<Longrightarrow> crash_state P (w # ws) d d'"

inductive_simps crash_state_simps [simp]: "crash_state P [] d d'" "crash_state P (w # ws) d d'"

lemma crash_state_all: "crash_state P ws d (apply_writes ws d)"
  by (induction ws arbitrary: d) (auto intro: crash_state.intros simp del: crash_state_simps)

lemma crash_state_invariant:
  assumes "crash_state P ws d d'" and "\<forall>w \<in> set ws. Q w" and "\<And>w g. Q w \<Longrightarrow> Q (tear g w)"
    and "\<And>w d. Q w \<Longrightarrow> I d \<Longrightarrow> I (apply_write w d)" and "I d"
  shows "I d'"
  using assms(1,2,5) by (induction rule: crash_state.induct) (auto intro: assms(3,4))

lemma crash_state_snoc:
  "crash_state P (ws @ [w]) d d' \<Longrightarrow> crash_state P ws d d' \<or> d' = apply_write w (apply_writes ws d)
     \<or> (P w \<and> (\<exists>g. d' = apply_write (tear g w) (apply_writes ws d)))"
  by (induction ws arbitrary: d) auto

lemma upgrade_target_tear [simp]: "upgrade_target bc (tear g w) = upgrade_target bc w"
  by (cases w) (simp_all add: upgrade_target_def)

lemma is_active_tear [simp]: "is_active_write (tear g w) = is_active_write w"
  by (cases w) (simp_all add: is_active_write_def)

lemma upgrade_targets:
  assumes "resolveBootContext E = Inr bc"
  shows "\<forall>w \<in> set (snd (Upgrade E req d)). upgrade_target bc w"
  using upgrade_shape [OF assms, of req d]
  by (auto simp: inactive_target_def staged_writes_def marker_writes_def upgrade_target_def)

lemma inactive_keeps_active:
  assumes "crash_state P ws d d'" and "\<forall>w \<in> set ws. \<not> is_active_write w"
  shows "uki_active d' = uki_active d"
  using crash_state_invariant [OF assms(1), of "\<lambda>w. \<not> is_active_write w" "\<lambda>x. uki_active x = uki_active d"] assms(2)
proof (rule meta_mp)
  show "uki_active (apply_write w x) = uki_active d" if "\<not> is_active_write w" "uki_active x = uki_active d" for w x
    using that by (cases w) (simp_all add: is_active_write_def)
qed simp_all

section \<open>Slots and writes\<close>

lemma slot_device_neq [simp]:
  "SlotDataDevice disk s \<noteq> SlotHashDevice disk t" "SlotHashDevice disk t \<noteq> SlotDataDevice disk s"
  "SlotDataDevice disk s = SlotDataDevice disk t \<longleftrightarrow> s = t" "SlotHashDevice disk s = SlotHashDevice disk t \<longleftrightarrow> s = t"
  by (cases s; cases t; simp add: SlotDataDevice_def SlotHashDevice_def)+

lemma OtherSlot_neq [simp]: "s \<noteq> OtherSlot s"
  by (cases s) (simp_all add: OtherSlot_def)

lemma slot_name_inject [simp]: "slot_name s = slot_name t \<longleftrightarrow> s = t"
  by (cases s; cases t) (simp_all add: slot_name_def)

lemma resolve_target: "resolveBootContext E = Inr bc \<Longrightarrow> targetSlot bc = OtherSlot (currentSlot bc)"
  by (auto simp: resolveBootContext_def ok_iff)

lemma staged_writes_effect:
  fixes bc d squashfs verity uki req
  defines "d' \<equiv> apply_writes (staged_writes req bc (squashfs, verity, uki)) d"
  defines "dd \<equiv> SlotDataDevice (bc_disk bc) (targetSlot bc)" and "hd' \<equiv> SlotHashDevice (bc_disk bc) (targetSlot bc)"
  shows "partition d' = (partition d)(dd := map_option (overwrite squashfs) (partition d dd), hd' := map_option (overwrite verity) (partition d hd'))"
    and "uki_staged d' = (uki_staged d)(slot_name (targetSlot bc) \<mapsto> uki)" and "uki_active d' = uki_active d"
    and "pending d' = (if wait_for_health req then Stored (upgrade_marker req bc) else pending d)"
proof -
  have "dd \<noteq> hd'" by (simp add: dd_def hd'_def)
  then show "partition d' = (partition d)(dd := map_option (overwrite squashfs) (partition d dd), hd' := map_option (overwrite verity) (partition d hd'))"
    by (simp add: d'_def dd_def hd'_def staged_writes_def marker_writes_def)
qed (simp_all add: d'_def staged_writes_def marker_writes_def)

text \<open>What a crash leaves when the active UKI is the last thing written.\<close>

lemma active_write_last:
  assumes "crash_state P (staged_writes req bc (squashfs, verity, uki) @ [W_active g]) d d'"
  shows "uki_active d' = uki_active d \<or>
      (uki_staged d' (slot_name (targetSlot bc)) = Some uki
      \<and> partition d' (SlotDataDevice (bc_disk bc) (targetSlot bc)) = map_option (overwrite squashfs) (partition d (SlotDataDevice (bc_disk bc) (targetSlot bc)))
      \<and> partition d' (SlotHashDevice (bc_disk bc) (targetSlot bc)) = map_option (overwrite verity) (partition d (SlotHashDevice (bc_disk bc) (targetSlot bc)))
      \<and> pending d' = (if wait_for_health req then Stored (upgrade_marker req bc) else pending d)
      \<and> (uki_active d' = Some g \<or> (\<exists>g. P (W_active g))))"
proof -
  have quiet: "\<forall>w \<in> set (staged_writes req bc (squashfs, verity, uki)). \<not> is_active_write w"
    by (auto simp: staged_writes_def marker_writes_def is_active_write_def)
  consider "crash_state P (staged_writes req bc (squashfs, verity, uki)) d d'"
    | t where "d' = (apply_writes (staged_writes req bc (squashfs, verity, uki)) d)\<lparr>uki_active := Some t\<rparr>"
        "t = g \<or> P (W_active g)"
    using crash_state_snoc [OF assms] by auto
  then show ?thesis
  proof cases
    case 1
    then show ?thesis using inactive_keeps_active quiet by blast
  qed (auto simp: staged_writes_effect)
qed

section \<open>A concrete node\<close>

text \<open>A node on \<open>/dev/vda\<close> that runs slot A, and a bundle for slot B.\<close>

definition demo_cmdline :: "slot_id \<Rightarrow> string" where
  "demo_cmdline s = dm_key @ ''root,,,ro,0 8 verity 1 '' @ SlotDataDevice ''/dev/vda'' s @ '' '' @ SlotHashDevice ''/dev/vda'' s @ [quote]"

definition demo_env :: node_env where
  "demo_env = \<lparr>proc_cmdline = Some (demo_cmdline Slot_A), bundle_file = (\<lambda>dir name. Some name), sha256Hex = id,
     fails = (\<lambda>_. False), torn = (\<lambda>_. None)\<rparr>"

definition demo_disk :: node_disk where
  "demo_disk = \<lparr>partition = (\<lambda>_. Some ''................''), uki_staged = [''A'' \<mapsto> ''old'', ''B'' \<mapsto> ''older''],
     uki_active = Some ''old'', pending = Absent\<rparr>"

definition demo_request :: "bool \<Rightarrow> upgrade_request" where
  "demo_request w = \<lparr>reference = ''/run/bundle'', sha256 = [], wait_for_health = w, health_timeout_seconds = 30\<rparr>"

definition demo_context :: boot_context where
  "demo_context = \<lparr>bc_disk = ''/dev/vda'', currentSlot = Slot_A, targetSlot = Slot_B, espDevice = ''/dev/vda1''\<rparr>"

definition demo_uki_cmdline :: "string \<Rightarrow> string" where
  "demo_uki_cmdline u = demo_cmdline (if u = ''uki-b.efi'' then Slot_B else Slot_A)"

lemma demo_data_device: "DataDevice (demo_cmdline Slot_A) = Some ''/dev/vda2''" "DataDevice (demo_cmdline Slot_B) = Some ''/dev/vda4''"
  by code_simp+

lemma demo_devices: "ActiveSlot ''/dev/vda2'' = Some Slot_A" "ActiveSlot ''/dev/vda4'' = Some Slot_B"
  "disk_of ''/dev/vda2'' = Some ''/dev/vda''" "ESPDevice ''/dev/vda2'' = Some ''/dev/vda1''"
  by code_simp+

lemma demo_resolve: "resolveBootContext demo_env = Inr demo_context"
  by (simp add: resolveBootContext_def demo_env_def demo_data_device demo_devices of_opt_def demo_context_def OtherSlot_def)

lemma demo_bundle: "read_bundle demo_env (demo_request w) Slot_B = Inr (''rootfs.squashfs'', ''rootfs.verity'', ''uki-b.efi'')"
  by (simp add: read_bundle_def demo_env_def demo_request_def of_opt_def guard_r_def upgradeMaxDataBytes_def upgradeMaxHashBytes_def uki_name_def)

lemma demo_slot: "slot_of_cmdline (demo_uki_cmdline ''uki-b.efi'') = Some Slot_B"
  by (simp add: slot_of_cmdline_def demo_uki_cmdline_def demo_data_device demo_devices)

lemma demo_io: "io_ok demo_env" "fails demo_env x = False"
  by (simp_all add: io_ok_def demo_env_def)

lemma demo_upgrade_any:
  assumes "\<And>dev. \<exists>old. partition d dev = Some old \<and> 16 \<le> length old" and "reference req \<noteq> []" and "sha256 req \<in> {[], ''rootfs.squashfs''}"
  shows "Upgrade demo_env req d = (Inr (), snd (Upgrade demo_env req d))"
proof -
  have fits: "fst (writePartitionFile demo_env d dev data e) = Inr ()" if "length data \<le> 16" for dev data e
    using assms(1) [of dev] that by (auto simp: writePartitionFile_def write_a_def demo_io)
  have release: "read_bundle demo_env req Slot_B = Inr (''rootfs.squashfs'', ''rootfs.verity'', ''uki-b.efi'')"
    using assms(3) by (auto simp: read_bundle_def demo_env_def of_opt_def guard_r_def upgradeMaxDataBytes_def upgradeMaxHashBytes_def uki_name_def)
  have "fst (upgrade_tail demo_env req d demo_context (''rootfs.squashfs'', ''rootfs.verity'', ''uki-b.efi'')) = Inr ()"
    by (simp add: upgrade_tail_def Let_def ok_bind check_if demo_io fits write_a_def marker_step_def write_marker_def
        switch_esp_def esp_mount_def)
  then have "fst (Upgrade demo_env req d) = Inr ()"
    using demo_resolve release assms(2)
    by (simp add: Upgrade_tail check_if lift_r_def demo_io) (simp add: demo_context_def)
  then show ?thesis by (cases "Upgrade demo_env req d") simp
qed

lemma demo_upgrade:
  assumes "\<And>dev. \<exists>old. partition d dev = Some old \<and> 16 \<le> length old"
  shows "Upgrade demo_env (demo_request w) d = (Inr (), snd (Upgrade demo_env (demo_request w) d))"
  using assms by (rule demo_upgrade_any) (simp_all add: demo_request_def)

section \<open>Properties\<close>

text \<open>
  C16: Whatever the request, whichever operations fail, and wherever the machine crashes on the
  way, torn writes included, an upgrade leaves both partitions of the running slot, its staged
  UKI and every partition but the two of the other slot as they were.
\<close>

theorem upgrade_spares_the_running_slot:
  assumes "resolveBootContext E = Inr bc" and "crash_state (\<lambda>_. True) (snd (Upgrade E req d)) d d'"
  shows "(\<forall>dev. dev \<noteq> SlotDataDevice (bc_disk bc) (targetSlot bc) \<and> dev \<noteq> SlotHashDevice (bc_disk bc) (targetSlot bc)
      \<longrightarrow> partition d' dev = partition d dev)
    \<and> partition d' (SlotDataDevice (bc_disk bc) (currentSlot bc)) = partition d (SlotDataDevice (bc_disk bc) (currentSlot bc))
    \<and> partition d' (SlotHashDevice (bc_disk bc) (currentSlot bc)) = partition d (SlotHashDevice (bc_disk bc) (currentSlot bc))
    \<and> uki_staged d' (slot_name (currentSlot bc)) = uki_staged d (slot_name (currentSlot bc))"
proof -
  define I where "I x \<longleftrightarrow> (\<forall>dev. dev \<noteq> SlotDataDevice (bc_disk bc) (targetSlot bc) \<and> dev \<noteq> SlotHashDevice (bc_disk bc) (targetSlot bc)
      \<longrightarrow> partition x dev = partition d dev) \<and> (\<forall>s. s \<noteq> slot_name (targetSlot bc) \<longrightarrow> uki_staged x s = uki_staged d s)" for x :: node_disk
  have kept: "I (apply_write w x)" if "upgrade_target bc w" "I x" for w x
    using that by (cases w) (auto simp: I_def upgrade_target_def)
  have I: "I d'"
    by (rule crash_state_invariant [OF assms(2), of "upgrade_target bc" I, OF upgrade_targets [OF assms(1)] _ kept])
      (simp_all add: I_def)
  have neq: "currentSlot bc \<noteq> targetSlot bc"
    using resolve_target [OF assms(1)] OtherSlot_simps(1) [of "currentSlot bc"] by metis
  have parts: "partition d' dev = partition d dev"
    if "dev \<noteq> SlotDataDevice (bc_disk bc) (targetSlot bc)" "dev \<noteq> SlotHashDevice (bc_disk bc) (targetSlot bc)" for dev
    using I that unfolding I_def by blast
  have names: "uki_staged d' s = uki_staged d s" if "s \<noteq> slot_name (targetSlot bc)" for s
    using I that unfolding I_def by blast
  have "\<forall>dev. dev \<noteq> SlotDataDevice (bc_disk bc) (targetSlot bc) \<and> dev \<noteq> SlotHashDevice (bc_disk bc) (targetSlot bc)
      \<longrightarrow> partition d' dev = partition d dev"
    using parts by blast
  moreover have "partition d' (SlotDataDevice (bc_disk bc) (currentSlot bc)) = partition d (SlotDataDevice (bc_disk bc) (currentSlot bc))"
    using neq by (intro parts) simp_all
  moreover have "partition d' (SlotHashDevice (bc_disk bc) (currentSlot bc)) = partition d (SlotHashDevice (bc_disk bc) (currentSlot bc))"
    using neq by (intro parts) simp_all
  moreover have "uki_staged d' (slot_name (currentSlot bc)) = uki_staged d (slot_name (currentSlot bc))"
    using neq by (intro names) simp
  ultimately show ?thesis by simp
qed

theorem upgrade_spares_the_running_slot_witness:
  "partition (apply_writes (snd (Upgrade demo_env (demo_request True) demo_disk)) demo_disk) ''/dev/vda2'' = Some ''................''"
proof -
  let ?ws = "snd (Upgrade demo_env (demo_request True) demo_disk)"
  have "partition (apply_writes ?ws demo_disk) (SlotDataDevice (bc_disk demo_context) (currentSlot demo_context))
      = partition demo_disk (SlotDataDevice (bc_disk demo_context) (currentSlot demo_context))"
    using upgrade_spares_the_running_slot [OF demo_resolve crash_state_all] by blast
  then show ?thesis by (simp add: demo_context_def SlotDataDevice_def demo_disk_def)
qed

text \<open>
  C2: Wherever an upgrade crashes or fails, the active UKI is the old one until everything else is
  in place: either it is still the old one, or the other slot holds the whole bundle, its UKI is
  staged and, for an upgrade that waits for health, the marker that watches over the next boot is
  stored. The active UKI is then the new one, except in one window: the active UKI is overwritten
  in place, so a crash during that write, or its failure, can leave anything there. \<open>P\<close> says which
  writes a crash may tear.
\<close>

theorem upgrade_survives_a_crash:
  assumes "resolveBootContext E = Inr bc" and "crash_state P (snd (Upgrade E req d)) d d'"
  shows "uki_active d' = uki_active d \<or> (\<exists>squashfs verity uki.
      read_bundle E req (targetSlot bc) = Inr (squashfs, verity, uki)
      \<and> uki_staged d' (slot_name (targetSlot bc)) = Some uki
      \<and> partition d' (SlotDataDevice (bc_disk bc) (targetSlot bc)) = map_option (overwrite squashfs) (partition d (SlotDataDevice (bc_disk bc) (targetSlot bc)))
      \<and> partition d' (SlotHashDevice (bc_disk bc) (targetSlot bc)) = map_option (overwrite verity) (partition d (SlotHashDevice (bc_disk bc) (targetSlot bc)))
      \<and> pending d' = (if wait_for_health req then Stored (upgrade_marker req bc) else pending d)
      \<and> (uki_active d' = Some uki \<or> (\<exists>g. P (W_active g)) \<or> fails E Op_write_active))"
  using upgrade_shape [OF assms(1), of req d]
proof (elim disjE exE conjE)
  assume "\<forall>w \<in> set (snd (Upgrade E req d)). inactive_target bc w"
  then show ?thesis using inactive_keeps_active [OF assms(2)] by (simp add: inactive_target_def)
next
  fix b g assume b: "read_bundle E req (targetSlot bc) = Inr b" and ws: "snd (Upgrade E req d) = staged_writes req bc b @ [W_active g]"
    and g: "g = snd (snd b)"
  from assms(2) b g show ?thesis unfolding ws by (cases b) (use active_write_last in fastforce)
next
  fix b g assume b: "read_bundle E req (targetSlot bc) = Inr b" and ws: "snd (Upgrade E req d) = staged_writes req bc b @ [W_active g]"
    and "fails E Op_write_active"
  from assms(2) b this(3) show ?thesis unfolding ws by (cases b) (use active_write_last in fastforce)
qed

theorem upgrade_survives_a_crash_witness:
  "uki_active (apply_writes (snd (Upgrade demo_env (demo_request True) demo_disk)) demo_disk) \<in> {Some ''old'', Some ''uki-b.efi''}"
  using upgrade_survives_a_crash [OF demo_resolve crash_state_all, of "demo_request True" demo_disk "\<lambda>_. False"] demo_bundle [of True]
  by (auto simp: demo_io demo_context_def demo_disk_def)

section \<open>The boots after an upgrade\<close>

text \<open>What a boot that runs on a pending marker makes of it: a verdict, or none.\<close>

definition verdict :: "marker \<Rightarrow> boot_course \<Rightarrow> bool option" where
  "verdict m c = (case c of Health_checks hs \<Rightarrow> verdict_healthy m hs | Daemon_crashes \<Rightarrow> Some False | _ \<Rightarrow> None)"

lemma verdict_healthy_tries [simp]: "verdict_healthy (m\<lparr>TriesLeft := n\<rparr>) hs = verdict_healthy m hs"
  by (simp add: verdict_healthy_def health_timeout_def)

lemma giveUp_ok:
  assumes "io_ok E" and "proc_cmdline E = Some c" and "slot_of_cmdline c = Some s" and "pending d = Stored m"
    and "uki_staged d (RevertTo m) = Some u" and "Slot m' = Slot m"
  shows "giveUpBootCommit E d m' = (True, [W_active u, W_marker Absent])"
  using assms revertAndReboot_ok [OF assms(1,2,3,5)] by (simp add: giveUpBootCommit_def read_marker_def)

text \<open>The first boot of the upgraded slot, and the second one when the first gave no verdict.\<close>

lemma provisional_boot:
  assumes "io_ok E" and "uki_active d = Some uki" and "slot_of_cmdline (f uki) = Some s"
    and "pending d = Stored m" and "Slot m = slot_name s" and "0 < TriesLeft m" and "uki_staged d (RevertTo m) = Some old"
    and "c \<noteq> Dies_early"
  shows "boot_node E f c d = (case verdict m c of
      None \<Rightarrow> d\<lparr>pending := Stored (m\<lparr>TriesLeft := TriesLeft m - 1\<rparr>)\<rparr>
    | Some True \<Rightarrow> d\<lparr>pending := Absent\<rparr>
    | Some False \<Rightarrow> d\<lparr>uki_active := Some old, pending := Absent\<rparr>)"
proof -
  let ?E = "booted_env E f d" and ?m = "m\<lparr>TriesLeft := TriesLeft m - 1\<rparr>"
  let ?d = "d\<lparr>pending := Stored ?m\<rparr>"
  have E: "io_ok ?E" "proc_cmdline ?E = Some (f uki)" using assms(1,2) by simp_all
  have "checkBootCommit ?E d = (Boot_on (Some ?m), [W_marker (Stored ?m)])"
    by (rule checkBootCommit_ok(2) [OF E assms(3,4,5,6)])
  moreover have "giveUpBootCommit ?E ?d ?m = (True, [W_active old, W_marker Absent])"
    by (rule giveUp_ok [OF E assms(3), of ?d ?m old ?m]) (use assms(7) in simp_all)
  moreover have "janusd_confirms ?E ?d 0 hs = (case verdict_healthy m hs of
      None \<Rightarrow> [] | Some True \<Rightarrow> [W_marker Absent] | Some False \<Rightarrow> [W_active old, W_marker Absent])" for hs
    using janusd_confirms_ok [OF E assms(3), of ?d ?m old hs] assms(7) by simp
  ultimately show ?thesis using assms(8)
    by (cases c) (simp_all add: boot_node_def verdict_def Let_def split: option.splits bool.splits)
qed

lemma exhausted_boot:
  assumes "io_ok E" and "uki_active d = Some uki" and "slot_of_cmdline (f uki) = Some s"
    and "pending d = Stored m" and "Slot m = slot_name s" and "TriesLeft m \<le> 0" and "uki_staged d (RevertTo m) = Some old"
    and "c \<noteq> Dies_early"
  shows "boot_node E f c d = d\<lparr>uki_active := Some old, pending := Absent\<rparr>"
proof -
  let ?E = "booted_env E f d"
  have "checkBootCommit ?E d = (Reboots, [W_active old, W_marker Absent])"
    by (rule checkBootCommit_ok(3) [OF _ _ assms(3,4,5,6,7)]) (use assms(1,2) in simp_all)
  then show ?thesis using assms(8) by (simp add: boot_node_def Let_def)
qed

lemma upgraded_disk:
  assumes "Upgrade E req d = (Inr (), ws)" and "resolveBootContext E = Inr bc"
    and "read_bundle E req (targetSlot bc) = Inr (squashfs, verity, uki)"
  shows "uki_active (apply_writes ws d) = Some uki"
    and "uki_staged (apply_writes ws d) = (uki_staged d)(slot_name (targetSlot bc) \<mapsto> uki)"
    and "pending (apply_writes ws d) = (if wait_for_health req then Stored (upgrade_marker req bc) else pending d)"
  using upgrade_ok [of E req d "()", OF _ assms(2)] assms(1,3) by (auto simp: staged_writes_effect)

text \<open>
  C4: Take an upgrade that waits for health and succeeded, whose new UKI names its own slot on its
  command line, from a slot whose UKI is staged on the ESP; take boots that reach PID 1 and on
  which the operations on the ESP and the marker succeed (\<open>io_ok\<close>). The first such boot settles the
  upgrade when it reaches a verdict: healthy checks keep the new UKI, failing checks and a daemon
  that keeps crashing bring the old one back. When it is cut off without a verdict, the second
  brings the old UKI back, whatever its course. In each case no marker is left. A kernel that
  dies before PID 1 is outside this: nothing then runs that could revert it.
\<close>

theorem upgrade_is_confirmed_or_reverted:
  assumes "Upgrade E req d = (Inr (), ws)" and "wait_for_health req" and "resolveBootContext E = Inr bc"
    and "read_bundle E req (targetSlot bc) = Inr (squashfs, verity, uki)"
    and "slot_of_cmdline (f uki) = Some (targetSlot bc)" and "uki_staged d (slot_name (currentSlot bc)) = Some old"
    and "io_ok E1" and "io_ok E2" and "c1 \<noteq> Dies_early" and "c2 \<noteq> Dies_early"
  defines "d1 \<equiv> boot_node E1 f c1 (apply_writes ws d)" and "m \<equiv> upgrade_marker req bc"
  shows "case verdict m c1 of
      Some True \<Rightarrow> uki_active d1 = Some uki \<and> pending d1 = Absent
    | Some False \<Rightarrow> uki_active d1 = Some old \<and> pending d1 = Absent
    | None \<Rightarrow> uki_active (boot_node E2 f c2 d1) = Some old \<and> pending (boot_node E2 f c2 d1) = Absent"
proof -
  let ?d = "apply_writes ws d"
  note up = upgraded_disk [OF assms(1,3,4)]
  have m: "Slot m = slot_name (targetSlot bc)" "0 < TriesLeft m" "TriesLeft m - 1 \<le> 0" "RevertTo m = slot_name (currentSlot bc)"
    by (simp_all add: m_def upgrade_marker_def)
  have staged: "uki_staged ?d (RevertTo m) = Some old"
    using m(4) up(2) assms(6) resolve_target [OF assms(3)] by simp
  have d1: "d1 = (case verdict m c1 of
      None \<Rightarrow> ?d\<lparr>pending := Stored (m\<lparr>TriesLeft := TriesLeft m - 1\<rparr>)\<rparr>
    | Some True \<Rightarrow> ?d\<lparr>pending := Absent\<rparr>
    | Some False \<Rightarrow> ?d\<lparr>uki_active := Some old, pending := Absent\<rparr>)"
    unfolding d1_def using up assms(2) by (intro provisional_boot [where uki = uki and s = "targetSlot bc"] assms m staged) (simp_all add: m_def)
  show ?thesis
  proof (cases "verdict m c1")
    case None
    then have "boot_node E2 f c2 d1 = d1\<lparr>uki_active := Some old, pending := Absent\<rparr>"
      using d1 up m staged by (intro exhausted_boot [where uki = uki and s = "targetSlot bc" and m = "m\<lparr>TriesLeft := TriesLeft m - 1\<rparr>"] assms) simp_all
    with None show ?thesis by simp
  next
    case (Some v)
    then show ?thesis using d1 up(1) by (cases v) simp_all
  qed
qed

theorem upgrade_is_confirmed_or_reverted_witness:
  "uki_active (boot_node demo_env demo_uki_cmdline Daemon_crashes
     (apply_writes (snd (Upgrade demo_env (demo_request True) demo_disk)) demo_disk)) = Some ''old''"
proof -
  have up: "Upgrade demo_env (demo_request True) demo_disk = (Inr (), snd (Upgrade demo_env (demo_request True) demo_disk))"
    by (rule demo_upgrade) (simp add: demo_disk_def)
  have "slot_of_cmdline (demo_uki_cmdline ''uki-b.efi'') = Some (targetSlot demo_context)"
    "read_bundle demo_env (demo_request True) (targetSlot demo_context) = Inr (''rootfs.squashfs'', ''rootfs.verity'', ''uki-b.efi'')"
    using demo_slot demo_bundle by (simp_all add: demo_context_def)
  moreover have "uki_staged demo_disk (slot_name (currentSlot demo_context)) = Some ''old''"
    by (simp add: demo_disk_def demo_context_def slot_name_def)
  ultimately show ?thesis
    using upgrade_is_confirmed_or_reverted [OF up _ demo_resolve _ _ _ demo_io(1) demo_io(1), of
        "''rootfs.squashfs''" "''rootfs.verity''" "''uki-b.efi''" demo_uki_cmdline "''old''" Daemon_crashes Cut_off]
    by (simp add: verdict_def demo_request_def [of True])
qed

text \<open>
  A marker that an earlier upgrade has left behind (one that failed after writing it) also
  governs a later upgrade that does not wait for health: its slot is then booted on probation, and
  when the first boot is cut off without a verdict the second one goes back to the old UKI.
\<close>

theorem leftover_marker_reverts_a_later_upgrade:
  assumes "Upgrade E req d = (Inr (), ws)" and "\<not> wait_for_health req" and "resolveBootContext E = Inr bc"
    and "read_bundle E req (targetSlot bc) = Inr (squashfs, verity, uki)"
    and "slot_of_cmdline (f uki) = Some (targetSlot bc)" and "uki_staged d (slot_name (currentSlot bc)) = Some old"
    and "pending d = Stored (upgrade_marker req' bc)" and "io_ok E1" and "io_ok E2" and "c \<noteq> Dies_early"
  shows "uki_active (apply_writes ws d) = Some uki
    \<and> uki_active (boot_node E2 f c (boot_node E1 f Cut_off (apply_writes ws d))) = Some old"
proof -
  let ?d = "apply_writes ws d" and ?m = "upgrade_marker req' bc"
  note up = upgraded_disk [OF assms(1,3,4)]
  have m: "Slot ?m = slot_name (targetSlot bc)" "TriesLeft ?m = 1" "RevertTo ?m = slot_name (currentSlot bc)"
    by (simp_all add: upgrade_marker_def)
  have staged: "uki_staged ?d (RevertTo ?m) = Some old"
    using m(3) up(2) assms(6) resolve_target [OF assms(3)] by simp
  have "boot_node E1 f Cut_off ?d = (case verdict ?m Cut_off of
      None \<Rightarrow> ?d\<lparr>pending := Stored (?m\<lparr>TriesLeft := TriesLeft ?m - 1\<rparr>)\<rparr>
    | Some True \<Rightarrow> ?d\<lparr>pending := Absent\<rparr>
    | Some False \<Rightarrow> ?d\<lparr>uki_active := Some old, pending := Absent\<rparr>)"
    using up assms(2,7) m by (intro provisional_boot [where uki = uki and s = "targetSlot bc"] assms staged) simp_all
  then have "boot_node E1 f Cut_off ?d = ?d\<lparr>pending := Stored (?m\<lparr>TriesLeft := 0\<rparr>)\<rparr>"
    using m(2) by (simp add: verdict_def)
  moreover have "boot_node E2 f c (?d\<lparr>pending := Stored (?m\<lparr>TriesLeft := 0\<rparr>)\<rparr>)
      = ?d\<lparr>pending := Stored (?m\<lparr>TriesLeft := 0\<rparr>), uki_active := Some old, pending := Absent\<rparr>"
    using up m staged
    by (intro exhausted_boot [where uki = uki and s = "targetSlot bc" and m = "?m\<lparr>TriesLeft := 0\<rparr>"] assms) simp_all
  ultimately show ?thesis using up(1) by simp
qed

text \<open>The marker of the witness is left by an upgrade whose client goes away before the switch.\<close>

definition demo_gone :: node_env where
  "demo_gone = demo_env\<lparr>fails := (\<lambda>x. x = Op_send ''switching-slot'')\<rparr>"

definition demo_left :: node_disk where
  "demo_left = apply_writes (snd (Upgrade demo_gone (demo_request True) demo_disk)) demo_disk"

lemma demo_gone_writes:
  "snd (Upgrade demo_gone (demo_request True) demo_disk) =
     [W_partition ''/dev/vda4'' ''rootfs.squashfs'', W_partition ''/dev/vda5'' ''rootfs.verity'',
      W_marker (Stored (upgrade_marker (demo_request True) demo_context))]"
proof -
  have r: "resolveBootContext demo_gone = Inr demo_context"
    using demo_resolve by (simp add: resolveBootContext_def demo_gone_def)
  have b: "read_bundle demo_gone (demo_request True) Slot_B = Inr (''rootfs.squashfs'', ''rootfs.verity'', ''uki-b.efi'')"
    using demo_bundle [of True] by (simp add: read_bundle_def demo_gone_def)
  show ?thesis
    by (simp add: Upgrade_tail check_if lift_r_def r b demo_context_def upgrade_tail_def Let_def)
      (simp add: demo_gone_def demo_env_def demo_request_def demo_disk_def writePartitionFile_def write_a_def
        marker_step_def write_marker_def SlotDataDevice_def SlotHashDevice_def)
qed

theorem leftover_marker_reverts_a_later_upgrade_witness:
  "uki_active (boot_node demo_env demo_uki_cmdline Cut_off (boot_node demo_env demo_uki_cmdline Cut_off
     (apply_writes (snd (Upgrade demo_env (demo_request False) demo_left)) demo_left))) = Some ''old''"
proof -
  have "\<exists>old. partition demo_left dev = Some old \<and> 16 \<le> length old" for dev
    unfolding demo_left_def demo_gone_writes by (simp add: demo_disk_def overwrite_def)
  then have up: "Upgrade demo_env (demo_request False) demo_left = (Inr (), snd (Upgrade demo_env (demo_request False) demo_left))"
    by (rule demo_upgrade)
  have "slot_of_cmdline (demo_uki_cmdline ''uki-b.efi'') = Some (targetSlot demo_context)"
    "read_bundle demo_env (demo_request False) (targetSlot demo_context) = Inr (''rootfs.squashfs'', ''rootfs.verity'', ''uki-b.efi'')"
    using demo_slot demo_bundle by (simp_all add: demo_context_def)
  moreover have "uki_staged demo_left (slot_name (currentSlot demo_context)) = Some ''old''"
    "pending demo_left = Stored (upgrade_marker (demo_request True) demo_context)"
    unfolding demo_left_def demo_gone_writes by (simp_all add: demo_disk_def demo_context_def slot_name_def)
  ultimately show ?thesis
    using leftover_marker_reverts_a_later_upgrade [OF up _ demo_resolve _ _ _ _ demo_io(1) demo_io(1)]
    by (simp add: demo_request_def)
qed

text \<open>
  On an ordinary boot PID 1 never exits, however often the daemon does. On a boot that was on
  probation and has been confirmed since (its marker is gone), the first exit of the daemon after
  the give-up deadline ends PID 1: the hook finds no marker and returns, and so does \<open>main\<close>.
\<close>

theorem confirmed_boot_ends_with_its_daemon:
  assumes "\<forall>c \<in> set cs. exits c" and "pending d = Absent"
    and "wait_child pid now es = Some t" and "now + health_timeout defaultGiveUpAfter m \<le> t"
  shows "fst (supervise E None now cs d) = Supervising
    \<and> supervise E (Some m) now (Started pid es # cs) d = (Init_exited, [])"
proof -
  have "sv_ok (startDaemon None)" "GiveUpAfter (startDaemon None) = 0" "backoff_ok (startDaemon None) (MinBackoff (startDaemon None))"
    by (simp_all add: sv_ok_def backoff_ok_def startDaemon_def second_def)
  then obtain as b u where "Run (startDaemon None) now cs = (as, Running b u)"
    using run_loop_forever [of "startDaemon None" _ cs now] assms(1) unfolding Run_def by fastforce
  then have "fst (supervise E None now cs d) = Supervising" by (simp add: supervise_def)
  moreover have "0 < health_timeout defaultGiveUpAfter m"
    by (simp add: health_timeout_def defaultGiveUpAfter_def second_def)
  then have "snd (Run (startDaemon (Some m)) now (Started pid es # cs)) = Gave_up t"
    using assms(3,4) by (simp add: Run_def startDaemon_def runOnce_def)
  then have "supervise E (Some m) now (Started pid es # cs) d = (Init_exited, [])"
    using assms(2) by (simp add: supervise_def giveUpBootCommit_def read_marker_def)
  ultimately show ?thesis by simp
qed

theorem confirmed_boot_ends_with_its_daemon_witness:
  "supervise demo_env (Some (upgrade_marker (demo_request True) demo_context)) 0 [Started 7 [Reaped 7 (90 * second)]] demo_disk = (Init_exited, [])"
  using confirmed_boot_ends_with_its_daemon [of "[]" demo_disk 7 0 "[Reaped 7 (90 * second)]" "90 * second"
      "upgrade_marker (demo_request True) demo_context"]
  by (simp add: demo_disk_def health_timeout_def upgrade_marker_def demo_request_def second_def)

end
