(* ===== verification/Haproxy_Runtime.thy ===== *)
theory Haproxy_Runtime
  imports Go_Strings "HOL-Library.Word"
begin

text \<open>
  \<open>internal/haproxy\<close>: validating and applying a configuration, and the runtime commands over
  HAProxy's stats socket. HAProxy itself is a parameter: what \<open>haproxy -c\<close> and a start return is
  part of the environment, and the socket is a function from the bytes written and a state of
  HAProxy to the bytes read, or the error of dialling, writing or reading, and the new state.
\<close>

section \<open>The process\<close>

record manager =
  BinaryPath :: string
  ConfigPath :: string
  PidPath :: string

text \<open>
  What the operating system does: errors of the temporary file, the result of the check (its
  output and error when it fails), an error of writing the configuration with what the file holds
  then, and an error of starting the process.
\<close>

record haproxy_env =
  tmp_error :: "string option"
  tmp_write_error :: "string option"
  check_run :: "string \<Rightarrow> (string \<times> string) option"
  write_error :: "(string \<times> string) option"
  start_error :: "string option"

record haproxy_host =
  config_file :: string
  pid_file :: "string option"
  spawned :: "string list list"

definition splitNonEmptyLines :: "string \<Rightarrow> string list" where
  "splitNonEmptyLines s = filter (\<lambda>l. l \<noteq> []) (map trim_space (split_on newline s))"

definition Validate :: "haproxy_env \<Rightarrow> string \<Rightarrow> bool \<times> string list" where
  "Validate E cfg = (case tmp_error E of Some e \<Rightarrow> (False, [e]) | None \<Rightarrow>
     (case tmp_write_error E of Some e \<Rightarrow> (False, [e]) | None \<Rightarrow>
     (case check_run E cfg of
        None \<Rightarrow> (True, [])
      | Some (out, e) \<Rightarrow> let errs = splitNonEmptyLines out in (False, if errs = [] then [e] else errs))))"

definition startOrReload :: "manager \<Rightarrow> haproxy_env \<Rightarrow> haproxy_host \<Rightarrow> string option \<times> haproxy_host" where
  "startOrReload m E h =
     (let sf = (case pid_file h of None \<Rightarrow> [] | Some oldPID \<Rightarrow>
              let pid = trim_space oldPID in if pid \<noteq> [] then [''-sf'', pid] else []);
          args = [''-f'', ConfigPath m, ''-p'', PidPath m] @ sf in
      case start_error E of
        Some e \<Rightarrow> (Some (''start haproxy: '' @ e), h)
      | None \<Rightarrow> (None, h\<lparr>spawned := (BinaryPath m # args) # spawned h\<rparr>))"

text \<open>\<open>Apply\<close> returns the validation errors and an error.\<close>

definition Apply :: "manager \<Rightarrow> haproxy_env \<Rightarrow> string \<Rightarrow> haproxy_host \<Rightarrow> (string list \<times> string option) \<times> haproxy_host" where
  "Apply m E cfg h = (case Validate E cfg of
       (False, errs) \<Rightarrow> ((errs, Some ''invalid config''), h)
     | (True, _) \<Rightarrow> (case write_error E of
           Some (e, held) \<Rightarrow> (([], Some (''write config: '' @ e)), h\<lparr>config_file := held\<rparr>)
         | None \<Rightarrow> (let (r, h') = startOrReload m E (h\<lparr>config_file := cfg\<rparr>) in (([], r), h'))))"

definition Reload :: "manager \<Rightarrow> haproxy_env \<Rightarrow> haproxy_host \<Rightarrow> string option \<times> haproxy_host" where
  "Reload m E h = startOrReload m E h"

section \<open>The stats socket\<close>

type_synonym 's socket = "string \<Rightarrow> 's \<Rightarrow> (string + string) \<times> 's"

definition statsCommand :: "'s socket \<Rightarrow> string \<Rightarrow> 's \<Rightarrow> (string + string) \<times> 's" where
  "statsCommand sock cmd s = sock (cmd @ [newline]) s"

fun then_s :: "('e + 'a) \<times> 's \<Rightarrow> ('a \<Rightarrow> 's \<Rightarrow> ('e + 'b) \<times> 's) \<Rightarrow> ('e + 'b) \<times> 's" where
  "then_s (Inl e, s) f = (Inl e, s)"
| "then_s (Inr x, s) f = f x s"

text \<open>A mutation succeeds when it answers nothing but white space.\<close>

definition mustEmpty :: "(string + string) \<times> 's \<Rightarrow> (string + unit) \<times> 's" where
  "mustEmpty r = then_s r (\<lambda>out s. (if trim_space out \<noteq> [] then Inl (trim_space out) else Inr (), s))"

record info =
  Version :: string
  UptimeSeconds :: "64 word"
  CurrentConnections :: "32 word"
  MaxConnections :: "32 word"

definition info_line :: "string \<Rightarrow> info \<Rightarrow> info" where
  "info_line line i = (case cut_str '': '' line of
       None \<Rightarrow> i
     | Some (key, value) \<Rightarrow>
         if key = ''Version'' then i\<lparr>Version := value\<rparr>
         else if key = ''Uptime_sec'' then i\<lparr>UptimeSeconds := of_nat (parse_uint 64 value)\<rparr>
         else if key = ''CurrConns'' then i\<lparr>CurrentConnections := of_nat (parse_uint 32 value)\<rparr>
         else if key = ''MaxConn'' then i\<lparr>MaxConnections := of_nat (parse_uint 32 value)\<rparr>
         else i)"

definition ShowInfo :: "'s socket \<Rightarrow> 's \<Rightarrow> (string + info) \<times> 's" where
  "ShowInfo sock s = then_s (statsCommand sock ''show info'' s) (\<lambda>out s.
     (Inr (fold info_line (split_on newline out)
        \<lparr>Version = [], UptimeSeconds = 0, CurrentConnections = 0, MaxConnections = 0\<rparr>), s))"

definition ShowStat :: "'s socket \<Rightarrow> 's \<Rightarrow> (string + string) \<times> 's" where
  "ShowStat sock s = statsCommand sock ''show stat'' s"

definition SetServerState :: "'s socket \<Rightarrow> string \<Rightarrow> string \<Rightarrow> string \<Rightarrow> 's \<Rightarrow> (string + unit) \<times> 's" where
  "SetServerState sock backend server state s =
     mustEmpty (statsCommand sock (''set server '' @ backend @ ''/'' @ server @ '' state '' @ state) s)"

section \<open>Maps and ACLs\<close>

definition is_re_space :: "char \<Rightarrow> bool" where
  "is_re_space c \<longleftrightarrow> c \<in> {CHR '' '', CHR 0x09, CHR 0x0A, CHR 0x0C, CHR 0x0D}"

text \<open>The text in parentheses of a line that matches the expression of \<open>identifierListLineRE\<close>.\<close>

definition identifier_of_line :: "string \<Rightarrow> string option" where
  "identifier_of_line line =
     (let rest = dropWhile is_digit line; body = dropWhile is_re_space rest in
      if takeWhile is_digit line = [] \<or> takeWhile is_re_space rest = [] then None
      else case body of
          [] \<Rightarrow> None
        | c # cs \<Rightarrow> if c = CHR ''('' then before_char (CHR '')'') cs else None)"

fun identifiers :: "string list \<Rightarrow> string list" where
  "identifiers [] = []"
| "identifiers (l # ls) =
     (let line = trim_space l in
      if line = [] \<or> has_prefix line ''#'' then identifiers ls
      else case identifier_of_line line of
          None \<Rightarrow> identifiers ls
        | Some n \<Rightarrow> if n = [] then identifiers ls else n # identifiers ls)"

definition parseIdentifierList :: "string \<Rightarrow> string list" where
  "parseIdentifierList out = identifiers (split_on newline out)"

definition MapList :: "'s socket \<Rightarrow> 's \<Rightarrow> (string + string list) \<times> 's" where
  "MapList sock s = then_s (statsCommand sock ''show map'' s) (\<lambda>out s. (Inr (parseIdentifierList out), s))"

definition map_line :: "string \<Rightarrow> (string, string) gomap \<Rightarrow> (string, string) gomap" where
  "map_line line entries =
     (let fields = str_fields line in
      if length fields < 3 then entries
      else gm_put (fields ! 1) (join_with '' '' (drop 2 fields)) entries)"

definition MapGet :: "'s socket \<Rightarrow> string \<Rightarrow> 's \<Rightarrow> (string + (string, string) gomap) \<times> 's" where
  "MapGet sock mapName s = then_s (statsCommand sock (''show map '' @ mapName) s) (\<lambda>out s.
     (Inr (fold map_line (split_on newline out) []), s))"

text \<open>An upsert deletes first, and ignores how that went.\<close>

definition MapUpdate :: "'s socket \<Rightarrow> string \<Rightarrow> string \<Rightarrow> string \<Rightarrow> bool \<Rightarrow> 's \<Rightarrow> (string + unit) \<times> 's" where
  "MapUpdate sock mapName key value del s =
     (if del then mustEmpty (statsCommand sock (''del map '' @ mapName @ '' '' @ key) s)
      else let (_, s1) = statsCommand sock (''del map '' @ mapName @ '' '' @ key) s in
        mustEmpty (statsCommand sock (''add map '' @ mapName @ '' '' @ key @ '' '' @ value) s1))"

definition ACLUpdate :: "'s socket \<Rightarrow> string \<Rightarrow> string \<Rightarrow> bool \<Rightarrow> 's \<Rightarrow> (string + unit) \<times> 's" where
  "ACLUpdate sock aclName value del s =
     (if del then mustEmpty (statsCommand sock (''del acl '' @ aclName @ '' '' @ value) s)
      else let (_, s1) = statsCommand sock (''del acl '' @ aclName @ '' '' @ value) s in
        mustEmpty (statsCommand sock (''add acl '' @ aclName @ '' '' @ value) s1))"

section \<open>Certificates\<close>

record cert_info =
  ci_name :: string
  ci_not_after :: string
  ci_status :: string

fun cert_field :: "string list \<Rightarrow> string \<Rightarrow> string" where
  "cert_field [] f = []"
| "cert_field (line # ls) f = (case cut_str '':'' line of
       None \<Rightarrow> cert_field ls f
     | Some (key, value) \<Rightarrow> if key \<noteq> f then cert_field ls f else trim_space value)"

definition parseCertField :: "string \<Rightarrow> string \<Rightarrow> string" where
  "parseCertField detail f = cert_field (split_on newline detail) f"

text \<open>\<open>rfc3339\<close> stands for parsing HAProxy's date and formatting it anew.\<close>

definition parseNotAfter :: "(string \<Rightarrow> string option) \<Rightarrow> string \<Rightarrow> string" where
  "parseNotAfter rfc3339 detail =
     (let value = parseCertField detail ''notAfter'' in
      if value = [] then [] else case rfc3339 value of None \<Rightarrow> value | Some t \<Rightarrow> t)"

fun cert_details :: "(string \<Rightarrow> string option) \<Rightarrow> 's socket \<Rightarrow> string list \<Rightarrow> 's \<Rightarrow> (string + cert_info list) \<times> 's" where
  "cert_details rfc3339 sock [] s = (Inr [], s)"
| "cert_details rfc3339 sock (line # ls) s =
     (let name = trim_space line in
      if name = [] \<or> has_prefix name ''#'' then cert_details rfc3339 sock ls s
      else then_s (statsCommand sock (''show ssl cert '' @ name) s) (\<lambda>detail s.
        then_s (cert_details rfc3339 sock ls s) (\<lambda>certs s.
        (Inr (\<lparr>ci_name = name, ci_not_after = parseNotAfter rfc3339 detail, ci_status = parseCertField detail ''Status''\<rparr> # certs), s))))"

definition CertificateList :: "(string \<Rightarrow> string option) \<Rightarrow> 's socket \<Rightarrow> 's \<Rightarrow> (string + cert_info list) \<times> 's" where
  "CertificateList rfc3339 sock s = then_s (statsCommand sock ''show ssl cert'' s) (\<lambda>out s.
     cert_details rfc3339 sock (split_on newline out) s)"

definition crt_list_command :: "string \<Rightarrow> string \<Rightarrow> string list \<Rightarrow> string" where
  "crt_list_command crtList name sni = ''add ssl crt-list '' @ crtList @ '' '' @ name
     @ (if sni \<noteq> [] then '' '' @ join_with '' '' sni else [])"

definition CertificateUpload :: "'s socket \<Rightarrow> string \<Rightarrow> string \<Rightarrow> string \<Rightarrow> string list \<Rightarrow> 's \<Rightarrow> (string + unit) \<times> 's" where
  "CertificateUpload sock name pemBundle crtList sni s0 =
     (let (_, s1) = statsCommand sock (''new ssl cert '' @ name) s0 in
      case statsCommand sock (''set ssl cert '' @ name @ '' <<'' @ [newline] @ pemBundle) s1 of
        (Inl e, s2) \<Rightarrow> (Inl (''stage certificate: '' @ e), s2)
      | (Inr _, s2) \<Rightarrow> (case statsCommand sock (''commit ssl cert '' @ name) s2 of
        (Inl e, s3) \<Rightarrow> (Inl e, s3)
      | (Inr commitOut, s3) \<Rightarrow>
          if \<not> contains commitOut ''Success!''
          then (Inl (''commit certificate '' @ name @ '': '' @ trim_space commitOut), snd (statsCommand sock (''abort ssl cert '' @ name) s3))
          else if crtList = [] then (Inr (), s3)
          else (case statsCommand sock (crt_list_command crtList name sni) s3 of
            (Inl e, s4) \<Rightarrow> (Inl (''bind certificate '' @ name @ '' to crt-list '' @ crtList @ '': '' @ e), s4)
          | (Inr addOut, s4) \<Rightarrow>
              if \<not> contains addOut ''Success!''
              then (Inl (''bind certificate '' @ name @ '' to crt-list '' @ crtList @ '': '' @ trim_space addOut), s4)
              else (Inr (), s4))))"

definition CertificateDelete :: "'s socket \<Rightarrow> string \<Rightarrow> string \<Rightarrow> 's \<Rightarrow> (string + unit) \<times> 's" where
  "CertificateDelete sock name crtList s0 =
     (let s1 = (if crtList \<noteq> [] then snd (statsCommand sock (''del ssl crt-list '' @ crtList @ '' '' @ name) s0) else s0) in
      then_s (statsCommand sock (''del ssl cert '' @ name) s1) (\<lambda>msg s2.
        (if contains msg (''doesn'' @ [CHR 0x27] @ ''t exist'') then Inl (''certificate '' @ name @ '' not found'')
         else if \<not> contains msg ''deleted'' then Inl (''delete certificate '' @ name @ '': '' @ trim_space msg)
         else Inr (), s2)))"

end
