(* ===== verification/Authz.thy ===== *)
theory Authz
  imports Prelude "HOL-Library.Multiset"
begin

text \<open>
  \<open>internal/api/authz.go\<close>: what the roles in a client certificate allow. The interceptors run
  \<open>checkRole\<close> before every RPC of a node; the RPCs themselves are those of \<open>api/proto\<close>.
\<close>

section \<open>Roles and methods\<close>

definition RoleAdmin :: string where "RoleAdmin = ''os:admin''"
definition RoleReader :: string where "RoleReader = ''os:reader''"

definition adminOnly :: "string list" where "adminOnly = [RoleAdmin]"
definition adminOrReader :: "string list" where "adminOrReader = [RoleAdmin, RoleReader]"

text \<open>The full method name of a service's RPC, as gRPC gives it to an interceptor.\<close>

definition rpc_name :: "string \<Rightarrow> string \<Rightarrow> string" where
  "rpc_name svc m = ''/janus.v1alpha1.'' @ svc @ ''/'' @ m"

definition requiredRoles :: "(string, string list) gomap" where
  "requiredRoles =
    [(rpc_name ''SystemService'' ''Version'', adminOrReader),
     (rpc_name ''SystemService'' ''Hostname'', adminOrReader),
     (rpc_name ''SystemService'' ''Reboot'', adminOnly),
     (rpc_name ''SystemService'' ''Shutdown'', adminOnly),
     (rpc_name ''SystemService'' ''Restart'', adminOnly),
     (rpc_name ''SystemService'' ''Reset'', adminOnly),
     (rpc_name ''SystemService'' ''ApplyConfiguration'', adminOnly),
     (rpc_name ''SystemService'' ''Events'', adminOrReader),
     (rpc_name ''SystemService'' ''Dmesg'', adminOnly),
     (rpc_name ''SystemService'' ''Logs'', adminOnly),
     (rpc_name ''SystemService'' ''Stats'', adminOrReader),
     (rpc_name ''SystemService'' ''SystemStat'', adminOrReader),
     (rpc_name ''SystemService'' ''Memory'', adminOrReader),
     (rpc_name ''SystemService'' ''CPUInfo'', adminOrReader),
     (rpc_name ''SystemService'' ''LoadAvg'', adminOrReader),
     (rpc_name ''SystemService'' ''DiskStats'', adminOrReader),
     (rpc_name ''SystemService'' ''DiskUsage'', adminOnly),
     (rpc_name ''SystemService'' ''NetworkDeviceStats'', adminOrReader),
     (rpc_name ''SystemService'' ''Netstat'', adminOrReader),
     (rpc_name ''SystemService'' ''Mounts'', adminOrReader),
     (rpc_name ''SystemService'' ''Processes'', adminOrReader),
     (rpc_name ''SystemService'' ''ServiceList'', adminOrReader),
     (rpc_name ''SystemService'' ''ServiceStart'', adminOnly),
     (rpc_name ''SystemService'' ''ServiceStop'', adminOnly),
     (rpc_name ''SystemService'' ''ServiceRestart'', adminOnly),
     (rpc_name ''SystemService'' ''List'', adminOnly),
     (rpc_name ''SystemService'' ''Read'', adminOnly),
     (rpc_name ''SystemService'' ''Copy'', adminOnly),
     (rpc_name ''SystemService'' ''PacketCapture'', adminOnly),
     (rpc_name ''SystemService'' ''MetaWrite'', adminOnly),
     (rpc_name ''SystemService'' ''MetaDelete'', adminOnly),
     (rpc_name ''SystemService'' ''GenerateClientConfiguration'', adminOnly),
     (rpc_name ''LifecycleService'' ''Install'', adminOnly),
     (rpc_name ''LifecycleService'' ''Upgrade'', adminOnly),
     (rpc_name ''LifecycleService'' ''Rollback'', adminOnly),
     (rpc_name ''HAProxyService'' ''GetConfig'', adminOrReader),
     (rpc_name ''HAProxyService'' ''ApplyConfig'', adminOnly),
     (rpc_name ''HAProxyService'' ''ValidateConfig'', adminOrReader),
     (rpc_name ''HAProxyService'' ''Reload'', adminOnly),
     (rpc_name ''HAProxyService'' ''Stats'', adminOrReader),
     (rpc_name ''HAProxyService'' ''ShowInfo'', adminOrReader),
     (rpc_name ''HAProxyService'' ''BackendList'', adminOrReader),
     (rpc_name ''HAProxyService'' ''ServerSetState'', adminOnly),
     (rpc_name ''HAProxyService'' ''MapList'', adminOrReader),
     (rpc_name ''HAProxyService'' ''MapGet'', adminOrReader),
     (rpc_name ''HAProxyService'' ''MapUpdate'', adminOnly),
     (rpc_name ''HAProxyService'' ''ACLUpdate'', adminOnly),
     (rpc_name ''HAProxyService'' ''CertificateList'', adminOrReader),
     (rpc_name ''HAProxyService'' ''CertificateUpload'', adminOnly),
     (rpc_name ''HAProxyService'' ''CertificateDelete'', adminOnly),
     (rpc_name ''NetworkService'' ''BGPStatus'', adminOrReader),
     (rpc_name ''NetworkService'' ''BGPApplyConfig'', adminOnly),
     (rpc_name ''NetworkService'' ''VRRPStatus'', adminOrReader),
     (rpc_name ''NetworkService'' ''VRRPApplyConfig'', adminOnly),
     (rpc_name ''NetworkService'' ''FirewallList'', adminOrReader),
     (rpc_name ''NetworkService'' ''FirewallApplyRuleset'', adminOnly)]"

text \<open>The RPCs of the four services, as the protocol files declare them.\<close>

definition HAProxyService_rpcs :: "string list" where
  "HAProxyService_rpcs = map (rpc_name ''HAProxyService'') [''GetConfig'', ''ApplyConfig'', ''ValidateConfig'', ''Reload'', ''Stats'', ''ShowInfo'', ''BackendList'', ''ServerSetState'', ''MapList'', ''MapGet'', ''MapUpdate'', ''ACLUpdate'', ''CertificateList'', ''CertificateUpload'', ''CertificateDelete'']"

definition LifecycleService_rpcs :: "string list" where
  "LifecycleService_rpcs = map (rpc_name ''LifecycleService'') [''Install'', ''Upgrade'', ''Rollback'']"

definition NetworkService_rpcs :: "string list" where
  "NetworkService_rpcs = map (rpc_name ''NetworkService'') [''BGPStatus'', ''BGPApplyConfig'', ''VRRPStatus'', ''VRRPApplyConfig'', ''FirewallList'', ''FirewallApplyRuleset'']"

definition SystemService_rpcs :: "string list" where
  "SystemService_rpcs = map (rpc_name ''SystemService'') [''Version'', ''Hostname'', ''Reboot'', ''Shutdown'', ''Restart'', ''Reset'', ''ApplyConfiguration'', ''Events'', ''Dmesg'', ''Logs'', ''Stats'', ''SystemStat'', ''Memory'', ''CPUInfo'', ''LoadAvg'', ''DiskStats'', ''DiskUsage'', ''NetworkDeviceStats'', ''Netstat'', ''Mounts'', ''Processes'', ''ServiceList'', ''ServiceStart'', ''ServiceStop'', ''ServiceRestart'', ''List'', ''Read'', ''Copy'', ''PacketCapture'', ''MetaWrite'', ''MetaDelete'', ''GenerateClientConfiguration'']"

definition all_rpcs :: "string list" where
  "all_rpcs = SystemService_rpcs @ LifecycleService_rpcs @ HAProxyService_rpcs @ NetworkService_rpcs"

section \<open>The check\<close>

text \<open>
  What the transport knows of the caller: no peer at all, a peer without TLS, or a TLS peer with
  the organisations of each certificate it presented (leaf first).
\<close>

datatype peer = No_peer | Plain_peer | Tls_peer "string list list"

datatype auth_error = Unauthenticated string | PermissionDenied string "string list" "string list"

fun roles_meet :: "string list \<Rightarrow> string list \<Rightarrow> bool" where
  "roles_meet [] have_roles = False"
| "roles_meet (want # ws) have_roles = (list_ex (\<lambda>h. h = want) have_roles \<or> roles_meet ws have_roles)"

definition required_for :: "string \<Rightarrow> string list" where
  "required_for fullMethod = (case gm_get requiredRoles fullMethod of None \<Rightarrow> adminOnly | Some r \<Rightarrow> r)"

definition checkRole :: "peer \<Rightarrow> string \<Rightarrow> auth_error + unit" where
  "checkRole p fullMethod =
     (let required = required_for fullMethod in
      case p of
        No_peer \<Rightarrow> Inl (Unauthenticated ''no peer information'')
      | Plain_peer \<Rightarrow> Inl (Unauthenticated ''no client certificate presented'')
      | Tls_peer [] \<Rightarrow> Inl (Unauthenticated ''no client certificate presented'')
      | Tls_peer (roles # _) \<Rightarrow>
          if roles_meet required roles then Inr () else Inl (PermissionDenied fullMethod required roles))"

text \<open>The interceptor of unary RPCs; the one of streaming RPCs has the same shape.\<close>

definition UnaryAuthInterceptor :: "peer \<Rightarrow> string \<Rightarrow> ('s \<Rightarrow> (auth_error + 'r) \<times> 's) \<Rightarrow> 's \<Rightarrow> (auth_error + 'r) \<times> 's" where
  "UnaryAuthInterceptor p fullMethod handler s = (case checkRole p fullMethod of
       Inl e \<Rightarrow> (Inl e, s) | Inr _ \<Rightarrow> handler s)"

definition StreamAuthInterceptor :: "peer \<Rightarrow> string \<Rightarrow> ('s \<Rightarrow> (auth_error + 'r) \<times> 's) \<Rightarrow> 's \<Rightarrow> (auth_error + 'r) \<times> 's" where
  "StreamAuthInterceptor p fullMethod handler s = (case checkRole p fullMethod of
       Inl e \<Rightarrow> (Inl e, s) | Inr _ \<Rightarrow> handler s)"

section \<open>Lemmas\<close>

lemma roles_meet_iff: "roles_meet want hs \<longleftrightarrow> set want \<inter> set hs \<noteq> {}"
  by (induction want) (auto simp: list_ex_iff)

lemmas role_defs = RoleAdmin_def RoleReader_def adminOnly_def adminOrReader_def

definition reader_rpcs :: "string list" where
  "reader_rpcs = map fst (filter (\<lambda>e. snd e = adminOrReader) requiredRoles)"

lemma required_for_cases: "required_for m = (if m \<in> set reader_rpcs then adminOrReader else adminOnly)"
proof -
  have distinct: "distinct (map fst requiredRoles)"
    by code_simp
  have two: "\<forall>e \<in> set requiredRoles. snd e = adminOrReader \<or> snd e = adminOnly" "adminOnly \<noteq> adminOrReader"
    by (simp_all add: requiredRoles_def role_defs)
  show ?thesis
  proof (cases "gm_get requiredRoles m")
    case None
    then have "m \<notin> set reader_rpcs" by (auto simp: reader_rpcs_def gm_get_None_iff)
    with None show ?thesis by (simp add: required_for_def)
  next
    case (Some r)
    then have mem: "(m, r) \<in> set requiredRoles" using distinct by (simp add: gm_get_Some_iff gm_ok_def)
    have "m \<in> set reader_rpcs \<longleftrightarrow> (m, adminOrReader) \<in> set requiredRoles"
      by (force simp: reader_rpcs_def)
    also have "\<dots> \<longleftrightarrow> gm_get requiredRoles m = Some adminOrReader"
      using distinct by (simp add: gm_get_Some_iff gm_ok_def)
    finally show ?thesis using Some mem two by (force simp: required_for_def)
  qed
qed

section \<open>Properties\<close>

text \<open>The observability RPCs: status, statistics, configuration in force, checks without effect.\<close>

definition observability_rpcs :: "string list" where
  "observability_rpcs =
     map (rpc_name ''SystemService'') [''Version'', ''Hostname'', ''Events'', ''Stats'', ''SystemStat'', ''Memory'', ''CPUInfo'', ''LoadAvg'', ''DiskStats'', ''NetworkDeviceStats'', ''Netstat'', ''Mounts'', ''Processes'', ''ServiceList''] @
     map (rpc_name ''HAProxyService'') [''GetConfig'', ''ValidateConfig'', ''Stats'', ''ShowInfo'', ''BackendList'', ''MapList'', ''MapGet'', ''CertificateList''] @
     map (rpc_name ''NetworkService'') [''BGPStatus'', ''VRRPStatus'', ''FirewallList'']"

text \<open>
  C17: A call passes exactly for a caller whose first certificate carries the admin role, or the
  reader role and the method is one of the 25 observability RPCs; a method that is not in the
  table is for admins only. When the check fails, the handler has not run and no state changed.
\<close>

theorem who_may_call:
  "(checkRole p m = Inr () \<longleftrightarrow> (\<exists>roles rest. p = Tls_peer (roles # rest)
     \<and> (RoleAdmin \<in> set roles \<or> RoleReader \<in> set roles \<and> m \<in> set observability_rpcs)))
  \<and> (checkRole p m = Inl e \<longrightarrow> UnaryAuthInterceptor p m h s = (Inl e, s) \<and> StreamAuthInterceptor p m h s = (Inl e, s))"
proof (rule conjI)
  have obs: "set observability_rpcs = set reader_rpcs" by code_simp
  show "checkRole p m = Inr () \<longleftrightarrow> (\<exists>roles rest. p = Tls_peer (roles # rest)
     \<and> (RoleAdmin \<in> set roles \<or> RoleReader \<in> set roles \<and> m \<in> set observability_rpcs))"
    unfolding obs
    by (auto simp: checkRole_def required_for_cases roles_meet_iff adminOnly_def adminOrReader_def Let_def
        split: peer.splits list.splits)
qed (simp add: UnaryAuthInterceptor_def StreamAuthInterceptor_def)

theorem who_may_call_witness:
  "checkRole (Tls_peer [[RoleReader]]) (rpc_name ''SystemService'' ''Reboot'') \<noteq> Inr ()
   \<and> UnaryAuthInterceptor No_peer [] (\<lambda>s. (Inr (), Suc s)) 0 = (Inl (Unauthenticated ''no peer information''), 0)"
proof
  have "rpc_name ''SystemService'' ''Reboot'' \<notin> set observability_rpcs" by code_simp
  then show "checkRole (Tls_peer [[RoleReader]]) (rpc_name ''SystemService'' ''Reboot'') \<noteq> Inr ()"
    using who_may_call [THEN conjunct1, of "Tls_peer [[RoleReader]]" "rpc_name ''SystemService'' ''Reboot''"]
    by (simp add: RoleAdmin_def RoleReader_def)
  have "checkRole No_peer [] = Inl (Unauthenticated ''no peer information'')" by (simp add: checkRole_def)
  then show "UnaryAuthInterceptor No_peer [] (\<lambda>s. (Inr (), Suc s)) 0 = (Inl (Unauthenticated ''no peer information''), 0)"
    using who_may_call [of No_peer "[]" "Unauthenticated ''no peer information''" "\<lambda>s. (Inr (), Suc s)" 0] by blast
qed

text \<open>
  The table lists each RPC of the four services of the protocol exactly once and nothing
  else, so no RPC falls to the admin-only default.
\<close>

theorem every_rpc_is_classified:
  "mset (map fst requiredRoles) = mset all_rpcs \<and> distinct all_rpcs"
  by code_simp

end
