(* ===== verification/Haproxy_Api.thy ===== *)
theory Haproxy_Api
  imports Controller Haproxy_Runtime Authz
begin

text \<open>
  The way of a browser's request to HAProxy: the Controller's per-node relay
  (\<open>dashboard/backend/internal/nodeproxy/ops.go\<close>) turns it into an RPC with the node's service
  credential, the node checks the role and runs the handler of \<open>internal/api/haproxy.go\<close> on its
  HAProxy. gRPC is a parameter: whether dialling works, and the text of a fault.
\<close>

section \<open>The node's HAProxy service\<close>

record 's haproxy_api =
  ha_manager :: manager
  ha_env :: haproxy_env
  ha_sock :: "'s socket"
  ha_rfc3339 :: "string \<Rightarrow> string option"
  ha_sha256 :: "string \<Rightarrow> string"
  ha_read_error :: "string option"

record 's node_state =
  ns_host :: haproxy_host
  ns_sock :: 's

type_synonym ('s, 'r) rpc = "'s node_state \<Rightarrow> (string + 'r) \<times> 's node_state"

definition on_sock :: "('s \<Rightarrow> (string + 'r) \<times> 's) \<Rightarrow> ('s, 'r) rpc" where
  "on_sock f st = (let (r, s') = f (ns_sock st) in (r, st\<lparr>ns_sock := s'\<rparr>))"

definition api_GetConfig :: "'s haproxy_api \<Rightarrow> ('s, string \<times> string) rpc" where
  "api_GetConfig a st = (case ha_read_error a of
       Some e \<Rightarrow> (Inl e, st)
     | None \<Rightarrow> (Inr (config_file (ns_host st), ha_sha256 a (config_file (ns_host st))), st))"

record apply_message =
  am_stage :: string
  am_message :: string
  am_accepted :: bool

definition progress :: "string \<Rightarrow> string \<Rightarrow> bool \<Rightarrow> apply_message" where
  "progress stage message accepted = \<lparr>am_stage = stage, am_message = message, am_accepted = accepted\<rparr>"

text \<open>
  The messages \<open>ApplyConfig\<close> sends, and the error it returns. \<open>lost\<close> is the send that fails, when
  one does, and its error.
\<close>

definition send_at :: "(nat \<times> string) option \<Rightarrow> nat \<Rightarrow> string option" where
  "send_at lost n = (case lost of None \<Rightarrow> None | Some (k, e) \<Rightarrow> if k = n then Some e else None)"

definition api_ApplyConfig :: "'s haproxy_api \<Rightarrow> (nat \<times> string) option \<Rightarrow> string \<Rightarrow> 's node_state
    \<Rightarrow> (apply_message list \<times> string option) \<times> 's node_state" where
  "api_ApplyConfig a lost cfg st =
     (let m0 = progress ''validating'' [] False in
      case send_at lost 0 of Some e \<Rightarrow> (([], Some e), st) | None \<Rightarrow>
      let ((errs, err), h) = Apply (ha_manager a) (ha_env a) cfg (ns_host st); st' = st\<lparr>ns_host := h\<rparr> in
      case err of
        Some _ \<Rightarrow> (case send_at lost 1 of
            Some e \<Rightarrow> (([m0], Some e), st')
          | None \<Rightarrow> (([m0, progress ''rejected'' (join_with ''; '' errs) False], None), st'))
      | None \<Rightarrow> (case send_at lost 1 of
            Some e \<Rightarrow> (([m0], Some e), st')
          | None \<Rightarrow> (case send_at lost 2 of
              Some e \<Rightarrow> (([m0, progress ''reloading'' [] False], Some e), st')
            | None \<Rightarrow> (([m0, progress ''reloading'' [] False, progress ''done'' [] True], None), st'))))"

definition api_ValidateConfig :: "'s haproxy_api \<Rightarrow> string \<Rightarrow> bool \<times> string list" where
  "api_ValidateConfig a cfg = Validate (ha_env a) cfg"

definition api_Reload :: "'s haproxy_api \<Rightarrow> 's node_state \<Rightarrow> (bool \<times> string) \<times> 's node_state" where
  "api_Reload a st = (let (r, h) = Reload (ha_manager a) (ha_env a) (ns_host st) in
     ((case r of Some e \<Rightarrow> (False, e) | None \<Rightarrow> (True, [])), st\<lparr>ns_host := h\<rparr>))"

definition api_Stats :: "'s haproxy_api \<Rightarrow> ('s, string) rpc" where
  "api_Stats a = on_sock (ShowStat (ha_sock a))"

definition api_ShowInfo :: "'s haproxy_api \<Rightarrow> ('s, info) rpc" where
  "api_ShowInfo a = on_sock (ShowInfo (ha_sock a))"

datatype server_state = STATE_READY | STATE_DRAIN | STATE_MAINT

definition state_word :: "server_state \<Rightarrow> string" where
  "state_word s = (case s of STATE_READY \<Rightarrow> ''ready'' | STATE_DRAIN \<Rightarrow> ''drain'' | STATE_MAINT \<Rightarrow> ''maint'')"

definition api_ServerSetState :: "'s haproxy_api \<Rightarrow> string \<Rightarrow> string \<Rightarrow> server_state \<Rightarrow> ('s, unit) rpc" where
  "api_ServerSetState a backend server state = on_sock (SetServerState (ha_sock a) backend server (state_word state))"

definition api_MapList :: "'s haproxy_api \<Rightarrow> ('s, string list) rpc" where
  "api_MapList a = on_sock (MapList (ha_sock a))"

definition api_MapGet :: "'s haproxy_api \<Rightarrow> string \<Rightarrow> ('s, (string, string) gomap) rpc" where
  "api_MapGet a m = on_sock (MapGet (ha_sock a) m)"

definition api_MapUpdate :: "'s haproxy_api \<Rightarrow> string \<Rightarrow> string \<Rightarrow> string \<Rightarrow> bool \<Rightarrow> ('s, unit) rpc" where
  "api_MapUpdate a m k v del = on_sock (MapUpdate (ha_sock a) m k v del)"

definition api_ACLUpdate :: "'s haproxy_api \<Rightarrow> string \<Rightarrow> string \<Rightarrow> bool \<Rightarrow> ('s, unit) rpc" where
  "api_ACLUpdate a acl v del = on_sock (ACLUpdate (ha_sock a) acl v del)"

definition api_CertificateList :: "'s haproxy_api \<Rightarrow> ('s, cert_info list) rpc" where
  "api_CertificateList a = on_sock (CertificateList (ha_rfc3339 a) (ha_sock a))"

definition api_CertificateUpload :: "'s haproxy_api \<Rightarrow> string \<Rightarrow> string \<Rightarrow> string \<Rightarrow> string list \<Rightarrow> ('s, unit) rpc" where
  "api_CertificateUpload a name pem crt sni = on_sock (CertificateUpload (ha_sock a) name pem crt sni)"

definition api_CertificateDelete :: "'s haproxy_api \<Rightarrow> string \<Rightarrow> string \<Rightarrow> ('s, unit) rpc" where
  "api_CertificateDelete a name crt = on_sock (CertificateDelete (ha_sock a) name crt)"

section \<open>A call over gRPC\<close>

datatype rpc_fault = Refused auth_error | Unimplemented | Failed string

record 's relay =
  rl_api :: "'s haproxy_api"
  rl_peer :: peer
  rl_dial :: "string option"
  rl_text :: "rpc_fault \<Rightarrow> string"
  rl_lost :: "(nat \<times> string) option"

definition haproxy_method :: "string \<Rightarrow> string" where
  "haproxy_method m = rpc_name ''HAProxyService'' m"

definition call_rpc :: "'s relay \<Rightarrow> string \<Rightarrow> ('s, 'r) rpc \<Rightarrow> 's node_state \<Rightarrow> (rpc_fault + 'r) \<times> 's node_state" where
  "call_rpc rl m h st = (case checkRole (rl_peer rl) (haproxy_method m) of
       Inl e \<Rightarrow> (Inl (Refused e), st)
     | Inr _ \<Rightarrow> (case h st of (Inl e, st') \<Rightarrow> (Inl (Failed e), st') | (Inr r, st') \<Rightarrow> (Inr r, st')))"

text \<open>No handler is registered for \<open>BackendList\<close>.\<close>

definition call_BackendList :: "'s relay \<Rightarrow> 's node_state \<Rightarrow> (rpc_fault + jsval) \<times> 's node_state" where
  "call_BackendList rl st = (case checkRole (rl_peer rl) (haproxy_method ''BackendList'') of
       Inl e \<Rightarrow> (Inl (Refused e), st) | Inr _ \<Rightarrow> (Inl Unimplemented, st))"

section \<open>The messages in JSON\<close>

text \<open>The generated messages carry \<open>omitempty\<close>: a field with its zero value is left out.\<close>

definition str_field :: "string \<Rightarrow> string \<Rightarrow> (string \<times> jsval) list" where
  "str_field k v = (if v = [] then [] else [(k, Str v)])"

definition num_field :: "string \<Rightarrow> nat \<Rightarrow> (string \<times> jsval) list" where
  "num_field k n = (if n = 0 then [] else [(k, Num (int n))])"

definition list_field :: "string \<Rightarrow> jsval list \<Rightarrow> (string \<times> jsval) list" where
  "list_field k vs = (if vs = [] then [] else [(k, Arr vs)])"

definition info_message :: "info \<Rightarrow> jsval" where
  "info_message i = Obj (str_field ''version'' (Version i) @ num_field ''uptime_seconds'' (unat (UptimeSeconds i))
     @ num_field ''current_connections'' (unat (CurrentConnections i)) @ num_field ''max_connections'' (unat (MaxConnections i)))"

definition maps_message :: "string list \<Rightarrow> jsval" where
  "maps_message ms = Obj (list_field ''maps'' (map Str ms))"

text \<open>A Go map is encoded with its keys in order.\<close>

definition entries_message :: "(string, string) gomap \<Rightarrow> jsval" where
  "entries_message m = (if m = [] then Obj [] else Obj [(''entries'', Obj (map (\<lambda>(k, v). (k, Str v)) (sort_key fst m)))])"

definition cert_message :: "cert_info \<Rightarrow> jsval" where
  "cert_message c = Obj (str_field ''name'' (ci_name c) @ str_field ''not_after'' (ci_not_after c) @ str_field ''status'' (ci_status c))"

definition certs_message :: "cert_info list \<Rightarrow> jsval" where
  "certs_message cs = Obj (list_field ''certificates'' (map cert_message cs))"

definition config_message :: "string \<times> string \<Rightarrow> jsval" where
  "config_message c = Obj [(''config'', Str (fst c)), (''sha256'', Str (snd c))]"

definition apply_json :: "apply_message \<Rightarrow> jsval" where
  "apply_json m = Obj [(''stage'', Str (am_stage m)), (''message'', Str (am_message m)), (''accepted'', Bool (am_accepted m))]"

section \<open>Paths\<close>

text \<open>
  Percent-decoding of a path (\<open>net/url\<close>): \<open>%\<close> with two hexadecimal digits is that byte, a \<open>%\<close>
  without them is an error.
\<close>

definition hex_val :: "char \<Rightarrow> nat option" where
  "hex_val c = (let n = (of_char c :: nat) in
     if 48 \<le> n \<and> n \<le> 57 then Some (n - 48)
     else if 97 \<le> n \<and> n \<le> 102 then Some (n - 87)
     else if 65 \<le> n \<and> n \<le> 70 then Some (n - 55) else None)"

fun path_unescape :: "string \<Rightarrow> string option" where
  "path_unescape [] = Some []"
| "path_unescape (c # cs) = (if c = CHR 0x25
     then (case cs of
         a # b # rest \<Rightarrow> (case (hex_val a, hex_val b) of
             (Some h, Some l) \<Rightarrow> map_option ((#) (char_of (16 * h + l))) (path_unescape rest)
           | _ \<Rightarrow> None)
       | _ \<Rightarrow> None)
     else map_option ((#) c) (path_unescape cs))"

text \<open>The raw path and the query of a request target, and the first value of a query parameter.\<close>

definition raw_path :: "string \<Rightarrow> string" where
  "raw_path target = takeWhile (\<lambda>c. c \<noteq> CHR ''?'') target"

definition raw_query :: "string \<Rightarrow> string" where
  "raw_query target = drop (Suc (length (raw_path target))) target"

definition query_unescape :: "string \<Rightarrow> string option" where
  "query_unescape s = path_unescape (map (\<lambda>c. if c = CHR ''+'' then CHR '' '' else c) s)"

fun query_value :: "string list \<Rightarrow> string \<Rightarrow> string" where
  "query_value [] key = []"
| "query_value (p # ps) key =
     (let (k, v) = (case cut_str ''='' p of None \<Rightarrow> (p, []) | Some kv \<Rightarrow> kv) in
      case (query_unescape k, query_unescape v) of
        (Some k', Some v') \<Rightarrow> if k' = key then v' else query_value ps key
      | _ \<Rightarrow> query_value ps key)"

definition query_get :: "string \<Rightarrow> string \<Rightarrow> string" where
  "query_get target key = query_value (split_on (CHR ''&'') (raw_query target)) key"

section \<open>Decoding\<close>

fun bool_values :: "string \<Rightarrow> (string \<times> jsval) list \<Rightarrow> bool \<Rightarrow> string + bool" where
  "bool_values key [] acc = Inr acc"
| "bool_values key ((k, v) # kvs) acc =
     (if key_match key k then (case v of
          Bool b \<Rightarrow> bool_values key kvs b
        | Null \<Rightarrow> bool_values key kvs acc
        | _ \<Rightarrow> Inl (''json: cannot unmarshal into field '' @ key))
      else bool_values key kvs acc)"

fun strings_of :: "jsval list \<Rightarrow> string list option" where
  "strings_of [] = Some []"
| "strings_of (v # vs) = (case v of
       Str s \<Rightarrow> map_option ((#) s) (strings_of vs)
     | Null \<Rightarrow> map_option ((#) []) (strings_of vs)
     | _ \<Rightarrow> None)"

fun list_values :: "string \<Rightarrow> (string \<times> jsval) list \<Rightarrow> string list \<Rightarrow> string + string list" where
  "list_values key [] acc = Inr acc"
| "list_values key ((k, v) # kvs) acc =
     (if key_match key k then (case v of
          Arr vs \<Rightarrow> (case strings_of vs of
              None \<Rightarrow> Inl (''json: cannot unmarshal into field '' @ key) | Some ss \<Rightarrow> list_values key kvs ss)
        | Null \<Rightarrow> list_values key kvs []
        | _ \<Rightarrow> Inl (''json: cannot unmarshal into field '' @ key))
      else list_values key kvs acc)"

definition object_of :: "body \<Rightarrow> string + (string \<times> jsval) list" where
  "object_of b = (case b of
       JsonBody (Obj kvs) \<Rightarrow> Inr kvs
     | JsonBody Null \<Rightarrow> Inr []
     | JsonBody _ \<Rightarrow> Inl ''json: cannot unmarshal into struct''
     | FormBody _ \<Rightarrow> Inl ''invalid character''
     | NoBody \<Rightarrow> Inl ''EOF'')"

text \<open>\<open>decodeJSON\<close>: a body that does not decode is answered with 400.\<close>

definition decoded :: "string + 'a \<Rightarrow> ('a \<Rightarrow> 's \<Rightarrow> http_response \<times> 's) \<Rightarrow> 's \<Rightarrow> http_response \<times> 's" where
  "decoded r k s = (case r of Inl e \<Rightarrow> (http_error (''decode request: '' @ e) 400, s) | Inr x \<Rightarrow> k x s)"

section \<open>The relay\<close>

text \<open>\<open>withHAProxyClient\<close> with the call and the encoding of its answer.\<close>

definition withHAProxyClient :: "'s relay \<Rightarrow> ('s node_state \<Rightarrow> (rpc_fault + jsval) \<times> 's node_state) \<Rightarrow> 's node_state
    \<Rightarrow> http_response \<times> 's node_state" where
  "withHAProxyClient rl call st = (case rl_dial rl of
       Some e \<Rightarrow> (http_error (''dial node: '' @ e) 502, st)
     | None \<Rightarrow> (case call st of
           (Inl f, st') \<Rightarrow> (http_error (rl_text rl f) 502, st')
         | (Inr v, st') \<Rightarrow> (writeJSON 200 v, st')))"

definition relayed :: "'s relay \<Rightarrow> string \<Rightarrow> ('s, 'r) rpc \<Rightarrow> ('r \<Rightarrow> jsval) \<Rightarrow> 's node_state \<Rightarrow> http_response \<times> 's node_state" where
  "relayed rl m h enc = withHAProxyClient rl (\<lambda>st. case call_rpc rl m h st of
       (Inl f, st') \<Rightarrow> (Inl f, st') | (Inr r, st') \<Rightarrow> (Inr (enc r), st'))"

definition empty_struct :: "unit \<Rightarrow> jsval" where
  "empty_struct _ = Obj []"

definition serverStateFromString :: "string \<Rightarrow> server_state option" where
  "serverStateFromString s = (if s = ''ready'' then Some STATE_READY else if s = ''drain'' then Some STATE_DRAIN
     else if s = ''maint'' then Some STATE_MAINT else None)"

definition method_not_allowed :: http_response where
  "method_not_allowed = http_error ''method not allowed'' 405"

text \<open>
  \<open>handleApplyConfig\<close>: the last message of the stream. A stream that breaks or is refused is
  answered with 502; when the node's own send fails, so does the relay's receive.
\<close>

definition handleApplyConfig :: "'s relay \<Rightarrow> request \<Rightarrow> 's node_state \<Rightarrow> http_response \<times> 's node_state" where
  "handleApplyConfig rl rq = decoded (decode_field (rq_body rq) ''config'') (\<lambda>cfg st.
     case rl_dial rl of
       Some e \<Rightarrow> (http_error (''dial node: '' @ e) 502, st)
     | None \<Rightarrow> (case checkRole (rl_peer rl) (haproxy_method ''ApplyConfig'') of
         Inl e \<Rightarrow> (http_error (''ApplyConfig stream: '' @ rl_text rl (Refused e)) 502, st)
       | Inr _ \<Rightarrow> (case api_ApplyConfig (rl_api rl) (rl_lost rl) cfg st of
           ((ms, Some e), st') \<Rightarrow> (http_error (''ApplyConfig stream: '' @ rl_text rl (Failed e)) 502, st')
         | ((ms, None), st') \<Rightarrow>
             if ms = [] then (http_error ''ApplyConfig returned no progress messages'' 502, st')
             else (writeJSON 200 (apply_json (last ms)), st'))))"

definition handle_config :: "'s relay \<Rightarrow> request \<Rightarrow> 's node_state \<Rightarrow> http_response \<times> 's node_state" where
  "handle_config rl rq st =
     (if rq_method rq = ''GET'' then relayed rl ''GetConfig'' (api_GetConfig (rl_api rl)) config_message st
      else if rq_method rq = ''POST'' then handleApplyConfig rl rq st
      else (method_not_allowed, st))"

definition handle_state :: "'s relay \<Rightarrow> request \<Rightarrow> 's node_state \<Rightarrow> http_response \<times> 's node_state" where
  "handle_state rl rq st =
     (if rq_method rq \<noteq> ''POST'' then (method_not_allowed, st)
      else decoded (bind_r (decode_field (rq_body rq) ''backend'') (\<lambda>b. bind_r (decode_field (rq_body rq) ''server'') (\<lambda>sv.
             bind_r (decode_field (rq_body rq) ''state'') (\<lambda>t. Inr (b, sv, t))))) (\<lambda>(b, sv, t) st.
        case serverStateFromString t of
          None \<Rightarrow> (http_error (''unknown state '' @ go_quote t @ '' (want ready, drain, or maint)'') 400, st)
        | Some x \<Rightarrow> relayed rl ''ServerSetState'' (api_ServerSetState (rl_api rl) b sv x) empty_struct st) st)"

definition handle_map :: "'s relay \<Rightarrow> request \<Rightarrow> string \<Rightarrow> 's node_state \<Rightarrow> http_response \<times> 's node_state" where
  "handle_map rl rq mapName st =
     (if mapName = [] then (http_error ''missing map name'' 400, st)
      else if rq_method rq = ''GET'' then relayed rl ''MapGet'' (api_MapGet (rl_api rl) mapName) entries_message st
      else if rq_method rq = ''POST'' then
        decoded (bind_r (decode_field (rq_body rq) ''key'') (\<lambda>k. bind_r (decode_field (rq_body rq) ''value'') (\<lambda>v.
             bind_r (object_of (rq_body rq)) (\<lambda>kvs. bind_r (bool_values ''delete'' kvs False) (\<lambda>d. Inr (k, v, d)))))) (\<lambda>(k, v, d) st.
        relayed rl ''MapUpdate'' (api_MapUpdate (rl_api rl) mapName k v d) empty_struct st) st
      else (method_not_allowed, st))"

definition handle_acl :: "'s relay \<Rightarrow> request \<Rightarrow> string \<Rightarrow> 's node_state \<Rightarrow> http_response \<times> 's node_state" where
  "handle_acl rl rq aclName st =
     (if aclName = [] \<or> rq_method rq \<noteq> ''POST'' then (http_error ''usage: POST /api/haproxy/acls/{acl}'' 400, st)
      else decoded (bind_r (decode_field (rq_body rq) ''value'') (\<lambda>v.
             bind_r (object_of (rq_body rq)) (\<lambda>kvs. bind_r (bool_values ''delete'' kvs False) (\<lambda>d. Inr (v, d))))) (\<lambda>(v, d) st.
        relayed rl ''ACLUpdate'' (api_ACLUpdate (rl_api rl) aclName v d) empty_struct st) st)"

definition handle_certs :: "'s relay \<Rightarrow> request \<Rightarrow> 's node_state \<Rightarrow> http_response \<times> 's node_state" where
  "handle_certs rl rq st =
     (if rq_method rq = ''GET'' then relayed rl ''CertificateList'' (api_CertificateList (rl_api rl)) certs_message st
      else if rq_method rq = ''POST'' then
        decoded (bind_r (decode_field (rq_body rq) ''name'') (\<lambda>n. bind_r (decode_field (rq_body rq) ''pem_bundle'') (\<lambda>pem.
             bind_r (decode_field (rq_body rq) ''crt_list'') (\<lambda>crt. bind_r (object_of (rq_body rq)) (\<lambda>kvs.
             bind_r (list_values ''sni'' kvs []) (\<lambda>sni. Inr (n, pem, crt, sni))))))) (\<lambda>(n, pem, crt, sni) st.
        relayed rl ''CertificateUpload'' (api_CertificateUpload (rl_api rl) n pem crt sni) empty_struct st) st
      else (method_not_allowed, st))"

definition handle_cert :: "'s relay \<Rightarrow> request \<Rightarrow> string \<Rightarrow> 's node_state \<Rightarrow> http_response \<times> 's node_state" where
  "handle_cert rl rq name st =
     (if name = [] \<or> rq_method rq \<noteq> ''DELETE'' then (http_error ''usage: DELETE /api/haproxy/certs/{name}[?crt_list=...]'' 400, st)
      else relayed rl ''CertificateDelete'' (api_CertificateDelete (rl_api rl) name (query_get (rq_path rq) ''crt_list'')) empty_struct st)"

text \<open>
  \<open>registerOpsRoutes\<close>: the handler of a request's path, \<open>None\<close> for the paths of other handlers.
  A target whose escapes are malformed is refused by the server before any handler.
\<close>

definition ops_route :: "'s relay \<Rightarrow> request \<Rightarrow> ('s node_state \<Rightarrow> http_response \<times> 's node_state) option" where
  "ops_route rl rq =
     (let raw = raw_path (rq_path rq) in case path_unescape raw of
        None \<Rightarrow> Some (\<lambda>st. (http_error ''400 Bad Request'' 400, st))
      | Some path \<Rightarrow>
          if raw = ''/api/haproxy/info'' then Some (relayed rl ''ShowInfo'' (api_ShowInfo (rl_api rl)) info_message)
          else if raw = ''/api/haproxy/config'' then Some (handle_config rl rq)
          else if raw = ''/api/haproxy/backends'' then Some (withHAProxyClient rl (call_BackendList rl))
          else if raw = ''/api/haproxy/backends/state'' then Some (handle_state rl rq)
          else if raw = ''/api/haproxy/maps'' then Some (relayed rl ''MapList'' (api_MapList (rl_api rl)) maps_message)
          else if has_prefix raw ''/api/haproxy/maps/'' then Some (handle_map rl rq (drop 18 path))
          else if has_prefix raw ''/api/haproxy/acls/'' then Some (handle_acl rl rq (drop 18 path))
          else if raw = ''/api/haproxy/certs'' then Some (handle_certs rl rq)
          else if has_prefix raw ''/api/haproxy/certs/'' then Some (handle_cert rl rq (drop 19 path))
          else None)"

end
