(* ===== verification/Node_Listener.thy ===== *)
theory Node_Listener
  imports Haproxy_Api
begin

text \<open>
  One node's listener (\<open>dashboard/backend/internal/nodeproxy/nodeproxy.go\<close>): \<open>handleInfo\<close>,
  which gathers five answers of the node's \<open>SystemService\<close> into one, and the routes of its mux.
  What the node's RPCs answer is a parameter; a floating-point number is the number its JSON
  text stands for.
\<close>

record version_info =
  vi_version :: string
  vi_go_version :: string
  vi_kernel_version :: string
  vi_active_slot :: string

record memory_info =
  mi_total :: nat
  mi_available :: nat
  mi_cached :: nat

record cpu_info =
  cp_processor :: nat
  cp_model_name :: string
  cp_mhz :: jsval

record load_info =
  li_load1 :: jsval
  li_load5 :: jsval
  li_load15 :: jsval

record disk_info =
  di_device_name :: string
  di_read_completed :: nat
  di_write_completed :: nat

record system_service =
  sy_version :: "rpc_fault + version_info"
  sy_memory :: "rpc_fault + memory_info"
  sy_cpus :: "rpc_fault + cpu_info list"
  sy_load :: "rpc_fault + load_info"
  sy_disks :: "rpc_fault + disk_info list"

definition cpu_json :: "cpu_info \<Rightarrow> jsval" where
  "cpu_json c = Obj [(''processor'', Num (int (cp_processor c))), (''model_name'', Str (cp_model_name c)), (''mhz'', cp_mhz c)]"

definition disk_json :: "disk_info \<Rightarrow> jsval" where
  "disk_json d = Obj [(''device_name'', Str (di_device_name d)), (''read_completed'', Num (int (di_read_completed d))),
     (''write_completed'', Num (int (di_write_completed d)))]"

text \<open>These structs carry no \<open>omitempty\<close>; a nil slice is encoded as \<open>null\<close>.\<close>

definition info_response :: "version_info \<Rightarrow> memory_info \<Rightarrow> cpu_info list \<Rightarrow> load_info \<Rightarrow> disk_info list \<Rightarrow> jsval" where
  "info_response ver mem cpus load disks = Obj
     [(''version'', Str (vi_version ver)), (''go_version'', Str (vi_go_version ver)),
      (''kernel_version'', Str (vi_kernel_version ver)), (''active_slot'', Str (vi_active_slot ver)),
      (''memory'', Obj [(''total_bytes'', Num (int (mi_total mem))), (''available_bytes'', Num (int (mi_available mem))),
         (''cached_bytes'', Num (int (mi_cached mem)))]),
      (''cpus'', slice_json (map cpu_json cpus)),
      (''load_avg'', Obj [(''load1'', li_load1 load), (''load5'', li_load5 load), (''load15'', li_load15 load)]),
      (''disks'', slice_json (map disk_json disks))]"

definition rpc_failed :: "'s relay \<Rightarrow> string \<Rightarrow> rpc_fault \<Rightarrow> http_response" where
  "rpc_failed rl m f = http_error (m @ '': '' @ rl_text rl f) 502"

definition handleInfo :: "'s relay \<Rightarrow> system_service \<Rightarrow> http_response" where
  "handleInfo rl sy = (case rl_dial rl of
       Some e \<Rightarrow> http_error (''dial node: '' @ e) 502
     | None \<Rightarrow> (case sy_version sy of Inl f \<Rightarrow> rpc_failed rl ''Version'' f | Inr ver \<Rightarrow>
         (case sy_memory sy of Inl f \<Rightarrow> rpc_failed rl ''Memory'' f | Inr mem \<Rightarrow>
         (case sy_cpus sy of Inl f \<Rightarrow> rpc_failed rl ''CPUInfo'' f | Inr cpus \<Rightarrow>
         (case sy_load sy of Inl f \<Rightarrow> rpc_failed rl ''LoadAvg'' f | Inr load \<Rightarrow>
         (case sy_disks sy of Inl f \<Rightarrow> rpc_failed rl ''DiskStats'' f | Inr disks \<Rightarrow>
           writeJSON 200 (info_response ver mem cpus load disks)))))))"

text \<open>The mux of \<open>Start\<close>: the information, the HAProxy routes, and the static files for the rest.\<close>

record 's listener =
  ls_relay :: "'s relay"
  ls_system :: system_service
  ls_files :: "request \<Rightarrow> http_response"

definition listener_serve :: "'s listener \<Rightarrow> request \<Rightarrow> 's node_state \<Rightarrow> http_response \<times> 's node_state" where
  "listener_serve L rq st = (case ops_route (ls_relay L) rq of
       Some h \<Rightarrow> h st
     | None \<Rightarrow> (if raw_path (rq_path rq) = ''/api/info'' then handleInfo (ls_relay L) (ls_system L) else ls_files L rq, st))"

end
