(* ===== verification/Node_Page.thy ===== *)
theory Node_Page
  imports Node_Listener "HOL-Library.Monad_Syntax"
begin

text \<open>
  The per-node page (\<open>nodeproxy/static/index.html\<close>): its script as a state of the document and
  the calls under way. \<open>api\<close> awaits a response, its text and its parsing without touching the
  page in between, so a call is answered in one step, with the string of the error thrown or the
  value parsed. The functions that render are functions into the strings they assign to
  \<open>innerHTML\<close>, \<open>None\<close> where they throw; white space between tags is left out. Strings are
  their UTF-8 bytes. Elements that markup inside a name would add to the document are not
  modelled; the strings that would add them are.
\<close>

section \<open>Strings of the page\<close>

text \<open>\<open>String(err)\<close> of an \<open>Error\<close> with a message.\<close>

definition err_string :: "string \<Rightarrow> string" where
  "err_string text = (if text = [] then ''Error'' else ''Error: '' @ text)"

definition row :: "string \<Rightarrow> string \<Rightarrow> string" where
  "row label value' = ''<tr><td>'' @ label @ ''</td><td>'' @ value' @ ''</td></tr>''"

text \<open>
  \<open>encodeURIComponent\<close>: the unreserved characters stay, every other byte becomes an escape.
\<close>

definition unreserved :: "char \<Rightarrow> bool" where
  "unreserved c \<longleftrightarrow> (let n = (of_char c :: nat) in (65 \<le> n \<and> n \<le> 90) \<or> (97 \<le> n \<and> n \<le> 122) \<or> (48 \<le> n \<and> n \<le> 57)
     \<or> n \<in> {45, 95, 46, 33, 126, 42, 39, 40, 41})"

definition hex_digit :: "nat \<Rightarrow> char" where
  "hex_digit n = char_of (if n < 10 then 48 + n else 55 + n)"

fun encodeURIComponent :: "string \<Rightarrow> string" where
  "encodeURIComponent [] = []"
| "encodeURIComponent (c # cs) = (if unreserved c then [c]
     else [CHR 0x25, hex_digit (of_char c div 16), hex_digit (of_char c mod 16)]) @ encodeURIComponent cs"

text \<open>
  \<open>(n / 1024 / 1024).toFixed(1)\<close> of a whole number: both divisions are exact, and \<open>toFixed\<close>
  rounds half up. \<open>null\<close> counts as zero, what is no number gives NaN (the conversions of
  strings and arrays to numbers are left out: none is sent).
\<close>

definition bytesToMiB :: "jsval \<Rightarrow> string" where
  "bytesToMiB v = (case v of
       Num n \<Rightarrow> (let t = (20 * n + 1048576) div 2097152 in show_int (t div 10) @ ''.'' @ show_int (t mod 10))
     | Null \<Rightarrow> ''0.0''
     | Bool _ \<Rightarrow> ''0.0''
     | _ \<Rightarrow> ''NaN'') @ '' MiB''"

text \<open>
  What depends on the browser: the string of a TypeError and of a failed \<open>fetch\<close>, \<open>toFixed\<close>
  (which may throw), parsing a text that is no JSON of the relay, the decoding of character
  references in an attribute, and the text of a JSON value.
\<close>

record page_env =
  type_error :: string
  fetch_error :: string
  to_fixed :: "nat \<Rightarrow> jsval \<Rightarrow> string option"
  parse_json :: "string \<Rightarrow> string + jsval"
  char_refs :: "string \<Rightarrow> string"
  json_text :: "jsval \<Rightarrow> string"

text \<open>The value of an attribute written between double quotes.\<close>

definition attr_text :: "page_env \<Rightarrow> string \<Rightarrow> string" where
  "attr_text B s = char_refs B (takeWhile (\<lambda>c. c \<noteq> CHR 0x22) s)"

text \<open>The value of a \<open>textarea\<close>: line ends become single newlines.\<close>

fun textarea_value :: "string \<Rightarrow> string" where
  "textarea_value [] = []"
| "textarea_value (c # cs) = (if c = CHR 0x0D
     then CHR 0x0A # (case cs of [] \<Rightarrow> [] | d # ds \<Rightarrow> if d = CHR 0x0A then textarea_value ds else textarea_value cs)
     else c # textarea_value cs)"

text \<open>
  The order of \<open>Object.entries\<close> on a parsed object: array indices in ascending order, then the
  other keys as they came.
\<close>

definition array_index :: "string \<Rightarrow> bool" where
  "array_index k \<longleftrightarrow> (let n = nat_of_digits k in list_all is_digit k \<and> n < 4294967295 \<and> show_nat n = k)"

definition own_entries :: "(string \<times> jsval) list \<Rightarrow> (string \<times> jsval) list" where
  "own_entries kvs = sort_key (\<lambda>e. nat_of_digits (fst e)) (filter (\<lambda>e. array_index (fst e)) kvs)
     @ filter (\<lambda>e. \<not> array_index (fst e)) kvs"

definition object_entries :: "jsval \<Rightarrow> (string \<times> jsval) list" where
  "object_entries v = (case v of
       Obj kvs \<Rightarrow> own_entries kvs
     | Arr vs \<Rightarrow> map (\<lambda>e. (show_nat (fst e), snd e)) (enumerate 0 vs)
     | Str cs \<Rightarrow> map (\<lambda>e. (show_nat (fst e), Str [snd e])) (enumerate 0 cs)
     | _ \<Rightarrow> [])"

section \<open>Rendering\<close>

definition field :: "jsval \<Rightarrow> string \<Rightarrow> string option" where
  "field v k = map_option to_str (get_prop v k)"

definition system_rows :: "jsval \<Rightarrow> string option" where
  "system_rows info = do {
     version \<leftarrow> field info ''version''; go \<leftarrow> field info ''go_version''; kernel \<leftarrow> field info ''kernel_version'';
     slot \<leftarrow> get_prop info ''active_slot'';
     Some (row ''Version'' version @ row ''Go version'' go @ row ''Kernel version'' kernel
       @ row ''Active slot'' (to_str (or_else slot (Str ''(not an A/B boot)'')))) }"

definition memory_rows :: "jsval \<Rightarrow> string option" where
  "memory_rows info = do {
     mem \<leftarrow> get_prop info ''memory'';
     total \<leftarrow> get_prop mem ''total_bytes''; available \<leftarrow> get_prop mem ''available_bytes''; cached \<leftarrow> get_prop mem ''cached_bytes'';
     Some (row ''Total'' (bytesToMiB total) @ row ''Available'' (bytesToMiB available) @ row ''Cached'' (bytesToMiB cached)) }"

definition map_concat :: "(jsval \<Rightarrow> string option) \<Rightarrow> jsval \<Rightarrow> string option" where
  "map_concat f v = Option.bind (map_elems v) (\<lambda>vs. map_option concat (those (map f vs)))"

definition cpu_row :: "page_env \<Rightarrow> jsval \<Rightarrow> string option" where
  "cpu_row B c = do {
     processor \<leftarrow> field c ''processor''; model \<leftarrow> field c ''model_name''; mhz \<leftarrow> get_prop c ''mhz''; m \<leftarrow> to_fixed B 0 mhz;
     Some (row (''CPU '' @ processor) (model @ '' ('' @ m @ '' MHz)'')) }"

definition load_row :: "page_env \<Rightarrow> jsval \<Rightarrow> string option" where
  "load_row B info = do {
     avg \<leftarrow> get_prop info ''load_avg'';
     l1 \<leftarrow> Option.bind (get_prop avg ''load1'') (to_fixed B 2); l5 \<leftarrow> Option.bind (get_prop avg ''load5'') (to_fixed B 2);
     l15 \<leftarrow> Option.bind (get_prop avg ''load15'') (to_fixed B 2);
     Some (row ''1 / 5 / 15 min'' (l1 @ '' / '' @ l5 @ '' / '' @ l15)) }"

definition disk_row :: "jsval \<Rightarrow> string option" where
  "disk_row d = do {
     name \<leftarrow> field d ''device_name''; r \<leftarrow> field d ''read_completed''; w \<leftarrow> field d ''write_completed'';
     Some (row name (''reads='' @ r @ '' writes='' @ w)) }"

definition haproxy_info_rows :: "jsval \<Rightarrow> string option" where
  "haproxy_info_rows info = do {
     version \<leftarrow> field info ''version''; up \<leftarrow> field info ''uptime_seconds'';
     cur \<leftarrow> field info ''current_connections''; mx \<leftarrow> field info ''max_connections'';
     Some (row ''Version'' version @ row ''Uptime'' (up @ ''s'') @ row ''Connections'' (cur @ '' / '' @ mx)) }"

definition dq :: string where "dq = [CHR 0x22]"

definition state_option :: "string \<Rightarrow> jsval \<Rightarrow> string \<Rightarrow> string" where
  "state_option value' state selected' = ''<option value='' @ dq @ value' @ dq @ '' ''
     @ (if state = Str selected' then ''selected'' else []) @ ''>'' @ value' @ ''</option>''"

definition server_row :: "jsval \<Rightarrow> jsval \<Rightarrow> string option" where
  "server_row b s = do {
     bn \<leftarrow> field b ''name''; sn \<leftarrow> field s ''name''; addr \<leftarrow> field s ''address''; st \<leftarrow> get_prop s ''state'';
     Some (''<tr><td>'' @ bn @ ''</td><td>'' @ sn @ ''</td><td>'' @ addr @ ''</td><td>'' @ to_str st @ ''</td><td><select data-backend=''
       @ dq @ bn @ dq @ '' data-server='' @ dq @ sn @ dq @ '' class='' @ dq @ ''server-state'' @ dq @ ''>''
       @ state_option ''ready'' st ''up'' @ state_option ''drain'' st ''drain'' @ state_option ''maint'' st ''maint''
       @ ''</select></td></tr>'') }"

definition backend_rows :: "jsval \<Rightarrow> string option" where
  "backend_rows resp = do {
     bs \<leftarrow> get_prop resp ''backends'';
     map_concat (\<lambda>b. Option.bind (get_prop b ''servers'') (\<lambda>ss. map_concat (server_row b) (or_else ss (Arr [])))) (or_else bs (Arr [])) }"

definition map_button :: "jsval \<Rightarrow> string" where
  "map_button m = ''<button type='' @ dq @ ''button'' @ dq @ '' class='' @ dq @ ''map-select'' @ dq @ '' data-map=''
     @ dq @ to_str m @ dq @ ''>'' @ to_str m @ ''</button>''"

definition entry_rows :: "jsval \<Rightarrow> string option" where
  "entry_rows resp = do {
     es \<leftarrow> get_prop resp ''entries'';
     Some (concat (map (\<lambda>e. row (fst e) (to_str (snd e))) (object_entries (or_else es (Obj []))))) }"

definition cert_row :: "jsval \<Rightarrow> string option" where
  "cert_row c = do {
     n \<leftarrow> field c ''name''; na \<leftarrow> field c ''not_after''; st \<leftarrow> field c ''status'';
     Some (''<tr><td>'' @ n @ ''</td><td>'' @ na @ ''</td><td>'' @ st @ ''</td><td><button type='' @ dq @ ''button'' @ dq
       @ '' class='' @ dq @ ''cert-delete'' @ dq @ '' data-name='' @ dq @ n @ dq @ ''>Delete</button></td></tr>'') }"

section \<open>The page and its calls\<close>

text \<open>
  The document as far as the script writes it: the contents of its elements, the value of the
  form fields, and the elements with a handler of their own (by their data attributes).
\<close>

record page =
  el_error :: string
  el_version :: string
  el_memory :: string
  el_cpus :: string
  el_load :: string
  el_disks :: string
  el_haproxy_info :: string
  el_backends :: string
  server_selects :: "(string \<times> string) list"
  config_sha :: string
  config_text :: string
  config_result :: string
  config_class :: string
  el_maps_list :: string
  map_buttons :: "string list"
  map_title :: string
  map_shown :: bool
  el_map_entries :: string
  selectedMap :: "string option"
  el_certs :: string
  cert_buttons :: "string list"
  inputs :: "string \<Rightarrow> string"

text \<open>What a call's continuation is, by the function that awaits it.\<close>

datatype page_cont =
    P_System
  | P_Info
  | P_Backends
  | P_Server_State
  | P_Config_Load
  | P_Config_After
  | P_Maps
  | P_Certs
  | P_Apply
  | P_Select string bool
  | P_Map_Update
  | P_Acl
  | P_Cert_Delete
  | P_Cert_Upload

record page_state =
  pg :: page
  calls :: "(request \<times> page_cont) list"

definition get_request :: "string \<Rightarrow> request" where
  "get_request path = \<lparr>rq_method = ''GET'', rq_path = path, rq_ctype = [], rq_body = NoBody\<rparr>"

definition json_request :: "string \<Rightarrow> string \<Rightarrow> (string \<times> jsval) list \<Rightarrow> request" where
  "json_request meth path kvs = \<lparr>rq_method = meth, rq_path = path, rq_ctype = ''application/json'', rq_body = JsonBody (Obj kvs)\<rparr>"

definition call :: "request \<Rightarrow> page_cont \<Rightarrow> page_state \<Rightarrow> page_state" where
  "call rq k s = s\<lparr>calls := calls s @ [(rq, k)]\<rparr>"

definition upd :: "(page \<Rightarrow> page) \<Rightarrow> page_state \<Rightarrow> page_state" where
  "upd f s = s\<lparr>pg := f (pg s)\<rparr>"

definition showError :: "string \<Rightarrow> page_state \<Rightarrow> page_state" where
  "showError e = upd (\<lambda>p. p\<lparr>el_error := e\<rparr>)"

text \<open>The functions up to their first await.\<close>

definition refreshAll :: "page_state \<Rightarrow> page_state" where
  "refreshAll s = call (get_request ''/api/info'') P_System (upd (\<lambda>p. p\<lparr>el_error := []\<rparr>) s)"

definition refreshBackends :: "page_state \<Rightarrow> page_state" where
  "refreshBackends = call (get_request ''/api/haproxy/backends'') P_Backends"

definition loadConfig :: "page_cont \<Rightarrow> page_state \<Rightarrow> page_state" where
  "loadConfig k = call (get_request ''/api/haproxy/config'') k"

definition refreshCerts :: "page_state \<Rightarrow> page_state" where
  "refreshCerts = call (get_request ''/api/haproxy/certs'') P_Certs"

text \<open>
  The path of a name below a directory, as the browser resolves it: a last segment of one or two
  dots is taken out.
\<close>

definition below :: "string \<Rightarrow> string \<Rightarrow> string" where
  "below dir name = (if name = ''.'' then ''/api/haproxy/'' @ dir @ ''/''
     else if name = ''..'' then ''/api/haproxy/''
     else ''/api/haproxy/'' @ dir @ ''/'' @ encodeURIComponent name)"

definition map_path :: "string \<Rightarrow> string" where
  "map_path name = below ''maps'' name"

text \<open>The flag says whether the caller is \<open>mapUpdate\<close>, which catches the error.\<close>

definition selectMap :: "string \<Rightarrow> bool \<Rightarrow> page_state \<Rightarrow> page_state" where
  "selectMap name caught s = call (get_request (map_path name)) (P_Select name caught)
     (upd (\<lambda>p. p\<lparr>selectedMap := Some name, map_title := name, map_shown := True\<rparr>) s)"

definition mapUpdate :: "bool \<Rightarrow> page_state \<Rightarrow> page_state" where
  "mapUpdate del s = (case selectedMap (pg s) of
       None \<Rightarrow> s
     | Some m \<Rightarrow> if m = [] then s else call (json_request ''POST'' (map_path m)
         [(''key'', Str (inputs (pg s) ''map-key'')), (''value'', Str (inputs (pg s) ''map-value'')), (''delete'', Bool del)]) P_Map_Update s)"

definition aclUpdate :: "bool \<Rightarrow> page_state \<Rightarrow> page_state" where
  "aclUpdate del s = call (json_request ''POST'' (below ''acls'' (inputs (pg s) ''acl-name''))
     [(''value'', Str (inputs (pg s) ''acl-value'')), (''delete'', Bool del)]) P_Acl s"

definition page_start :: page_state where
  "page_start = loadConfig P_Config_Load (refreshAll \<lparr>pg = \<lparr>el_error = [], el_version = [], el_memory = [], el_cpus = [],
     el_load = [], el_disks = [], el_haproxy_info = [], el_backends = [], server_selects = [], config_sha = [],
     config_text = [], config_result = [], config_class = [], el_maps_list = [], map_buttons = [], map_title = [],
     map_shown = False, el_map_entries = [], selectedMap = None, el_certs = [], cert_buttons = [], inputs = (\<lambda>_. [])\<rparr>,
     calls = []\<rparr>)"

text \<open>What a continuation does with an error: the \<open>catch\<close> around it, if there is one.\<close>

definition on_error :: "page_cont \<Rightarrow> string \<Rightarrow> page_state \<Rightarrow> page_state" where
  "on_error k e s = (case k of
       P_Apply \<Rightarrow> upd (\<lambda>p. p\<lparr>config_result := e, config_class := ''error''\<rparr>) s
     | P_Config_After \<Rightarrow> upd (\<lambda>p. p\<lparr>config_result := e, config_class := ''error''\<rparr>) s
     | P_Select _ False \<Rightarrow> s
     | _ \<Rightarrow> showError e s)"

definition dataset_pairs :: "page_env \<Rightarrow> jsval \<Rightarrow> (string \<times> string) list" where
  "dataset_pairs B resp = (case get_prop resp ''backends'' of
       Some (Arr bs) \<Rightarrow> concat (map (\<lambda>b. case (field b ''name'', get_prop b ''servers'') of
           (Some bn, Some (Arr ss)) \<Rightarrow> map (\<lambda>s. (attr_text B bn, case field s ''name'' of None \<Rightarrow> [] | Some n \<Rightarrow> attr_text B n)) ss
         | _ \<Rightarrow> []) bs)
     | _ \<Rightarrow> [])"

text \<open>
  Assignments in their order, up to the first whose right-hand side throws; the flag says that
  none did.
\<close>

fun assign :: "(string option \<times> (string \<Rightarrow> page \<Rightarrow> page)) list \<Rightarrow> page_state \<Rightarrow> page_state \<times> bool" where
  "assign [] s = (s, True)"
| "assign ((r, f) # rest) s = (case r of None \<Rightarrow> (s, False) | Some x \<Rightarrow> assign rest (upd (f x) s))"

definition and_then :: "page_state \<times> bool \<Rightarrow> (page_state \<Rightarrow> page_state) \<Rightarrow> page_state \<times> bool" where
  "and_then r f = (if snd r then (f (fst r), True) else r)"

definition config_value :: "jsval \<Rightarrow> string option" where
  "config_value v = map_option (\<lambda>c. if c = Null then [] else textarea_value (to_str c)) (get_prop v ''config'')"

text \<open>
  The functions from their await on, on the value awaited: what they assign, whether they ran to
  their end, and the call they or their caller make next.
\<close>

definition refreshSystem_rest :: "page_env \<Rightarrow> jsval \<Rightarrow> page_state \<Rightarrow> page_state \<times> bool" where
  "refreshSystem_rest B info s = assign
     [(system_rows info, \<lambda>x p. p\<lparr>el_version := x\<rparr>), (memory_rows info, \<lambda>x p. p\<lparr>el_memory := x\<rparr>),
      (Option.bind (get_prop info ''cpus'') (map_concat (cpu_row B)), \<lambda>x p. p\<lparr>el_cpus := x\<rparr>),
      (load_row B info, \<lambda>x p. p\<lparr>el_load := x\<rparr>),
      (Option.bind (get_prop info ''disks'') (map_concat disk_row), \<lambda>x p. p\<lparr>el_disks := x\<rparr>)] s"

definition refreshHAProxyInfo_rest :: "jsval \<Rightarrow> page_state \<Rightarrow> page_state \<times> bool" where
  "refreshHAProxyInfo_rest info s = assign [(haproxy_info_rows info, \<lambda>x p. p\<lparr>el_haproxy_info := x\<rparr>)] s"

definition refreshBackends_rest :: "page_env \<Rightarrow> jsval \<Rightarrow> page_state \<Rightarrow> page_state \<times> bool" where
  "refreshBackends_rest B resp s = assign [(backend_rows resp, \<lambda>x p. p\<lparr>el_backends := x, server_selects := dataset_pairs B resp\<rparr>)] s"

definition loadConfig_rest :: "jsval \<Rightarrow> page_state \<Rightarrow> page_state \<times> bool" where
  "loadConfig_rest cfg s = assign [(field cfg ''sha256'', \<lambda>x p. p\<lparr>config_sha := ''sha256: '' @ x\<rparr>),
      (config_value cfg, \<lambda>x p. p\<lparr>config_text := x\<rparr>)] s"

definition refreshMaps_rest :: "page_env \<Rightarrow> jsval \<Rightarrow> page_state \<Rightarrow> page_state \<times> bool" where
  "refreshMaps_rest B resp s = (case Option.bind (get_prop resp ''maps'') (\<lambda>ms. map_elems (or_else ms (Arr []))) of
       None \<Rightarrow> (s, False)
     | Some ms \<Rightarrow> (upd (\<lambda>p. p\<lparr>el_maps_list := join_with '' '' (map map_button ms),
           map_buttons := map (\<lambda>m. attr_text B (to_str m)) ms\<rparr>) s, True))"

definition refreshCerts_rest :: "page_env \<Rightarrow> jsval \<Rightarrow> page_state \<Rightarrow> page_state \<times> bool" where
  "refreshCerts_rest B resp s = (case Option.bind (get_prop resp ''certificates'') (\<lambda>cs. map_elems (or_else cs (Arr []))) of
       None \<Rightarrow> (s, False)
     | Some certs \<Rightarrow> (case (those (map cert_row certs), those (map (\<lambda>c. field c ''name'') certs)) of
         (Some rows, Some names) \<Rightarrow> (upd (\<lambda>p. p\<lparr>el_certs := concat rows, cert_buttons := map (attr_text B) names\<rparr>) s, True)
       | _ \<Rightarrow> (s, False)))"

definition config_submit_rest :: "jsval \<Rightarrow> page_state \<Rightarrow> page_state \<times> bool" where
  "config_submit_rest result s = (case (field result ''stage'', field result ''message'', get_prop result ''accepted'') of
       (Some stage, Some message, Some accepted) \<Rightarrow>
         (let s' = upd (\<lambda>p. p\<lparr>config_result := stage @ '': '' @ message, config_class := (if truthy accepted then ''ok'' else ''error'')\<rparr>) s
          in (if truthy accepted then loadConfig P_Config_After s' else s', True))
     | _ \<Rightarrow> (s, False))"

definition selectMap_rest :: "jsval \<Rightarrow> page_state \<Rightarrow> page_state \<times> bool" where
  "selectMap_rest resp s = assign [(entry_rows resp, \<lambda>x p. p\<lparr>el_map_entries := x\<rparr>)] s"

definition mapUpdate_rest :: "page_state \<Rightarrow> page_state" where
  "mapUpdate_rest s = selectMap (case selectedMap (pg s) of Some m \<Rightarrow> m | None \<Rightarrow> ''null'') True s"

text \<open>Resetting the form empties its fields.\<close>

definition cert_submit_rest :: "page_state \<Rightarrow> page_state" where
  "cert_submit_rest s = refreshCerts (upd (\<lambda>p. p\<lparr>inputs := (\<lambda>i. if has_prefix i ''cert-'' then [] else inputs p i)\<rparr>) s)"

definition on_value :: "page_env \<Rightarrow> page_cont \<Rightarrow> jsval \<Rightarrow> page_state \<Rightarrow> page_state \<times> bool" where
  "on_value B k v s = (case k of
       P_System \<Rightarrow> and_then (refreshSystem_rest B v s) (call (get_request ''/api/haproxy/info'') P_Info)
     | P_Info \<Rightarrow> and_then (refreshHAProxyInfo_rest v s) refreshBackends
     | P_Backends \<Rightarrow> refreshBackends_rest B v s
     | P_Server_State \<Rightarrow> (refreshBackends s, True)
     | P_Config_Load \<Rightarrow> and_then (loadConfig_rest v s) (call (get_request ''/api/haproxy/maps'') P_Maps)
     | P_Config_After \<Rightarrow> loadConfig_rest v s
     | P_Maps \<Rightarrow> and_then (refreshMaps_rest B v s) refreshCerts
     | P_Certs \<Rightarrow> refreshCerts_rest B v s
     | P_Apply \<Rightarrow> config_submit_rest v s
     | P_Select _ _ \<Rightarrow> selectMap_rest v s
     | P_Map_Update \<Rightarrow> (mapUpdate_rest s, True)
     | P_Acl \<Rightarrow> (s, True)
     | P_Cert_Delete \<Rightarrow> (refreshCerts s, True)
     | P_Cert_Upload \<Rightarrow> (cert_submit_rest s, True))"

lemmas rest_defs = on_value_def refreshSystem_rest_def refreshHAProxyInfo_rest_def refreshBackends_rest_def loadConfig_rest_def
  refreshMaps_rest_def refreshCerts_rest_def config_submit_rest_def selectMap_rest_def mapUpdate_rest_def cert_submit_rest_def

definition resume_page :: "page_env \<Rightarrow> page_cont \<Rightarrow> string + jsval \<Rightarrow> page_state \<Rightarrow> page_state" where
  "resume_page B k r s = (case r of
       Inl e \<Rightarrow> on_error k e s
     | Inr v \<Rightarrow> (case on_value B k v s of (s', True) \<Rightarrow> s' | (s', False) \<Rightarrow> on_error k (type_error B) s'))"

section \<open>What happens to the page\<close>

text \<open>
  The timer, the user's events, and the answer to one of the calls under way. A form is submitted
  only when the browser finds its required fields filled; a hidden form or an element that is
  not there has no events.
\<close>

datatype page_event =
    Tick
  | Edit_Config string
  | Type_Into string string
  | Submit_Config
  | Change_State nat string
  | Click_Map nat
  | Submit_Map
  | Click_Map_Delete
  | Submit_Acl
  | Click_Acl_Delete
  | Click_Cert_Delete nat
  | Submit_Cert
  | Answered nat "string + jsval"

definition sni_list :: "string \<Rightarrow> jsval" where
  "sni_list sni = Arr (if sni = [] then [] else map (\<lambda>x. Str (trim_space x)) (split_on (CHR '','') sni))"

definition submit_config :: "page_state \<Rightarrow> page_state" where
  "submit_config s = call (json_request ''POST'' ''/api/haproxy/config'' [(''config'', Str (config_text (pg s)))]) P_Apply
     (upd (\<lambda>p. p\<lparr>config_result := ''Applying'' @ [CHR 0xE2, CHR 0x80, CHR 0xA6], config_class := []\<rparr>) s)"

definition upload_cert :: "page_state \<Rightarrow> page_state" where
  "upload_cert s = (let f = inputs (pg s) in call (json_request ''POST'' ''/api/haproxy/certs''
     [(''name'', Str (f ''cert-name'')), (''pem_bundle'', Str (textarea_value (f ''cert-pem''))),
      (''crt_list'', Str (f ''cert-crtlist'')), (''sni'', sni_list (f ''cert-sni''))]) P_Cert_Upload s)"

definition delete_cert :: "string \<Rightarrow> page_state \<Rightarrow> page_state" where
  "delete_cert name = call \<lparr>rq_method = ''DELETE'', rq_path = below ''certs'' name, rq_ctype = [], rq_body = NoBody\<rparr> P_Cert_Delete"

definition change_state :: "string \<times> string \<Rightarrow> string \<Rightarrow> page_state \<Rightarrow> page_state" where
  "change_state bs v = call (json_request ''POST'' ''/api/haproxy/backends/state''
     [(''backend'', Str (fst bs)), (''server'', Str (snd bs)), (''state'', Str v)]) P_Server_State"

definition submit_map :: "page_state \<Rightarrow> page_state" where
  "submit_map s = (if map_shown (pg s) \<and> inputs (pg s) ''map-key'' \<noteq> [] then mapUpdate False s else s)"

definition submit_acl :: "page_state \<Rightarrow> page_state" where
  "submit_acl s = (if inputs (pg s) ''acl-name'' \<noteq> [] \<and> inputs (pg s) ''acl-value'' \<noteq> [] then aclUpdate False s else s)"

definition submit_cert :: "page_state \<Rightarrow> page_state" where
  "submit_cert s = (if inputs (pg s) ''cert-name'' \<noteq> [] \<and> inputs (pg s) ''cert-pem'' \<noteq> [] then upload_cert s else s)"

definition drop_call :: "nat \<Rightarrow> page_state \<Rightarrow> page_state" where
  "drop_call i s = s\<lparr>calls := take i (calls s) @ drop (Suc i) (calls s)\<rparr>"

definition page_step :: "page_env \<Rightarrow> page_event \<Rightarrow> page_state \<Rightarrow> page_state" where
  "page_step B ev s = (case ev of
       Tick \<Rightarrow> refreshAll s
     | Edit_Config v \<Rightarrow> upd (\<lambda>p. p\<lparr>config_text := textarea_value v\<rparr>) s
     | Type_Into i v \<Rightarrow> upd (\<lambda>p. p\<lparr>inputs := (inputs p)(i := v)\<rparr>) s
     | Submit_Config \<Rightarrow> submit_config s
     | Change_State i v \<Rightarrow> if i < length (server_selects (pg s)) then change_state (server_selects (pg s) ! i) v s else s
     | Click_Map i \<Rightarrow> if i < length (map_buttons (pg s)) then selectMap (map_buttons (pg s) ! i) False s else s
     | Submit_Map \<Rightarrow> submit_map s
     | Click_Map_Delete \<Rightarrow> if map_shown (pg s) then mapUpdate True s else s
     | Submit_Acl \<Rightarrow> submit_acl s
     | Click_Acl_Delete \<Rightarrow> aclUpdate True s
     | Click_Cert_Delete i \<Rightarrow> if i < length (cert_buttons (pg s)) then delete_cert (cert_buttons (pg s) ! i) s else s
     | Submit_Cert \<Rightarrow> submit_cert s
     | Answered i r \<Rightarrow> if i < length (calls s) then resume_page B (snd (calls s ! i)) r (drop_call i s) else s)"

section \<open>The page and its node\<close>

text \<open>\<open>api\<close> on a response.\<close>

definition api_outcome :: "page_env \<Rightarrow> http_response \<Rightarrow> string + jsval" where
  "api_outcome B r =
     (if 200 \<le> hs_status r \<and> hs_status r \<le> 299 then (case hs_body r of
          Resp_Json v \<Rightarrow> Inr v
        | Resp_Empty \<Rightarrow> Inr Null
        | Resp_Text t \<Rightarrow> if t = [] then Inr Null else parse_json B t
        | Resp_File t \<Rightarrow> if t = [] then Inr Null else parse_json B t)
      else Inl (err_string (case hs_body r of Resp_Json v \<Rightarrow> json_text B v | Resp_Empty \<Rightarrow> [] | Resp_Text t \<Rightarrow> t | Resp_File t \<Rightarrow> t)))"

text \<open>
  The page with its listener and node. \<open>wd_answers\<close> runs beside the calls: what a call has been
  answered with, before the page takes it. A call is served when the node gets to it and the
  answers arrive in any order; the connection may fail before or after the node has served it.
\<close>

record 's world =
  wd_page :: page_state
  wd_node :: "'s node_state"
  wd_answers :: "(string + jsval) option list"

datatype node_event = Page page_event | Serve nat | Lose nat | Deliver nat

definition set_page :: "page_state \<Rightarrow> (string + jsval) option list \<Rightarrow> 's world \<Rightarrow> 's world" where
  "set_page p as w = w\<lparr>wd_page := p, wd_answers := as @ replicate (length (calls p) - length as) None\<rparr>"

definition node_step :: "page_env \<Rightarrow> 's listener \<Rightarrow> node_event \<Rightarrow> 's world \<Rightarrow> 's world" where
  "node_step B L ev w = (case ev of
       Page (Answered _ _) \<Rightarrow> w
     | Page e \<Rightarrow> set_page (page_step B e (wd_page w)) (wd_answers w) w
     | Serve i \<Rightarrow>
         if i < length (wd_answers w) \<and> wd_answers w ! i = None
         then (let (r, st) = listener_serve L (fst (calls (wd_page w) ! i)) (wd_node w) in
           w\<lparr>wd_node := st, wd_answers := (wd_answers w)[i := Some (api_outcome B r)]\<rparr>)
         else w
     | Lose i \<Rightarrow> w\<lparr>wd_answers := (wd_answers w)[i := Some (Inl (fetch_error B))]\<rparr>
     | Deliver i \<Rightarrow>
         if i < length (wd_answers w) then (case wd_answers w ! i of
             None \<Rightarrow> w
           | Some r \<Rightarrow> set_page (page_step B (Answered i r) (wd_page w)) (take i (wd_answers w) @ drop (Suc i) (wd_answers w)) w)
         else w)"

definition node_start :: "'s node_state \<Rightarrow> 's world" where
  "node_start st = \<lparr>wd_page = page_start, wd_node = st, wd_answers = replicate (length (calls page_start)) None\<rparr>"

definition node_run :: "page_env \<Rightarrow> 's listener \<Rightarrow> node_event list \<Rightarrow> 's node_state \<Rightarrow> 's world" where
  "node_run B L evs st = fold (node_step B L) evs (node_start st)"

end
