(* ===== verification/Haproxy_Properties.thy ===== *)
theory Haproxy_Properties
  imports Haproxy_Runtime
begin

text \<open>
  Properties of the runtime commands: what is read back is what HAProxy holds, an upsert leaves
  exactly the new entry, an upload is committed or aborted, and the commands do not delimit their
  arguments.
\<close>

section \<open>Reading a map\<close>

definition is_word :: "string \<Rightarrow> bool" where
  "is_word w \<longleftrightarrow> w \<noteq> [] \<and> (\<forall>c \<in> set w. \<not> is_space c)"

text \<open>The entries of a map as \<open>show map\<close> prints them: an id, the key, the value in words.\<close>

type_synonym shown_entry = "string \<times> string \<times> string list"

definition entry_line :: "shown_entry \<Rightarrow> string" where
  "entry_line e = (case e of (i, k, ws) \<Rightarrow> join_with '' '' (i # k # ws))"

definition show_map_output :: "shown_entry list \<Rightarrow> string" where
  "show_map_output es = concat (map (\<lambda>e. entry_line e @ [newline]) es)"

definition entry_ok :: "shown_entry \<Rightarrow> bool" where
  "entry_ok e \<longleftrightarrow> (case e of (i, k, ws) \<Rightarrow> is_word i \<and> is_word k \<and> ws \<noteq> [] \<and> (\<forall>w \<in> set ws. is_word w))"

definition entry_value :: "shown_entry \<Rightarrow> string \<times> string" where
  "entry_value e = (case e of (i, k, ws) \<Rightarrow> (k, join_with '' '' ws))"

lemma not_in_join: "c \<notin> set sep \<Longrightarrow> \<forall>x \<in> set xs. c \<notin> set x \<Longrightarrow> c \<notin> set (join_with sep xs)"
  by (induction sep xs rule: join_with.induct) auto

lemma word_no_newline: "is_word w \<Longrightarrow> newline \<notin> set w"
  by (auto simp: is_word_def is_space_def newline_def)

lemma entry_value_simp [simp]: "entry_value (i, k, ws) = (k, join_with '' '' ws)"
  by (simp add: entry_value_def)

lemma newline_space [simp]: "is_space newline" "newline \<noteq> CHR '' ''"
  by (simp_all add: is_space_def newline_def)

lemma entry_line_no_newline: "entry_ok e \<Longrightarrow> newline \<notin> set (entry_line e)"
  unfolding entry_ok_def entry_line_def
  by (cases e, simp only: prod.case) (intro not_in_join; auto dest: word_no_newline)

lemma map_line_entry:
  assumes "entry_ok e"
  shows "map_line (entry_line e) m = gm_put (fst (entry_value e)) (snd (entry_value e)) m"
proof -
  obtain i k ws where e: "e = (i, k, ws)" by (cases e)
  then have "\<forall>w \<in> set (i # k # ws). w \<noteq> [] \<and> (\<forall>c \<in> set w. \<not> is_space c)"
    using assms by (auto simp: entry_ok_def is_word_def)
  then have "str_fields (entry_line e) = i # k # ws"
    unfolding e entry_line_def prod.case by (rule fields_join)
  moreover have "ws \<noteq> []" using assms e by (simp add: entry_ok_def)
  ultimately show ?thesis by (cases ws) (simp_all add: map_line_def entry_value_def e Let_def)
qed

lemma map_line_Nil [simp]: "map_line [] m = m"
  by (simp add: map_line_def str_fields_def)

lemma split_show_map: "\<forall>e \<in> set es. entry_ok e \<Longrightarrow> split_on newline (show_map_output es) = map entry_line es @ [[]]"
  using split_lines [of "map entry_line es" newline] entry_line_no_newline
  by (simp add: show_map_output_def comp_def)

lemma fold_entries:
  "\<forall>e \<in> set es. entry_ok e \<Longrightarrow> fold map_line (map entry_line es) m = fold (\<lambda>(k, v). gm_put k v) (map entry_value es) m"
  by (induction es arbitrary: m) (simp_all add: map_line_entry case_prod_beta)

lemma fold_gm_put: "gm_get (fold (\<lambda>(k, v). gm_put k v) kvs m) x = (case map_of (rev kvs) x of None \<Rightarrow> gm_get m x | Some v \<Rightarrow> Some v)"
proof (induction kvs arbitrary: m)
  case (Cons kv kvs)
  then show ?case by (cases kv) (auto simp: map_add_def split: option.splits)
qed simp

lemma MapGet_show:
  assumes "statsCommand sock (''show map '' @ m) s = (Inr (show_map_output es), s')" and "\<forall>e \<in> set es. entry_ok e"
  shows "MapGet sock m s = (Inr (fold (\<lambda>(k, v). gm_put k v) (map entry_value es) []), s')"
  using assms by (simp add: MapGet_def split_show_map fold_entries)

definition entries_of :: "shown_entry list \<Rightarrow> (string, string) gomap" where
  "entries_of es = fold (\<lambda>(k, v). gm_put k v) (map entry_value es) []"

lemma entries_of_get: "gm_get (entries_of es) x = map_of (rev (map entry_value es)) x"
  by (simp add: entries_of_def fold_gm_put split: option.splits)

lemma map_of_filter_keys: "map_of (filter (\<lambda>e. f (fst e)) kvs) x = (if f x then map_of kvs x else None)"
  by (induction kvs) auto

lemma entries_of_filter:
  "gm_get (entries_of (filter (\<lambda>e. fst (entry_value e) \<noteq> k) es)) x = (if x = k then None else gm_get (entries_of es) x)"
  using map_of_filter_keys [of "\<lambda>j. j \<noteq> k" "rev (map entry_value es)" x]
  by (simp add: entries_of_get rev_filter filter_map comp_def rev_map)

lemma entries_of_snoc: "gm_get (entries_of (es @ [e])) x = (if x = fst (entry_value e) then Some (snd (entry_value e)) else gm_get (entries_of es) x)"
  by (cases "entry_value e") (simp add: entries_of_get)

lemma mustEmpty_iff: "mustEmpty r = (Inr u, s) \<longleftrightarrow> (\<exists>out. r = (Inr out, s) \<and> trim_space out = [])"
  by (cases r; cases "fst r") (auto simp: mustEmpty_def)

lemma mustEmpty_snd: "snd (mustEmpty r) = snd r"
  by (cases r; cases "fst r") (simp_all add: mustEmpty_def)

section \<open>A HAProxy that keeps maps\<close>

text \<open>
  An instance of the socket with the documented behaviour of the three map commands, on which the
  hypotheses below hold.
\<close>

fun toy_haproxy :: "(string \<Rightarrow> shown_entry list) socket" where
  "toy_haproxy line s = (case str_fields line of
       [a, b, m] \<Rightarrow> if a = ''show'' \<and> b = ''map'' then (Inr (show_map_output (s m)), s) else (Inr ''Unknown command'', s)
     | [a, b, m, k] \<Rightarrow> if a = ''del'' \<and> b = ''map'' then (Inr [newline], s(m := filter (\<lambda>e. fst (entry_value e) \<noteq> k) (s m)))
         else (Inr ''Unknown command'', s)
     | a # b # m # k # w # ws \<Rightarrow> if a = ''add'' \<and> b = ''map'' then (Inr [newline], s(m := s m @ [(''0x1'', k, w # ws)]))
         else (Inr ''Unknown command'', s)
     | _ \<Rightarrow> (Inr ''Unknown command'', s))"

section \<open>Properties\<close>

text \<open>
  Reading a map returns what HAProxy prints for it: when it prints an entry per line whose key
  is a word and whose value consists of words, \<open>MapGet\<close> returns every key with its value, the last
  one of a key that occurs twice.
\<close>

theorem map_get_reads_back:
  assumes "statsCommand sock (''show map '' @ m) s = (Inr (show_map_output es), s')" and "\<forall>e \<in> set es. entry_ok e"
  shows "\<exists>entries. MapGet sock m s = (Inr entries, s') \<and> (\<forall>k. gm_get entries k = map_of (rev (map entry_value es)) k)"
  using MapGet_show [OF assms] by (auto simp: entries_of_get simp flip: entries_of_def)

definition demo_entries :: "shown_entry list" where
  "demo_entries = [(''0x1'', ''api'', [''be'', ''one'']), (''0x2'', ''web'', [''be2''])]"

theorem map_get_reads_back_witness:
  "\<exists>entries. MapGet toy_haproxy ''m'' (\<lambda>_. demo_entries) = (Inr entries, \<lambda>_. demo_entries) \<and> gm_get entries ''api'' = Some ''be one''"
proof -
  have "statsCommand toy_haproxy (''show map '' @ ''m'') (\<lambda>_. demo_entries) = (Inr (show_map_output demo_entries), \<lambda>_. demo_entries)"
    by (simp add: statsCommand_def str_fields_def is_space_def newline_def)
  moreover have "\<forall>e \<in> set demo_entries. entry_ok e"
    by (simp add: demo_entries_def entry_ok_def is_word_def is_space_def)
  ultimately show ?thesis
    using map_get_reads_back [of toy_haproxy "''m''" "\<lambda>_. demo_entries" demo_entries] by (auto simp: demo_entries_def entry_value_def)
qed

text \<open>
  An upsert that succeeds leaves the map with the new value under its key and every other key
  as it was. An upsert whose second command is refused has already lost the old value: reading the
  map then finds no entry under the key, and the other keys as they were.
\<close>

theorem upsert_outcomes:
  fixes sock :: "'s socket" and shown :: "'s \<Rightarrow> shown_entry list" and m k :: string and ws :: "string list" and s :: 's
  defines "s1 \<equiv> snd (statsCommand sock (''del map '' @ m @ '' '' @ k) s)"
  defines "add \<equiv> statsCommand sock (''add map '' @ m @ '' '' @ k @ '' '' @ join_with '' '' ws) s1"
  assumes show_law: "\<And>x. statsCommand sock (''show map '' @ m) x = (Inr (show_map_output (shown x)), x)"
    and del_law: "shown s1 = filter (\<lambda>e. fst (entry_value e) \<noteq> k) (shown s)"
    and add_law: "shown (snd add) = shown s1 @ (if \<exists>out. fst add = Inr out \<and> trim_space out = [] then [(i, k, ws)] else [])"
    and ok: "\<forall>e \<in> set (shown s). entry_ok e" "entry_ok (i, k, ws)"
    and run: "MapUpdate sock m k (join_with '' '' ws) False s = (r, s')"
  shows "\<exists>before after. MapGet sock m s = (Inr before, s) \<and> MapGet sock m s' = (Inr after, s')
    \<and> gm_get after k = (case r of Inl _ \<Rightarrow> None | Inr _ \<Rightarrow> Some (join_with '' '' ws))
    \<and> (\<forall>x. x \<noteq> k \<longrightarrow> gm_get after x = gm_get before x)"
proof -
  have res: "mustEmpty add = (r, s')"
    using run by (simp add: MapUpdate_def Let_def case_prod_beta s1_def add_def)
  then have s': "s' = snd add" using mustEmpty_snd [of add] by simp
  have "(\<exists>out. fst add = Inr out \<and> trim_space out = []) \<longleftrightarrow> (\<exists>u. r = Inr u)"
    using res mustEmpty_iff [of add "()" s'] s' by (cases r) (auto simp: prod_eq_iff)
  then have after: "shown s' = filter (\<lambda>e. fst (entry_value e) \<noteq> k) (shown s) @ (case r of Inl _ \<Rightarrow> [] | Inr _ \<Rightarrow> [(i, k, ws)])"
    using add_law del_law s' by (auto split: sum.splits)
  then have "\<forall>e \<in> set (shown s'). entry_ok e" using ok by (auto split: sum.splits)
  with ok(1) have get: "MapGet sock m s = (Inr (entries_of (shown s)), s)" "MapGet sock m s' = (Inr (entries_of (shown s')), s')"
    using MapGet_show [OF show_law] by (simp_all add: entries_of_def)
  have "gm_get (entries_of (shown s')) x =
      (if x = k then (case r of Inl _ \<Rightarrow> None | Inr _ \<Rightarrow> Some (join_with '' '' ws)) else gm_get (entries_of (shown s)) x)" for x
    by (cases r) (simp_all add: after entries_of_snoc entries_of_filter entry_value_simp)
  with get show ?thesis by auto
qed

text \<open>The state before and after on the instance: a value replaced.\<close>

definition demo_s :: "string \<Rightarrow> shown_entry list" where
  "demo_s = (\<lambda>_. demo_entries)"

definition demo_after :: "string \<Rightarrow> shown_entry list" where
  "demo_after = demo_s(''m'' := [(''0x2'', ''web'', [''be2'']), (''0x1'', ''api'', [''be2''])])"

theorem upsert_outcomes_witness:
  "\<exists>after. MapGet toy_haproxy ''m'' demo_after = (Inr after, demo_after) \<and> gm_get after ''api'' = Some ''be2''"
proof -
  let ?add = "''add map '' @ ''m'' @ '' '' @ ''api'' @ '' '' @ join_with '' '' [''be2'']"
  note str = statsCommand_def str_fields_def is_space_def newline_def
  have show_law: "statsCommand toy_haproxy (''show map '' @ ''m'') x = (Inr (show_map_output (x ''m'')), x)" for x
    by (simp add: str)
  have del: "statsCommand toy_haproxy (''del map '' @ ''m'' @ '' '' @ ''api'') demo_s = (Inr [newline], demo_s(''m'' := [(''0x2'', ''web'', [''be2''])]))"
    by (simp add: str demo_s_def demo_entries_def)
  have add: "statsCommand toy_haproxy ?add (demo_s(''m'' := [(''0x2'', ''web'', [''be2''])])) = (Inr [newline], demo_after)"
    by (simp add: str demo_after_def)
  have blank: "trim_space [newline] = []" by (simp add: trim_space_def newline_def is_space_def)
  have upd: "MapUpdate toy_haproxy ''m'' ''api'' (join_with '' '' [''be2'']) False demo_s = (Inr (), demo_after)"
    unfolding MapUpdate_def del Let_def prod.case add if_False mustEmpty_def then_s.simps blank by simp
  have ok: "\<forall>e \<in> set (demo_s ''m''). entry_ok e" "entry_ok (''0x1'', ''api'', [''be2''])"
    by (simp_all add: demo_s_def demo_entries_def entry_ok_def is_word_def is_space_def)
  have laws: "snd (statsCommand toy_haproxy (''del map '' @ ''m'' @ '' '' @ ''api'') demo_s) ''m'' = filter (\<lambda>e. fst (entry_value e) \<noteq> ''api'') (demo_s ''m'')"
    "snd (statsCommand toy_haproxy ?add (snd (statsCommand toy_haproxy (''del map '' @ ''m'' @ '' '' @ ''api'') demo_s))) ''m'' =
       snd (statsCommand toy_haproxy (''del map '' @ ''m'' @ '' '' @ ''api'') demo_s) ''m''
       @ (if \<exists>out. fst (statsCommand toy_haproxy ?add (snd (statsCommand toy_haproxy (''del map '' @ ''m'' @ '' '' @ ''api'') demo_s))) = Inr out
            \<and> trim_space out = [] then [(''0x1'', ''api'', [''be2''])] else [])"
    unfolding del snd_conv add fst_conv by (simp_all add: demo_s_def demo_entries_def demo_after_def blank)
  show ?thesis
    using upsert_outcomes [of toy_haproxy "''m''" "\<lambda>x. x ''m''", OF show_law laws ok upd] by auto
qed

text \<open>
  The commands do not delimit their arguments: requests that split the same words differently
  between their fields send HAProxy the same bytes and so have the same result and effect.
\<close>

theorem arguments_run_together:
  "ACLUpdate sock (a @ '' '' @ b) v del = ACLUpdate sock a (b @ '' '' @ v) del
   \<and> MapUpdate sock (a @ '' '' @ b) k v True = MapUpdate sock a (b @ '' '' @ k) w True
   \<and> SetServerState sock (a @ ''/'' @ b) srv st = SetServerState sock a (b @ ''/'' @ srv) st"
  by (simp add: fun_eq_iff ACLUpdate_def MapUpdate_def SetServerState_def Let_def case_prod_beta)

section \<open>Process information\<close>

definition info_text :: "(string \<times> string) list \<Rightarrow> string" where
  "info_text kvs = concat (map (\<lambda>kv. (fst kv @ '': '' @ snd kv) @ [newline]) kvs)"

definition info_key_ok :: "string \<times> string \<Rightarrow> bool" where
  "info_key_ok kv \<longleftrightarrow> CHR 0x3A \<notin> set (fst kv) \<and> newline \<notin> set (fst kv) \<and> newline \<notin> set (snd kv)"

definition info0 :: info where
  "info0 = \<lparr>Version = [], UptimeSeconds = 0, CurrentConnections = 0, MaxConnections = 0\<rparr>"

definition info_of :: "(string \<times> string) list \<Rightarrow> info \<Rightarrow> info" where
  "info_of kvs i = fold (\<lambda>kv. info_line (fst kv @ '': '' @ snd kv)) kvs i"

lemma info_line_kv: "CHR 0x3A \<notin> set k \<Longrightarrow> info_line (k @ '': '' @ v) i =
    (if k = ''Version'' then i\<lparr>Version := v\<rparr>
     else if k = ''Uptime_sec'' then i\<lparr>UptimeSeconds := of_nat (parse_uint 64 v)\<rparr>
     else if k = ''CurrConns'' then i\<lparr>CurrentConnections := of_nat (parse_uint 32 v)\<rparr>
     else if k = ''MaxConn'' then i\<lparr>MaxConnections := of_nat (parse_uint 32 v)\<rparr> else i)"
  using cut_str_char [of k v] by (simp only: info_line_def) simp

lemma info_line_Nil [simp]: "info_line [] i = i"
  by (simp add: info_line_def cut_str.simps)

lemma split_info_text:
  "\<forall>kv \<in> set kvs. info_key_ok kv \<Longrightarrow> split_on newline (info_text kvs) = map (\<lambda>kv. fst kv @ '': '' @ snd kv) kvs @ [[]]"
proof (induction kvs)
  case (Cons kv kvs)
  obtain k v where kv: "kv = (k, v)" by (cases kv)
  then have "newline \<notin> set (k @ '': '' @ v)" using Cons.prems by (auto simp: info_key_ok_def newline_def)
  then have "split_on newline ((k @ '': '' @ v) @ newline # info_text kvs) = (k @ '': '' @ v) # split_on newline (info_text kvs)"
    by (rule split_on_append)
  with Cons kv show ?case by (simp add: info_text_def)
qed (simp add: info_text_def)

lemma ShowInfo_text:
  assumes "statsCommand sock ''show info'' s = (Inr (info_text kvs), s')" and "\<forall>kv \<in> set kvs. info_key_ok kv"
  shows "ShowInfo sock s = (Inr (info_of kvs info0), s')"
  using assms by (simp add: ShowInfo_def split_info_text info_of_def info0_def fold_map comp_def)

definition counter_of :: "nat \<Rightarrow> (string \<times> string) list \<Rightarrow> string \<Rightarrow> nat" where
  "counter_of bits kvs key = (case map_of (rev kvs) key of None \<Rightarrow> 0 | Some v \<Rightarrow> parse_uint bits v)"

lemma info_of_fields:
  assumes "\<forall>kv \<in> set kvs. info_key_ok kv"
  shows "info_of kvs info0 = \<lparr>Version = (case map_of (rev kvs) ''Version'' of None \<Rightarrow> [] | Some v \<Rightarrow> v),
    UptimeSeconds = of_nat (counter_of 64 kvs ''Uptime_sec''), CurrentConnections = of_nat (counter_of 32 kvs ''CurrConns''),
    MaxConnections = of_nat (counter_of 32 kvs ''MaxConn'')\<rparr>"
  using assms
proof (induction kvs rule: rev_induct)
  case (snoc kv kvs)
  obtain k v where kv: "kv = (k, v)" by (cases kv)
  then have step: "info_of (kvs @ [kv]) info0 = info_line (k @ '': '' @ v) (info_of kvs info0)" by (simp add: info_of_def)
  have k: "CHR 0x3A \<notin> set k" using snoc.prems kv by (simp add: info_key_ok_def)
  have IH: "info_of kvs info0 = \<lparr>Version = (case map_of (rev kvs) ''Version'' of None \<Rightarrow> [] | Some v \<Rightarrow> v),
    UptimeSeconds = of_nat (counter_of 64 kvs ''Uptime_sec''), CurrentConnections = of_nat (counter_of 32 kvs ''CurrConns''),
    MaxConnections = of_nat (counter_of 32 kvs ''MaxConn'')\<rparr>"
    using snoc by simp
  show ?case unfolding step info_line_kv [OF k] IH by (simp add: kv counter_of_def)
qed (simp add: info_of_def info0_def counter_of_def)

text \<open>
  \<open>ShowInfo\<close> finds each field wherever HAProxy prints it: the version as printed, and each
  counter exactly when it fits its width; a greater number becomes the greatest value of the
  width instead of wrapping, and a missing one zero.
\<close>

theorem show_info_reads_back:
  assumes "statsCommand sock ''show info'' s = (Inr (info_text kvs), s')" and "\<forall>kv \<in> set kvs. info_key_ok kv"
    and "map_of (rev kvs) ''Version'' = Some ver" and "map_of (rev kvs) ''Uptime_sec'' = Some (show_nat up)"
    and "map_of (rev kvs) ''CurrConns'' = Some (show_nat cur)" and "map_of (rev kvs) ''MaxConn'' = None"
  shows "\<exists>i. ShowInfo sock s = (Inr i, s') \<and> Version i = ver
    \<and> unat (UptimeSeconds i) = min (2 ^ 64 - 1) up \<and> unat (CurrentConnections i) = min (2 ^ 32 - 1) cur
    \<and> MaxConnections i = 0"
proof -
  have word: "unat (of_nat (min (2 ^ 64 - 1) up) :: 64 word) = min (2 ^ 64 - 1) up"
    "unat (of_nat (min (2 ^ 32 - 1) cur) :: 32 word) = min (2 ^ 32 - 1) cur"
    by (simp_all add: unat_of_nat min_def)
  have c: "counter_of 64 kvs ''Uptime_sec'' = min (2 ^ 64 - 1) up" "counter_of 32 kvs ''CurrConns'' = min (2 ^ 32 - 1) cur"
    "counter_of 32 kvs ''MaxConn'' = 0"
    unfolding counter_of_def assms(4-6) by (simp_all only: option.case parse_uint_show)
  note i = info_of_fields [OF assms(2), unfolded c assms(3) option.case]
  show ?thesis
    by (rule exI [of _ "info_of kvs info0"], intro conjI, rule ShowInfo_text [OF assms(1,2)]) (use word in \<open>simp_all add: i\<close>)
qed

definition demo_info :: "(string \<times> string) list" where
  "demo_info = [(''Name'', ''HAProxy''), (''Version'', ''2.8''), (''Uptime_sec'', show_nat 90), (''CurrConns'', show_nat 7)]"

lemma demo_info_ok: "\<forall>kv \<in> set demo_info. info_key_ok kv"
  by code_simp

theorem show_info_reads_back_witness:
  "\<exists>i. ShowInfo (\<lambda>_ s. (Inr (info_text demo_info), s)) () = (Inr i, ()) \<and> unat (UptimeSeconds i) = 90
    \<and> unat (CurrentConnections i) = 7"
proof -
  have "map_of (rev demo_info) ''Version'' = Some ''2.8''" "map_of (rev demo_info) ''Uptime_sec'' = Some (show_nat 90)"
    "map_of (rev demo_info) ''CurrConns'' = Some (show_nat 7)" "map_of (rev demo_info) ''MaxConn'' = None"
    by (simp_all add: demo_info_def)
  then obtain i where "ShowInfo (\<lambda>_ s. (Inr (info_text demo_info), s)) () = (Inr i, ())"
    and "unat (UptimeSeconds i) = min (2 ^ 64 - 1) 90" and "unat (CurrentConnections i) = min (2 ^ 32 - 1) 7"
    using show_info_reads_back [OF _ demo_info_ok, of "\<lambda>_ s. (Inr (info_text demo_info), s)" "()" "()" "''2.8''" 90 7]
    unfolding statsCommand_def by blast
  then show ?thesis by (intro exI [of _ i]) simp
qed

section \<open>Certificates\<close>

text \<open>A socket that answers each command by a function and records the commands it gets.\<close>

definition recorder :: "(string \<Rightarrow> string + string) \<Rightarrow> string list socket" where
  "recorder answer line sent = (answer line, sent @ [line])"

definition says :: "string + string \<Rightarrow> string \<Rightarrow> bool" where
  "says r t \<longleftrightarrow> (case r of Inl _ \<Rightarrow> False | Inr out \<Rightarrow> contains out t)"

text \<open>
  An upload succeeds exactly when HAProxy accepted the staged bundle, reported the commit as a
  success and, if the certificate is to be bound, the binding too. A commit that is reported as
  anything else is aborted and nothing is bound; no command follows a failed staging.
\<close>

theorem upload_commits_or_aborts:
  fixes name pem crt :: string and sni :: "string list" and answer :: "string \<Rightarrow> string + string"
  defines "new \<equiv> ''new ssl cert '' @ name @ [newline]"
    and "set' \<equiv> ''set ssl cert '' @ name @ '' <<'' @ [newline] @ pem @ [newline]"
    and "commit \<equiv> ''commit ssl cert '' @ name @ [newline]"
    and "abort \<equiv> ''abort ssl cert '' @ name @ [newline]"
    and "bind' \<equiv> crt_list_command crt name sni @ [newline]"
  shows "(fst (CertificateUpload (recorder answer) name pem crt sni []) = Inr () \<longleftrightarrow>
      \<not> isl (answer set') \<and> says (answer commit) ''Success!'' \<and> (crt = [] \<or> says (answer bind') ''Success!''))
    \<and> snd (CertificateUpload (recorder answer) name pem crt sni []) = [new, set']
        @ (if isl (answer set') then [] else [commit]
        @ (if isl (answer commit) then []
           else if \<not> says (answer commit) ''Success!'' then [abort]
           else if crt = [] then [] else [bind']))"
  by (cases "answer set'"; cases "answer commit"; cases "answer bind'")
    (simp_all add: CertificateUpload_def statsCommand_def recorder_def Let_def says_def new_def set'_def commit_def abort_def bind'_def)

end
