(* ===== verification/Node_Page_Properties.thy ===== *)
theory Node_Page_Properties
  imports Node_Page Haproxy_Properties
begin

text \<open>
  Properties of the per-node page and its way to HAProxy: names survive the request path, the
  page's actions reach the RPC with exactly what the user chose, what an applied configuration
  reports, what the page shows, and what it never can.
\<close>

section \<open>Names in paths\<close>

lemma hex_val_digit: "n < 16 \<Longrightarrow> hex_val (hex_digit n) = Some n"
  by (auto simp: hex_val_def hex_digit_def Let_def)

lemma of_char_split: "char_of (16 * ((of_char c :: nat) div 16) + (of_char c :: nat) mod 16) = c"
  by simp

lemma of_char_div: "(of_char c :: nat) div 16 < 16"
  using nat_of_char_less_256 [of c] by (simp add: less_mult_imp_div_less)

lemma not_unreserved: "unreserved c \<Longrightarrow> c \<noteq> CHR 0x25 \<and> c \<noteq> CHR ''?'' \<and> c \<noteq> CHR ''/''"
  by (auto simp: unreserved_def)

lemma path_unescape_encode [simp]: "path_unescape (encodeURIComponent s) = Some s"
  by (induction s) (auto simp: hex_val_digit of_char_split of_char_div dest: not_unreserved)

lemma path_unescape_plain: "CHR 0x25 \<notin> set p \<Longrightarrow> path_unescape (p @ q) = map_option ((@) p) (path_unescape q)"
  by (induction p) (cases "path_unescape q"; auto)+

lemma hex_digits_plain: "list_all (\<lambda>n. hex_digit n \<noteq> CHR ''?'') [0..<16]"
  by code_simp

lemma hex_digit_plain: "n < 16 \<Longrightarrow> hex_digit n \<noteq> CHR ''?''"
  using hex_digits_plain by (simp add: list_all_iff)

lemma encode_no_query: "CHR ''?'' \<notin> set (encodeURIComponent s)"
  by (induction s) (auto simp: of_char_div hex_digit_plain [THEN not_sym] dest: not_unreserved)

lemma encode_Nil_iff [simp]: "encodeURIComponent s = [] \<longleftrightarrow> s = []"
  by (cases s) simp_all

lemma raw_path_plain: "CHR ''?'' \<notin> set p \<Longrightarrow> raw_path p = p"
  by (auto simp: raw_path_def takeWhile_eq_all_conv)

definition plain_name :: "string \<Rightarrow> bool" where
  "plain_name m \<longleftrightarrow> m \<noteq> [] \<and> m \<noteq> ''.'' \<and> m \<noteq> ''..''"

lemma has_prefix_append [simp]: "has_prefix (p @ x) p"
  by (simp add: has_prefix_def)

lemma path_unescape_below: "path_unescape (below dir m) = Some (''/api/haproxy/'' @ dir @ ''/'' @ m)"
  if "plain_name m" "CHR 0x25 \<notin> set dir"
  using that path_unescape_plain [of "''/api/haproxy/'' @ dir @ ''/''" "encodeURIComponent m"]
  by (simp add: below_def plain_name_def)

lemma raw_path_below: "raw_path (below dir m) = ''/api/haproxy/'' @ dir @ ''/'' @ encodeURIComponent m"
  if "plain_name m" "CHR ''?'' \<notin> set dir"
  using that encode_no_query [of m] raw_path_plain [of "''/api/haproxy/'' @ dir @ ''/'' @ encodeURIComponent m"]
  by (simp add: below_def plain_name_def)

lemmas route_simps = ops_route_def Let_def raw_path_below path_unescape_below has_prefix_def

lemma route_map: "plain_name m \<Longrightarrow> rq_path rq = map_path m \<Longrightarrow> ops_route rl rq = Some (handle_map rl rq m)"
  by (simp add: map_path_def route_simps)

lemma route_acl: "plain_name m \<Longrightarrow> rq_path rq = below ''acls'' m \<Longrightarrow> ops_route rl rq = Some (handle_acl rl rq m)"
  by (simp add: route_simps)

lemma route_cert: "plain_name m \<Longrightarrow> rq_path rq = below ''certs'' m \<Longrightarrow> ops_route rl rq = Some (handle_cert rl rq m)"
  by (simp add: route_simps)

lemmas decode_defs = key_match_def to_lower_case_def lower_char_def

lemma decode_map_update [simp]:
  "decode_field (JsonBody (Obj [(''key'', Str k), (''value'', Str v), (''delete'', Bool d)])) ''key'' = Inr k"
  "decode_field (JsonBody (Obj [(''key'', Str k), (''value'', Str v), (''delete'', Bool d)])) ''value'' = Inr v"
  "bool_values ''delete'' [(''key'', Str k), (''value'', Str v), (''delete'', Bool d)] False = Inr d"
  by (simp_all add: decode_field_def decode_defs)

lemma decode_acl_update [simp]:
  "decode_field (JsonBody (Obj [(''value'', Str v), (''delete'', Bool d)])) ''value'' = Inr v"
  "bool_values ''delete'' [(''value'', Str v), (''delete'', Bool d)] False = Inr d"
  by (simp_all add: decode_field_def decode_defs)

lemma decode_config [simp]: "decode_field (JsonBody (Obj [(''config'', Str cfg)])) ''config'' = Inr cfg"
  by (simp add: decode_field_def decode_defs)

lemma no_query: "query_get (below ''certs'' m) ''crt_list'' = []" if "plain_name m"
proof -
  have "raw_query (below ''certs'' m) = []"
    using that raw_path_below [of m "''certs''"] by (simp add: raw_query_def below_def plain_name_def)
  then show ?thesis by (simp add: query_get_def query_unescape_def cut_str.simps)
qed

section \<open>The page's actions at the node\<close>

text \<open>
  C30: The request of a page's action, whatever characters the name has (it is not empty and not a
  path segment of dots), reaches the RPC it is for: selecting a map reads that map, setting or
  deleting an entry updates that map with the key and value in the form, changing an ACL changes
  that ACL, and deleting a certificate deletes that one, with no crt-list to unbind it from.
\<close>

theorem actions_reach_their_rpc:
  fixes L :: "'s listener"
  defines "rl \<equiv> ls_relay L"
  assumes "plain_name m" and "selectedMap (pg s) = Some m" and "plain_name acl" and "inputs (pg s) ''acl-name'' = acl" and "plain_name c"
  shows "(\<exists>rq. calls (selectMap m f s) = calls s @ [(rq, P_Select m f)]
      \<and> listener_serve L rq = relayed rl ''MapGet'' (api_MapGet (rl_api rl) m) entries_message)
    \<and> (\<exists>rq. calls (mapUpdate del s) = calls s @ [(rq, P_Map_Update)]
      \<and> listener_serve L rq = relayed rl ''MapUpdate''
          (api_MapUpdate (rl_api rl) m (inputs (pg s) ''map-key'') (inputs (pg s) ''map-value'') del) empty_struct)
    \<and> (\<exists>rq. calls (aclUpdate del s) = calls s @ [(rq, P_Acl)]
      \<and> listener_serve L rq = relayed rl ''ACLUpdate'' (api_ACLUpdate (rl_api rl) acl (inputs (pg s) ''acl-value'') del) empty_struct)
    \<and> (\<exists>rq. calls (delete_cert c s) = calls s @ [(rq, P_Cert_Delete)]
      \<and> listener_serve L rq = relayed rl ''CertificateDelete'' (api_CertificateDelete (rl_api rl) c []) empty_struct)"
proof -
  have ne: "m \<noteq> []" "acl \<noteq> []" "c \<noteq> []" using assms by (simp_all add: plain_name_def)
  note defs = listener_serve_def fun_eq_iff call_def get_request_def json_request_def rl_def
  show ?thesis
    using assms(2-) ne
    by (intro conjI) (simp_all add: defs selectMap_def upd_def mapUpdate_def aclUpdate_def delete_cert_def
        route_map route_acl route_cert handle_map_def handle_acl_def handle_cert_def decoded_def object_of_def no_query decode_defs)
qed

section \<open>A listener to instantiate\<close>

definition demo_manager :: manager where
  "demo_manager = \<lparr>BinaryPath = ''haproxy'', ConfigPath = ''haproxy.cfg'', PidPath = ''haproxy.pid''\<rparr>"

text \<open>A check that wants a text, a disk that is full for one of them, and a start that works.\<close>

definition demo_env :: "bool \<Rightarrow> haproxy_env" where
  "demo_env full = \<lparr>tmp_error = None, tmp_write_error = None,
     check_run = (\<lambda>cfg. if cfg = [] then Some (''bad'' @ [newline] @ ''empty'', ''exit status 1'') else None),
     write_error = (if full then Some (''no space left on device'', []) else None), start_error = None\<rparr>"

definition demo_api :: "bool \<Rightarrow> (string \<Rightarrow> shown_entry list) haproxy_api" where
  "demo_api full = \<lparr>ha_manager = demo_manager, ha_env = demo_env full, ha_sock = toy_haproxy, ha_rfc3339 = (\<lambda>_. None),
     ha_sha256 = (\<lambda>_. ''00''), ha_read_error = None\<rparr>"

definition demo_relay :: "bool \<Rightarrow> (string \<Rightarrow> shown_entry list) relay" where
  "demo_relay full = \<lparr>rl_api = demo_api full, rl_peer = Tls_peer [[RoleAdmin]], rl_dial = None,
     rl_text = (\<lambda>_. ''rpc error''), rl_lost = None\<rparr>"

definition demo_listener :: "bool \<Rightarrow> (string \<Rightarrow> shown_entry list) listener" where
  "demo_listener full = \<lparr>ls_relay = demo_relay full,
     ls_system = \<lparr>sy_version = Inr \<lparr>vi_version = ''1'', vi_go_version = ''go1.26'', vi_kernel_version = ''6.12'', vi_active_slot = ''a''\<rparr>,
       sy_memory = Inr \<lparr>mi_total = 2048, mi_available = 1024, mi_cached = 0\<rparr>,
       sy_cpus = Inr [\<lparr>cp_processor = 0, cp_model_name = ''cpu'', cp_mhz = Num 2400\<rparr>],
       sy_load = Inr \<lparr>li_load1 = Num 0, li_load5 = Num 0, li_load15 = Num 0\<rparr>,
       sy_disks = Inr [\<lparr>di_device_name = ''sda'', di_read_completed = 1, di_write_completed = 2\<rparr>]\<rparr>,
     ls_files = (\<lambda>_. http_error ''404 page not found'' 404)\<rparr>"

definition demo_world :: "(string \<Rightarrow> shown_entry list) node_state" where
  "demo_world = \<lparr>ns_host = \<lparr>config_file = ''global'', pid_file = None, spawned = []\<rparr>, ns_sock = (\<lambda>_. demo_entries)\<rparr>"

definition demo_browser :: page_env where
  "demo_browser = \<lparr>type_error = ''TypeError'', fetch_error = ''TypeError: Failed to fetch'', to_fixed = (\<lambda>_ v. Some (to_str v)),
     parse_json = (\<lambda>_. Inl ''SyntaxError''), char_refs = (\<lambda>s. s), json_text = (\<lambda>_. [])\<rparr>"

definition demo_page :: page_state where
  "demo_page = upd (\<lambda>p. p\<lparr>selectedMap := Some ''/etc/a b?%.map'', inputs := (\<lambda>_. ''x/y'')\<rparr>) page_start"

theorem actions_reach_their_rpc_witness:
  "\<exists>rq. calls (mapUpdate True demo_page) = calls demo_page @ [(rq, P_Map_Update)]
    \<and> listener_serve (demo_listener False) rq = relayed (demo_relay False) ''MapUpdate''
        (api_MapUpdate (demo_api False) ''/etc/a b?%.map'' ''x/y'' ''x/y'' True) empty_struct"
  using actions_reach_their_rpc [of "''/etc/a b?%.map''" demo_page "''x/y''" "''x''" False "demo_listener False" True]
  by (simp add: demo_page_def upd_def plain_name_def demo_listener_def demo_relay_def)

section \<open>What the page never shows\<close>

text \<open>
  No page the node answers has a backend: its \<open>BackendList\<close> is not implemented, so the answer is
  an error, the table stays empty and no element exists that could change a server's state.
\<close>

definition backends_call :: "request \<times> page_cont \<Rightarrow> bool" where
  "backends_call c \<longleftrightarrow> snd c \<noteq> P_Server_State \<and> (snd c = P_Backends \<longrightarrow> fst c = get_request ''/api/haproxy/backends'')"

definition page_bare :: "page_state \<Rightarrow> bool" where
  "page_bare s \<longleftrightarrow> el_backends (pg s) = [] \<and> server_selects (pg s) = [] \<and> list_all backends_call (calls s)"

text \<open>Running from \<open>s\<close> to \<open>t\<close>: the page stays bare and calls are only added at the end.\<close>

definition grows :: "page_state \<Rightarrow> page_state \<Rightarrow> bool" where
  "grows s t \<longleftrightarrow> (page_bare s \<longrightarrow> page_bare t) \<and> (\<exists>cs. calls t = calls s @ cs)"

lemma grows_refl [simp]: "grows s s"
  by (simp add: grows_def)

lemma grows_trans: "grows s t \<Longrightarrow> grows t u \<Longrightarrow> grows s u"
  by (auto simp: grows_def)

lemma grows_call: "backends_call (rq, k) \<Longrightarrow> grows s (call rq k s)"
  by (simp add: grows_def call_def page_bare_def)

lemma grows_upd: "el_backends (f (pg s)) = el_backends (pg s) \<Longrightarrow> server_selects (f (pg s)) = server_selects (pg s) \<Longrightarrow> grows s (upd f s)"
  by (simp add: grows_def upd_def page_bare_def)

lemma grows_call_upd:
  "backends_call (rq, k) \<Longrightarrow> el_backends (f (pg s)) = el_backends (pg s) \<Longrightarrow> server_selects (f (pg s)) = server_selects (pg s)
    \<Longrightarrow> grows s (call rq k (upd f s))"
  using grows_trans grows_call grows_upd by blast

definition keeps_bare :: "(page \<Rightarrow> page) \<Rightarrow> bool" where
  "keeps_bare f \<longleftrightarrow> (\<forall>p. el_backends (f p) = el_backends p \<and> server_selects (f p) = server_selects p)"

lemma grows_keeps: "keeps_bare f \<Longrightarrow> grows s (upd f s)"
  by (simp add: keeps_bare_def grows_upd)

lemma grows_assign: "\<forall>a \<in> set as. \<forall>x. keeps_bare (snd a x) \<Longrightarrow> grows s (fst (assign as s))"
proof (induction as s rule: assign.induct)
  case (2 r f rest s)
  then show ?case by (cases r) (auto intro: grows_trans [OF grows_keeps])
qed simp

lemma grows_and_then: "grows s (fst r) \<Longrightarrow> (\<And>t. grows t (f t)) \<Longrightarrow> grows s (fst (and_then r f))"
  by (auto simp: and_then_def intro: grows_trans)

lemma backends_call_simps [simp]:
  "backends_call (rq, P_Info)" "backends_call (rq, P_System)" "backends_call (rq, P_Config_Load)" "backends_call (rq, P_Config_After)"
  "backends_call (rq, P_Maps)" "backends_call (rq, P_Certs)" "backends_call (rq, P_Apply)" "backends_call (rq, P_Select m b)"
  "backends_call (rq, P_Map_Update)" "backends_call (rq, P_Acl)" "backends_call (rq, P_Cert_Delete)" "backends_call (rq, P_Cert_Upload)"
  "backends_call (get_request ''/api/haproxy/backends'', P_Backends)" "\<not> backends_call (rq, P_Server_State)"
  by (simp_all add: backends_call_def)

lemma grows_selectMap [simp]: "grows s (selectMap m f s)"
  unfolding selectMap_def by (intro grows_call_upd) simp_all

lemma grows_refreshCerts [simp]: "grows s (refreshCerts s)"
  unfolding refreshCerts_def by (intro grows_call) simp

lemma grows_refreshBackends [simp]: "grows s (refreshBackends s)"
  unfolding refreshBackends_def by (intro grows_call) simp

lemma grows_refreshAll [simp]: "grows s (refreshAll s)"
  unfolding refreshAll_def by (intro grows_call_upd) simp_all

lemma grows_on_error [simp]: "grows s (on_error k e s)"
  by (auto simp: on_error_def showError_def intro!: grows_upd split: page_cont.splits bool.splits)

lemma grows_on_value: "k \<noteq> P_Backends \<Longrightarrow> k \<noteq> P_Server_State \<Longrightarrow> grows s (fst (on_value B k v s))"
  by (cases k) (auto simp: rest_defs keeps_bare_def Let_def loadConfig_def refreshCerts_def simp del: assign.simps
      intro!: grows_and_then grows_assign grows_call grows_upd grows_call_upd split: option.splits)

lemma grows_resume: "(k = P_Backends \<longrightarrow> isl r) \<Longrightarrow> k \<noteq> P_Server_State \<Longrightarrow> grows s (resume_page B k r s)"
proof (cases r)
  case (Inr v)
  assume "k = P_Backends \<longrightarrow> isl r" "k \<noteq> P_Server_State"
  with Inr have g: "grows s (fst (on_value B k v s))" by (intro grows_on_value) auto
  obtain t b where tb: "on_value B k v s = (t, b)" by (cases "on_value B k v s")
  with g have "grows s t" by simp
  then show ?thesis by (cases b) (auto simp: resume_page_def Inr tb intro: grows_trans)
qed (simp add: resume_page_def)

lemma grows_step: "(\<And>i r. ev \<noteq> Answered i r) \<Longrightarrow> grows s (page_step B ev s)"
proof (cases ev)
  case (Change_State i v)
  then show ?thesis by (auto simp: page_step_def Let_def grows_def page_bare_def change_state_def call_def)
qed (auto simp: page_step_def Let_def submit_map_def submit_acl_def submit_cert_def submit_config_def upload_cert_def delete_cert_def mapUpdate_def aclUpdate_def
    intro!: grows_upd grows_call grows_call_upd split: option.splits)

definition refused :: "(string + jsval) option \<Rightarrow> bool" where
  "refused a = (case a of None \<Rightarrow> True | Some (Inl e) \<Rightarrow> e \<noteq> [] | Some (Inr _) \<Rightarrow> False)"

definition backends_refused :: "request \<times> page_cont \<Rightarrow> (string + jsval) option \<Rightarrow> bool" where
  "backends_refused c a = (if snd c = P_Backends then refused a else snd c \<noteq> P_Server_State)"

definition world_ok :: "'s world \<Rightarrow> bool" where
  "world_ok w \<longleftrightarrow> page_bare (wd_page w) \<and> list_all2 backends_refused (calls (wd_page w)) (wd_answers w)"

lemma refused_None [simp]: "backends_call c \<Longrightarrow> backends_refused c None"
  by (simp add: backends_refused_def refused_def backends_call_def)

lemma world_ok_set_page:
  assumes "grows p q" "page_bare p" "list_all2 backends_refused (calls p) as"
  shows "world_ok (set_page q as w)"
proof -
  obtain cs where cs: "calls q = calls p @ cs" and q: "page_bare q" using assms by (auto simp: grows_def)
  then have "list_all backends_call cs" by (simp add: page_bare_def)
  then have "list_all2 backends_refused cs (replicate (length cs) None)"
    by (simp add: list_all2_conv_all_nth list_all_length)
  with q assms(3) list_all2_lengthD [OF assms(3)] show ?thesis
    by (simp add: world_ok_def set_page_def cs list_all2_appendI)
qed

lemma backends_answer: "\<exists>e. listener_serve L (get_request ''/api/haproxy/backends'') st = (http_error e 502, st)"
proof -
  have "raw_path ''/api/haproxy/backends'' = ''/api/haproxy/backends''" "path_unescape ''/api/haproxy/backends'' = Some ''/api/haproxy/backends''"
    by (simp_all add: raw_path_def)
  then show ?thesis
    by (auto simp: listener_serve_def get_request_def ops_route_def Let_def withHAProxyClient_def call_BackendList_def
        split: option.splits sum.splits)
qed

lemma api_outcome_error: "\<exists>e. api_outcome B (http_error m 502) = Inl e \<and> e \<noteq> []"
  by (simp add: api_outcome_def http_error_def err_string_def)

lemma list_all2_delete: "list_all2 P xs ys \<Longrightarrow> list_all2 P (take i xs @ drop (Suc i) xs) (take i ys @ drop (Suc i) ys)"
  by (intro list_all2_appendI list_all2_takeI list_all2_dropI)

lemma world_ok_start: "world_ok (node_start st)"
  by (simp add: node_start_def world_ok_def page_start_def refreshAll_def loadConfig_def call_def upd_def page_bare_def
      backends_refused_def)

text \<open>The answer a call of a well-formed world may get, and what follows when the page takes it.\<close>

lemma world_ok_answer:
  assumes "world_ok w" "i < length (wd_answers w) \<Longrightarrow> backends_refused (calls (wd_page w) ! i) (Some r)"
  shows "world_ok (w\<lparr>wd_node := st, wd_answers := (wd_answers w)[i := Some r]\<rparr>)"
proof (cases "i < length (wd_answers w)")
  case True
  with assms list_all2_update_cong [of backends_refused "calls (wd_page w)" "wd_answers w" "calls (wd_page w) ! i" "Some r" i]
  show ?thesis by (simp add: world_ok_def)
qed (use assms in \<open>simp add: world_ok_def list_update_beyond\<close>)

lemma world_ok_deliver:
  assumes "world_ok w" "i < length (wd_answers w)" "wd_answers w ! i = Some r"
  shows "world_ok (set_page (page_step B (Answered i r) (wd_page w)) (take i (wd_answers w) @ drop (Suc i) (wd_answers w)) w)"
proof -
  let ?c = "calls (wd_page w) ! i" and ?p = "drop_call i (wd_page w)"
  have bare: "page_bare (wd_page w)" and all: "list_all2 backends_refused (calls (wd_page w)) (wd_answers w)"
    using assms(1) by (simp_all add: world_ok_def)
  have "backends_refused ?c (Some r)" using list_all2_nthD2 [OF all assms(2)] assms(3) by simp
  then have "grows ?p (resume_page B (snd ?c) r ?p)"
    by (intro grows_resume) (auto simp: backends_refused_def refused_def split: if_splits sum.splits)
  moreover have "page_bare ?p" using bare by (auto simp: page_bare_def drop_call_def list_all_iff dest: in_set_takeD in_set_dropD)
  moreover have "list_all2 backends_refused (calls ?p) (take i (wd_answers w) @ drop (Suc i) (wd_answers w))"
    using list_all2_delete [OF all] by (simp add: drop_call_def)
  ultimately have "world_ok (set_page (resume_page B (snd ?c) r ?p) (take i (wd_answers w) @ drop (Suc i) (wd_answers w)) w)"
    by (rule world_ok_set_page)
  then show ?thesis using assms(2) list_all2_lengthD [OF all] by (simp add: page_step_def Let_def)
qed

lemma served_refused:
  assumes "world_ok w" "i < length (wd_answers w)" "listener_serve L (fst (calls (wd_page w) ! i)) st = (r, st')"
  shows "backends_refused (calls (wd_page w) ! i) (Some (api_outcome B r))"
proof -
  let ?c = "calls (wd_page w) ! i"
  have bare: "list_all backends_call (calls (wd_page w))" and all: "list_all2 backends_refused (calls (wd_page w)) (wd_answers w)"
    using assms(1) by (simp_all add: world_ok_def page_bare_def)
  then have call: "backends_call ?c" using assms(2) list_all2_lengthD [OF all] by (simp add: list_all_length)
  show ?thesis
  proof (cases "snd ?c = P_Backends")
    case True
    with call have "fst ?c = get_request ''/api/haproxy/backends''" by (simp add: backends_call_def)
    then obtain m where "r = http_error m 502" using backends_answer [of L st] assms(3) by auto
    then show ?thesis using True api_outcome_error [of B m] by (auto simp: backends_refused_def refused_def)
  qed (use call in \<open>simp add: backends_refused_def backends_call_def\<close>)
qed

lemma lost_refused:
  assumes "world_ok w" "i < length (wd_answers w)" "e \<noteq> []"
  shows "backends_refused (calls (wd_page w) ! i) (Some (Inl e))"
proof -
  have "backends_refused (calls (wd_page w) ! i) (wd_answers w ! i)"
    using assms by (simp add: world_ok_def list_all2_nthD2)
  then show ?thesis using assms(3) by (simp add: backends_refused_def refused_def)
qed

lemma world_ok_step:
  assumes ok: "world_ok w" and net: "fetch_error B \<noteq> []"
  shows "world_ok (node_step B L ev w)"
proof (cases ev)
  case (Page e)
  show ?thesis
  proof (cases "\<exists>i r. e = Answered i r")
    case False
    then have "node_step B L ev w = set_page (page_step B e (wd_page w)) (wd_answers w) w"
      by (cases e) (simp_all add: Page node_step_def)
    with False ok show ?thesis by (auto simp: world_ok_def [of w] intro!: world_ok_set_page grows_step)
  qed (use ok Page in \<open>auto simp: node_step_def\<close>)
next
  case (Serve i)
  obtain r st where "listener_serve L (fst (calls (wd_page w) ! i)) (wd_node w) = (r, st)" by fastforce
  with ok show ?thesis by (auto simp: Serve node_step_def intro: world_ok_answer served_refused)
next
  case (Lose i)
  have "world_ok (w\<lparr>wd_node := wd_node w, wd_answers := (wd_answers w)[i := Some (Inl (fetch_error B))]\<rparr>)"
    using ok net by (intro world_ok_answer lost_refused)
  then show ?thesis by (simp add: Lose node_step_def)
next
  case (Deliver i)
  with ok show ?thesis by (auto simp: node_step_def world_ok_deliver split: option.splits)
qed

lemma world_ok_run: "fetch_error B \<noteq> [] \<Longrightarrow> world_ok (node_run B L evs st)"
  unfolding node_run_def
  by (induction evs rule: rev_induct) (simp_all add: world_ok_start world_ok_step)

text \<open>
  C15: In every run of the page against its node, whatever the user does and however calls are
  served, lost and reordered: the table of backends stays empty, no control for a server's state
  ever exists and no change of one is ever requested, because every answer to the request for the
  backends is an error.
\<close>

theorem backends_never_shown:
  assumes "fetch_error B \<noteq> []"
  shows "el_backends (pg (wd_page (node_run B L evs st))) = [] \<and> server_selects (pg (wd_page (node_run B L evs st))) = []
    \<and> list_all2 backends_refused (calls (wd_page (node_run B L evs st))) (wd_answers (node_run B L evs st))"
  using world_ok_run [OF assms, of L evs st] by (simp add: world_ok_def page_bare_def)

theorem backends_never_shown_witness:
  "el_backends (pg (wd_page (node_run demo_browser (demo_listener False) [Serve 0, Deliver 0, Page Tick] demo_world))) = []"
proof -
  have "fetch_error demo_browser \<noteq> []" by (simp add: demo_browser_def)
  then show ?thesis using backends_never_shown [of demo_browser "demo_listener False" "[Serve 0, Deliver 0, Page Tick]"] by blast
qed

text \<open>
  Each refresh of the page that gets as far as the backends ends with an error in the banner:
  when the page takes the answer to that request, the banner is not empty and no call follows.
\<close>

theorem refresh_ends_in_an_error:
  assumes "fetch_error B \<noteq> []" and w: "w = node_run B L evs st"
    and i: "i < length (wd_answers w)" "wd_answers w ! i \<noteq> None" and k: "snd (calls (wd_page w) ! i) = P_Backends"
  shows "el_error (pg (wd_page (node_step B L (Deliver i) w))) \<noteq> []
    \<and> calls (wd_page (node_step B L (Deliver i) w)) = take i (calls (wd_page w)) @ drop (Suc i) (calls (wd_page w))"
proof -
  have all: "list_all2 backends_refused (calls (wd_page w)) (wd_answers w)"
    using world_ok_run [OF assms(1), of L evs st] w by (simp add: world_ok_def)
  obtain r where r: "wd_answers w ! i = Some r" using i(2) by auto
  have "backends_refused (calls (wd_page w) ! i) (Some r)" using list_all2_nthD2 [OF all i(1)] r by simp
  then obtain e where e: "r = Inl e" "e \<noteq> []" using k by (auto simp: backends_refused_def refused_def split: sum.splits)
  have "i < length (calls (wd_page w))" using i(1) list_all2_lengthD [OF all] by simp
  with e r k i show ?thesis
    by (simp add: node_step_def set_page_def page_step_def Let_def resume_page_def on_error_def showError_def upd_def drop_call_def)
qed

definition demo_refresh :: "(string \<Rightarrow> shown_entry list) world" where
  "demo_refresh = node_run demo_browser (demo_listener False) [Serve 0, Deliver 0, Serve 1, Deliver 1, Serve 1] demo_world"

lemma demo_refresh_at_backends:
  "let w = demo_refresh in snd (calls (wd_page w) ! 1) = P_Backends \<and> 1 < length (wd_answers w) \<and> \<not> Option.is_none (wd_answers w ! 1)"
  by code_simp

theorem refresh_ends_in_an_error_witness:
  "el_error (pg (wd_page (node_step demo_browser (demo_listener False) (Deliver 1) demo_refresh))) \<noteq> []"
proof -
  have "fetch_error demo_browser \<noteq> []" by (simp add: demo_browser_def)
  moreover have "wd_answers demo_refresh ! 1 \<noteq> None" using demo_refresh_at_backends by (auto simp: Let_def Option.is_none_def)
  ultimately show ?thesis
    using refresh_ends_in_an_error [OF _ demo_refresh_def, of 1] demo_refresh_at_backends unfolding Let_def by blast
qed

end
