(* ===== verification/Node_Page_Effects.thy ===== *)
theory Node_Page_Effects
  imports Node_Page_Properties
begin

text \<open>
  What the per-node page shows after the user's actions: the outcome of an applied configuration,
  the configuration it loads and sends back, the entries of the map it names, and the counters.
\<close>

section \<open>Applying a configuration\<close>

text \<open>What the page reports of the outcome of \<open>Apply\<close>.\<close>

definition apply_report :: "string list \<times> string option \<Rightarrow> string" where
  "apply_report r = (case snd r of None \<Rightarrow> ''done: '' | Some _ \<Rightarrow> ''rejected: '' @ join_with ''; '' (fst r))"

lemma ApplyConfig_last:
  "\<exists>ms. api_ApplyConfig a None cfg st = ((ms, None), st\<lparr>ns_host := snd (Apply (ha_manager a) (ha_env a) cfg (ns_host st))\<rparr>)
    \<and> ms \<noteq> [] \<and> last ms = (let r = fst (Apply (ha_manager a) (ha_env a) cfg (ns_host st)) in
        case snd r of None \<Rightarrow> progress ''done'' [] True | Some _ \<Rightarrow> progress ''rejected'' (join_with ''; '' (fst r)) False)"
  by (auto simp: api_ApplyConfig_def send_at_def Let_def case_prod_beta split: option.splits)

lemma route_config: "rq_path rq = ''/api/haproxy/config'' \<Longrightarrow> ops_route rl rq = Some (handle_config rl rq)"
  by (simp add: ops_route_def raw_path_def Let_def)

lemma Validate_errors: "\<not> fst (Validate E cfg) \<Longrightarrow> snd (Validate E cfg) \<noteq> []"
  by (auto simp: Validate_def Let_def split: option.splits if_splits)

lemma Apply_cases:
  "Apply m E cfg h = (if \<not> fst (Validate E cfg) then ((snd (Validate E cfg), Some ''invalid config''), h)
     else case write_error E of
       Some (e, held) \<Rightarrow> (([], Some (''write config: '' @ e)), h\<lparr>config_file := held\<rparr>)
     | None \<Rightarrow> let (r, h') = startOrReload m E (h\<lparr>config_file := cfg\<rparr>) in (([], r), h'))"
  by (cases "Validate E cfg") (auto simp: Apply_def split: bool.splits)

text \<open>A configuration takes effect when it is valid, written, and HAProxy is started with it.\<close>

definition takes_effect :: "haproxy_env \<Rightarrow> string \<Rightarrow> bool" where
  "takes_effect E cfg \<longleftrightarrow> fst (Validate E cfg) \<and> write_error E = None \<and> start_error E = None"

lemma Apply_result:
  "fst (Apply m E cfg h) = (if \<not> fst (Validate E cfg) then (snd (Validate E cfg), Some ''invalid config'')
     else ([], if takes_effect E cfg then None else snd (fst (Apply m E cfg h))))"
  "snd (fst (Apply m E cfg h)) = None \<longleftrightarrow> takes_effect E cfg"
  "config_file (snd (Apply m E cfg h)) = (if \<not> fst (Validate E cfg) then config_file h
     else case write_error E of None \<Rightarrow> cfg | Some (e, held) \<Rightarrow> held)"
  "spawned (snd (Apply m E cfg h)) \<noteq> spawned h \<longleftrightarrow> takes_effect E cfg"
  by (auto simp: Apply_cases startOrReload_def takes_effect_def Let_def split: option.splits)

definition relay_up :: "'s relay \<Rightarrow> string list \<Rightarrow> bool" where
  "relay_up rl ms \<longleftrightarrow> rl_dial rl = None \<and> rl_lost rl = None \<and> list_all (\<lambda>m. checkRole (rl_peer rl) (haproxy_method m) = Inr ()) ms"

lemma serve_apply:
  assumes "relay_up (ls_relay L) [''ApplyConfig'']"
  shows "\<exists>m. listener_serve L (json_request ''POST'' ''/api/haproxy/config'' [(''config'', Str cfg)]) st =
      (writeJSON 200 (apply_json m), st\<lparr>ns_host := snd (Apply (ha_manager (rl_api (ls_relay L))) (ha_env (rl_api (ls_relay L))) cfg (ns_host st))\<rparr>)
    \<and> m = (let r = fst (Apply (ha_manager (rl_api (ls_relay L))) (ha_env (rl_api (ls_relay L))) cfg (ns_host st)) in
        case snd r of None \<Rightarrow> progress ''done'' [] True | Some _ \<Rightarrow> progress ''rejected'' (join_with ''; '' (fst r)) False)"
  using assms ApplyConfig_last [of "rl_api (ls_relay L)" cfg st]
  by (auto simp: listener_serve_def route_config json_request_def handle_config_def handleApplyConfig_def decoded_def relay_up_def)

lemma Apply_message:
  "(let r = fst (Apply m E cfg h) in case snd r of None \<Rightarrow> progress ''done'' [] True | Some _ \<Rightarrow> progress ''rejected'' (join_with ''; '' (fst r)) False)
   = (if takes_effect E cfg then progress ''done'' [] True else progress ''rejected'' (join_with ''; '' (snd (Validate E cfg))) False)"
proof -
  have "fst (Validate E cfg) \<Longrightarrow> snd (Validate E cfg) = []"
    by (auto simp: Validate_def Let_def split: option.splits if_splits)
  then have "fst (fst (Apply m E cfg h)) = snd (Validate E cfg)" by (subst Apply_result(1)) auto
  then show ?thesis using Apply_result(2) [of m E cfg h] by (auto simp: Let_def split: option.splits)
qed

text \<open>
  The same without any assumption on the relay: a call that is not admitted or breaks off at its
  first message changes nothing; any other runs \<open>Apply\<close> to its end, whether or not its messages
  arrive.
\<close>

definition apply_admitted :: "'s relay \<Rightarrow> bool" where
  "apply_admitted rl \<longleftrightarrow> rl_dial rl = None \<and> checkRole (rl_peer rl) (haproxy_method ''ApplyConfig'') = Inr () \<and> send_at (rl_lost rl) 0 = None"

lemma ApplyConfig_any:
  assumes "api_ApplyConfig a lost cfg st = ((ms, err), st')"
  shows "send_at lost 0 \<noteq> None \<Longrightarrow> st' = st \<and> err \<noteq> None"
    and "send_at lost 0 = None \<Longrightarrow> st' = st\<lparr>ns_host := snd (Apply (ha_manager a) (ha_env a) cfg (ns_host st))\<rparr>"
    and "err = None \<Longrightarrow> ms \<noteq> [] \<and> (am_accepted (last ms) \<longrightarrow> takes_effect (ha_env a) cfg)"
    and "lost = None \<Longrightarrow> err = None"
  using assms Apply_result(2) [of "ha_manager a" "ha_env a" cfg "ns_host st"]
  by (auto simp: api_ApplyConfig_def send_at_def progress_def Let_def split: option.splits prod.splits if_splits)

lemma serve_apply_any:
  fixes L :: "'s listener" and cfg st
  defines "a \<equiv> rl_api (ls_relay L)"
  assumes "listener_serve L (json_request ''POST'' ''/api/haproxy/config'' [(''config'', Str cfg)]) st = (r, st')"
  shows "\<not> apply_admitted (ls_relay L) \<Longrightarrow> st' = st \<and> hs_status r = 502"
    and "apply_admitted (ls_relay L) \<Longrightarrow> st' = st\<lparr>ns_host := snd (Apply (ha_manager a) (ha_env a) cfg (ns_host st))\<rparr>"
    and "hs_status r = 502 \<or> (apply_admitted (ls_relay L) \<and> (\<exists>m. r = writeJSON 200 (apply_json m) \<and> (am_accepted m \<longrightarrow> takes_effect (ha_env a) cfg)))"
proof -
  obtain ms err st2 where run: "api_ApplyConfig a (rl_lost (ls_relay L)) cfg st = ((ms, err), st2)" by (metis surj_pair)
  have serve: "(r, st') = (if rl_dial (ls_relay L) \<noteq> None \<or> checkRole (rl_peer (ls_relay L)) (haproxy_method ''ApplyConfig'') \<noteq> Inr ()
      then (r, st) else (r, st2)) \<and> (hs_status r = 502 \<or> rl_dial (ls_relay L) = None
        \<and> checkRole (rl_peer (ls_relay L)) (haproxy_method ''ApplyConfig'') = Inr () \<and> err = None \<and> r = writeJSON 200 (apply_json (last ms)))"
    using assms(2) run ApplyConfig_any(3) [OF run] unfolding a_def
    by (auto simp: listener_serve_def route_config json_request_def handle_config_def handleApplyConfig_def decoded_def http_error_def
        split: option.splits sum.splits if_splits)
  note any = ApplyConfig_any [OF run]
  show "\<not> apply_admitted (ls_relay L) \<Longrightarrow> st' = st \<and> hs_status r = 502"
    using serve any(1) by (auto simp: apply_admitted_def split: if_splits)
  show "apply_admitted (ls_relay L) \<Longrightarrow> st' = st\<lparr>ns_host := snd (Apply (ha_manager a) (ha_env a) cfg (ns_host st))\<rparr>"
    using serve any(2) by (auto simp: apply_admitted_def)
  show "hs_status r = 502 \<or> (apply_admitted (ls_relay L) \<and> (\<exists>m. r = writeJSON 200 (apply_json m) \<and> (am_accepted m \<longrightarrow> takes_effect (ha_env a) cfg)))"
    using serve any(1,3) by (cases "send_at (rl_lost (ls_relay L)) 0") (auto simp: apply_admitted_def)
qed

text \<open>
  C13: Applying the configuration in the page's text field. If the call is refused, does not reach
  the node or breaks off before the node has begun, nothing changes and the page shows an error.
  Otherwise, whether or not the node's messages arrive: one that is invalid leaves the file and the
  process alone, a valid one is written, and HAProxy is started again exactly when it is valid, could
  be written and HAProxy starts. The page never says \<open>done\<close> without that; and when no message of the
  stream is lost the page says \<open>done\<close> exactly then, and else that it was rejected, with HAProxy's
  errors when it is invalid and without a reason when writing or starting failed. With a lost stream
  the page can show an error although the configuration is in effect.
\<close>

theorem apply_is_reported:
  fixes L :: "'s listener" and s t :: page_state
  defines "H \<equiv> ha_env (rl_api (ls_relay L))"
  assumes rq: "calls (submit_config s) = calls s @ [(rq, P_Apply)]" and run: "listener_serve L rq st = (r, st')"
    and t': "t' = resume_page B P_Apply (api_outcome B r) t"
  shows "(\<not> apply_admitted (ls_relay L) \<longrightarrow> st' = st \<and> config_class (pg t') = ''error'')
    \<and> (apply_admitted (ls_relay L) \<longrightarrow>
        config_file (ns_host st') = (if \<not> fst (Validate H (config_text (pg s))) then config_file (ns_host st)
          else case write_error H of None \<Rightarrow> config_text (pg s) | Some (e, held) \<Rightarrow> held)
      \<and> (spawned (ns_host st') \<noteq> spawned (ns_host st)) = takes_effect H (config_text (pg s)))
    \<and> (config_class (pg t') = ''ok'' \<longrightarrow> apply_admitted (ls_relay L) \<and> takes_effect H (config_text (pg s)))
    \<and> (apply_admitted (ls_relay L) \<and> rl_lost (ls_relay L) = None \<longrightarrow>
        config_result (pg t') = (if takes_effect H (config_text (pg s)) then ''done: ''
          else ''rejected: '' @ join_with ''; '' (snd (Validate H (config_text (pg s)))))
      \<and> config_class (pg t') = (if takes_effect H (config_text (pg s)) then ''ok'' else ''error''))"
proof -
  define a where "a = rl_api (ls_relay L)"
  let ?cfg = "config_text (pg s)"
  let ?A = "Apply (ha_manager a) (ha_env a) ?cfg (ns_host st)"
  have H: "H = ha_env a" by (simp add: H_def a_def)
  have rq': "rq = json_request ''POST'' ''/api/haproxy/config'' [(''config'', Str ?cfg)]"
    using rq by (simp add: submit_config_def call_def upd_def)
  note any = serve_apply_any [OF run [unfolded rq'], folded a_def]
  have failed: "config_class (pg t') = ''error''" if "hs_status r = 502"
    using that by (simp add: t' api_outcome_def resume_page_def upd_def on_error_def)
  have shown: "config_result (pg t') = am_stage m @ '': '' @ am_message m \<and> config_class (pg t') = (if am_accepted m then ''ok'' else ''error'')"
    if "r = writeJSON 200 (apply_json m)" for m
    using that by (simp add: t' api_outcome_def writeJSON_def resume_page_def rest_defs field_def apply_json_def Let_def upd_def loadConfig_def call_def)
  have "config_result (pg t') = (if takes_effect H ?cfg then ''done: '' else ''rejected: '' @ join_with ''; '' (snd (Validate H ?cfg)))
      \<and> config_class (pg t') = (if takes_effect H ?cfg then ''ok'' else ''error'')"
    if "apply_admitted (ls_relay L)" "rl_lost (ls_relay L) = None"
  proof -
    have "relay_up (ls_relay L) [''ApplyConfig'']" using that by (simp add: apply_admitted_def relay_up_def)
    then obtain m where r: "r = writeJSON 200 (apply_json m)"
      and m: "m = (let r = fst ?A in case snd r of None \<Rightarrow> progress ''done'' [] True | Some _ \<Rightarrow> progress ''rejected'' (join_with ''; '' (fst r)) False)"
      using serve_apply [of L ?cfg st] run rq' by (auto simp: a_def)
    have "m = (if takes_effect H ?cfg then progress ''done'' [] True else progress ''rejected'' (join_with ''; '' (snd (Validate H ?cfg))) False)"
      unfolding m H by (rule Apply_message)
    with shown [OF r] show ?thesis by (simp add: progress_def)
  qed
  moreover have "apply_admitted (ls_relay L) \<and> takes_effect H ?cfg" if ok: "config_class (pg t') = ''ok''"
  proof -
    have "hs_status r \<noteq> 502" using failed ok by auto
    then obtain m where "apply_admitted (ls_relay L)" "r = writeJSON 200 (apply_json m)" "am_accepted m \<longrightarrow> takes_effect H ?cfg"
      using any(3) unfolding H by blast
    moreover from shown [OF this(2)] ok have "am_accepted m" by (simp split: if_splits)
    ultimately show ?thesis by simp
  qed
  moreover have "config_file (ns_host st') = (if \<not> fst (Validate H ?cfg) then config_file (ns_host st)
        else case write_error H of None \<Rightarrow> ?cfg | Some (e, held) \<Rightarrow> held)
      \<and> (spawned (ns_host st') \<noteq> spawned (ns_host st)) = takes_effect H ?cfg" if "apply_admitted (ls_relay L)"
    using any(2) [OF that] by (simp add: H Apply_result(3,4))
  ultimately show ?thesis using any(1) failed by blast
qed

definition typed_page :: "string \<Rightarrow> page_state" where
  "typed_page cfg = upd (\<lambda>p. p\<lparr>config_text := cfg\<rparr>) page_start"

lemma demo_relay_up: "relay_up (ls_relay (demo_listener full)) [''ApplyConfig'', ''GetConfig'']"
  by (simp add: relay_up_def demo_listener_def demo_relay_def checkRole_def required_for_cases roles_meet_iff adminOnly_def
      adminOrReader_def Let_def)

lemma demo_env_check [simp]: "fst (Validate (demo_env full) ''global'')" "snd (Validate (demo_env full) ''global'') = []"
  by (simp_all add: Validate_def demo_env_def)

theorem apply_is_reported_witness:
  "\<exists>r st' rq. listener_serve (demo_listener True) rq demo_world = (r, st')
    \<and> config_result (pg (resume_page demo_browser P_Apply (api_outcome demo_browser r) page_start)) = ''rejected: ''
    \<and> config_file (ns_host st') = [] \<and> config_file (ns_host demo_world) = ''global''"
proof -
  obtain rq where rq: "calls (submit_config (typed_page ''global'')) = calls (typed_page ''global'') @ [(rq, P_Apply)]"
    by (auto simp: submit_config_def call_def upd_def)
  obtain r st' where run: "listener_serve (demo_listener True) rq demo_world = (r, st')" by fastforce
  have up: "relay_up (ls_relay (demo_listener True)) [''ApplyConfig'']"
    using demo_relay_up [of True] by (simp add: relay_up_def)
  have "\<not> takes_effect (demo_env True) ''global''" "write_error (demo_env True) = Some (''no space left on device'', [])"
    by (simp_all add: takes_effect_def demo_env_def)
  moreover have "apply_admitted (ls_relay (demo_listener True)) \<and> rl_lost (ls_relay (demo_listener True)) = None"
    using up by (simp add: apply_admitted_def relay_up_def send_at_def)
  ultimately show ?thesis using apply_is_reported [OF rq run refl, of demo_browser page_start] run
    by (auto simp: typed_page_def upd_def demo_listener_def demo_relay_def demo_api_def demo_world_def)
qed

section \<open>Loading a configuration and sending it back\<close>

lemma textarea_plain_iff: "textarea_value s = s \<longleftrightarrow> CHR 0x0D \<notin> set s"
proof
  show "CHR 0x0D \<notin> set s \<Longrightarrow> textarea_value s = s" by (induction s) auto
  have "CHR 0x0D \<notin> set (textarea_value s)" by (induction s rule: textarea_value.induct) (auto split: list.splits)
  then show "textarea_value s = s \<Longrightarrow> CHR 0x0D \<notin> set s" by metis
qed

text \<open>
  Loading the configuration into the page and applying it unedited writes the file back
  with its line ends turned into newlines: exactly as it was when it has no carriage return,
  changed otherwise, provided the node takes it.
\<close>

theorem loaded_config_is_written_back:
  fixes L :: "'s listener" and s :: page_state and st :: "'s node_state"
  defines "a \<equiv> rl_api (ls_relay L)" and "cfg \<equiv> config_file (ns_host st)"
  assumes up: "relay_up (ls_relay L) [''ApplyConfig'', ''GetConfig'']" and read: "ha_read_error (rl_api (ls_relay L)) = None"
    and load: "listener_serve L (get_request ''/api/haproxy/config'') st = (r, st1)"
    and loaded: "s' = resume_page B P_Config_Load (api_outcome B r) s"
    and rq: "calls (submit_config s') = calls s' @ [(rq, P_Apply)]" and run: "listener_serve L rq st1 = (r', st')"
    and accepted: "takes_effect (ha_env a) (textarea_value cfg)"
  shows "config_text (pg s') = textarea_value cfg \<and> config_file (ns_host st') = textarea_value cfg
    \<and> (config_file (ns_host st') = cfg \<longleftrightarrow> CHR 0x0D \<notin> set cfg)"
proof -
  have "r = writeJSON 200 (config_message (cfg, ha_sha256 a cfg))" and st1: "st1 = st"
    using load up read by (auto simp: a_def cfg_def listener_serve_def route_config get_request_def handle_config_def relayed_def
        withHAProxyClient_def call_rpc_def api_GetConfig_def relay_up_def)
  then have shown: "config_text (pg s') = textarea_value cfg"
    by (simp add: loaded api_outcome_def writeJSON_def resume_page_def rest_defs field_def config_value_def config_message_def
        and_then_def upd_def call_def)
  have rq': "rq = json_request ''POST'' ''/api/haproxy/config'' [(''config'', Str (textarea_value cfg))]"
    using rq by (simp add: submit_config_def call_def upd_def shown)
  have "config_file (ns_host st') = textarea_value cfg"
  proof -
    have "relay_up (ls_relay L) [''ApplyConfig'']" using up by (simp add: relay_up_def)
    from serve_apply [OF this, of "textarea_value cfg" st] run
    have "st' = st\<lparr>ns_host := snd (Apply (ha_manager a) (ha_env a) (textarea_value cfg) (ns_host st))\<rparr>"
      unfolding rq' st1 a_def by auto
    moreover have "fst (Validate (ha_env a) (textarea_value cfg))" "write_error (ha_env a) = None"
      using accepted by (simp_all add: takes_effect_def)
    ultimately show ?thesis by (simp add: Apply_result(3))
  qed
  with shown show ?thesis by (simp add: textarea_plain_iff)
qed

theorem loaded_config_is_written_back_witness:
  "\<exists>rq r' st'. listener_serve (demo_listener False) rq demo_world = (r', st') \<and> config_file (ns_host st') = ''global''"
proof -
  let ?L = "demo_listener False"
  obtain r st1 where load: "listener_serve ?L (get_request ''/api/haproxy/config'') demo_world = (r, st1)" by fastforce
  have up: "relay_up (ls_relay ?L) [''ApplyConfig'', ''GetConfig'']" by (rule demo_relay_up)
  have read: "ha_read_error (rl_api (ls_relay ?L)) = None" by (simp add: demo_listener_def demo_relay_def demo_api_def)
  have st1: "st1 = demo_world"
    using load up read by (simp add: listener_serve_def route_config get_request_def handle_config_def relayed_def
        withHAProxyClient_def call_rpc_def api_GetConfig_def relay_up_def)
  define s' where "s' = resume_page demo_browser P_Config_Load (api_outcome demo_browser r) page_start"
  obtain rq where rq: "calls (submit_config s') = calls s' @ [(rq, P_Apply)]" by (auto simp: submit_config_def call_def upd_def)
  obtain r' st' where run: "listener_serve ?L rq st1 = (r', st')" by fastforce
  have "takes_effect (ha_env (rl_api (ls_relay ?L))) (textarea_value (config_file (ns_host demo_world)))"
    by (simp add: demo_listener_def demo_relay_def demo_api_def demo_world_def takes_effect_def) (simp add: demo_env_def)
  from loaded_config_is_written_back [OF up read load s'_def rq run this] run st1 show ?thesis
    by (auto simp: demo_world_def)
qed

section \<open>The map that is shown\<close>

definition table_entries :: "(string, string) gomap \<Rightarrow> (string \<times> string) list" where
  "table_entries m = map (\<lambda>e. (fst e, to_str (snd e))) (own_entries (map (\<lambda>e. (fst e, Str (snd e))) (sort_key fst m)))"

lemma map_rows: "entry_rows (entries_message m) = Some (concat (map (\<lambda>e. row (fst e) (snd e)) (table_entries m)))"
proof (cases "m = []")
  case False
  have "entry_rows (entries_message m)
      = Some (concat (map (\<lambda>e. row (fst e) (to_str (snd e))) (own_entries (map (\<lambda>(k, v). (k, Str v)) (sort_key fst m)))))"
    using False by (simp add: entry_rows_def entries_message_def or_else_def object_entries_def)
  then show ?thesis by (simp add: table_entries_def comp_def case_prod_beta')
qed (simp add: entry_rows_def entries_message_def or_else_def object_entries_def table_entries_def own_entries_def)

lemma mset_own_entries: "mset (own_entries kvs) = mset kvs"
  using multiset_partition [of "mset kvs" "\<lambda>e. array_index (fst e)"] by (simp add: own_entries_def)

lemma mset_table_entries: "mset (table_entries m) = mset m"
proof -
  have "mset (table_entries m) = image_mset (\<lambda>e. (fst e, to_str (snd e))) (image_mset (\<lambda>e. (fst e, Str (snd e))) (mset m))"
    by (simp add: table_entries_def mset_own_entries)
  then show ?thesis by (simp add: multiset.map_comp comp_def)
qed

lemma table_entries_ok:
  assumes "gm_ok m"
  shows "distinct (map fst (table_entries m)) \<and> map_of (table_entries m) = gm_get m"
proof -
  have "distinct (map fst (table_entries m))"
    using assms by (metis gm_ok_def mset_map mset_eq_imp_distinct_iff mset_table_entries)
  moreover have "set (table_entries m) = set m" by (metis set_mset_mset mset_table_entries)
  ultimately show ?thesis using assms by (auto simp: gm_ok_def gm_get_def fun_eq_iff dest: map_of_inject_set [THEN iffD2, rotated 2])
qed

lemma entries_of_ok: "gm_ok (entries_of es)"
proof -
  have "gm_ok m \<Longrightarrow> gm_ok (fold (\<lambda>(k, v). gm_put k v) kvs m)" for kvs m :: "(string \<times> string) list"
    by (induction kvs arbitrary: m) auto
  then show ?thesis by (simp add: entries_of_def)
qed

text \<open>
  After a map is selected, the page's table has exactly one row for each key HAProxy prints,
  with the last value printed for it, both copied into the markup as they are.
\<close>

theorem selected_map_is_shown:
  fixes L :: "'s listener" and s t :: page_state
  defines "sock \<equiv> ha_sock (rl_api (ls_relay L))"
  assumes up: "relay_up (ls_relay L) [''MapGet'']" and m: "plain_name m"
    and show_law: "statsCommand sock (''show map '' @ m) (ns_sock st) = (Inr (show_map_output es), x)" and ok: "\<forall>e \<in> set es. entry_ok e"
    and rq: "calls (selectMap m f s) = calls s @ [(rq, P_Select m f)]" and run: "listener_serve L rq st = (r, st')"
  shows "\<exists>kvs. el_map_entries (pg (resume_page B (P_Select m f) (api_outcome B r) t)) = concat (map (\<lambda>e. row (fst e) (snd e)) kvs)
    \<and> distinct (map fst kvs) \<and> map_of kvs = map_of (rev (map entry_value es))"
proof -
  have rq': "rq = get_request (map_path m)" using rq by (simp add: selectMap_def call_def upd_def)
  have ne: "m \<noteq> []" using m by (simp add: plain_name_def)
  have "r = writeJSON 200 (entries_message (entries_of es))"
    using run m ne up MapGet_show [OF show_law [unfolded sock_def] ok]
    by (simp add: rq' listener_serve_def route_map get_request_def handle_map_def relayed_def withHAProxyClient_def call_rpc_def
        api_MapGet_def on_sock_def relay_up_def entries_of_def)
  then have "el_map_entries (pg (resume_page B (P_Select m f) (api_outcome B r) t))
      = concat (map (\<lambda>e. row (fst e) (snd e)) (table_entries (entries_of es)))"
    by (simp add: api_outcome_def writeJSON_def resume_page_def rest_defs map_rows upd_def)
  with table_entries_ok [OF entries_of_ok, of es] show ?thesis by (auto simp: fun_eq_iff entries_of_get)
qed

theorem selected_map_is_shown_witness:
  "\<exists>rq r st' kvs. listener_serve (demo_listener False) rq demo_world = (r, st')
    \<and> el_map_entries (pg (resume_page demo_browser (P_Select ''m'' False) (api_outcome demo_browser r) page_start)) = concat (map (\<lambda>e. row (fst e) (snd e)) kvs)
    \<and> map_of kvs ''api'' = Some ''be one''"
proof -
  let ?L = "demo_listener False"
  obtain rq where rq: "calls (selectMap ''m'' False page_start) = calls page_start @ [(rq, P_Select ''m'' False)]"
    by (auto simp: selectMap_def call_def upd_def)
  obtain r st' where run: "listener_serve ?L rq demo_world = (r, st')" by fastforce
  have up: "relay_up (ls_relay ?L) [''MapGet'']"
    by (simp add: relay_up_def demo_listener_def demo_relay_def checkRole_def required_for_cases roles_meet_iff adminOnly_def
      adminOrReader_def Let_def)
  have show_law: "statsCommand (ha_sock (rl_api (ls_relay ?L))) (''show map '' @ ''m'') (ns_sock demo_world) = (Inr (show_map_output demo_entries), ns_sock demo_world)"
    by (simp add: demo_listener_def demo_relay_def demo_api_def demo_world_def statsCommand_def str_fields_def is_space_def newline_def)
  have ok: "\<forall>e \<in> set demo_entries. entry_ok e"
    by (simp add: demo_entries_def entry_ok_def is_word_def is_space_def)
  have m: "plain_name ''m''" by (simp add: plain_name_def)
  obtain kvs where table: "el_map_entries (pg (resume_page demo_browser (P_Select ''m'' False) (api_outcome demo_browser r) page_start)) = concat (map (\<lambda>e. row (fst e) (snd e)) kvs)"
    and "map_of kvs = map_of (rev (map entry_value demo_entries))"
    using selected_map_is_shown [OF up m show_law ok rq run, of demo_browser page_start] by blast
  then have "map_of kvs ''api'' = Some ''be one''" by (simp add: demo_entries_def entry_value_def)
  with run table show ?thesis by blast
qed

section \<open>Selections that overlap\<close>

text \<open>
  When a second map is selected before the first has been answered, the answer that comes last
  fills the table: if that is the first map's, the page names the second map, an update goes to the
  second map, and the table holds the entries of the first.
\<close>

theorem late_answer_wins:
  fixes s :: page_state and va vb :: jsval and a b :: string
  defines "n \<equiv> length (calls s)" and "s2 \<equiv> selectMap b False (selectMap a False s)"
  assumes "entry_rows va = Some ra" and "entry_rows vb = Some rb"
  shows "selectedMap (pg (page_step B (Answered n (Inr va)) (page_step B (Answered (Suc n) (Inr vb)) s2))) = Some b
    \<and> map_title (pg (page_step B (Answered n (Inr va)) (page_step B (Answered (Suc n) (Inr vb)) s2))) = b
    \<and> el_map_entries (pg (page_step B (Answered n (Inr va)) (page_step B (Answered (Suc n) (Inr vb)) s2))) = ra
    \<and> el_map_entries (pg (page_step B (Answered n (Inr vb)) (page_step B (Answered n (Inr va)) s2))) = rb"
  using assms(3,4)
  by (simp add: s2_def n_def selectMap_def call_def upd_def page_step_def Let_def drop_call_def nth_append resume_page_def rest_defs)

theorem late_answer_wins_witness:
  "el_map_entries (pg (page_step demo_browser (Answered 2 (Inr (entries_message [(''k'', ''1'')])))
     (page_step demo_browser (Answered 3 (Inr (entries_message []))) (selectMap ''b'' False (selectMap ''a'' False page_start))))) = row ''k'' ''1''"
proof -
  have rows: "entry_rows (entries_message [(''k'', ''1'')]) = Some (row ''k'' ''1'')" "entry_rows (entries_message []) = Some []"
    by (simp_all add: map_rows table_entries_def own_entries_def array_index_def is_digit_def)
  have "length (calls page_start) = 2"
    by (simp add: page_start_def loadConfig_def refreshAll_def call_def upd_def)
  then show ?thesis
    using late_answer_wins [OF rows, where B = demo_browser and b = "''b''" and a = "''a''" and s = page_start] by (simp add: numeral_3_eq_3)
qed

section \<open>Counters\<close>

definition shown_counter :: "nat \<Rightarrow> string" where
  "shown_counter n = (if n = 0 then ''undefined'' else show_nat n)"

lemma show_int_nat [simp]: "show_int (int n) = show_nat n"
  by (simp add: show_int_def)

lemma counter_rows:
  "haproxy_info_rows (Obj (str_field ''version'' v @ num_field ''uptime_seconds'' up @ num_field ''current_connections'' cur @ num_field ''max_connections'' mx)) = Some
     (row ''Version'' (if v = [] then ''undefined'' else v) @ row ''Uptime'' (shown_counter up @ ''s'')
      @ row ''Connections'' (shown_counter cur @ '' / '' @ shown_counter mx))"
  by (cases "v = []"; cases "up = 0"; cases "cur = 0"; cases "mx = 0")
    (simp_all add: haproxy_info_rows_def field_def str_field_def num_field_def shown_counter_def)

text \<open>
  The page shows the version and the counters the node reports, except that a counter of
  zero, which the JSON leaves out, and an empty version appear as the word "undefined".
\<close>

theorem zero_counters_are_undefined:
  "haproxy_info_rows (info_message i) = Some
     (row ''Version'' (if Version i = [] then ''undefined'' else Version i)
      @ row ''Uptime'' (shown_counter (unat (UptimeSeconds i)) @ ''s'')
      @ row ''Connections'' (shown_counter (unat (CurrentConnections i)) @ '' / '' @ shown_counter (unat (MaxConnections i))))"
  unfolding info_message_def by (rule counter_rows)

end
