(* ===== verification/Node_Pki.thy ===== *)
theory Node_Pki
  imports Authz
begin

text \<open>
  \<open>internal/pki/bootstrap.go\<close>: a node's certificate authority, server and admin credentials, made
  on its first boot and loaded from the same directory on every other. Cryptography is a
  parameter. A fault is the first file that is not written completely, whether its write fails or
  the machine stops there; nothing after it is written.
\<close>

section \<open>Authorities and credentials\<close>

record ca =
  CertPEM :: string
  ca_key :: string

datatype key_usage = ServerAuth | ClientAuth

record issue_options =
  CommonName :: string
  Roles :: "string list"
  DNSNames :: "string list"
  IPAddresses :: "string list"
  ExtKeyUsage :: key_usage

text \<open>
  What one run of the daemon gets from the libraries: the generated authority, the encoding of its
  key, the credential issued for some options, the parsing of an authority and of a key pair, and
  the faults: of the directory, and of the n-th file written (its error and what the file holds
  then, if it is there at all).
\<close>

record pki_env =
  pe_mkdir :: "string option"
  pe_new_ca :: "string \<Rightarrow> string + ca"
  pe_key_pem :: "ca \<Rightarrow> string + string"
  pe_issue :: "ca \<Rightarrow> issue_options \<Rightarrow> string + string \<times> string"
  pe_load_ca :: "string \<Rightarrow> string \<Rightarrow> string + ca"
  pe_key_pair :: "string \<Rightarrow> string \<Rightarrow> string option"
  pe_fault :: "nat \<Rightarrow> (string \<times> string option) option"

type_synonym pki_dir = "(string, string) gomap"

record bootstrap_result =
  bs_ca :: ca
  bs_server :: "string \<times> string"
  bs_admin :: "(string \<times> string) option"

section \<open>Files\<close>

definition read_file :: "string \<Rightarrow> pki_dir \<Rightarrow> string + string" where
  "read_file name d = of_opt (''read '' @ name) (gm_get d name)"

fun writeFiles :: "pki_env \<Rightarrow> nat \<Rightarrow> (string \<times> string) list \<Rightarrow> pki_dir \<Rightarrow> (string + unit) \<times> pki_dir" where
  "writeFiles E n [] d = (Inr (), d)"
| "writeFiles E n ((name, content) # fs) d = (case pe_fault E n of
       Some (e, held) \<Rightarrow> (Inl (''write '' @ name @ '': '' @ e), case held of None \<Rightarrow> d | Some x \<Rightarrow> gm_put name x d)
     | None \<Rightarrow> writeFiles E (Suc n) fs (gm_put name content d))"

section \<open>Loading and bootstrapping\<close>

definition load_key_pair :: "pki_env \<Rightarrow> pki_dir \<Rightarrow> string + string \<times> string" where
  "load_key_pair E d = (case bind_r (read_file ''server.crt'' d) (\<lambda>crt. bind_r (read_file ''server.key'' d) (\<lambda>key.
         case pe_key_pair E crt key of Some e \<Rightarrow> Inl e | None \<Rightarrow> Inr (crt, key))) of
       Inl e \<Rightarrow> Inl (''load server certificate: '' @ e)
     | Inr c \<Rightarrow> Inr c)"

definition load_pki :: "pki_env \<Rightarrow> pki_dir \<Rightarrow> string + bootstrap_result" where
  "load_pki E d =
     bind_r (read_file ''ca.crt'' d) (\<lambda>caCertPEM.
     bind_r (read_file ''ca.key'' d) (\<lambda>caKeyPEM.
     bind_r (case pe_load_ca E caCertPEM caKeyPEM of Inl e \<Rightarrow> Inl (''load CA: '' @ e) | Inr ca \<Rightarrow> Inr ca) (\<lambda>ca.
     bind_r (load_key_pair E d) (\<lambda>serverCert. Inr \<lparr>bs_ca = ca, bs_server = serverCert, bs_admin = None\<rparr>))))"

text \<open>A step that may fail, with the directory it leaves.\<close>

fun and_pki :: "(string + 'a) \<times> pki_dir \<Rightarrow> ('a \<Rightarrow> pki_dir \<Rightarrow> (string + 'b) \<times> pki_dir) \<Rightarrow> (string + 'b) \<times> pki_dir" where
  "and_pki (Inl e, d) f = (Inl e, d)"
| "and_pki (Inr x, d) f = f x d"

definition server_options :: "string \<Rightarrow> string list \<Rightarrow> issue_options" where
  "server_options hostname extraIPs = \<lparr>CommonName = hostname, Roles = [], DNSNames = [hostname, ''localhost''],
     IPAddresses = ''127.0.0.1'' # extraIPs, ExtKeyUsage = ServerAuth\<rparr>"

definition admin_options :: issue_options where
  "admin_options = \<lparr>CommonName = ''admin'', Roles = [RoleAdmin], DNSNames = [], IPAddresses = [], ExtKeyUsage = ClientAuth\<rparr>"

definition bootstrap_pki :: "pki_env \<Rightarrow> string \<Rightarrow> string list \<Rightarrow> pki_dir \<Rightarrow> (string + bootstrap_result) \<times> pki_dir" where
  "bootstrap_pki E hostname extraIPs d =
     and_pki (case pe_new_ca E (''Janus node CA: '' @ hostname) of Inl e \<Rightarrow> Inl (''generate CA: '' @ e) | Inr ca \<Rightarrow> Inr ca, d) (\<lambda>ca d.
     and_pki (pe_key_pem E ca, d) (\<lambda>caKeyPEM d.
     and_pki (writeFiles E 0 [(''ca.crt'', CertPEM ca), (''ca.key'', caKeyPEM)] d) (\<lambda>_ d.
     and_pki (case pe_issue E ca (server_options hostname extraIPs) of Inl e \<Rightarrow> Inl (''issue server certificate: '' @ e) | Inr c \<Rightarrow> Inr c, d) (\<lambda>server d.
     and_pki (writeFiles E 2 [(''server.crt'', fst server), (''server.key'', snd server)] d) (\<lambda>_ d.
     and_pki (case pe_issue E ca admin_options of Inl e \<Rightarrow> Inl (''issue admin certificate: '' @ e) | Inr c \<Rightarrow> Inr c, d) (\<lambda>admin d.
     and_pki (writeFiles E 4 [(''admin.crt'', fst admin), (''admin.key'', snd admin)] d) (\<lambda>_ d.
     (case pe_key_pair E (fst server) (snd server) of
        Some e \<Rightarrow> Inl (''load freshly-issued server certificate: '' @ e)
      | None \<Rightarrow> Inr \<lparr>bs_ca = ca, bs_server = server, bs_admin = Some admin\<rparr>, d))))))))"

text \<open>\<open>os.Stat\<close> finds \<open>ca.crt\<close> or not; the code takes any other error for its absence, and such errors are not modelled.\<close>

definition LoadOrBootstrap :: "pki_env \<Rightarrow> string \<Rightarrow> string list \<Rightarrow> pki_dir \<Rightarrow> (string + bootstrap_result) \<times> pki_dir" where
  "LoadOrBootstrap E hostname extraIPs d = (case pe_mkdir E of
       Some e \<Rightarrow> (Inl (''mkdir: '' @ e), d)
     | None \<Rightarrow> if gm_get d ''ca.crt'' \<noteq> None then (load_pki E d, d) else bootstrap_pki E hostname extraIPs d)"

text \<open>The boots of a node: each run of the daemon with its environment, on the same directory.\<close>

fun pki_boots :: "(pki_env \<times> string \<times> string list) list \<Rightarrow> pki_dir \<Rightarrow> pki_dir" where
  "pki_boots [] d = d"
| "pki_boots ((E, h, ips) # bs) d = pki_boots bs (snd (LoadOrBootstrap E h ips d))"

section \<open>Lemmas\<close>

lemma loads: "gm_get d ''ca.crt'' \<noteq> None \<Longrightarrow> LoadOrBootstrap E h ips d = (case pe_mkdir E of Some e \<Rightarrow> Inl (''mkdir: '' @ e) | None \<Rightarrow> load_pki E d, d)"
  by (simp add: LoadOrBootstrap_def split: option.splits)

lemma boots_keep: "gm_get d ''ca.crt'' \<noteq> None \<Longrightarrow> pki_boots bs d = d"
  by (induction bs d rule: pki_boots.induct) (simp_all add: loads)

lemma load_key_pair_Inr: "load_key_pair E d = Inr c \<longleftrightarrow> gm_get d ''server.crt'' = Some (fst c) \<and> gm_get d ''server.key'' = Some (snd c)
    \<and> pe_key_pair E (fst c) (snd c) = None"
  by (cases c) (auto simp: load_key_pair_def read_file_def of_opt_def split: option.splits sum.splits)

lemma load_needs: "gm_get d ''ca.key'' = None \<or> gm_get d ''server.crt'' = None \<or> gm_get d ''server.key'' = None \<Longrightarrow> isl (load_pki E d)"
  by (cases "load_pki E d") (auto simp: load_pki_def read_file_def ok_iff load_key_pair_Inr)

lemma load_no_admin: "load_pki E d = Inr b \<Longrightarrow> bs_admin b = None"
  by (auto simp: load_pki_def ok_iff)

lemma and_pki_Inr: "and_pki m f = (Inr y, d) \<longleftrightarrow> (\<exists>x d'. m = (Inr x, d') \<and> f x d' = (Inr y, d))"
  by (cases m; cases "fst m") auto

lemma writeFiles_Inr: "writeFiles E n fs d = (Inr u, d') \<Longrightarrow> d' = fold (\<lambda>f. gm_put (fst f) (snd f)) fs d"
  by (induction E n fs d rule: writeFiles.induct) (auto split: option.splits)

lemma bootstrap_Inr:
  assumes "bootstrap_pki E h ips d0 = (Inr b, d)"
  shows "bs_admin b \<noteq> None \<and> (\<exists>k admin. pe_key_pem E (bs_ca b) = Inr k
    \<and> d = fold (\<lambda>f. gm_put (fst f) (snd f)) [(''ca.crt'', CertPEM (bs_ca b)), (''ca.key'', k), (''server.crt'', fst (bs_server b)),
        (''server.key'', snd (bs_server b)), (''admin.crt'', fst admin), (''admin.key'', snd admin)] d0)"
  using assms
  by (fastforce simp: bootstrap_pki_def and_pki_Inr split: option.splits sum.splits dest: writeFiles_Inr)

section \<open>Properties\<close>

text \<open>
  C26: A node's identity is made once. After a first boot that succeeded, every later start of the
  daemon, however many came between, loads the very same authority and server certificate and
  leaves the directory alone; only the first start hands out the admin credential.
\<close>

theorem pki_is_made_once:
  assumes first: "LoadOrBootstrap E h ips [] = (Inr b, d)" and key: "pe_key_pem E (bs_ca b) = Inr k"
    and load: "pe_mkdir E2 = None" "pe_load_ca E2 (CertPEM (bs_ca b)) k = Inr (bs_ca b)"
      "pe_key_pair E2 (fst (bs_server b)) (snd (bs_server b)) = None"
  shows "bs_admin b \<noteq> None
    \<and> LoadOrBootstrap E2 h2 ips2 (pki_boots bs d) = (Inr \<lparr>bs_ca = bs_ca b, bs_server = bs_server b, bs_admin = None\<rparr>, d)"
proof -
  have "bootstrap_pki E h ips [] = (Inr b, d)" using first by (simp add: LoadOrBootstrap_def split: option.splits)
  from bootstrap_Inr [OF this] key obtain admin where admin: "bs_admin b \<noteq> None"
    and d: "d = fold (\<lambda>f. gm_put (fst f) (snd f)) [(''ca.crt'', CertPEM (bs_ca b)), (''ca.key'', k), (''server.crt'', fst (bs_server b)),
        (''server.key'', snd (bs_server b)), (''admin.crt'', fst admin), (''admin.key'', snd admin)] []" by auto
  then have "gm_get d ''ca.crt'' = Some (CertPEM (bs_ca b))" "gm_get d ''ca.key'' = Some k"
      "gm_get d ''server.crt'' = Some (fst (bs_server b))" "gm_get d ''server.key'' = Some (snd (bs_server b))" by simp_all
  with load admin show ?thesis by (simp add: boots_keep loads load_pki_def load_key_pair_def read_file_def of_opt_def)
qed

text \<open>
  A first boot on an empty directory whose \<open>n\<close>-th file is the first not written completely. Such a
  directory is stuck when the authority's certificate is there but one of the three files needed
  with it is not; otherwise, from the fifth file on, it is only without the admin's key.
\<close>

definition stopped_at :: "nat \<Rightarrow> string option \<Rightarrow> pki_env \<Rightarrow> bool" where
  "stopped_at n held E \<longleftrightarrow> (\<exists>e. pe_fault E = (\<lambda>j. if j = n then Some (e, held) else None))"

definition stuck_at :: "nat \<Rightarrow> string option \<Rightarrow> bool" where
  "stuck_at n held \<longleftrightarrow> (n = 0 \<and> held \<noteq> None) \<or> n = 1 \<or> n = 2 \<or> (n = 3 \<and> held = None)"

definition keyless_at :: "nat \<Rightarrow> string option \<Rightarrow> bool" where
  "keyless_at n held \<longleftrightarrow> n = 4 \<or> (n = 5 \<and> held = None)"

definition libraries_work :: "pki_env \<Rightarrow> string \<Rightarrow> string list \<Rightarrow> bool" where
  "libraries_work E h ips \<longleftrightarrow> pe_mkdir E = None \<and> (\<exists>ca k s a. pe_new_ca E (''Janus node CA: '' @ h) = Inr ca \<and> pe_key_pem E ca = Inr k
     \<and> pe_issue E ca (server_options h ips) = Inr s \<and> pe_issue E ca admin_options = Inr a)"

lemma stopped_files:
  assumes "stopped_at n held E" "libraries_work E h ips"
  shows "stuck_at n held \<Longrightarrow> (let d = snd (LoadOrBootstrap E h ips []) in gm_get d ''ca.crt'' \<noteq> None
      \<and> (gm_get d ''ca.key'' = None \<or> gm_get d ''server.crt'' = None \<or> gm_get d ''server.key'' = None))"
    and "keyless_at n held \<Longrightarrow> (let d = snd (LoadOrBootstrap E h ips []) in gm_get d ''ca.crt'' \<noteq> None \<and> gm_get d ''admin.key'' = None)"
  using assms by (auto simp: stopped_at_def libraries_work_def stuck_at_def keyless_at_def LoadOrBootstrap_def bootstrap_pki_def
      numeral_eq_Suc split: option.splits)

text \<open>
  A first boot that is interrupted, or whose disk fills up, between the first file and the
  fourth leaves a node that never starts again: every later start of the daemon fails, whatever
  else happens, and never repairs the directory. Interrupted later, the node starts, but no start
  ever issues the admin credential that only the first one shows.
\<close>

theorem interrupted_bootstrap_is_never_repaired:
  assumes stop: "stopped_at n held E" and lib: "libraries_work E h ips"
    and at: "stuck_at n held \<or> keyless_at n held" and d: "d = snd (LoadOrBootstrap E h ips [])"
  shows "snd (LoadOrBootstrap E2 h2 ips2 (pki_boots bs d)) = d
    \<and> (case fst (LoadOrBootstrap E2 h2 ips2 (pki_boots bs d)) of
        Inl _ \<Rightarrow> True
      | Inr b \<Rightarrow> keyless_at n held \<and> bs_admin b = None \<and> gm_get d ''admin.key'' = None)"
proof -
  have ca: "gm_get d ''ca.crt'' \<noteq> None" using stopped_files [OF stop lib] at d by (auto simp: Let_def)
  then have boots: "pki_boots bs d = d" by (rule boots_keep)
  have stuck: "\<not> stuck_at n held" if "load_pki E2 d = Inr b" for b
    using stopped_files(1) [OF stop lib] load_needs [of d E2] that d by (auto simp: Let_def)
  have "gm_get d ''admin.key'' = None" if "keyless_at n held"
    using stopped_files(2) [OF stop lib that] d by (simp add: Let_def)
  with at stuck load_no_admin [of E2 d] show ?thesis
    by (auto simp: boots loads [OF ca] split: option.splits sum.splits)
qed

text \<open>Libraries on which the assumptions hold: an authority is its name, a credential its options' name.\<close>

definition demo_pki :: "(nat \<Rightarrow> (string \<times> string option) option) \<Rightarrow> pki_env" where
  "demo_pki fault = \<lparr>pe_mkdir = None, pe_new_ca = (\<lambda>n. Inr \<lparr>CertPEM = n, ca_key = ''k''\<rparr>), pe_key_pem = (\<lambda>ca. Inr (ca_key ca)),
     pe_issue = (\<lambda>ca io. Inr (CommonName io, ''key'')), pe_load_ca = (\<lambda>c k. Inr \<lparr>CertPEM = c, ca_key = k\<rparr>),
     pe_key_pair = (\<lambda>c k. None), pe_fault = fault\<rparr>"

theorem pki_is_made_once_witness:
  "\<exists>b d. LoadOrBootstrap (demo_pki (\<lambda>_. None)) ''lb'' [] [] = (Inr b, d)
    \<and> LoadOrBootstrap (demo_pki (\<lambda>_. None)) ''other'' [] (pki_boots [(demo_pki (\<lambda>_. None), ''x'', [])] d)
      = (Inr \<lparr>bs_ca = bs_ca b, bs_server = bs_server b, bs_admin = None\<rparr>, d)"
proof -
  let ?E = "demo_pki (\<lambda>_. None)"
  obtain b d where first: "LoadOrBootstrap ?E ''lb'' [] [] = (Inr b, d)" and ca: "bs_ca b = \<lparr>CertPEM = ''Janus node CA: lb'', ca_key = ''k''\<rparr>"
    by (simp add: LoadOrBootstrap_def bootstrap_pki_def demo_pki_def)
  have "pe_key_pem ?E (bs_ca b) = Inr ''k''" "pe_mkdir ?E = None" "pe_load_ca ?E (CertPEM (bs_ca b)) ''k'' = Inr (bs_ca b)"
    "pe_key_pair ?E (fst (bs_server b)) (snd (bs_server b)) = None"
    by (simp_all add: demo_pki_def ca)
  from pki_is_made_once [OF first this] first show ?thesis by blast
qed

theorem interrupted_bootstrap_is_never_repaired_witness:
  "\<exists>d. d = snd (LoadOrBootstrap (demo_pki (\<lambda>j. if j = 2 then Some (''no space left'', None) else None)) ''lb'' [] [])
    \<and> isl (fst (LoadOrBootstrap (demo_pki (\<lambda>_. None)) ''lb'' [] (pki_boots [] d)))"
proof -
  let ?E = "demo_pki (\<lambda>j. if j = 2 then Some (''no space left'', None) else None)"
  have "stopped_at 2 None ?E" "libraries_work ?E ''lb'' []" "stuck_at 2 None \<or> keyless_at 2 None"
    by (auto simp: stopped_at_def libraries_work_def stuck_at_def demo_pki_def)
  from interrupted_bootstrap_is_never_repaired [OF this refl, of "demo_pki (\<lambda>_. None)" "''lb''" "[]" "[]"]
  show ?thesis by (auto simp: keyless_at_def split: sum.splits)
qed

end
