(* ===== verification/Self_Register.thy ===== *)
theory Self_Register
  imports Node_Pki Go_Strings Controller
begin

text \<open>
  \<open>internal/selfregister\<close> and its trigger in \<open>cmd/janusd/main.go\<close>: a node with a Controller
  provisioned announces itself on each start until one announcement was accepted, against the
  Controller's registration server. The configuration directory is an association list of file
  contents; the network decides whether a request arrives and whether its answer does.
\<close>

section \<open>The configuration directory\<close>

type_synonym controller_dir = "(string, string) gomap"

record controller_config =
  cc_address :: string
  cc_ca :: string

text \<open>\<open>Inr None\<close> is \<open>nil, nil\<close>: no Controller was provisioned.\<close>

definition Read :: "controller_dir \<Rightarrow> string + controller_config option" where
  "Read d = (case gm_get d ''address'' of
       None \<Rightarrow> Inr None
     | Some addr \<Rightarrow> let address = trim_space addr in
         if address = [] then Inl ''address is empty''
         else (case gm_get d ''ca.crt'' of
             None \<Rightarrow> Inl ''read ca.crt''
           | Some ca \<Rightarrow> Inr (Some \<lparr>cc_address = address, cc_ca = ca\<rparr>)))"

definition AlreadyRegistered :: "controller_dir \<Rightarrow> bool" where
  "AlreadyRegistered d \<longleftrightarrow> gm_get d ''registered'' \<noteq> None"

section \<open>Addresses\<close>

text \<open>
  The port of \<open>net.SplitHostPort\<close>: what follows the last colon, if the host before it is well
  formed.
\<close>

definition split_port :: "string \<Rightarrow> string + string" where
  "split_port s = (let port = rev (takeWhile (\<lambda>c. c \<noteq> CHR '':'') (rev s)); i = length s - length port - 1; host = take i s in
     if CHR '':'' \<notin> set s then Inl ''missing port in address''
     else if hd s = CHR ''['' then (case before_char (CHR '']'') s of
         None \<Rightarrow> Inl ''missing ']' in address''
       | Some h \<Rightarrow> let end = length h in
           if Suc end = length s then Inl ''missing port in address''
           else if Suc end \<noteq> i then (if s ! Suc end = CHR '':'' then Inl ''too many colons in address'' else Inl ''missing port in address'')
           else if CHR ''['' \<in> set (drop 1 s) then Inl ''unexpected '[' in address''
           else if CHR '']'' \<in> set (drop (Suc end) s) then Inl ''unexpected ']' in address''
           else Inr port)
     else if CHR '':'' \<in> set host then Inl ''too many colons in address''
     else if CHR ''['' \<in> set s then Inl ''unexpected '[' in address''
     else if CHR '']'' \<in> set s then Inl ''unexpected ']' in address''
     else Inr port)"

text \<open>\<open>net.JoinHostPort\<close>.\<close>

definition JoinHostPort :: "string \<Rightarrow> string \<Rightarrow> string" where
  "JoinHostPort host port = (if CHR '':'' \<in> set host \<or> CHR ''%'' \<in> set host then ''['' @ host @ '']:'' @ port else host @ '':'' @ port)"

section \<open>One start of the daemon\<close>

text \<open>
  What a start meets: its environment for credentials, the local address towards the Controller,
  whether its certificate file holds one, what becomes of the request, the Controller's
  environment then, and what becomes of the marker file.
\<close>

datatype delivery = Arrives | Not_sent string | Answer_lost string

record start_env =
  sn_pki :: pki_env
  sn_local_ip :: "string + string"
  sn_has_cert :: "string \<Rightarrow> bool"
  sn_net :: delivery
  sn_controller :: server_env
  sn_mark :: "(string \<times> string option) option"
  sn_time :: string

definition DetectAdvertiseAddress :: "start_env \<Rightarrow> string \<Rightarrow> string + string" where
  "DetectAdvertiseAddress N grpcAddr =
     bind_r (case split_port grpcAddr of Inl e \<Rightarrow> Inl (''parse gRPC listen address: '' @ e) | Inr p \<Rightarrow> Inr p) (\<lambda>grpcPort.
     bind_r (sn_local_ip N) (\<lambda>ip. Inr (JoinHostPort ip grpcPort)))"

definition service_options :: "string \<Rightarrow> issue_options" where
  "service_options hostname = \<lparr>CommonName = hostname, Roles = [RoleAdmin], DNSNames = [], IPAddresses = [], ExtKeyUsage = ClientAuth\<rparr>"

definition register_post :: "string \<Rightarrow> string \<Rightarrow> string \<Rightarrow> string \<times> string \<Rightarrow> request" where
  "register_post hostname addr caPEM cred = \<lparr>rq_method = ''POST'', rq_path = ''/register'', rq_ctype = ''application/json'',
     rq_body = JsonBody (Obj [(''name'', Str hostname), (''address'', Str addr), (''ca_cert_pem'', Str caPEM),
       (''service_cert_pem'', Str (fst cred)), (''service_key_pem'', Str (snd cred))])\<rparr>"

text \<open>The request that is sent, if any; its result; the Controller afterwards.\<close>

definition deliver_post :: "start_env \<Rightarrow> request \<Rightarrow> app \<Rightarrow> (string + unit) \<times> app" where
  "deliver_post N rq a = (case sn_net N of
       Not_sent e \<Rightarrow> (Inl (''POST: '' @ e), a)
     | Answer_lost e \<Rightarrow> (Inl (''POST: '' @ e), fst (serve_register (sn_controller N) rq a))
     | Arrives \<Rightarrow> (let (a', r) = serve_register (sn_controller N) rq a in
         (if hs_status r \<noteq> 201 then Inl ''controller refused registration'' else Inr (), a')))"

definition Register :: "start_env \<Rightarrow> controller_config \<Rightarrow> ca \<Rightarrow> string \<Rightarrow> string \<Rightarrow> app \<Rightarrow> (string + unit) \<times> app" where
  "Register N cfg ca hostname advertiseAddr a =
     (if \<not> sn_has_cert N (cc_ca cfg) then (Inl ''controller CA certificate doesn't parse'', a)
      else case pe_issue (sn_pki N) ca (service_options hostname) of
        Inl e \<Rightarrow> (Inl (''issue service credential: '' @ e), a)
      | Inr cred \<Rightarrow> deliver_post N (register_post hostname advertiseAddr (CertPEM ca) cred) a)"

definition MarkRegistered :: "start_env \<Rightarrow> controller_dir \<Rightarrow> controller_dir" where
  "MarkRegistered N d = (case sn_mark N of
       None \<Rightarrow> gm_put ''registered'' (sn_time N @ [newline]) d
     | Some (_, None) \<Rightarrow> d
     | Some (_, Some held) \<Rightarrow> gm_put ''registered'' held d)"

definition selfRegisterIfConfigured :: "start_env \<Rightarrow> ca \<Rightarrow> string \<Rightarrow> string \<Rightarrow> controller_dir \<times> app \<Rightarrow> controller_dir \<times> app" where
  "selfRegisterIfConfigured N ca hostname grpcAddr w = (case Read (fst w) of
       Inl _ \<Rightarrow> w
     | Inr None \<Rightarrow> w
     | Inr (Some cfg) \<Rightarrow>
         if AlreadyRegistered (fst w) then w
         else (case DetectAdvertiseAddress N grpcAddr of
             Inl _ \<Rightarrow> w
           | Inr advertiseAddr \<Rightarrow> (case Register N cfg ca hostname advertiseAddr (snd w) of
                 (Inl _, a) \<Rightarrow> (fst w, a)
               | (Inr _, a) \<Rightarrow> (MarkRegistered N (fst w), a))))"

text \<open>Starts of the same node one after the other.\<close>

definition starts :: "start_env list \<Rightarrow> ca \<Rightarrow> string \<Rightarrow> string \<Rightarrow> controller_dir \<times> app \<Rightarrow> controller_dir \<times> app" where
  "starts Ns ca hostname grpcAddr w = fold (\<lambda>N. selfRegisterIfConfigured N ca hostname grpcAddr) Ns w"

end
