(* ===== verification/Self_Register_Properties.thy ===== *)
theory Self_Register_Properties
  imports Self_Register Controller_Properties
begin

text \<open>
  A node's announcement, from its start to the Controller's queue: what arrives there, that an
  acknowledged announcement is the last, and that one whose acknowledgement is lost is repeated.
\<close>

section \<open>One announcement\<close>

definition announcement :: "string \<Rightarrow> string \<Rightarrow> string \<Rightarrow> string \<Rightarrow> string \<times> string \<Rightarrow> int \<Rightarrow> pnode" where
  "announcement i hostname addr caPEM cred now = \<lparr>p_id = i, p_name = hostname, p_address = addr, p_ca = caPEM,
     p_cert = fst cred, p_key = snd cred, p_announced = now\<rparr>"

text \<open>A Controller that can queue this announcement under a fresh identifier.\<close>

definition accepts :: "server_env \<Rightarrow> string \<Rightarrow> string \<Rightarrow> string \<Rightarrow> string \<times> string \<Rightarrow> string \<Rightarrow> bool" where
  "accepts e hostname addr caPEM cred i \<longleftrightarrow> hostname \<noteq> [] \<and> addr \<noteq> [] \<and> caPEM \<noteq> [] \<and> fst cred \<noteq> [] \<and> snd cred \<noteq> []
     \<and> se_key_pair e (fst cred) (snd cred) = None \<and> os_id (se_os e) = Some i \<and> os_mkdir (se_os e) \<and> os_fault (se_os e) = None"

lemma decode_register_post: "decode_register (rq_body (register_post hostname addr caPEM cred)) =
    Inr \<lparr>rr_name = hostname, rr_address = addr, rr_ca = caPEM, rr_cert = fst cred, rr_key = snd cred\<rparr>"
  by (simp add: decode_register_def register_post_def decode_field_def key_match_def to_lower_case_def lower_char_def)

lemma serve_announcement:
  assumes "accepts e hostname addr caPEM cred i"
  shows "\<exists>d. serve_register e (register_post hostname addr caPEM cred) a =
    (a\<lparr>ap_pending := (ap_pending a)\<lparr>ps_disk := d, ps_nodes := gm_put i (announcement i hostname addr caPEM cred (se_now e)) (ps_nodes (ap_pending a))\<rparr>\<rparr>,
     writeJSON 201 (Obj [(''id'', Str i)]))"
proof -
  let ?n = "\<lparr>p_id = [], p_name = hostname, p_address = addr, p_ca = caPEM, p_cert = fst cred, p_key = snd cred, p_announced = 0\<rparr>"
  obtain ps r where add: "pending_add (se_os e) (se_now e) ?n (ap_pending a) = (ps, r)" by fastforce
  have "\<exists>d. r = Inr (announcement i hostname addr caPEM cred (se_now e))
      \<and> ps = (ap_pending a)\<lparr>ps_disk := d, ps_nodes := gm_put i (announcement i hostname addr caPEM cred (se_now e)) (ps_nodes (ap_pending a))\<rparr>"
  proof -
    let ?n' = "announcement i hostname addr caPEM cred (se_now e)"
    let ?w = "write_dir None i (pem_writes (pnode_meta_of ?n') caPEM (fst cred) (snd cred)) (mkdir_all i (ps_disk (ap_pending a)))"
    obtain d where "?w = (None, d)" using fst_write_dir write_files_fine by (metis prod.collapse)
    with assms add show ?thesis by (auto simp: pending_add_def accepts_def Let_def announcement_def)
  qed
  with assms add show ?thesis
    by (auto simp: serve_register_def register_post_def handleRegister_def decode_register_post [unfolded register_post_def, simplified]
        accepts_def announcement_def)
qed

section \<open>Properties\<close>

definition configured :: "controller_dir \<Rightarrow> bool" where
  "configured d \<longleftrightarrow> (\<exists>cfg. Read d = Inr (Some cfg)) \<and> \<not> AlreadyRegistered d"

text \<open>A start that can send its announcement with this address and credential.\<close>

definition announces :: "start_env \<Rightarrow> ca \<Rightarrow> string \<Rightarrow> string \<Rightarrow> string \<Rightarrow> string \<times> string \<Rightarrow> bool" where
  "announces N ca hostname grpcAddr addr cred \<longleftrightarrow> (\<forall>c. sn_has_cert N c) \<and> DetectAdvertiseAddress N grpcAddr = Inr addr
     \<and> pe_issue (sn_pki N) ca (service_options hostname) = Inr cred"

lemma address_nonempty: "DetectAdvertiseAddress N g = Inr addr \<Longrightarrow> addr \<noteq> []"
  by (auto simp: DetectAdvertiseAddress_def JoinHostPort_def ok_iff split: if_splits)

lemma start_announces:
  assumes "configured d" "announces N ca hostname grpcAddr addr cred"
    and "accepts (sn_controller N) hostname addr (CertPEM ca) cred i" and "\<forall>e. sn_net N \<noteq> Not_sent e"
  shows "\<exists>pd. selfRegisterIfConfigured N ca hostname grpcAddr (d, a) =
    (if sn_net N = Arrives then MarkRegistered N d else d,
     a\<lparr>ap_pending := (ap_pending a)\<lparr>ps_disk := pd,
        ps_nodes := gm_put i (announcement i hostname addr (CertPEM ca) cred (se_now (sn_controller N))) (ps_nodes (ap_pending a))\<rparr>\<rparr>)"
proof -
  obtain pd where serve: "serve_register (sn_controller N) (register_post hostname addr (CertPEM ca) cred) a =
    (a\<lparr>ap_pending := (ap_pending a)\<lparr>ps_disk := pd,
        ps_nodes := gm_put i (announcement i hostname addr (CertPEM ca) cred (se_now (sn_controller N))) (ps_nodes (ap_pending a))\<rparr>\<rparr>,
     writeJSON 201 (Obj [(''id'', Str i)]))"
    using serve_announcement [OF assms(3)] by blast
  show ?thesis
    using assms(1,2,4)
    by (cases "sn_net N") (auto simp: configured_def announces_def selfRegisterIfConfigured_def Register_def deliver_post_def serve writeJSON_def)
qed

lemma marked_done: "AlreadyRegistered d \<Longrightarrow> starts Ns ca hostname grpcAddr (d, a) = (d, a)"
proof -
  assume m: "AlreadyRegistered d"
  have "selfRegisterIfConfigured N ca hostname grpcAddr (d, a) = (d, a)" for N
    using m by (auto simp: selfRegisterIfConfigured_def split: sum.splits option.splits)
  then show ?thesis unfolding starts_def by (induction Ns) simp_all
qed

text \<open>
  C24: An announcement that is acknowledged, and whose acknowledgement the node can then write down
  in its marker file, puts the node into the Controller's queue exactly as it describes itself, with
  a credential of its own authority, and touches no other announcement and no registered node; it is
  the node's last one, whatever its later starts meet and whatever has happened at the Controller by
  then. The credential it hands over may call every RPC of the node.
\<close>

theorem acknowledged_announcement_is_the_last:
  assumes "configured d" "announces N ca hostname grpcAddr addr cred"
    and "accepts (sn_controller N) hostname addr (CertPEM ca) cred i" and "sn_net N = Arrives" and "sn_mark N = None"
    and run: "selfRegisterIfConfigured N ca hostname grpcAddr (d, a) = (d', a')"
  shows "pending_get (ap_pending a') = (pending_get (ap_pending a))(i \<mapsto> announcement i hostname addr (CertPEM ca) cred (se_now (sn_controller N)))
    \<and> ap_store a' = ap_store a \<and> starts Ns ca2 hostname2 grpcAddr2 (d', later) = (d', later)
    \<and> checkRole (Tls_peer [Roles (service_options hostname)]) rpc = Inr ()"
proof -
  obtain pd where "d' = MarkRegistered N d" "a' = a\<lparr>ap_pending := (ap_pending a)\<lparr>ps_disk := pd,
        ps_nodes := gm_put i (announcement i hostname addr (CertPEM ca) cred (se_now (sn_controller N))) (ps_nodes (ap_pending a))\<rparr>\<rparr>"
    using start_announces [OF assms(1-3), of a] assms(4) run by auto
  moreover from this have "AlreadyRegistered d'" using assms(5) by (simp add: MarkRegistered_def AlreadyRegistered_def)
  ultimately show ?thesis
    by (auto simp: marked_done fun_eq_iff pending_get_def service_options_def checkRole_def required_for_cases roles_meet_iff
        adminOnly_def adminOrReader_def Let_def)
qed

text \<open>
  An announcement the Controller has accepted but whose acknowledgement is lost, or whose
  marker cannot be written, is made again at the next start: the queue then holds the same node
  twice, under two identifiers and with two credentials.
\<close>

theorem lost_acknowledgement_announces_twice:
  assumes conf: "configured d"
    and one: "announces N1 ca hostname grpcAddr addr1 cred1" "accepts (sn_controller N1) hostname addr1 (CertPEM ca) cred1 i1"
      "(\<exists>e. sn_net N1 = Answer_lost e) \<or> (sn_net N1 = Arrives \<and> (\<exists>e. sn_mark N1 = Some (e, None)))"
    and two: "announces N2 ca hostname grpcAddr addr2 cred2" "accepts (sn_controller N2) hostname addr2 (CertPEM ca) cred2 i2"
      "sn_net N2 = Arrives"
    and fresh: "i1 \<noteq> i2" and run: "starts [N1, N2] ca hostname grpcAddr (d, a) = (d', a')"
  shows "pending_get (ap_pending a') i1 = Some (announcement i1 hostname addr1 (CertPEM ca) cred1 (se_now (sn_controller N1)))
    \<and> pending_get (ap_pending a') i2 = Some (announcement i2 hostname addr2 (CertPEM ca) cred2 (se_now (sn_controller N2)))"
proof -
  let ?put = "\<lambda>i addr cred N a pd. a\<lparr>ap_pending := (ap_pending a)\<lparr>ps_disk := pd,
        ps_nodes := gm_put i (announcement i hostname addr (CertPEM ca) cred (se_now (sn_controller N))) (ps_nodes (ap_pending a))\<rparr>\<rparr>"
  have "\<forall>e. sn_net N1 \<noteq> Not_sent e" using one(3) by auto
  from start_announces [OF conf one(1,2) this, of a] obtain pd1
    where r1: "selfRegisterIfConfigured N1 ca hostname grpcAddr (d, a) = (if sn_net N1 = Arrives then MarkRegistered N1 d else d, ?put i1 addr1 cred1 N1 a pd1)"
    by blast
  have same: "(if sn_net N1 = Arrives then MarkRegistered N1 d else d) = d" using one(3) by (auto simp: MarkRegistered_def)
  obtain pd2 where r2: "snd (selfRegisterIfConfigured N2 ca hostname grpcAddr (d, ?put i1 addr1 cred1 N1 a pd1)) =
      ?put i2 addr2 cred2 N2 (?put i1 addr1 cred1 N1 a pd1) pd2"
    using start_announces [OF conf two(1,2), of "?put i1 addr1 cred1 N1 a pd1"] two(3) by auto
  have "a' = ?put i2 addr2 cred2 N2 (?put i1 addr1 cred1 N1 a pd1) pd2"
    using run r2 by (simp add: starts_def r1 same)
  with fresh show ?thesis by (simp add: pending_get_def)
qed

section \<open>Instances\<close>

definition demo_start :: "string \<Rightarrow> delivery \<Rightarrow> start_env" where
  "demo_start fresh net = \<lparr>sn_pki = demo_pki (\<lambda>_. None), sn_local_ip = Inr ''10.0.0.5'', sn_has_cert = (\<lambda>_. True), sn_net = net,
     sn_controller = demo_env fresh, sn_mark = None, sn_time = ''now''\<rparr>"

definition demo_dir :: controller_dir where
  "demo_dir = [(''address'', ''ctl:8080''), (''ca.crt'', ''CA'')]"

definition demo_ca :: ca where
  "demo_ca = \<lparr>CertPEM = ''node CA'', ca_key = ''k''\<rparr>"

lemma demo_configured: "configured demo_dir"
  by (simp add: configured_def Read_def demo_dir_def gm_get_def AlreadyRegistered_def Let_def trim_space_def is_space_def)

lemma demo_address: "DetectAdvertiseAddress (demo_start i net) '':9505'' = Inr ''10.0.0.5:9505''"
  by (simp add: DetectAdvertiseAddress_def split_port_def JoinHostPort_def demo_start_def Let_def)

lemma demo_announces: "announces (demo_start i net) demo_ca ''edge'' '':9505'' ''10.0.0.5:9505'' (''edge'', ''key'')"
  by (simp add: announces_def demo_address) (simp add: demo_start_def demo_pki_def service_options_def)

lemma demo_accepts: "accepts (sn_controller (demo_start i net)) ''edge'' ''10.0.0.5:9505'' (CertPEM demo_ca) (''edge'', ''key'') i"
  by (simp add: accepts_def demo_start_def demo_env_def os_fine_def demo_ca_def)

theorem acknowledged_announcement_is_the_last_witness:
  "\<exists>d' a'. selfRegisterIfConfigured (demo_start ''p1'' Arrives) demo_ca ''edge'' '':9505'' (demo_dir, first_app) = (d', a')
    \<and> starts [demo_start ''p2'' Arrives] demo_ca ''edge'' '':9505'' (d', a') = (d', a')
    \<and> pending_get (ap_pending a') ''p1'' = Some (announcement ''p1'' ''edge'' ''10.0.0.5:9505'' ''node CA'' (''edge'', ''key'') 1000)"
proof -
  obtain d' a' where run: "selfRegisterIfConfigured (demo_start ''p1'' Arrives) demo_ca ''edge'' '':9505'' (demo_dir, first_app) = (d', a')"
    by fastforce
  have "sn_net (demo_start ''p1'' Arrives) = Arrives" "sn_mark (demo_start ''p1'' Arrives) = None" by (simp_all add: demo_start_def)
  from acknowledged_announcement_is_the_last [OF demo_configured demo_announces demo_accepts this run] run show ?thesis
    by (simp add: demo_ca_def demo_start_def demo_env_def)
qed

theorem lost_acknowledgement_announces_twice_witness:
  "\<exists>a'. snd (starts [demo_start ''p1'' (Answer_lost ''timeout''), demo_start ''p2'' Arrives] demo_ca ''edge'' '':9505'' (demo_dir, first_app)) = a'
    \<and> pending_get (ap_pending a') ''p1'' \<noteq> None \<and> pending_get (ap_pending a') ''p2'' \<noteq> None"
proof -
  let ?N1 = "demo_start ''p1'' (Answer_lost ''timeout'')" and ?N2 = "demo_start ''p2'' Arrives"
  obtain d' a' where run: "starts [?N1, ?N2] demo_ca ''edge'' '':9505'' (demo_dir, first_app) = (d', a')" by fastforce
  have net: "(\<exists>e. sn_net ?N1 = Answer_lost e) \<or> (sn_net ?N1 = Arrives \<and> (\<exists>e. sn_mark ?N1 = Some (e, None)))" "sn_net ?N2 = Arrives"
    by (simp_all add: demo_start_def)
  show ?thesis
    using lost_acknowledgement_announces_twice [OF demo_configured demo_announces demo_accepts net(1) demo_announces demo_accepts net(2) _ run] run
    by simp
qed

end
