(* ===== verification/System_Stats.thy ===== *)
theory System_Stats
  imports Go_Strings Bootslot Node_Pki Node_Listener "HOL-Library.Word"
begin

text \<open>
  \<open>internal/api/system.go\<close> and \<open>system_stats.go\<close>: what a node reports of itself, read from \<open>/proc\<close>.
  A file is its text, or the error of reading it; \<open>strconv.ParseFloat\<close> is a parameter that gives
  the JSON number of a text.
\<close>

section \<open>Lines\<close>

text \<open>
  \<open>bufio.Scanner\<close>: lines without their end of line, a carriage return before it included; a line
  of 64 KiB or more ends the scan.
\<close>

definition drop_cr :: "string \<Rightarrow> string" where
  "drop_cr l = (if l \<noteq> [] \<and> last l = CHR 0x0D then butlast l else l)"

definition scan_lines :: "string \<Rightarrow> string list" where
  "scan_lines s = (let ls = split_on newline s; ls' = (if last ls = [] then butlast ls else ls) in
     map drop_cr (takeWhile (\<lambda>l. length l < 65536) ls'))"

text \<open>\<open>strconv.ParseUint\<close> in base 10: \<open>None\<close> for what is no number or does not fit.\<close>

definition ParseUint :: "nat \<Rightarrow> string \<Rightarrow> nat option" where
  "ParseUint bits s = (if s \<noteq> [] \<and> list_all is_digit s \<and> nat_of_digits s < 2 ^ bits then Some (nat_of_digits s) else None)"

section \<open>Memory\<close>

record memory_response =
  TotalBytes :: "64 word"
  AvailableBytes :: "64 word"
  CachedBytes :: "64 word"

definition trim_colon :: "string \<Rightarrow> string" where
  "trim_colon s = (if s \<noteq> [] \<and> last s = CHR '':'' then butlast s else s)"

definition parseMeminfoLine :: "string \<Rightarrow> (string \<times> 64 word) option" where
  "parseMeminfoLine line = (let fields = str_fields line in
     if length fields < 2 then None
     else case ParseUint 64 (fields ! 1) of
       None \<Rightarrow> None
     | Some v \<Rightarrow> if 3 \<le> length fields \<and> fields ! 2 \<noteq> ''kB'' then None else Some (trim_colon (fields ! 0), of_nat v))"

definition memory_line :: "string \<Rightarrow> memory_response \<Rightarrow> memory_response" where
  "memory_line line resp = (case parseMeminfoLine line of
       None \<Rightarrow> resp
     | Some (key, kb) \<Rightarrow> let bytes = kb * 1024 in
         if key = ''MemTotal'' then resp\<lparr>TotalBytes := bytes\<rparr>
         else if key = ''MemAvailable'' then resp\<lparr>AvailableBytes := bytes\<rparr>
         else if key = ''Cached'' then resp\<lparr>CachedBytes := bytes\<rparr>
         else resp)"

definition Memory :: "string + string \<Rightarrow> string + memory_response" where
  "Memory file = bind_r file (\<lambda>text. Inr (fold memory_line (scan_lines text) \<lparr>TotalBytes = 0, AvailableBytes = 0, CachedBytes = 0\<rparr>))"

section \<open>Processors\<close>

text \<open>
  The loop of \<open>CPUInfo\<close>: the processors so far, and whether the last of them is the current one.
\<close>

definition update_last :: "('a \<Rightarrow> 'a) \<Rightarrow> 'a list \<Rightarrow> 'a list" where
  "update_last f xs = (if xs = [] then [] else butlast xs @ [f (last xs)])"

definition cpu_line :: "(string \<Rightarrow> jsval option) \<Rightarrow> string \<Rightarrow> cpu_info list \<times> bool \<Rightarrow> cpu_info list \<times> bool" where
  "cpu_line float line acc =
     (if line = [] then (fst acc, False)
      else case cut_str '':'' line of
        None \<Rightarrow> acc
      | Some (k, v) \<Rightarrow> let key = trim_space k; value' = trim_space v in
          if key = ''processor'' then (case ParseUint 32 value' of
              None \<Rightarrow> acc
            | Some n \<Rightarrow> (fst acc @ [\<lparr>cp_processor = n, cp_model_name = [], cp_mhz = Num 0\<rparr>], True))
          else if \<not> snd acc then acc
          else if key = ''model name'' then (update_last (\<lambda>c. c\<lparr>cp_model_name := value'\<rparr>) (fst acc), True)
          else if key = ''cpu MHz'' then (case float value' of
              None \<Rightarrow> acc
            | Some mhz \<Rightarrow> (update_last (\<lambda>c. c\<lparr>cp_mhz := mhz\<rparr>) (fst acc), True))
          else acc)"

definition CPUInfo :: "(string \<Rightarrow> jsval option) \<Rightarrow> string + string \<Rightarrow> string + cpu_info list" where
  "CPUInfo float file = bind_r file (\<lambda>text. Inr (fst (fold (cpu_line float) (scan_lines text) ([], False))))"

section \<open>Load and disks\<close>

definition LoadAvg :: "(string \<Rightarrow> jsval option) \<Rightarrow> string + string \<Rightarrow> string + load_info" where
  "LoadAvg float file = bind_r file (\<lambda>text. let fields = str_fields text in
     if length fields < 3 then Inl ''unexpected /proc/loadavg format''
     else case (float (fields ! 0), float (fields ! 1), float (fields ! 2)) of
       (Some a, Some b, Some c) \<Rightarrow> Inr \<lparr>li_load1 = a, li_load5 = b, li_load15 = c\<rparr>
     | _ \<Rightarrow> Inl ''unexpected /proc/loadavg format'')"

definition disk_line :: "string \<Rightarrow> disk_info list" where
  "disk_line line = (let fields = str_fields line in
     if length fields < 8 then []
     else if has_prefix (fields ! 2) ''ram'' \<or> has_prefix (fields ! 2) ''loop'' then []
     else case (ParseUint 64 (fields ! 3), ParseUint 64 (fields ! 7)) of
       (Some r, Some w) \<Rightarrow> [\<lparr>di_device_name = fields ! 2, di_read_completed = r, di_write_completed = w\<rparr>]
     | _ \<Rightarrow> [])"

definition DiskStats :: "string + string \<Rightarrow> string + disk_info list" where
  "DiskStats file = bind_r file (\<lambda>text. Inr (concat (map disk_line (scan_lines text))))"

section \<open>Version and credentials\<close>

definition readKernelVersion :: "string + string \<Rightarrow> string" where
  "readKernelVersion file = (case file of Inl _ \<Rightarrow> [] | Inr text \<Rightarrow> trim_space text)"

definition currentActiveSlot :: "string + string \<Rightarrow> string" where
  "currentActiveSlot cmdline = (case cmdline of
       Inl _ \<Rightarrow> []
     | Inr c \<Rightarrow> (case DataDevice c of None \<Rightarrow> [] | Some dev \<Rightarrow> (case ActiveSlot dev of None \<Rightarrow> [] | Some s \<Rightarrow> slot_name s)))"

definition api_Version :: "string \<Rightarrow> string \<Rightarrow> string + string \<Rightarrow> string + string \<Rightarrow> version_info" where
  "api_Version build go osrelease cmdline = \<lparr>vi_version = build, vi_go_version = go,
     vi_kernel_version = readKernelVersion osrelease, vi_active_slot = currentActiveSlot cmdline\<rparr>"

text \<open>The roles of the credential \<open>GenerateClientConfiguration\<close> issues, or the role it refuses.\<close>

fun unknown_role :: "string list \<Rightarrow> string option" where
  "unknown_role [] = None"
| "unknown_role (r # rs) = (if r \<noteq> RoleAdmin \<and> r \<noteq> RoleReader then Some r else unknown_role rs)"

definition GenerateClientConfiguration :: "pki_env \<Rightarrow> ca \<Rightarrow> string list \<Rightarrow> string + (string \<times> string \<times> string)" where
  "GenerateClientConfiguration E ca roles' =
     (let roles = (if roles' = [] then [RoleAdmin] else roles') in
      case unknown_role roles of
        Some r \<Rightarrow> Inl (''unknown role '' @ go_quote r)
      | None \<Rightarrow> (case pe_issue E ca \<lparr>CommonName = ''client'', Roles = roles, DNSNames = [], IPAddresses = [], ExtKeyUsage = ClientAuth\<rparr> of
            Inl e \<Rightarrow> Inl (''issue client certificate: '' @ e)
          | Inr (crt, key) \<Rightarrow> Inr (CertPEM ca, crt, key)))"

section \<open>The service behind the relay\<close>

text \<open>What the relay's five calls return: refused, failed, or what the node reads.\<close>

record proc_files =
  pf_meminfo :: "string + string"
  pf_cpuinfo :: "string + string"
  pf_loadavg :: "string + string"
  pf_diskstats :: "string + string"
  pf_osrelease :: "string + string"
  pf_cmdline :: "string + string"

definition system_call :: "peer \<Rightarrow> string \<Rightarrow> string + 'r \<Rightarrow> rpc_fault + 'r" where
  "system_call p m r = (case checkRole p (rpc_name ''SystemService'' m) of
       Inl e \<Rightarrow> Inl (Refused e)
     | Inr _ \<Rightarrow> (case r of Inl e \<Rightarrow> Inl (Failed e) | Inr x \<Rightarrow> Inr x))"

definition memory_info_of :: "memory_response \<Rightarrow> memory_info" where
  "memory_info_of m = \<lparr>mi_total = unat (TotalBytes m), mi_available = unat (AvailableBytes m), mi_cached = unat (CachedBytes m)\<rparr>"

definition node_system :: "peer \<Rightarrow> (string \<Rightarrow> jsval option) \<Rightarrow> string \<Rightarrow> string \<Rightarrow> proc_files \<Rightarrow> system_service" where
  "node_system p float build go F = \<lparr>
     sy_version = system_call p ''Version'' (Inr (api_Version build go (pf_osrelease F) (pf_cmdline F))),
     sy_memory = system_call p ''Memory'' (bind_r (Memory (pf_meminfo F)) (\<lambda>m. Inr (memory_info_of m))),
     sy_cpus = system_call p ''CPUInfo'' (CPUInfo float (pf_cpuinfo F)),
     sy_load = system_call p ''LoadAvg'' (LoadAvg float (pf_loadavg F)),
     sy_disks = system_call p ''DiskStats'' (DiskStats (pf_diskstats F))\<rparr>"

end
