(* ===== verification/System_Properties.thy ===== *)
theory System_Properties
  imports System_Stats Node_Page_Properties
begin

text \<open>
  What a node reads of itself, on its way to its page: the memory counters arrive as \<open>/proc/meminfo\<close>
  has them, and an empty list does not.
\<close>

section \<open>Memory\<close>

text \<open>Lines of \<open>/proc/meminfo\<close>: a key, the width of its padding, and a number of kilobytes.\<close>

definition meminfo_line :: "string \<times> nat \<times> nat \<Rightarrow> string" where
  "meminfo_line e = (fst e @ '':'') @ replicate (Suc (fst (snd e))) (CHR '' '') @ show_nat (snd (snd e)) @ '' kB''"

definition meminfo_text :: "(string \<times> nat \<times> nat) list \<Rightarrow> string" where
  "meminfo_text es = concat (map (\<lambda>l. l @ [newline]) (map meminfo_line es))"

definition meminfo_ok :: "string \<times> nat \<times> nat \<Rightarrow> bool" where
  "meminfo_ok e \<longleftrightarrow> is_word (fst e) \<and> snd (snd e) < 2 ^ 64 \<and> length (meminfo_line e) < 65536"

definition kb_of :: "(string \<times> nat \<times> nat) list \<Rightarrow> string \<Rightarrow> nat" where
  "kb_of es key = (case map_of (rev (map (\<lambda>e. (fst e, snd (snd e))) es)) key of None \<Rightarrow> 0 | Some n \<Rightarrow> n)"

lemma digits_no_space: "c \<in> set (show_nat n) \<Longrightarrow> \<not> is_space c \<and> c \<noteq> newline"
  using show_nat_digits [of n] by (auto simp: list_all_iff is_digit_def is_space_def newline_def)

lemma meminfo_fields: "is_word k \<Longrightarrow> str_fields (meminfo_line (k, m, n)) = [k @ '':'', show_nat n, ''kB'']"
proof -
  assume "is_word k"
  then have "\<forall>c \<in> set (k @ '':''). \<not> is_space c" by (auto simp: is_word_def is_space_def [of "CHR '':''"])
  then have "str_fields (meminfo_line (k, m, n)) = (k @ '':'') # fields_acc [] (show_nat n @ '' kB'')"
    using fields_acc_word [of "k @ '':''" "[]" "replicate (Suc m) (CHR '' '') @ show_nat n @ '' kB''"]
      fields_acc_spaces [of "k @ '':''" m "show_nat n @ '' kB''"]
    by (simp add: str_fields_def meminfo_line_def)
  also have "fields_acc [] (show_nat n @ '' kB'') = [show_nat n, ''kB'']"
    using fields_acc_word [of "show_nat n" "[]" "'' kB''"] digits_no_space [of _ n] by (auto simp: is_space_def)
  finally show ?thesis .
qed

lemma ParseUint_show: "n < 2 ^ bits \<Longrightarrow> ParseUint bits (show_nat n) = Some n"
  using show_nat_digits [of n] by (simp add: ParseUint_def)

lemma parse_meminfo: "meminfo_ok (k, m, n) \<Longrightarrow> parseMeminfoLine (meminfo_line (k, m, n)) = Some (k, of_nat n)"
  by (simp add: meminfo_ok_def parseMeminfoLine_def meminfo_fields ParseUint_show trim_colon_def Let_def)

lemma meminfo_no_newline: "meminfo_ok e \<Longrightarrow> newline \<notin> set (meminfo_line e)"
  using digits_no_space by (auto simp: meminfo_ok_def meminfo_line_def is_word_def newline_def is_space_def)

lemma drop_cr_meminfo: "drop_cr (meminfo_line e) = meminfo_line e"
  by (simp add: drop_cr_def meminfo_line_def)

lemma scan_meminfo: "\<forall>e \<in> set es. meminfo_ok e \<Longrightarrow> scan_lines (meminfo_text es) = map meminfo_line es"
proof -
  assume ok: "\<forall>e \<in> set es. meminfo_ok e"
  then have "split_on newline (meminfo_text es) = map meminfo_line es @ [[]]"
    unfolding meminfo_text_def by (intro split_lines) (auto dest: meminfo_no_newline)
  then have "scan_lines (meminfo_text es) = map drop_cr (takeWhile (\<lambda>l. length l < 65536) (map meminfo_line es))"
    by (simp add: scan_lines_def)
  also have "takeWhile (\<lambda>l. length l < 65536) (map meminfo_line es) = map meminfo_line es"
    using ok by (auto simp: takeWhile_eq_all_conv meminfo_ok_def)
  finally show ?thesis by (simp add: drop_cr_meminfo comp_def)
qed

lemma memory_fold:
  assumes "\<forall>e \<in> set es. meminfo_ok e"
  shows "fold memory_line (map meminfo_line es) \<lparr>TotalBytes = 0, AvailableBytes = 0, CachedBytes = 0\<rparr> =
    \<lparr>TotalBytes = of_nat (1024 * kb_of es ''MemTotal''), AvailableBytes = of_nat (1024 * kb_of es ''MemAvailable''),
      CachedBytes = of_nat (1024 * kb_of es ''Cached'')\<rparr>"
  using assms
proof (induction es rule: rev_induct)
  case (snoc e es)
  obtain k m n where e: "e = (k, m, n)" by (cases e)
  with snoc.prems have "memory_line (meminfo_line e) r = (let bytes = of_nat n * 1024 in
         if k = ''MemTotal'' then r\<lparr>TotalBytes := bytes\<rparr>
         else if k = ''MemAvailable'' then r\<lparr>AvailableBytes := bytes\<rparr>
         else if k = ''Cached'' then r\<lparr>CachedBytes := bytes\<rparr> else r)" for r
    by (simp add: memory_line_def parse_meminfo)
  with snoc e show ?case by (auto simp: kb_of_def mult.commute)
qed (simp add: kb_of_def)

lemma Memory_text: "\<forall>e \<in> set es. meminfo_ok e \<Longrightarrow> Memory (Inr (meminfo_text es)) =
    Inr \<lparr>TotalBytes = of_nat (1024 * kb_of es ''MemTotal''), AvailableBytes = of_nat (1024 * kb_of es ''MemAvailable''),
      CachedBytes = of_nat (1024 * kb_of es ''Cached'')\<rparr>"
  by (simp add: Memory_def scan_meminfo memory_fold)

section \<open>Properties\<close>

lemma handleInfo_ok:
  assumes "handleInfo rl sy = writeJSON 200 v"
  obtains ver mem cpus load disks where "sy_version sy = Inr ver" "sy_memory sy = Inr mem" "sy_cpus sy = Inr cpus"
    "sy_load sy = Inr load" "sy_disks sy = Inr disks" "v = info_response ver mem cpus load disks"
  using assms that by (auto simp: handleInfo_def rpc_failed_def http_error_def writeJSON_def split: option.splits sum.splits)

lemma wrapped: "unat (of_nat n :: 64 word) = n mod 2 ^ 64"
  by (simp add: unat_of_nat)

definition mib :: "nat \<Rightarrow> string" where
  "mib bytes = bytesToMiB (Num (int bytes))"

lemma kb_of_bounded: "\<forall>e \<in> set es. 1024 * snd (snd e) \<le> b \<Longrightarrow> 1024 * kb_of es key \<le> b"
  by (auto simp: kb_of_def dest!: map_of_SomeD split: option.splits)

text \<open>
  C31: From \<open>/proc/meminfo\<close> to the page: whatever order and padding the lines have, the table of
  the page shows the total, available and cached memory, each the last number of its key in
  kilobytes, in MiB; a key that is not there is zero. (The bound is the last integer a JavaScript
  number is exact for.)
\<close>

theorem memory_reaches_the_page:
  assumes "handleInfo rl (node_system p float build go F) = writeJSON 200 v"
    and "pf_meminfo F = Inr (meminfo_text es)" and "\<forall>e \<in> set es. meminfo_ok e"
    and "\<forall>e \<in> set es. 1024 * snd (snd e) \<le> 2 ^ 53"
  shows "memory_rows v = Some (row ''Total'' (mib (1024 * kb_of es ''MemTotal''))
    @ row ''Available'' (mib (1024 * kb_of es ''MemAvailable'')) @ row ''Cached'' (mib (1024 * kb_of es ''Cached'')))"
proof -
  obtain ver mem cpus load disks where mem: "sy_memory (node_system p float build go F) = Inr mem"
    and v: "v = info_response ver mem cpus load disks"
    using handleInfo_ok [OF assms(1)] by metis
  from mem assms(2) have "mem = memory_info_of \<lparr>TotalBytes = of_nat (1024 * kb_of es ''MemTotal''),
      AvailableBytes = of_nat (1024 * kb_of es ''MemAvailable''), CachedBytes = of_nat (1024 * kb_of es ''Cached'')\<rparr>"
    by (auto simp: node_system_def system_call_def Memory_text [OF assms(3)] split: sum.splits)
  also have "\<dots> = \<lparr>mi_total = 1024 * kb_of es ''MemTotal'' mod 2 ^ 64, mi_available = 1024 * kb_of es ''MemAvailable'' mod 2 ^ 64,
      mi_cached = 1024 * kb_of es ''Cached'' mod 2 ^ 64\<rparr>"
    by (simp only: memory_info_of_def memory_response.simps wrapped)
  also have "\<dots> = \<lparr>mi_total = 1024 * kb_of es ''MemTotal'', mi_available = 1024 * kb_of es ''MemAvailable'',
      mi_cached = 1024 * kb_of es ''Cached''\<rparr>"
  proof -
    have "1024 * kb_of es k mod 2 ^ 64 = 1024 * kb_of es k" for k
      using kb_of_bounded [OF assms(4), of k] by (intro mod_less) simp
    then show ?thesis by presburger
  qed
  finally show ?thesis
    by (simp add: v memory_rows_def info_response_def mib_def)
qed

text \<open>
  A node without disks (or processors) to report, such as one that boots without a disk, has
  an empty list, which the relay sends as \<open>null\<close>: the page throws on it, shows the error, and
  never asks for HAProxy's state.
\<close>

theorem no_disks_stop_the_refresh:
  assumes "handleInfo rl sy = writeJSON 200 v" and "sy_disks sy = Inr [] \<or> sy_cpus sy = Inr []"
  shows "el_error (pg (resume_page B P_System (Inr v) s)) = type_error B
    \<and> calls (resume_page B P_System (Inr v) s) = calls s"
proof -
  obtain ver mem cpus load disks where v: "v = info_response ver mem cpus load disks" and none: "disks = [] \<or> cpus = []"
    using handleInfo_ok [OF assms(1)] assms(2) by (metis Inr_inject)
  have "(Option.bind (get_prop v ''disks'') (map_concat disk_row)) = None \<or> (Option.bind (get_prop v ''cpus'') (map_concat (cpu_row B))) = None"
    using none by (auto simp: v info_response_def slice_json_def map_concat_def)
  then have "\<not> snd (refreshSystem_rest B v s) \<and> calls (fst (refreshSystem_rest B v s)) = calls s"
    by (auto simp: refreshSystem_rest_def upd_def split: option.splits)
  then show ?thesis
    by (cases "refreshSystem_rest B v s") (auto simp: resume_page_def on_value_def and_then_def on_error_def showError_def upd_def)
qed

section \<open>Instances\<close>

definition demo_float :: "string \<Rightarrow> jsval option" where
  "demo_float s = Some (Num 0)"

definition demo_files :: "string \<Rightarrow> proc_files" where
  "demo_files disks = \<lparr>pf_meminfo = Inr (meminfo_text [(''MemTotal'', 7, 2048), (''MemFree'', 8, 5), (''Cached'', 9, 512)]),
     pf_cpuinfo = Inr (''processor: 0'' @ [newline]), pf_loadavg = Inr ''0.1 0.2 0.3 1/9 7'', pf_diskstats = Inr disks,
     pf_osrelease = Inr ''6.18'', pf_cmdline = Inl ''no cmdline''\<rparr>"

definition demo_system :: "string \<Rightarrow> system_service" where
  "demo_system disks = node_system (Tls_peer [[RoleAdmin]]) demo_float ''1'' ''go1.26'' (demo_files disks)"

lemma demo_meminfo_ok: "\<forall>e \<in> set [(''MemTotal'', 7, 2048), (''MemFree'', 8, 5), (''Cached'', 9, 512)]. meminfo_ok e"
  by (simp add: meminfo_ok_def meminfo_line_def is_word_def is_space_def show_nat.simps)

lemma demo_handleInfo: "\<exists>v. handleInfo (demo_relay False) (demo_system disks) = writeJSON 200 v"
proof -
  have "checkRole (Tls_peer [[RoleAdmin]]) m = Inr ()" for m
    by (auto simp: checkRole_def required_for_cases roles_meet_iff adminOnly_def adminOrReader_def Let_def)
  moreover obtain l where "LoadAvg demo_float (Inr ''0.1 0.2 0.3 1/9 7'') = Inr l"
    by (simp add: LoadAvg_def demo_float_def str_fields_def is_space_def)
  moreover obtain cs where "CPUInfo demo_float (Inr (''processor: 0'' @ [newline])) = Inr cs" by (auto simp only: CPUInfo_def bind_r.simps)
  moreover obtain ds where "DiskStats (Inr disks) = Inr ds" by (auto simp only: DiskStats_def bind_r.simps)
  ultimately show ?thesis
    by (simp add: handleInfo_def demo_system_def node_system_def system_call_def demo_files_def demo_relay_def
        Memory_text [OF demo_meminfo_ok]) (rule exI, rule refl)
qed

theorem memory_reaches_the_page_witness:
  "\<exists>v. handleInfo (demo_relay False) (demo_system []) = writeJSON 200 v
    \<and> memory_rows v = Some (row ''Total'' (mib 2097152) @ row ''Available'' (mib 0) @ row ''Cached'' (mib 524288))"
proof -
  obtain v where v: "handleInfo (demo_relay False) (demo_system []) = writeJSON 200 v" using demo_handleInfo by blast
  have "pf_meminfo (demo_files []) = Inr (meminfo_text [(''MemTotal'', 7, 2048), (''MemFree'', 8, 5), (''Cached'', 9, 512)])"
    by (simp add: demo_files_def)
  from memory_reaches_the_page [OF v [unfolded demo_system_def] this demo_meminfo_ok] v show ?thesis
    by (intro exI [of _ v]) (simp add: kb_of_def)
qed

theorem no_disks_stop_the_refresh_witness:
  "\<exists>v. handleInfo (demo_relay False) (demo_system (''7 0 loop0 1 2 3 4 5'')) = writeJSON 200 v
    \<and> el_error (pg (resume_page demo_browser P_System (Inr v) page_start)) = ''TypeError''"
proof -
  let ?text = "''7 0 loop0 1 2 3 4 5''"
  obtain v where v: "handleInfo (demo_relay False) (demo_system ?text) = writeJSON 200 v" using demo_handleInfo by blast
  have scan: "scan_lines ?text = [?text]"
    by (simp add: scan_lines_def newline_def drop_cr_def)
  have "str_fields ?text = [''7'', ''0'', ''loop0'', ''1'', ''2'', ''3'', ''4'', ''5'']"
    by (simp add: str_fields_def is_space_def)
  then have "disk_line ?text = []" by (simp add: disk_line_def has_prefix_def)
  then have "DiskStats (Inr ?text) = Inr []" by (simp add: DiskStats_def scan)
  moreover have "checkRole (Tls_peer [[RoleAdmin]]) m = Inr ()" for m
    by (auto simp: checkRole_def required_for_cases roles_meet_iff adminOnly_def adminOrReader_def Let_def)
  ultimately have "sy_disks (demo_system ?text) = Inr []" by (simp add: demo_system_def node_system_def system_call_def demo_files_def)
  with no_disks_stop_the_refresh [OF v, of demo_browser page_start]
  have "el_error (pg (resume_page demo_browser P_System (Inr v) page_start)) = type_error demo_browser" by blast
  also have "type_error demo_browser = ''TypeError''" by (simp add: demo_browser_def)
  finally show ?thesis using v by blast
qed

end
