(* ===== verification/Controller_Races.thy ===== *)
theory Controller_Races
  imports Controller_Properties
begin

text \<open>
  The Controller serves every request in a goroutine of its own. Here the handlers that change the
  registries are cut where they let go of a lock (\<open>UsedPorts\<close>, \<open>Add\<close>, \<open>Remove\<close>, \<open>Get\<close>, the map
  of listeners), and the pieces of any number of requests run in any order. \<open>requests_alone\<close> shows
  that without interference the pieces are the handlers of \<open>Controller\<close>.
\<close>

section \<open>Requests in flight\<close>

text \<open>A request that changes a registry, past \<open>requireAuth\<close>.\<close>

datatype call = Add_Node request | Approve string | Reject string | Delete string | Announce request

text \<open>
  Where a request stands: what it does next, with what it has read so far. A finished request
  keeps the node it put on line, if any, and its response.
\<close>

datatype task =
    T_Issue request
  | T_Add_Port node
  | T_Add_Store node
  | T_Add_Listen node
  | T_Get string
  | T_Port string pnode
  | T_Store string node
  | T_Listen string node
  | T_Roll_Back node string
  | T_Drop string node
  | T_Reject string
  | T_Stop string
  | T_Forget string
  | T_Announce request
  | T_Done "node option" http_response

fun first_task :: "call \<Rightarrow> task" where
  "first_task (Add_Node rq) = T_Issue rq"
| "first_task (Approve i) = T_Get i"
| "first_task (Reject i) = T_Reject i"
| "first_task (Delete i) = T_Stop i"
| "first_task (Announce rq) = T_Announce rq"

text \<open>The routes of the two servers that change a registry.\<close>

definition call_of :: "request \<Rightarrow> call option" where
  "call_of rq =
     (if rq_path rq = ''/api/nodes'' then (if rq_method rq = ''POST'' then Some (Add_Node rq) else None)
      else if has_prefix (rq_path rq) ''/api/nodes/'' then
        (let i = drop (length ''/api/nodes/'') (rq_path rq) in
         if rq_method rq = ''DELETE'' \<and> i \<noteq> [] then Some (Delete i) else None)
      else if rq_path rq \<noteq> ''/api/pending'' \<and> has_prefix (rq_path rq) ''/api/pending/'' \<and> rq_method rq = ''POST'' then
        (case cut (CHR ''/'') (drop (length ''/api/pending/'') (rq_path rq)) of
           None \<Rightarrow> None
         | Some (i, action) \<Rightarrow>
             if i = [] then None
             else if action = ''approve'' then Some (Approve i)
             else if action = ''reject'' then Some (Reject i)
             else None)
      else None)"

fun task_step :: "server_env \<Rightarrow> task \<Rightarrow> app \<Rightarrow> app \<times> task" where
  "task_step e (T_Issue rq) a = (a, case issue_credential e rq of Inl r \<Rightarrow> T_Done None r | Inr n \<Rightarrow> T_Add_Port n)"
| "task_step e (T_Add_Port n) a = (a, case allocate_port (ap_store a) of
       Inl err \<Rightarrow> T_Done None (http_error err 507) | Inr port \<Rightarrow> T_Add_Store (n\<lparr>n_port := port\<rparr>))"
| "task_step e (T_Add_Store n) a = (case store_add (se_os e) n (ap_store a) of
       (st, Inl err) \<Rightarrow> (a\<lparr>ap_store := st\<rparr>, T_Done None (http_error (''persist node: '' @ err) 500))
     | (st, Inr n') \<Rightarrow> (a\<lparr>ap_store := st\<rparr>, T_Add_Listen n'))"
| "task_step e (T_Add_Listen n) a = (case start_listener e n a of
       (a', Inl err) \<Rightarrow> (a', T_Done None (http_error (''node registered but its listener failed to start: '' @ err) 500))
     | (a', Inr _) \<Rightarrow> (a', T_Done (Some n) (writeJSON 201 (created_json n))))"
| "task_step e (T_Get i) a = (a, case pending_get (ap_pending a) i of
       None \<Rightarrow> T_Done None (http_error (''no pending node '' @ go_quote i) 404) | Some p \<Rightarrow> T_Port i p)"
| "task_step e (T_Port i p) a = (a, case allocate_port (ap_store a) of
       Inl err \<Rightarrow> T_Done None (http_error err 507) | Inr port \<Rightarrow> T_Store i (pending_to_node port p))"
| "task_step e (T_Store i n) a = (case store_add (se_os e) n (ap_store a) of
       (st, Inl err) \<Rightarrow> (a\<lparr>ap_store := st\<rparr>, T_Done None (http_error (''persist node: '' @ err) 500))
     | (st, Inr n') \<Rightarrow> (a\<lparr>ap_store := st\<rparr>, T_Listen i n'))"
| "task_step e (T_Listen i n) a = (case start_listener e n a of
       (a', Inl err) \<Rightarrow> (a', T_Roll_Back n err) | (a', Inr _) \<Rightarrow> (a', T_Drop i n))"
| "task_step e (T_Roll_Back n err) a = (a\<lparr>ap_store := fst (store_remove (se_rm e) (n_id n) (ap_store a))\<rparr>,
     T_Done None (http_error (''node approved but its listener failed to start: '' @ err) 500))"
| "task_step e (T_Drop i n) a = (a\<lparr>ap_pending := fst (pending_remove (se_rm e) i (ap_pending a))\<rparr>,
     T_Done (Some n) (writeJSON 201 (created_json n)))"
| "task_step e (T_Reject i) a = (case pending_remove (se_rm e) i (ap_pending a) of
       (ps, Inl err) \<Rightarrow> (a\<lparr>ap_pending := ps\<rparr>, T_Done None (http_error err 404))
     | (ps, Inr _) \<Rightarrow> (a\<lparr>ap_pending := ps\<rparr>, T_Done None no_content))"
| "task_step e (T_Stop i) a = (a\<lparr>ap_listeners := gm_del i (ap_listeners a)\<rparr>, T_Forget i)"
| "task_step e (T_Forget i) a = (case store_remove (se_rm e) i (ap_store a) of
       (st, Inl err) \<Rightarrow> (a\<lparr>ap_store := st\<rparr>, T_Done None (http_error err 404))
     | (st, Inr _) \<Rightarrow> (a\<lparr>ap_store := st\<rparr>, T_Done None no_content))"
| "task_step e (T_Announce rq) a = (case handleRegister e rq a of (a', r) \<Rightarrow> (a', T_Done None r))"
| "task_step e (T_Done x r) a = (a, T_Done x r)"

section \<open>Interleavings\<close>

type_synonym race = "app \<times> (call \<times> task) list"

fun created :: "task \<Rightarrow> node option" where
  "created (T_Add_Listen n) = Some n"
| "created (T_Listen i n) = Some n"
| "created (T_Roll_Back n err) = Some n"
| "created (T_Drop i n) = Some n"
| "created (T_Done x r) = x"
| "created _ = None"

fun named :: "call \<Rightarrow> string option" where
  "named (Approve i) = Some i"
| "named (Reject i) = Some i"
| "named (Delete i) = Some i"
| "named _ = None"

text \<open>The identifiers that occur anywhere: random ones are taken to be new.\<close>

definition known_ids :: "race \<Rightarrow> string set" where
  "known_ids c = {i. store_get (ap_store (fst c)) i \<noteq> None} \<union> {i. pending_get (ap_pending (fst c)) i \<noteq> None}
     \<union> {i. gm_get (ap_listeners (fst c)) i \<noteq> None} \<union> {i. \<exists>t \<in> set (snd c). named (fst t) = Some i}
     \<union> {i. \<exists>t \<in> set (snd c). \<exists>n. created (snd t) = Some n \<and> n_id n = i}"

definition race_env :: "server_env \<Rightarrow> race \<Rightarrow> bool" where
  "race_env e c \<longleftrightarrow> (\<forall>i. os_id (se_os e) = Some i \<longrightarrow> i \<notin> known_ids c)"

inductive race_step :: "race \<Rightarrow> race \<Rightarrow> bool" where
  arrives: "race_step (a, ts) (a, ts @ [(c, first_task c)])"
| runs: "k < length ts \<Longrightarrow> race_env e (a, ts) \<Longrightarrow> task_step e (snd (ts ! k)) a = (a', t')
    \<Longrightarrow> race_step (a, ts) (a', ts[k := (fst (ts ! k), t')])"

inductive_cases race_stepE: "race_step c c'"

text \<open>A request on its own: the same environment at each of its pieces, nothing in between.\<close>

definition alone :: "server_env \<Rightarrow> task \<Rightarrow> app \<Rightarrow> app \<times> task" where
  "alone e t a = ((\<lambda>c. task_step e (snd c) (fst c)) ^^ 5) (a, t)"

section \<open>The pieces are the handlers\<close>

lemma alone_5: "alone e t a = (let s = (\<lambda>c. task_step e (snd c) (fst c)) in s (s (s (s (s (a, t))))))"
  by (simp add: alone_def eval_nat_numeral)

lemma alone_add: "\<exists>x. alone e (T_Issue rq) a = (fst (handleAddNode e rq a), T_Done x (snd (handleAddNode e rq a)))"
  by (auto simp: alone_5 handleAddNode_def Let_def split: sum.splits prod.splits)

lemma alone_approve: "\<exists>x. alone e (T_Get i) a = (fst (approvePending e i a), T_Done x (snd (approvePending e i a)))"
  by (auto simp: alone_5 approvePending_def Let_def split: sum.splits prod.splits option.splits)

lemma alone_reject: "\<exists>x. alone e (T_Reject i) a = (fst (rejectPending e i a), T_Done x (snd (rejectPending e i a)))"
  by (auto simp: alone_5 rejectPending_def Let_def split: sum.splits prod.splits option.splits)

lemma alone_delete:
  assumes "rq_method rq = ''DELETE''" "drop (length ''/api/nodes/'') (rq_path rq) = i" "i \<noteq> []"
  shows "\<exists>x. alone e (T_Stop i) a = (fst (handleNode e rq a), T_Done x (snd (handleNode e rq a)))"
  using assms by (auto simp: alone_5 handleNode_def Let_def split: sum.splits prod.splits)

lemma alone_announce: "\<exists>x. alone e (T_Announce rq) a = (fst (handleRegister e rq a), T_Done x (snd (handleRegister e rq a)))"
  by (auto simp: alone_5 Let_def split: prod.splits)

lemmas alone_call = alone_add alone_approve alone_reject alone_delete alone_announce

lemma alone_pending:
  "case call_of rq of
      Some c \<Rightarrow> \<exists>x. alone e (first_task c) a = (fst (handlePendingAction e rq a), T_Done x (snd (handlePendingAction e rq a)))
    | None \<Rightarrow> fst (handlePendingAction e rq a) = a"
  if "rq_path rq \<noteq> ''/api/nodes''" "\<not> has_prefix (rq_path rq) ''/api/nodes/''" "rq_path rq \<noteq> ''/api/pending''"
    "has_prefix (rq_path rq) ''/api/pending/''"
  using that by (auto simp: call_of_def handlePendingAction_def alone_approve alone_reject split: option.splits)

text \<open>
  A request that meets no other is what its handler says: for every route that changes a
  registry the pieces, run one after the other, end in the handler's state with its response;
  requests on all other routes behind the session check change nothing at all.
\<close>

theorem requests_alone:
  assumes "protected_handler e rq = Some h"
  shows "(case call_of rq of
      Some c \<Rightarrow> \<exists>x. alone e (first_task c) a = (fst (h a), T_Done x (snd (h a)))
    | None \<Rightarrow> fst (h a) = a)
    \<and> (\<exists>x. alone e (first_task (Announce rq')) a = (fst (handleRegister e rq' a), T_Done x (snd (handleRegister e rq' a))))"
proof -
  consider (nodes) "rq_path rq = ''/api/nodes''" "h = handleNodes e rq"
    | (node) "rq_path rq \<noteq> ''/api/nodes''" "has_prefix (rq_path rq) ''/api/nodes/''" "h = handleNode e rq"
    | (pending) "rq_path rq \<noteq> ''/api/nodes''" "\<not> has_prefix (rq_path rq) ''/api/nodes/''" "rq_path rq \<noteq> ''/api/pending''"
        "has_prefix (rq_path rq) ''/api/pending/''" "h = handlePendingAction e rq"
    | (others) "rq_path rq = ''/api/pending'' \<or> rq_path rq = ''/api/controller-info''" "fst (h a) = a"
    using assms by (auto simp: protected_handler_def handlePendingList_def handleControllerInfo_def split: if_splits)
  then show ?thesis
  proof cases
    case nodes
    then show ?thesis by (auto simp: call_of_def handleNodes_def alone_add alone_announce)
  next
    case node
    then show ?thesis using alone_delete [of rq _ e a] by (auto simp: call_of_def alone_announce Let_def handleNode_def)
  next
    case pending
    show ?thesis unfolding pending(5) first_task.simps(5) using alone_pending [OF pending(1-4)] alone_announce by blast
  next
    case others
    then show ?thesis by (auto simp: call_of_def alone_announce has_prefix_def)
  qed
qed

end
