(* ===== verification/Race_Properties.thy ===== *)
theory Race_Properties
  imports Controller_Races
begin

text \<open>
  Concurrent requests at the Controller: what every interleaving keeps (the ports of listeners, the
  announcements) by an invariant with a guarantee per piece, and three things interleavings break.
\<close>

section \<open>What every interleaving keeps\<close>

definition same_node :: "node \<Rightarrow> pnode \<Rightarrow> bool" where
  "same_node n p \<longleftrightarrow> n_name n = p_name p \<and> n_address n = p_address p \<and> n_ca n = p_ca p \<and> n_cert n = p_cert p \<and> n_key n = p_key p"

text \<open>The identifiers whose deletion was asked for, and the states of a node's registration.\<close>

definition deletions :: "(call \<times> task) list \<Rightarrow> string set" where
  "deletions ts = {i. \<exists>t \<in> set ts. fst t = Delete i}"

definition registered :: "app \<Rightarrow> string set \<Rightarrow> node \<Rightarrow> bool" where
  "registered a D n \<longleftrightarrow> n_id n \<in> D \<or> store_get (ap_store a) (n_id n) = Some n"

definition on_line :: "app \<Rightarrow> string set \<Rightarrow> node \<Rightarrow> bool" where
  "on_line a D n \<longleftrightarrow> n_id n \<in> D \<or> (store_get (ap_store a) (n_id n) = Some n \<and> gm_get (ap_listeners a) (n_id n) = Some n)"

definition silent :: "app \<Rightarrow> node \<Rightarrow> bool" where
  "silent a n \<longleftrightarrow> gm_get (ap_listeners a) (n_id n) = None"

text \<open>
  What a request knows where it stands, among it of the announcement \<open>p\<close> with identifier \<open>i\<close>, if
  one is watched.
\<close>

fun task_ok :: "string option \<Rightarrow> pnode \<Rightarrow> app \<Rightarrow> string set \<Rightarrow> call \<Rightarrow> task \<Rightarrow> bool" where
  "task_ok i p a D c (T_Add_Listen n) \<longleftrightarrow> (\<exists>rq. c = Add_Node rq) \<and> registered a D n \<and> silent a n"
| "task_ok i p a D c (T_Get j) \<longleftrightarrow> c = Approve j"
| "task_ok i p a D c (T_Port j q) \<longleftrightarrow> c = Approve j \<and> (i = Some j \<longrightarrow> q = p)"
| "task_ok i p a D c (T_Store j n) \<longleftrightarrow> c = Approve j \<and> (i = Some j \<longrightarrow> same_node n p)"
| "task_ok i p a D c (T_Listen j n) \<longleftrightarrow> c = Approve j \<and> (i = Some j \<longrightarrow> same_node n p) \<and> registered a D n \<and> silent a n"
| "task_ok i p a D c (T_Roll_Back n err) \<longleftrightarrow> silent a n"
| "task_ok i p a D c (T_Drop j n) \<longleftrightarrow> c = Approve j \<and> (i = Some j \<longrightarrow> same_node n p) \<and> on_line a D n"
| "task_ok i p a D c (T_Done (Some n) r) \<longleftrightarrow> (\<forall>j. i = Some j \<longrightarrow> c = Approve j \<longrightarrow> same_node n p) \<and> on_line a D n"
| "task_ok i p a D c (T_Reject j) \<longleftrightarrow> c = Reject j"
| "task_ok i p a D c (T_Stop j) \<longleftrightarrow> c = Delete j"
| "task_ok i p a D c (T_Forget j) \<longleftrightarrow> c = Delete j"
| "task_ok i p a D c (T_Issue rq) \<longleftrightarrow> c = Add_Node rq"
| "task_ok i p a D c (T_Add_Port n) \<longleftrightarrow> (\<exists>rq. c = Add_Node rq)"
| "task_ok i p a D c (T_Add_Store n) \<longleftrightarrow> (\<exists>rq. c = Add_Node rq)"
| "task_ok i p a D c _ \<longleftrightarrow> True"

definition listeners_ok :: "app \<Rightarrow> string set \<Rightarrow> bool" where
  "listeners_ok a D \<longleftrightarrow> (\<forall>i n. gm_get (ap_listeners a) i = Some n \<longrightarrow> n_id n = i \<and> registered a D n)
     \<and> (\<forall>i j n m. gm_get (ap_listeners a) i = Some n \<longrightarrow> gm_get (ap_listeners a) j = Some m \<longrightarrow> n_port n = n_port m \<longrightarrow> i = j)"

text \<open>The answer to a rejection whose \<open>RemoveAll\<close> fails: the queue has lost the announcement all the same.\<close>

definition half_rejected :: "string \<Rightarrow> http_response" where
  "half_rejected i = http_error (''unlink pending/'' @ i) 404"

definition settled :: "string \<Rightarrow> (call \<times> task) list \<Rightarrow> bool" where
  "settled i ts \<longleftrightarrow> (\<exists>r \<in> {no_content, half_rejected i}. (Reject i, T_Done None r) \<in> set ts)
     \<or> (\<exists>n. (Approve i, T_Done (Some n) (writeJSON 201 (created_json n))) \<in> set ts)"

definition queued :: "string option \<Rightarrow> pnode \<Rightarrow> pstore \<Rightarrow> bool" where
  "queued i p ps \<longleftrightarrow> (\<forall>j q. i = Some j \<longrightarrow> pending_get ps j = Some q \<longrightarrow> q = p)"

definition announcement_ok :: "string option \<Rightarrow> pnode \<Rightarrow> race \<Rightarrow> bool" where
  "announcement_ok i p c \<longleftrightarrow> queued i p (ap_pending (fst c))
     \<and> (\<forall>j. i = Some j \<longrightarrow> pending_get (ap_pending (fst c)) j = None \<longrightarrow> settled j (snd c))"

definition own_ids :: "(call \<times> task) list \<Rightarrow> bool" where
  "own_ids ts \<longleftrightarrow> (\<forall>k l n m. k < length ts \<longrightarrow> l < length ts \<longrightarrow> k \<noteq> l \<longrightarrow> created (snd (ts ! k)) = Some n
     \<longrightarrow> created (snd (ts ! l)) = Some m \<longrightarrow> n_id n \<noteq> n_id m)"

definition race_inv :: "string option \<Rightarrow> pnode \<Rightarrow> race \<Rightarrow> bool" where
  "race_inv i p c \<longleftrightarrow> listeners_ok (fst c) (deletions (snd c)) \<and> announcement_ok i p c \<and> own_ids (snd c)
     \<and> (\<forall>t \<in> set (snd c). task_ok i p (fst c) (deletions (snd c)) (fst t) (snd t))"

text \<open>
  What one piece does to the registrations of others: outside the node of its own request it only
  takes away those whose deletion was asked for.
\<close>

definition guarantee :: "string set \<Rightarrow> string set \<Rightarrow> app \<Rightarrow> app \<Rightarrow> bool" where
  "guarantee X D a a' \<longleftrightarrow> (\<forall>j. j \<notin> X \<longrightarrow>
       (gm_get (ap_listeners a') j = gm_get (ap_listeners a) j \<or> (j \<in> D \<and> gm_get (ap_listeners a') j = None))
     \<and> (store_get (ap_store a') j = store_get (ap_store a) j \<or> j \<in> D))"

definition ids_of :: "node option \<Rightarrow> string set" where
  "ids_of x = (case x of Some n \<Rightarrow> {n_id n} | None \<Rightarrow> {})"

lemma task_ok_guarantee:
  assumes "task_ok i p a D c t" and "guarantee X D a a'" and "\<And>n. created t = Some n \<Longrightarrow> n_id n \<notin> X"
  shows "task_ok i p a' D c t"
proof -
  have reg: "registered a D n \<Longrightarrow> n_id n \<notin> X \<Longrightarrow> registered a' D n" for n
    using assms(2) by (auto simp: registered_def guarantee_def)
  have line: "on_line a D n \<Longrightarrow> n_id n \<notin> X \<Longrightarrow> on_line a' D n" for n
    using assms(2) by (auto simp: on_line_def guarantee_def)
  have sil: "silent a n \<Longrightarrow> n_id n \<notin> X \<Longrightarrow> silent a' n" for n
    using assms(2) by (auto simp: silent_def guarantee_def)
  show ?thesis using assms(1,3) reg line sil by (cases "(i, p, a, D, c, t)" rule: task_ok.cases) auto
qed

text \<open>The pieces that change something, one by one.\<close>

lemma added:
  assumes "store_add (se_os e) n (ap_store a) = (st, r)" and "race_env e (a, ts)"
  shows "(case r of
      Inl m \<Rightarrow> store_get st = store_get (ap_store a)
    | Inr n' \<Rightarrow> n_id n' \<notin> known_ids (a, ts) \<and> n' = n\<lparr>n_id := n_id n'\<rparr>
        \<and> store_get st = (store_get (ap_store a)) (n_id n' := Some n'))"
proof (cases r)
  case (Inl m)
  with assms(1) show ?thesis using nodes.add_err by (auto simp: fun_eq_iff)
next
  case (Inr n')
  with assms(1) have "os_id (se_os e) = Some (n_id n')" "n' = n\<lparr>n_id := n_id n'\<rparr>"
    "\<And>j. store_get st j = (if j = n_id n' then Some n' else store_get (ap_store a) j)"
    using nodes.add_ident nodes.add_ok store_add_node by metis+
  with assms(2) Inr show ?thesis by (auto simp: race_env_def fun_eq_iff)
qed

text \<open>One piece: what it guarantees to the others, and where it takes its own request.\<close>

definition own :: "task \<Rightarrow> task \<Rightarrow> string set" where
  "own t t' = ids_of (created t) \<union> ids_of (created t')"

definition piece_ok :: "string option \<Rightarrow> pnode \<Rightarrow> race \<Rightarrow> call \<Rightarrow> task \<Rightarrow> app \<Rightarrow> task \<Rightarrow> bool" where
  "piece_ok i p c o' t a' t' \<longleftrightarrow> (let D = deletions (snd c) in guarantee (own t t') D (fst c) a' \<and> listeners_ok a' D
     \<and> task_ok i p a' D o' t' \<and> (created t' = None \<or> created t' = created t \<or> ids_of (created t') \<inter> known_ids c = {})
     \<and> queued i p (ap_pending a') \<and> (\<forall>j. i = Some j \<longrightarrow> pending_get (ap_pending a') j = None
          \<longrightarrow> pending_get (ap_pending (fst c)) j = None \<or> settled j [(o', t')]))"

lemma guarantee_refl [simp]: "guarantee X D a a"
  by (simp add: guarantee_def)

lemma listeners_ok_more:
  "listeners_ok a D \<Longrightarrow> ap_listeners a' = ap_listeners a \<Longrightarrow>
   (\<And>i n. gm_get (ap_listeners a) i = Some n \<Longrightarrow> store_get (ap_store a) i = Some n \<Longrightarrow> i \<notin> D \<Longrightarrow> store_get (ap_store a') i = Some n) \<Longrightarrow>
   listeners_ok a' D"
  unfolding listeners_ok_def registered_def by metis

lemma add_piece_ok:
  assumes run: "store_add (se_os e) n (ap_store a) = (st, r)" and env: "race_env e (a, ts)" and lst: "listeners_ok a (deletions ts)"
    and t: "created t = None"
    and t': "case r of Inl m \<Rightarrow> created t' = None \<and> task_ok i p (a\<lparr>ap_store := st\<rparr>) (deletions ts) c t'
      | Inr n' \<Rightarrow> created t' = Some n' \<and> (registered (a\<lparr>ap_store := st\<rparr>) (deletions ts) n' \<and> silent (a\<lparr>ap_store := st\<rparr>) n'
          \<longrightarrow> task_ok i p (a\<lparr>ap_store := st\<rparr>) (deletions ts) c t')"
    and pend: "queued i p (ap_pending a)"
  shows "piece_ok i p (a, ts) c t (a\<lparr>ap_store := st\<rparr>) t'"
proof (cases r)
  case (Inl m)
  with added [OF run env] t' t pend lst show ?thesis
    by (auto simp: piece_ok_def own_def ids_of_def guarantee_def intro: listeners_ok_more split: option.splits)
next
  case (Inr n')
  with added [OF run env] have n': "n_id n' \<notin> known_ids (a, ts)" "store_get st = (store_get (ap_store a)) (n_id n' := Some n')" by auto
  from n' have "silent a n'" by (simp add: known_ids_def silent_def)
  moreover have "store_get (ap_store a) (n_id n') = None" using n'(1) by (simp add: known_ids_def)
  moreover have "listeners_ok (a\<lparr>ap_store := st\<rparr>) (deletions ts)"
    using n' \<open>store_get (ap_store a) (n_id n') = None\<close> by (intro listeners_ok_more [OF lst]) auto
  ultimately show ?thesis using Inr n' t t' pend
    by (auto simp: piece_ok_def own_def ids_of_def guarantee_def registered_def silent_def Let_def split: option.splits)
qed

lemma listen_piece_ok:
  assumes run: "start_listener e n a = (a', r)" and lst: "listeners_ok a (deletions ts)" and reg: "registered a (deletions ts) n"
    and t: "created t = Some n"
    and t': "case r of Inl m \<Rightarrow> created t' \<in> {None, Some n} \<and> (task_ok i p a (deletions ts) c t') | Inr _ \<Rightarrow> created t' = Some n
      \<and> (on_line a' (deletions ts) n \<longrightarrow> task_ok i p a' (deletions ts) c t')"
    and pend: "queued i p (ap_pending a)"
  shows "piece_ok i p (a, ts) c t a' t'"
proof (cases r)
  case (Inl m)
  with start_listener_result [OF run] t t' pend lst show ?thesis
    by (auto simp: piece_ok_def Let_def split: option.splits)
next
  case (Inr u)
  with start_listener_result [OF run] have a': "a' = a\<lparr>ap_listeners := gm_put (n_id n) n (ap_listeners a)\<rparr>"
    and port: "n_port n \<notin> n_port ` snd ` set (ap_listeners a)" by auto
  have other: "n_port m \<noteq> n_port n" if "gm_get (ap_listeners a) j = Some m" for j m
    using port map_of_SomeD [OF that [unfolded gm_get_def]] by (metis image_eqI snd_conv)
  have "on_line a' (deletions ts) n" using reg by (auto simp: on_line_def registered_def a')
  moreover have "listeners_ok a' (deletions ts)"
    using lst reg other by (auto simp: listeners_ok_def registered_def a' split: if_splits) metis+
  ultimately show ?thesis using Inr t t' pend
    by (auto simp: piece_ok_def own_def ids_of_def guarantee_def a' Let_def split: option.splits)
qed

lemma deletions_I: "(Delete j, t) \<in> set ts \<Longrightarrow> j \<in> deletions ts"
  by (force simp: deletions_def)

lemma store_get_removed [simp]: "store_get (fst (store_remove kept j s)) k = (if k = j then None else store_get s k)"
  by (rule nodes.rm_lookup)

lemma pending_get_removed [simp]: "pending_get (fst (pending_remove kept j s)) k = (if k = j then None else pending_get s k)"
  by (rule announced.rm_lookup)

lemma forget_piece_ok:
  assumes lst: "listeners_ok a (deletions ts)" and gone: "j \<in> own t t' \<or> j \<in> deletions ts" and sil: "j \<in> deletions ts \<or> gm_get (ap_listeners a) j = None"
    and t': "created t' = None" "task_ok i p (a\<lparr>ap_store := fst (store_remove kept j (ap_store a))\<rparr>) (deletions ts) c t'"
    and pend: "queued i p (ap_pending a)"
  shows "piece_ok i p (a, ts) c t (a\<lparr>ap_store := fst (store_remove kept j (ap_store a))\<rparr>) t'"
proof -
  have "listeners_ok (a\<lparr>ap_store := fst (store_remove kept j (ap_store a))\<rparr>) (deletions ts)"
    using sil by (intro listeners_ok_more [OF lst]) auto
  with gone t' pend show ?thesis by (auto simp: piece_ok_def guarantee_def Let_def split: option.splits)
qed

lemma stop_piece_ok:
  assumes lst: "listeners_ok a (deletions ts)" and j: "j \<in> deletions ts" and t': "created t' = None"
      "task_ok i p (a\<lparr>ap_listeners := gm_del j (ap_listeners a)\<rparr>) (deletions ts) c t'"
    and pend: "queued i p (ap_pending a)"
  shows "piece_ok i p (a, ts) c t (a\<lparr>ap_listeners := gm_del j (ap_listeners a)\<rparr>) t'"
proof -
  have "listeners_ok (a\<lparr>ap_listeners := gm_del j (ap_listeners a)\<rparr>) (deletions ts)"
    using lst by (auto simp: listeners_ok_def registered_def split: if_splits)
  with j t' pend show ?thesis by (auto simp: piece_ok_def guarantee_def Let_def split: option.splits)
qed

lemma pending_piece_ok:
  assumes lst: "listeners_ok a (deletions ts)" and t': "created t' = None \<or> created t' = created t" "task_ok i p a (deletions ts) c t'"
    and pend: "queued i p ps" "\<forall>j. i = Some j \<longrightarrow> pending_get ps j = None \<longrightarrow> pending_get (ap_pending a) j = None \<or> settled j [(c, t')]"
  shows "piece_ok i p (a, ts) c t (a\<lparr>ap_pending := ps\<rparr>) t'"
proof -
  have "listeners_ok (a\<lparr>ap_pending := ps\<rparr>) (deletions ts)" by (rule listeners_ok_more [OF lst]) auto
  moreover have "task_ok i p (a\<lparr>ap_pending := ps\<rparr>) (deletions ts) c t'"
    using t'(2) by (rule task_ok_guarantee [where X = "{}"]) (simp_all add: guarantee_def)
  ultimately show ?thesis using t'(1) pend by (auto simp: piece_ok_def guarantee_def Let_def split: option.splits)
qed

lemma announce_changes:
  assumes "handleRegister e rq a = (a', r)" and "race_env e (a, ts)"
  obtains "a' = a" | ps where "a' = a\<lparr>ap_pending := ps\<rparr>"
    "\<forall>j \<in> known_ids (a, ts). pending_get ps j = pending_get (ap_pending a) j" "\<forall>j. pending_get (ap_pending a) j \<noteq> None \<longrightarrow> pending_get ps j \<noteq> None"
proof -
  have known: "(\<forall>j \<in> known_ids (a, ts). pending_get ps j = pending_get (ap_pending a) j)
      \<and> (\<forall>j. pending_get (ap_pending a) j \<noteq> None \<longrightarrow> pending_get ps j \<noteq> None)"
    if "pending_add (se_os e) now n (ap_pending a) = (ps, x)" for now n ps x
  proof (cases x)
    case (Inl m)
    with that show ?thesis using announced.add_err [of "(se_os e, now)"] by auto
  next
    case (Inr n')
    have ads: "(\<lambda>e. pending_add (fst e) (snd e)) (se_os e, now) n (ap_pending a) = (ps, Inr n')" using that Inr by simp
    have "os_id (se_os e) = Some (p_id n')" using announced.add_ident [OF ads] by simp
    then have "p_id n' \<notin> known_ids (a, ts)" using assms(2) by (simp add: race_env_def)
    then show ?thesis using announced.add_ok [OF ads] by auto
  qed
  have "a' = a \<or> (\<exists>now n ps x. pending_add (se_os e) now n (ap_pending a) = (ps, x) \<and> a' = a\<lparr>ap_pending := ps\<rparr>)"
    using assms(1) by (auto simp: handleRegister_def Let_def split: sum.splits option.splits if_splits prod.splits)
  with that known show thesis by blast
qed

lemma settled_named: "settled i ts \<Longrightarrow> i \<in> known_ids (a, ts)"
  by (force simp: settled_def known_ids_def)

lemma quiet_piece_ok:
  assumes "listeners_ok a (deletions ts)" and "created t' = None" and "task_ok i p a (deletions ts) c t'"
    and "queued i p (ap_pending a)"
  shows "piece_ok i p (a, ts) c t a t'"
  using pending_piece_ok [OF assms(1) _ assms(3), where t = t and ps = "ap_pending a"] assms(2,4) by (auto split: option.splits)

lemma piece:
  assumes run: "task_step e t a = (a', t')" and env: "race_env e (a, ts)" and here: "(c, t) \<in> set ts"
    and lst: "listeners_ok a (deletions ts)" and ok: "task_ok i p a (deletions ts) c t" and ann: "announcement_ok i p (a, ts)"
  shows "piece_ok i p (a, ts) c t a' t'"
proof -
  have pend: "queued i p (ap_pending a)"
    using ann by (simp add: announcement_ok_def)
  have quiet: "a' = a \<Longrightarrow> created t' = None \<Longrightarrow> task_ok i p a (deletions ts) c t' \<Longrightarrow> piece_ok i p (a, ts) c t a' t'"
    using quiet_piece_ok [OF lst _ _ pend] by blast
  show ?thesis
  proof (cases t)
    case (T_Issue rq)
    with run ok show ?thesis by (intro quiet) (auto split: sum.splits)
  next
    case (T_Add_Port n)
    with run ok show ?thesis by (intro quiet) (auto split: sum.splits)
  next
    case (T_Add_Store n)
    obtain st r where add: "store_add (se_os e) n (ap_store a) = (st, r)" by fastforce
    from run T_Add_Store add have "a' = a\<lparr>ap_store := st\<rparr>" by (auto split: sum.splits)
    moreover have "piece_ok i p (a, ts) c t (a\<lparr>ap_store := st\<rparr>) t'"
      by (rule add_piece_ok [OF add env lst _ _ pend]) (use run ok T_Add_Store add in \<open>auto split: sum.splits\<close>)
    ultimately show ?thesis by simp
  next
    case (T_Add_Listen n)
    obtain b r where st: "start_listener e n a = (b, r)" by fastforce
    from run T_Add_Listen st have "a' = b" by (auto split: sum.splits)
    moreover have "piece_ok i p (a, ts) c t b t'"
      by (rule listen_piece_ok [OF st lst]) (use run ok T_Add_Listen st pend in \<open>auto split: sum.splits\<close>)
    ultimately show ?thesis by simp
  next
    case (T_Get j)
    with run ok pend show ?thesis by (intro quiet) (auto simp: queued_def split: option.splits)
  next
    case (T_Port j q)
    with run ok show ?thesis by (intro quiet) (auto simp: same_node_def pending_to_node_def split: sum.splits)
  next
    case (T_Store j n)
    obtain st r where add: "store_add (se_os e) n (ap_store a) = (st, r)" by fastforce
    from run T_Store add have "a' = a\<lparr>ap_store := st\<rparr>" by (auto split: sum.splits)
    moreover have "same_node n' p" if "same_node n p" "r = Inr n'" for n'
      using that store_add_node [OF add [unfolded that(2)]] by (simp add: same_node_def) (metis node.select_convs node.surjective node.update_convs(1))
    then have "piece_ok i p (a, ts) c t (a\<lparr>ap_store := st\<rparr>) t'"
      by (intro add_piece_ok [OF add env lst _ _ pend]) (use run ok T_Store add in \<open>auto split: sum.splits\<close>)
    ultimately show ?thesis by simp
  next
    case (T_Listen j n)
    obtain b r where st: "start_listener e n a = (b, r)" by fastforce
    from run T_Listen st have "a' = b" by (auto split: sum.splits)
    moreover have "piece_ok i p (a, ts) c t b t'"
      by (rule listen_piece_ok [OF st lst]) (use run ok T_Listen st pend in \<open>auto split: sum.splits\<close>)
    ultimately show ?thesis by simp
  next
    case (T_Roll_Back n err)
    with run ok pend show ?thesis by (auto intro!: forget_piece_ok [OF lst] simp: own_def ids_of_def silent_def)
  next
    case (T_Drop j n)
    with run ok pend show ?thesis
      by (auto intro!: pending_piece_ok [OF lst] simp: settled_def queued_def split: if_splits)
  next
    case (T_Reject j)
    have "a' = a\<lparr>ap_pending := fst (pending_remove (se_rm e) j (ap_pending a))\<rparr>" "created t' = None" "task_ok i p a (deletions ts) c t'"
      "pending_get (ap_pending a) j = None \<or> t' = T_Done None no_content \<or> t' = T_Done None (half_rejected j)"
      using run T_Reject by (auto simp: pending_remove_def pending_get_def Let_def half_rejected_def split: prod.splits sum.splits if_splits)
    moreover have "c = Reject j" using ok T_Reject by simp
    ultimately show ?thesis using pend
      by (auto intro!: pending_piece_ok [OF lst] simp: settled_def queued_def split: if_splits)
  next
    case (T_Stop j)
    with run ok pend here show ?thesis by (auto intro!: stop_piece_ok [OF lst] deletions_I)
  next
    case (T_Forget j)
    have "a' = a\<lparr>ap_store := fst (store_remove (se_rm e) j (ap_store a))\<rparr>" "created t' = None" "\<And>b. task_ok i p b (deletions ts) c t'"
      using run T_Forget by (auto split: prod.splits sum.splits)
    with ok pend here T_Forget show ?thesis by (auto intro!: forget_piece_ok [OF lst] deletions_I)
  next
    case (T_Announce rq)
    obtain r where reg: "handleRegister e rq a = (a', r)" and t': "t' = T_Done None r" using run T_Announce by (auto split: prod.splits)
    from reg env show ?thesis
    proof (rule announce_changes)
      assume "a' = a"
      with t' show ?thesis by (intro quiet) simp_all
    next
      fix ps
      assume a': "a' = a\<lparr>ap_pending := ps\<rparr>" and same: "\<forall>j \<in> known_ids (a, ts). pending_get ps j = pending_get (ap_pending a) j"
      have "j \<in> known_ids (a, ts)" if "i = Some j" for j
        using that ann settled_named [of j ts a] by (cases "pending_get (ap_pending a) j") (simp_all add: announcement_ok_def known_ids_def)
      with same have "\<And>j. i = Some j \<Longrightarrow> pending_get ps j = pending_get (ap_pending a) j" by blast
      with pend t' show ?thesis unfolding a' by (intro pending_piece_ok [OF lst]) (auto simp: queued_def)
    qed
  next
    case (T_Done x r)
    with run have same: "a' = a" "t' = t" by auto
    show ?thesis unfolding same using ok pend lst T_Done by (auto simp: piece_ok_def Let_def split: option.splits)
  qed
qed

lemma task_ok_mono: "task_ok i p a D c t \<Longrightarrow> D \<subseteq> D' \<Longrightarrow> task_ok i p a D' c t"
  by (cases "(i, p, a, D, c, t)" rule: task_ok.cases) (auto simp: registered_def on_line_def)

lemma listeners_ok_mono: "listeners_ok a D \<Longrightarrow> D \<subseteq> D' \<Longrightarrow> listeners_ok a D'"
  unfolding listeners_ok_def registered_def by blast

lemma first_task_ok [simp]: "created (first_task c) = None" "task_ok i p a D c (first_task c)"
  by (cases c; simp)+

lemma own_ids_append: "own_ids (ts @ [(c, t)])" if ts: "own_ids ts" and t: "created t = None"
  unfolding own_ids_def
proof (intro allI impI)
  fix k l n m
  assume kl: "k < length (ts @ [(c, t)])" "l < length (ts @ [(c, t)])" "k \<noteq> l"
    and n: "created (snd ((ts @ [(c, t)]) ! k)) = Some n" "created (snd ((ts @ [(c, t)]) ! l)) = Some m"
  have old: "j < length ts" if "j < length (ts @ [(c, t)])" "created (snd ((ts @ [(c, t)]) ! j)) = Some x" for j x
    using that t by (cases "j = length ts") auto
  from kl(3) n old [OF kl(1) n(1)] old [OF kl(2) n(2)] ts show "n_id n \<noteq> n_id m"
    by (simp add: own_ids_def nth_append)
qed

lemma arrives_inv: "race_inv i p (a, ts) \<Longrightarrow> race_inv i p (a, ts @ [(c, first_task c)])"
proof -
  assume inv: "race_inv i p (a, ts)"
  let ?ts = "ts @ [(c, first_task c)]"
  have more: "deletions ts \<subseteq> deletions ?ts" by (auto simp: deletions_def)
  have "listeners_ok a (deletions ?ts)"
    using inv more by (auto simp: race_inv_def intro: listeners_ok_mono)
  moreover have "own_ids ?ts" using inv by (auto simp: race_inv_def intro: own_ids_append)
  moreover have "announcement_ok i p (a, ?ts)"
    using inv by (auto simp: race_inv_def announcement_ok_def settled_def split: option.splits)
  moreover have "\<forall>t \<in> set ?ts. task_ok i p a (deletions ?ts) (fst t) (snd t)"
    using inv task_ok_mono [OF _ more] by (auto simp: race_inv_def)
  ultimately show ?thesis by (simp add: race_inv_def)
qed

lemma done_kept: "(c, T_Done x r) \<in> set ts \<Longrightarrow> k < length ts \<Longrightarrow> task_step e (snd (ts ! k)) a = (a', t') \<Longrightarrow>
    (c, T_Done x r) \<in> set (ts[k := (fst (ts ! k), t')])"
  by (smt (verit) in_set_conv_nth length_list_update nth_list_update prod.collapse prod.inject snd_conv task_step.simps(15))

lemma settled_kept: "k < length ts \<Longrightarrow> task_step e (snd (ts ! k)) a = (a', t') \<Longrightarrow> settled i ts \<Longrightarrow> settled i (ts[k := (fst (ts ! k), t')])"
  unfolding settled_def using done_kept by metis

lemma runs_inv:
  assumes inv: "race_inv i p (a, ts)" and k: "k < length ts" and env: "race_env e (a, ts)"
    and run: "task_step e (snd (ts ! k)) a = (a', t')"
  shows "race_inv i p (a', ts[k := (fst (ts ! k), t')])"
proof -
  let ?c = "fst (ts ! k)" and ?t = "snd (ts ! k)" and ?ts = "ts[k := (fst (ts ! k), t')]"
  have here: "(?c, ?t) \<in> set ts" using k by simp
  have ok: "\<forall>t \<in> set ts. task_ok i p a (deletions ts) (fst t) (snd t)" using inv by (simp add: race_inv_def)
  have pc: "piece_ok i p (a, ts) ?c ?t a' t'"
    using inv here by (intro piece [OF run env here]) (auto simp: race_inv_def)
  have calls: "map fst ?ts = map fst ts" using k by (metis fst_conv list_update_id map_update nth_map)
  have dels: "deletions us = {j. Delete j \<in> set (map fst us)}" for us by (force simp: deletions_def)
  have D: "deletions ?ts = deletions ts" using calls by (simp only: dels)
  have apart: "n_id n \<notin> own ?t t'" if l: "l < length ts" "l \<noteq> k" and n: "created (snd (ts ! l)) = Some n" for l n
  proof -
    have "n_id n \<notin> ids_of (created ?t)" using inv k l n by (auto simp: race_inv_def own_ids_def ids_of_def split: option.splits)
    moreover have "n_id n \<in> known_ids (a, ts)" using l n by (force simp: known_ids_def)
    ultimately show ?thesis using pc by (auto simp: piece_ok_def own_def ids_of_def Let_def)
  qed
  have "task_ok i p a' (deletions ts) (fst (?ts ! l)) (snd (?ts ! l))" if l: "l < length ts" for l
  proof (cases "l = k")
    case True
    with pc l show ?thesis by (simp add: piece_ok_def Let_def)
  next
    case False
    have "guarantee (own ?t t') (deletions ts) a a'" using pc by (simp add: piece_ok_def Let_def)
    moreover have "task_ok i p a (deletions ts) (fst (ts ! l)) (snd (ts ! l))" using ok l by (meson nth_mem)
    ultimately have "task_ok i p a' (deletions ts) (fst (ts ! l)) (snd (ts ! l))"
      using task_ok_guarantee apart [OF l False] by blast
    with False show ?thesis by simp
  qed
  then have "\<forall>t \<in> set ?ts. task_ok i p a' (deletions ?ts) (fst t) (snd t)" by (metis D in_set_conv_nth length_list_update)
  moreover have "own_ids ?ts" unfolding own_ids_def
  proof (intro allI impI)
    fix l m n n'
    assume lm: "l < length ?ts" "m < length ?ts" "l \<noteq> m" and n: "created (snd (?ts ! l)) = Some n" "created (snd (?ts ! m)) = Some n'"
    show "n_id n \<noteq> n_id n'"
    proof (cases "l = k \<or> m = k")
      case True
      with lm n apart [of l n] apart [of m n'] k show ?thesis by (auto simp: own_def ids_of_def)
    next
      case False
      with lm n inv show ?thesis by (auto simp: race_inv_def own_ids_def)
    qed
  qed
  moreover have "settled j ts \<Longrightarrow> settled j ?ts" for j
    using settled_kept [OF k run] .
  moreover have "settled j [(?c, t')] \<Longrightarrow> settled j ?ts" for j using set_update_memI [OF k] by (force simp: settled_def)
  ultimately show ?thesis using inv pc
    by (auto simp: race_inv_def announcement_ok_def piece_ok_def D Let_def split: option.splits)
qed

interpretation races: automaton "\<lambda>c. \<exists>a. c = (a, [])" race_step .

lemma race_inv_step: "race_inv i p c \<Longrightarrow> race_step c c' \<Longrightarrow> race_inv i p c'"
  by (erule race_stepE) (auto intro: arrives_inv runs_inv)

lemma race_inv_start:
  assumes "app_reachable sound_env a" and "\<And>j. i = Some j \<Longrightarrow> pending_get (ap_pending a) j = Some p"
  shows "race_inv i p (a, [])"
  using reachable_app_inv [OF assms(1)] assms(2)
  by (auto simp: race_inv_def app_inv_def consistent_def listeners_ok_def registered_def announcement_ok_def queued_def own_ids_def) metis+

lemma race_inv_run:
  assumes "app_reachable sound_env a" and "\<And>j. i = Some j \<Longrightarrow> pending_get (ap_pending a) j = Some p" and "race_step\<^sup>*\<^sup>* (a, []) c"
  shows "race_inv i p c"
proof (rule races.invariant_run [where I = "race_inv i p", OF _ _ assms(3)])
  show "race_inv i p (a, [])" using assms(1,2) by (rule race_inv_start)
qed (rule race_inv_step)

text \<open>
  C23: However the pieces of concurrent requests interleave, no two listeners ever share a port, each
  serves the node it is filed under, and a listener whose node is no longer registered serves one
  whose deletion was asked for meanwhile.
\<close>

theorem listeners_stay_apart:
  assumes "app_reachable sound_env a" and "race_step\<^sup>*\<^sup>* (a, []) (a', ts)"
  shows "(\<forall>i j n m. gm_get (ap_listeners a') i = Some n \<longrightarrow> gm_get (ap_listeners a') j = Some m \<longrightarrow> n_port n = n_port m \<longrightarrow> i = j)
    \<and> (\<forall>i n. gm_get (ap_listeners a') i = Some n \<longrightarrow>
        n_id n = i \<and> (store_get (ap_store a') i = Some n \<or> i \<in> deletions ts))"
proof -
  have "race_inv None p (a', ts)" for p by (rule race_inv_run [OF assms(1) _ assms(2)]) simp
  then show ?thesis unfolding race_inv_def listeners_ok_def registered_def by (metis fst_conv snd_conv)
qed

text \<open>
  C7: From any state reached by requests one at a time without failing writes or removals, however
  the pieces of concurrent requests then interleave and whatever writes, removals, listeners and
  credentials fail (only the random identifiers are new), no announcement is lost: it is still
  queued, or a rejection removed it (answered 204, or 404 when its files could not be unlinked), or
  a request for its approval was answered 201 with a node that has its name, address and
  credentials; that node is then registered and on line, unless a request to delete it arrived.
\<close>

theorem no_announcement_lost:
  assumes "app_reachable sound_env a" and "pending_get (ap_pending a) i = Some p" and "race_step\<^sup>*\<^sup>* (a, []) (a', ts)"
  shows "pending_get (ap_pending a') i = Some p \<or> (\<exists>r \<in> {no_content, half_rejected i}. (Reject i, T_Done None r) \<in> set ts)
    \<or> (\<exists>n. (Approve i, T_Done (Some n) (writeJSON 201 (created_json n))) \<in> set ts \<and> same_node n p \<and> on_line a' (deletions ts) n)"
proof -
  have inv: "race_inv (Some i) p (a', ts)" using race_inv_run [OF assms(1) _ assms(3), of "Some i" p] assms(2) by simp
  show ?thesis
  proof (cases "pending_get (ap_pending a') i")
    case (Some q)
    with inv show ?thesis by (simp add: race_inv_def announcement_ok_def queued_def)
  next
    case None
    with inv have "settled i ts" by (simp add: race_inv_def announcement_ok_def)
    moreover have "same_node n p \<and> on_line a' (deletions ts) n" if "(Approve i, T_Done (Some n) r) \<in> set ts" for n r
      using inv that by (force simp: race_inv_def)
    ultimately show ?thesis by (auto simp: settled_def)
  qed
qed

text \<open>A rejection whose files cannot be unlinked is refused, and has taken the announcement off the queue.\<close>

theorem half_rejected_is_gone:
  assumes "pending_get (ap_pending a) i = Some p" and "se_rm e = Some kept"
  shows "\<exists>a'. rejectPending e i a = (a', half_rejected i) \<and> pending_get (ap_pending a') i = None"
  using assms by (auto simp: rejectPending_def pending_remove_def pending_get_def half_rejected_def Let_def)

section \<open>What interleavings break\<close>

text \<open>An environment with the random identifier \<open>z\<close>, in which files and ports do what they are asked.\<close>

definition with_id :: "string option \<Rightarrow> server_env \<Rightarrow> server_env" where
  "with_id z e = e\<lparr>se_os := \<lparr>os_id = z, os_mkdir = True, os_fault = None\<rparr>\<rparr>"

definition smooth :: "server_env \<Rightarrow> string \<Rightarrow> bool" where
  "smooth e ca \<longleftrightarrow> se_rm e = None \<and> se_has_certs e ca \<and> (\<forall>q. se_listen e q = None)"

lemma with_id_env: "(\<And>i. z = Some i \<Longrightarrow> i \<notin> known_ids c) \<Longrightarrow> race_env (with_id z e) c"
  by (simp add: race_env_def with_id_def)

lemma add_smooth: "\<exists>st. store_add (se_os (with_id (Some x) e)) n s = (st, Inr (n\<lparr>n_id := x\<rparr>))
    \<and> store_get st = (store_get s) (x := Some (n\<lparr>n_id := x\<rparr>))"
proof -
  have os: "se_os (with_id (Some x) e) = os_fine x" by (simp add: with_id_def os_fine_def)
  obtain st where st: "store_add (os_fine x) n s = (st, Inr (n\<lparr>n_id := x\<rparr>))" using store_add_fine by blast
  with nodes.add_ok [OF st] os show ?thesis by (auto simp: fun_eq_iff)
qed

lemma listen_smooth:
  "smooth e (n_ca n) \<Longrightarrow> n_port n \<notin> n_port ` snd ` set (ap_listeners a) \<Longrightarrow>
    start_listener (with_id z e) n a = (a\<lparr>ap_listeners := gm_put (n_id n) n (ap_listeners a)\<rparr>, Inr ())"
  by (simp add: start_listener_def smooth_def with_id_def)

text \<open>A port that is free is found, and registering a node takes it.\<close>

lemma allocated:
  assumes "store_synced s" and "q \<in> {9500..9599} - ports_in_use s"
  obtains r where "allocate_port s = Inr r" "r \<notin> ports_in_use s"
proof (cases "allocate_port s")
  case (Inl err)
  then have "{9500..9599} \<subseteq> ports_in_use s" using allocate_port_spec [OF synced_ok [OF assms(1)]] by blast
  with assms(2) show thesis by blast
next
  case (Inr r)
  then have "r \<notin> ports_in_use s" using allocate_port_spec [OF synced_ok [OF assms(1)], of r] by simp
  with Inr that show thesis by blast
qed

lemma ports_ran: "ports_in_use s = n_port ` ran (store_get s)"
  by (auto simp: ports_in_use_def ran_def)

lemma registered_at:
  assumes "store_synced s" and "store_get s x = None"
  obtains st where "store_add (se_os (with_id (Some x) e)) n s = (st, Inr (n\<lparr>n_id := x\<rparr>))" "store_synced st"
    "store_get st = (store_get s) (x := Some (n\<lparr>n_id := x\<rparr>))" "ports_in_use st = insert (n_port n) (ports_in_use s)"
proof -
  obtain st where st: "store_add (se_os (with_id (Some x) e)) n s = (st, Inr (n\<lparr>n_id := x\<rparr>))"
    "store_get st = (store_get s) (x := Some (n\<lparr>n_id := x\<rparr>))" using add_smooth by blast
  moreover have "store_synced st" using nodes.synced_add [OF assms(1), of "se_os (with_id (Some x) e)" n] st(1) by (simp add: with_id_def)
  moreover have "ports_in_use st = insert (n_port n) (ports_in_use s)"
    using assms(2) by (simp add: ports_ran st(2))
  ultimately show thesis using that by blast
qed

text \<open>Two requests taking turns.\<close>

lemma turn_0: "race_step\<^sup>*\<^sup>* c (a, [(f, t), (g, u)]) \<Longrightarrow> race_env e (a, [(f, t), (g, u)]) \<Longrightarrow> task_step e t a = (a', t')
    \<Longrightarrow> race_step\<^sup>*\<^sup>* c (a', [(f, t'), (g, u)])"
  using runs [of 0 "[(f, t), (g, u)]" e a a' t'] by (simp add: rtranclp.rtrancl_into_rtrancl)

lemma turn_1: "race_step\<^sup>*\<^sup>* c (a, [(f, t), (g, u)]) \<Longrightarrow> race_env e (a, [(f, t), (g, u)]) \<Longrightarrow> task_step e u a = (a', u')
    \<Longrightarrow> race_step\<^sup>*\<^sup>* c (a', [(f, t), (g, u')])"
  using runs [of 1 "[(f, t), (g, u)]" e a a' u'] by (simp add: rtranclp.rtrancl_into_rtrancl)

lemma two_arrive: "race_step\<^sup>*\<^sup>* (a, []) (a, [(f, first_task f), (g, first_task g)])"
  using rtranclp.rtrancl_into_rtrancl [OF r_into_rtranclp [of race_step, OF arrives [of a "[]" f]] arrives [of a _ g]] by simp

text \<open>A Controller that can approve an announcement: free ports, and identifiers not yet taken.\<close>

definition can_approve :: "server_env \<Rightarrow> app \<Rightarrow> string \<Rightarrow> pnode \<Rightarrow> string list \<Rightarrow> int list \<Rightarrow> bool" where
  "can_approve e a i p xs qs \<longleftrightarrow> pending_get (ap_pending a) i = Some p \<and> smooth e (p_ca p)
     \<and> n_port ` snd ` set (ap_listeners a) \<subseteq> ports_in_use (ap_store a)
     \<and> distinct qs \<and> set qs \<subseteq> {9500..9599} - ports_in_use (ap_store a) \<and> distinct xs \<and> set xs \<inter> known_ids (a, []) = {}"

lemma approval_ready:
  assumes reach: "app_reachable sound_env a" and can: "can_approve e a i p xs qs" and xq: "x \<in> set xs" "q \<in> set qs"
  obtains r n st where "allocate_port (ap_store a) = Inr r" "r \<notin> ports_in_use (ap_store a)" "n = (pending_to_node r p)\<lparr>n_id := x\<rparr>"
    "store_add (se_os (with_id (Some x) e)) (pending_to_node r p) (ap_store a) = (st, Inr n)" "store_synced st"
    "store_get st = (store_get (ap_store a)) (x := Some n)" "ports_in_use st = insert r (ports_in_use (ap_store a))"
    "start_listener (with_id None e) n (a\<lparr>ap_store := st\<rparr>) =
      (a\<lparr>ap_store := st, ap_listeners := gm_put x n (ap_listeners a)\<rparr>, Inr ())"
proof -
  have sync: "store_synced (ap_store a)" using reachable_app_inv [OF reach] by (simp add: app_inv_def)
  have q: "q \<in> {9500..9599} - ports_in_use (ap_store a)" using can xq by (auto simp: can_approve_def)
  obtain r where r: "allocate_port (ap_store a) = Inr r" "r \<notin> ports_in_use (ap_store a)"
    using allocated [OF sync q] by blast
  define n where "n = (pending_to_node r p)\<lparr>n_id := x\<rparr>"
  have "store_get (ap_store a) x = None" using can xq by (auto simp: can_approve_def known_ids_def)
  from registered_at [OF sync this, of e "pending_to_node r p"] obtain st where
    st: "store_add (se_os (with_id (Some x) e)) (pending_to_node r p) (ap_store a) = (st, Inr n)" "store_synced st"
    "store_get st = (store_get (ap_store a)) (x := Some n)" "ports_in_use st = insert r (ports_in_use (ap_store a))"
    by (auto simp: n_def pending_to_node_def)
  have "start_listener (with_id None e) n (a\<lparr>ap_store := st\<rparr>) =
      (a\<lparr>ap_store := st, ap_listeners := gm_put x n (ap_listeners a)\<rparr>, Inr ())"
    using listen_smooth [of e n "a\<lparr>ap_store := st\<rparr>" None] can r(2) by (auto simp: can_approve_def n_def pending_to_node_def)
  with r n_def st show thesis by (rule that)
qed

lemma can_approve_ids: "can_approve e a i p xs qs \<Longrightarrow> x \<in> set xs \<Longrightarrow>
    x \<noteq> i \<and> store_get (ap_store a) x = None \<and> gm_get (ap_listeners a) x = None \<and> pending_get (ap_pending a) x = None"
  by (auto simp: can_approve_def known_ids_def)

text \<open>
  One announcement can be registered twice. Whenever two ports are free, two approvals of it
  can interleave so that both are answered 201 and two nodes with its name, address and credentials
  are registered and on line, while it leaves the queue.
\<close>

theorem announcement_approved_twice:
  assumes reach: "app_reachable sound_env a" and can: "can_approve e a i p [x, y] [q1, q2]"
  shows "\<exists>a' n m. race_step\<^sup>*\<^sup>* (a, []) (a', [(Approve i, T_Done (Some n) (writeJSON 201 (created_json n))),
        (Approve i, T_Done (Some m) (writeJSON 201 (created_json m)))])
    \<and> n_id n = x \<and> n_id m = y \<and> same_node n p \<and> same_node m p \<and> on_line a' {} n \<and> on_line a' {} m
    \<and> pending_get (ap_pending a') i = None"
proof -
  have p: "pending_get (ap_pending a) i = Some p" and sm: "smooth e (p_ca p)" and rm: "se_rm e = None" and x: "x \<noteq> y"
    and busy: "n_port ` snd ` set (ap_listeners a) \<subseteq> ports_in_use (ap_store a)"
    using can by (auto simp: can_approve_def smooth_def)
  have xi: "x \<noteq> i" "y \<noteq> i" "store_get (ap_store a) x = None" "store_get (ap_store a) y = None"
    "gm_get (ap_listeners a) x = None" "gm_get (ap_listeners a) y = None" "pending_get (ap_pending a) x = None" "pending_get (ap_pending a) y = None"
    using can_approve_ids [OF can] by auto
  obtain r1 n s1 where r1: "allocate_port (ap_store a) = Inr r1" "r1 \<notin> ports_in_use (ap_store a)" and n_def: "n = (pending_to_node r1 p)\<lparr>n_id := x\<rparr>"
    and s1: "store_add (se_os (with_id (Some x) e)) (pending_to_node r1 p) (ap_store a) = (s1, Inr n)" "store_synced s1"
      "store_get s1 = (store_get (ap_store a)) (x := Some n)" "ports_in_use s1 = insert r1 (ports_in_use (ap_store a))"
    and up1: "start_listener (with_id None e) n (a\<lparr>ap_store := s1\<rparr>) =
      (a\<lparr>ap_store := s1, ap_listeners := gm_put x n (ap_listeners a)\<rparr>, Inr ())"
    using approval_ready [OF reach can, of x q1] unfolding list.set insert_iff by blast
  have "(if q1 = r1 then q2 else q1) \<in> {9500..9599} - ports_in_use s1" using can by (auto simp: can_approve_def s1(4))
  from allocated [OF s1(2) this] obtain r2 where r2: "allocate_port s1 = Inr r2" "r2 \<noteq> r1" "r2 \<notin> ports_in_use (ap_store a)"
    by (auto simp: s1(4))
  define m where "m = (pending_to_node r2 p)\<lparr>n_id := y\<rparr>"
  have y: "store_get s1 y = None" using xi(4) x by (simp add: s1(3))
  obtain s2 where s2: "store_add (se_os (with_id (Some y) e)) (pending_to_node r2 p) s1 = (s2, Inr m)"
    "store_get s2 = (store_get s1) (y := Some m)"
    using registered_at [OF s1(2) y, of e "pending_to_node r2 p"] by (auto simp: m_def)
  let ?ap = "Approve i"
  let ?a1 = "a\<lparr>ap_store := s1\<rparr>"
  let ?a2 = "?a1\<lparr>ap_listeners := gm_put x n (ap_listeners a)\<rparr>"
  let ?a3 = "?a2\<lparr>ap_store := s2\<rparr>"
  let ?a4 = "?a3\<lparr>ap_listeners := gm_put y m (ap_listeners ?a2)\<rparr>"
  let ?a5 = "?a4\<lparr>ap_pending := fst (pending_remove None i (ap_pending a))\<rparr>"
  let ?a6 = "?a5\<lparr>ap_pending := fst (pending_remove None i (ap_pending ?a5))\<rparr>"
  let ?E = "with_id None e"
  have quiet: "race_env ?E c" for c by (rule with_id_env) simp
  have "n_port m \<notin> n_port ` snd ` set (gm_put x n (ap_listeners a))"
    using busy r2 by (auto simp: m_def n_def pending_to_node_def gm_put_def gm_del_def)
  then have up2: "start_listener ?E m ?a3 = (?a4, Inr ())"
    using listen_smooth [of e m ?a3 None] sm by (simp add: m_def pending_to_node_def)
  have new1: "race_env (with_id (Some x) e) (a, [(?ap, T_Store i u), (?ap, T_Port i p)])" for u
    using x xi by (intro with_id_env) (auto simp: known_ids_def)
  have new2: "race_env (with_id (Some y) e) (?a2, [(?ap, T_Drop i n), (?ap, T_Store i u)])" for u
    using x xi by (intro with_id_env) (auto simp: known_ids_def s1(3) n_def)
  have "race_step\<^sup>*\<^sup>* (a, []) (a, [(?ap, T_Get i), (?ap, T_Get i)])" using two_arrive [of a ?ap ?ap] by simp
  then have "race_step\<^sup>*\<^sup>* (a, []) (a, [(?ap, T_Port i p), (?ap, T_Get i)])" by (rule turn_0 [OF _ quiet]) (simp add: p)
  then have "race_step\<^sup>*\<^sup>* (a, []) (a, [(?ap, T_Port i p), (?ap, T_Port i p)])" by (rule turn_1 [OF _ quiet]) (simp add: p)
  then have "race_step\<^sup>*\<^sup>* (a, []) (a, [(?ap, T_Store i (pending_to_node r1 p)), (?ap, T_Port i p)])" by (rule turn_0 [OF _ quiet]) (simp add: r1)
  then have "race_step\<^sup>*\<^sup>* (a, []) (?a1, [(?ap, T_Listen i n), (?ap, T_Port i p)])" by (rule turn_0 [OF _ new1]) (simp add: s1)
  then have "race_step\<^sup>*\<^sup>* (a, []) (?a2, [(?ap, T_Drop i n), (?ap, T_Port i p)])" by (rule turn_0 [OF _ quiet]) (simp only: task_step.simps up1 prod.case sum.case)
  then have "race_step\<^sup>*\<^sup>* (a, []) (?a2, [(?ap, T_Drop i n), (?ap, T_Store i (pending_to_node r2 p))])" by (rule turn_1 [OF _ quiet]) (simp add: r2)
  then have "race_step\<^sup>*\<^sup>* (a, []) (?a3, [(?ap, T_Drop i n), (?ap, T_Listen i m)])" by (rule turn_1 [OF _ new2]) (simp add: s2)
  then have "race_step\<^sup>*\<^sup>* (a, []) (?a4, [(?ap, T_Drop i n), (?ap, T_Drop i m)])" by (rule turn_1 [OF _ quiet]) (simp only: task_step.simps up2 prod.case sum.case)
  then have "race_step\<^sup>*\<^sup>* (a, []) (?a5, [(?ap, T_Done (Some n) (writeJSON 201 (created_json n))), (?ap, T_Drop i m)])"
    by (rule turn_0 [OF _ quiet]) (simp add: rm with_id_def)
  then have "race_step\<^sup>*\<^sup>* (a, []) (?a6, [(?ap, T_Done (Some n) (writeJSON 201 (created_json n))),
      (?ap, T_Done (Some m) (writeJSON 201 (created_json m)))])"
    by (rule turn_1 [OF _ quiet]) (simp add: rm with_id_def)
  moreover have "on_line ?a6 {} n" "on_line ?a6 {} m" "n_id n = x" "n_id m = y"
    using x by (simp_all add: on_line_def s2(2) s1(3) n_def m_def)
  moreover have "same_node n p" "same_node m p" "pending_get (ap_pending ?a6) i = None"
    by (simp_all add: same_node_def n_def m_def pending_to_node_def)
  ultimately show ?thesis by blast
qed

text \<open>An announcement that was rejected with success can be registered and on line.\<close>

theorem rejected_yet_registered:
  assumes reach: "app_reachable sound_env a" and can: "can_approve e a i p [x] [q]"
  shows "\<exists>a' n. race_step\<^sup>*\<^sup>* (a, []) (a', [(Approve i, T_Done (Some n) (writeJSON 201 (created_json n))), (Reject i, T_Done None no_content)])
    \<and> same_node n p \<and> on_line a' {} n"
proof -
  have p: "pending_get (ap_pending a) i = Some p" and rm: "se_rm e = None" using can by (auto simp: can_approve_def smooth_def)
  obtain r n st where r: "allocate_port (ap_store a) = Inr r" "r \<notin> ports_in_use (ap_store a)" and n: "n = (pending_to_node r p)\<lparr>n_id := x\<rparr>"
    and st: "store_add (se_os (with_id (Some x) e)) (pending_to_node r p) (ap_store a) = (st, Inr n)" "store_synced st"
      "store_get st = (store_get (ap_store a)) (x := Some n)" "ports_in_use st = insert r (ports_in_use (ap_store a))"
    and up: "start_listener (with_id None e) n (a\<lparr>ap_store := st\<rparr>) =
      (a\<lparr>ap_store := st, ap_listeners := gm_put x n (ap_listeners a)\<rparr>, Inr ())"
    using approval_ready [OF reach can, of x q] unfolding list.set insert_iff by blast
  let ?ap = "Approve i" and ?E = "with_id None e"
  let ?a2 = "a\<lparr>ap_store := st, ap_listeners := gm_put x n (ap_listeners a)\<rparr>"
  let ?ps = "fst (pending_remove None i (ap_pending a))"
  have quiet: "race_env ?E c" for c by (rule with_id_env) simp
  have new: "race_env (with_id (Some x) e) (a, [(?ap, T_Store i u), (Reject i, T_Reject i)])" for u
    using can_approve_ids [OF can, of x] by (intro with_id_env) (auto simp: known_ids_def)
  have ok: "snd (pending_remove None i (ap_pending a)) = Inr ()" using announced.rm_ok p by (metis option.distinct(1))
  have "race_step\<^sup>*\<^sup>* (a, []) (a, [(?ap, T_Get i), (Reject i, T_Reject i)])" using two_arrive [of a ?ap "Reject i"] by simp
  then have "race_step\<^sup>*\<^sup>* (a, []) (a, [(?ap, T_Port i p), (Reject i, T_Reject i)])" by (rule turn_0 [OF _ quiet]) (simp add: p)
  then have "race_step\<^sup>*\<^sup>* (a, []) (a, [(?ap, T_Store i (pending_to_node r p)), (Reject i, T_Reject i)])" by (rule turn_0 [OF _ quiet]) (simp add: r)
  then have "race_step\<^sup>*\<^sup>* (a, []) (a\<lparr>ap_store := st\<rparr>, [(?ap, T_Listen i n), (Reject i, T_Reject i)])" by (rule turn_0 [OF _ new]) (simp add: st)
  then have "race_step\<^sup>*\<^sup>* (a, []) (?a2, [(?ap, T_Drop i n), (Reject i, T_Reject i)])"
    by (rule turn_0 [OF _ quiet]) (simp only: task_step.simps up prod.case sum.case)
  then have "race_step\<^sup>*\<^sup>* (a, []) (?a2\<lparr>ap_pending := ?ps\<rparr>, [(?ap, T_Drop i n), (Reject i, T_Done None no_content)])"
    using ok by (rule_tac turn_1 [OF _ quiet]) (auto simp: rm with_id_def split: prod.splits sum.splits)
  then have "race_step\<^sup>*\<^sup>* (a, []) (?a2\<lparr>ap_pending := fst (pending_remove None i ?ps)\<rparr>,
      [(?ap, T_Done (Some n) (writeJSON 201 (created_json n))), (Reject i, T_Done None no_content)])"
    by (rule turn_0 [OF _ quiet]) (simp add: rm with_id_def)
  moreover have "same_node n p" by (simp add: same_node_def n pending_to_node_def)
  moreover have "on_line (?a2\<lparr>ap_pending := fst (pending_remove None i ?ps)\<rparr>) {} n"
    by (simp add: on_line_def st(3) n)
  ultimately show ?thesis by blast
qed

lemma then_arrives: "race_step\<^sup>*\<^sup>* c (a, [(f, t)]) \<Longrightarrow> race_step\<^sup>*\<^sup>* c (a, [(f, t), (g, first_task g)])"
  using rtranclp.rtrancl_into_rtrancl [of race_step, OF _ arrives [of a "[(f, t)]" g]] by simp

lemma one_arrives: "race_step\<^sup>*\<^sup>* (a, []) (a, [(f, first_task f)])"
  using r_into_rtranclp [of race_step, OF arrives [of a "[]" f]] by simp

lemma turn: "race_step\<^sup>*\<^sup>* c (a, [(f, t)]) \<Longrightarrow> race_env e (a, [(f, t)]) \<Longrightarrow> task_step e t a = (a', t')
    \<Longrightarrow> race_step\<^sup>*\<^sup>* c (a', [(f, t')])"
  using runs [of 0 "[(f, t)]" e a a' t'] by (simp add: rtranclp.rtrancl_into_rtrancl)

text \<open>
  A node that is deleted, with success, between its registration and the start of its listener
  stays on line without being registered.
\<close>

theorem deleted_node_stays_on_line:
  assumes reach: "app_reachable sound_env a" and can: "can_approve e a i p [x] [q]"
  shows "\<exists>a' n. race_step\<^sup>*\<^sup>* (a, []) (a', [(Approve i, T_Done (Some n) (writeJSON 201 (created_json n))), (Delete x, T_Done None no_content)])
    \<and> same_node n p \<and> store_get (ap_store a') x = None \<and> gm_get (ap_listeners a') x = Some n"
proof -
  have p: "pending_get (ap_pending a) i = Some p" and rm: "se_rm e = None" using can by (auto simp: can_approve_def smooth_def)
  obtain r n st where r: "allocate_port (ap_store a) = Inr r" "r \<notin> ports_in_use (ap_store a)" and n: "n = (pending_to_node r p)\<lparr>n_id := x\<rparr>"
    and st: "store_add (se_os (with_id (Some x) e)) (pending_to_node r p) (ap_store a) = (st, Inr n)" "store_synced st"
      "store_get st = (store_get (ap_store a)) (x := Some n)" "ports_in_use st = insert r (ports_in_use (ap_store a))"
    and up: "start_listener (with_id None e) n (a\<lparr>ap_store := st\<rparr>) =
      (a\<lparr>ap_store := st, ap_listeners := gm_put x n (ap_listeners a)\<rparr>, Inr ())"
    using approval_ready [OF reach can, of x q] unfolding list.set insert_iff by blast
  let ?ap = "Approve i" and ?E = "with_id None e"
  let ?a1 = "a\<lparr>ap_store := st\<rparr>"
  let ?st = "fst (store_remove None x st)"
  let ?a3 = "a\<lparr>ap_store := ?st, ap_listeners := gm_put x n (ap_listeners a)\<rparr>"
  let ?ps = "fst (pending_remove None i (ap_pending a))"
  have quiet: "race_env ?E c" for c by (rule with_id_env) simp
  have x: "x \<noteq> i" "store_get (ap_store a) x = None" "gm_get (ap_listeners a) x = None" "pending_get (ap_pending a) x = None"
    using can_approve_ids [OF can, of x] by auto
  then have new: "race_env (with_id (Some x) e) (a, [(?ap, T_Store i u)])" for u
    by (intro with_id_env) (auto simp: known_ids_def)
  have ok: "snd (store_remove None x st) = Inr ()" using nodes.rm_ok [of x st] by (simp add: st(3))
  have "n_id n = x" by (simp add: n)
  have up2: "start_listener ?E n (a\<lparr>ap_store := ?st\<rparr>) = (?a3, Inr ())"
    using up \<open>n_id n = x\<close> by (simp add: start_listener_def split: if_splits option.splits)
  have "race_step\<^sup>*\<^sup>* (a, []) (a, [(?ap, T_Get i)])" using one_arrives [of a ?ap] by simp
  then have "race_step\<^sup>*\<^sup>* (a, []) (a, [(?ap, T_Port i p)])" by (rule turn [OF _ quiet]) (simp add: p)
  then have "race_step\<^sup>*\<^sup>* (a, []) (a, [(?ap, T_Store i (pending_to_node r p))])" by (rule turn [OF _ quiet]) (simp add: r)
  then have "race_step\<^sup>*\<^sup>* (a, []) (?a1, [(?ap, T_Listen i n)])" by (rule turn [OF _ new]) (simp add: st)
  then have "race_step\<^sup>*\<^sup>* (a, []) (?a1, [(?ap, T_Listen i n), (Delete x, T_Stop x)])" using then_arrives [of "(a, [])" _ _ _ "Delete x"] by simp
  then have "race_step\<^sup>*\<^sup>* (a, []) (?a1, [(?ap, T_Listen i n), (Delete x, T_Forget x)])" by (rule turn_1 [OF _ quiet]) (simp add: x)
  then have "race_step\<^sup>*\<^sup>* (a, []) (a\<lparr>ap_store := ?st\<rparr>, [(?ap, T_Listen i n), (Delete x, T_Done None no_content)])"
    using ok by (rule_tac turn_1 [OF _ quiet]) (auto simp: rm with_id_def split: prod.splits sum.splits)
  then have "race_step\<^sup>*\<^sup>* (a, []) (?a3, [(?ap, T_Drop i n), (Delete x, T_Done None no_content)])"
    by (rule turn_0 [OF _ quiet]) (simp only: task_step.simps up2 prod.case sum.case)
  then have "race_step\<^sup>*\<^sup>* (a, []) (?a3\<lparr>ap_pending := ?ps\<rparr>,
      [(?ap, T_Done (Some n) (writeJSON 201 (created_json n))), (Delete x, T_Done None no_content)])"
    by (rule turn_0 [OF _ quiet]) (simp add: rm with_id_def)
  moreover have "same_node n p" by (simp add: same_node_def n pending_to_node_def)
  ultimately show ?thesis by (intro exI conjI) auto
qed

section \<open>Instances\<close>

lemma demo_can_approve: "can_approve (demo_env []) app_announced ''p1'' announced_node [''n1'', ''n2''] [9500, 9501]"
  by (auto simp: can_approve_def smooth_def app_announced_def app_with_session_def first_app_def store_empty_def pending_get_def gm_get_def
      demo_env_def announced_node_def ports_in_use_def store_get_def known_ids_def)

lemma reject_run: "\<exists>a'. race_step\<^sup>*\<^sup>* (app_announced, []) (a', [(Reject ''p1'', T_Done None no_content)]) \<and> pending_get (ap_pending a') ''p1'' = None"
proof -
  let ?ps = "fst (pending_remove None ''p1'' (ap_pending app_announced))"
  have p: "pending_get (ap_pending app_announced) ''p1'' = Some announced_node" using demo_can_approve by (simp add: can_approve_def)
  have ok: "snd (pending_remove None ''p1'' (ap_pending app_announced)) = Inr ()" using announced.rm_ok p by (metis option.distinct(1))
  have "race_env (with_id None (demo_env [])) c" for c by (rule with_id_env) (simp_all add: demo_env_def)
  moreover have "race_step\<^sup>*\<^sup>* (app_announced, []) (app_announced, [(Reject ''p1'', T_Reject ''p1'')])"
    using one_arrives [of app_announced "Reject ''p1''"] by simp
  ultimately have "race_step\<^sup>*\<^sup>* (app_announced, []) (app_announced\<lparr>ap_pending := ?ps\<rparr>, [(Reject ''p1'', T_Done None no_content)])"
    using ok by (rule_tac turn) (auto simp: with_id_def demo_env_def split: prod.splits sum.splits)
  then show ?thesis by (intro exI conjI) auto
qed

theorem no_announcement_lost_witness:
  "\<exists>a' ts. race_step\<^sup>*\<^sup>* (app_announced, []) (a', ts) \<and> pending_get (ap_pending a') ''p1'' = None
    \<and> ((Reject ''p1'', T_Done None no_content) \<in> set ts \<or> (\<exists>n. (Approve ''p1'', T_Done (Some n) (writeJSON 201 (created_json n))) \<in> set ts))"
proof -
  obtain a' where run: "race_step\<^sup>*\<^sup>* (app_announced, []) (a', [(Reject ''p1'', T_Done None no_content)])"
    and gone: "pending_get (ap_pending a') ''p1'' = None" using reject_run by blast
  have "pending_get (ap_pending app_announced) ''p1'' = Some announced_node" using demo_can_approve by (simp add: can_approve_def)
  from no_announcement_lost [OF reachable_announced this run] run gone show ?thesis by fastforce
qed

theorem listeners_stay_apart_witness:
  "\<exists>a' ts. race_step\<^sup>*\<^sup>* (app_announced, []) (a', ts) \<and> ts \<noteq> [] \<and> inj_on (\<lambda>i. map_option n_port (gm_get (ap_listeners a') i)) {i. gm_get (ap_listeners a') i \<noteq> None}"
proof -
  obtain a' ts where run: "race_step\<^sup>*\<^sup>* (app_announced, []) (a', ts)" "ts \<noteq> []" using reject_run by blast
  with listeners_stay_apart [OF reachable_announced run(1)] show ?thesis by (intro exI [of _ a'] exI [of _ ts]) (auto simp: inj_on_def)
qed

theorem announcement_approved_twice_witness:
  "\<exists>a' n m. race_step\<^sup>*\<^sup>* (app_announced, []) (a', [(Approve ''p1'', T_Done (Some n) (writeJSON 201 (created_json n))),
        (Approve ''p1'', T_Done (Some m) (writeJSON 201 (created_json m)))])
    \<and> n_id n = ''n1'' \<and> n_id m = ''n2'' \<and> n_key n = ''KEY'' \<and> n_key m = ''KEY''"
proof -
  from announcement_approved_twice [OF reachable_announced demo_can_approve] show ?thesis
    by (auto simp: same_node_def announced_node_def)
qed

end
