(* ===== verification/Install.thy ===== *)
theory Install
  imports Lifecycle Diskimage
begin

text \<open>
  \<open>internal/api/install.go\<close>: \<open>Install\<close> lays out a disk and writes both slots, STATE and the ESP. It
  yields its result and the list of its writes in order, as the other RPCs of \<open>Lifecycle\<close> do. The
  libraries that write partition tables and filesystems are known by what they are asked to write;
  each of their calls may fail, a failed write having written a beginning of its data.
\<close>

section \<open>The target disk\<close>

record part =
  pt_name :: string
  pt_esp :: bool
  pt_start :: "64 word"
  pt_end :: "64 word"

text \<open>
  Its size, its partition table if it has one, the bytes written at byte offsets since it was opened
  and the files of the filesystems created in its partitions.
\<close>

record target =
  tg_size :: "64 word"
  tg_table :: "part list option"
  tg_data :: "64 word \<Rightarrow> string option"
  tg_files :: "nat \<Rightarrow> (string, string) gomap option"

datatype image_write = I_table "part list" | I_data "64 word" string | I_mkfs nat | I_file nat string string

fun image_write1 :: "image_write \<Rightarrow> target \<Rightarrow> target" where
  "image_write1 (I_table ps) T = T\<lparr>tg_table := Some ps\<rparr>"
| "image_write1 (I_data off s) T = T\<lparr>tg_data := (tg_data T)(off \<mapsto> s)\<rparr>"
| "image_write1 (I_mkfs k) T = T\<lparr>tg_files := (tg_files T)(k \<mapsto> [])\<rparr>"
| "image_write1 (I_file k path s) T = T\<lparr>tg_files := (tg_files T)(k := map_option (gm_put path s) (tg_files T k))\<rparr>"

definition image_writes :: "image_write list \<Rightarrow> target \<Rightarrow> target" where
  "image_writes ws T = fold image_write1 ws T"

section \<open>The environment\<close>

datatype install_op = O_send string | O_open | O_table | O_data "64 word" | O_mkfs nat | O_mkdir nat string | O_file nat string

record install_env =
  in_cmdline :: "string option"
  in_bundle :: "string \<Rightarrow> string \<Rightarrow> string option"
  in_sha :: "string \<Rightarrow> string"
  in_fails :: "install_op \<Rightarrow> bool"
  in_torn :: "install_op \<Rightarrow> nat option"

record install_request =
  ir_disk :: string
  ir_reference :: string
  ir_sha256 :: string
  ir_controller :: string
  ir_controller_ca :: string

datatype install_problem = No_disk | No_source | No_controller_ca | Boot_disk | Cannot_read string
  | Sha_differs string | Too_big string nat | Already_installed string | No_layout compute_error | Failed_op install_op

datatype install_error = Refused_with code install_problem | Send_failed string

type_synonym 'a installing = "(install_error + 'a) \<times> image_write list"

definition send_install :: "install_env \<Rightarrow> string \<Rightarrow> unit installing" where
  "send_install E stage = check_a (\<not> in_fails E (O_send stage)) (Send_failed stage)"

definition write_i :: "install_env \<Rightarrow> install_op \<Rightarrow> ('a list \<Rightarrow> image_write) \<Rightarrow> 'a list \<Rightarrow> unit installing" where
  "write_i E oper w xs = (if in_fails E oper
     then (Inl (Refused_with Internal (Failed_op oper)), case in_torn E oper of None \<Rightarrow> [] | Some k \<Rightarrow> [w (take k xs)])
     else (Inr (), [w xs]))"

section \<open>The handler\<close>

definition refuseIfCurrentBootDisk :: "string option \<Rightarrow> string \<Rightarrow> install_error + unit" where
  "refuseIfCurrentBootDisk cmdline diskPath = (case cmdline of
       None \<Rightarrow> Inr ()
     | Some c \<Rightarrow> (case DataDevice c of
         None \<Rightarrow> Inr ()
       | Some dataDev \<Rightarrow> (case disk_of dataDev of
           None \<Rightarrow> Inr ()
         | Some currentDisk \<Rightarrow> if currentDisk = diskPath then Inl (Refused_with FailedPrecondition Boot_disk) else Inr ())))"

definition janus_names :: "string list" where
  "janus_names = [''ESP'', ''BOOT-A-DATA'', ''BOOT-A-HASH'', ''BOOT-B-DATA'', ''BOOT-B-HASH'', ''STATE'']"

definition refuseIfAlreadyInstalled :: "target \<Rightarrow> install_error + unit" where
  "refuseIfAlreadyInstalled T = (case tg_table T of
       None \<Rightarrow> Inr ()
     | Some ps \<Rightarrow> (case find (\<lambda>p. pt_name p \<in> set janus_names) ps of
         None \<Rightarrow> Inr ()
       | Some p \<Rightarrow> Inl (Refused_with FailedPrecondition (Already_installed (pt_name p)))))"

definition read_from :: "install_env \<Rightarrow> string \<Rightarrow> string \<Rightarrow> install_error + string" where
  "read_from E dir name = of_opt (Refused_with FailedPrecondition (Cannot_read name)) (in_bundle E dir name)"

definition read_release :: "install_env \<Rightarrow> install_request \<Rightarrow> install_error + string \<times> string \<times> string \<times> string" where
  "read_release E req =
     bind_r (read_from E (ir_reference req) ''rootfs.squashfs'') (\<lambda>squashfs.
     bind_r (guard_r (ir_sha256 req = [] \<or> in_sha E squashfs = ir_sha256 req) (Refused_with FailedPrecondition (Sha_differs (in_sha E squashfs)))) (\<lambda>_.
     bind_r (read_from E (ir_reference req) ''rootfs.verity'') (\<lambda>verity.
     bind_r (read_from E (ir_reference req) ''uki-a.efi'') (\<lambda>ukiA.
     bind_r (read_from E (ir_reference req) ''uki-b.efi'') (\<lambda>ukiB.
     bind_r (guard_r (length squashfs \<le> unat DataMB * 1024 * 1024) (Refused_with FailedPrecondition (Too_big ''rootfs.squashfs'' (length squashfs)))) (\<lambda>_.
     bind_r (guard_r (length verity \<le> unat HashMB * 1024 * 1024) (Refused_with FailedPrecondition (Too_big ''rootfs.verity'' (length verity)))) (\<lambda>_.
     Inr (squashfs, verity, ukiA, ukiB))))))))"

definition gpt_table :: "layout \<Rightarrow> part list" where
  "gpt_table l = [
     \<lparr>pt_name = ''ESP'', pt_esp = True, pt_start = ESPStart l, pt_end = ESPEnd l\<rparr>,
     \<lparr>pt_name = ''BOOT-A-DATA'', pt_esp = False, pt_start = ADataStart l, pt_end = ADataEnd l\<rparr>,
     \<lparr>pt_name = ''BOOT-A-HASH'', pt_esp = False, pt_start = AHashStart l, pt_end = AHashEnd l\<rparr>,
     \<lparr>pt_name = ''BOOT-B-DATA'', pt_esp = False, pt_start = BDataStart l, pt_end = BDataEnd l\<rparr>,
     \<lparr>pt_name = ''BOOT-B-HASH'', pt_esp = False, pt_start = BHashStart l, pt_end = BHashEnd l\<rparr>,
     \<lparr>pt_name = ''STATE'', pt_esp = False, pt_start = StateStart l, pt_end = StateEnd l\<rparr>]"

definition writeDiskAt :: "install_env \<Rightarrow> string \<Rightarrow> 64 word \<Rightarrow> unit installing" where
  "writeDiskAt E xs startSector = write_i E (O_data startSector) (I_data (startSector * SectorSize)) xs"

definition create_fs :: "install_env \<Rightarrow> nat \<Rightarrow> unit installing" where
  "create_fs E k = (if in_fails E (O_mkfs k) then (Inl (Refused_with Internal (Failed_op (O_mkfs k))),
       case in_torn E (O_mkfs k) of None \<Rightarrow> [] | Some _ \<Rightarrow> [I_mkfs k]) else (Inr (), [I_mkfs k]))"

definition make_dir :: "install_env \<Rightarrow> nat \<Rightarrow> string \<Rightarrow> unit installing" where
  "make_dir E k path = check_a (\<not> in_fails E (O_mkdir k path)) (Refused_with Internal (Failed_op (O_mkdir k path)))"

definition writeFSFile :: "install_env \<Rightarrow> nat \<Rightarrow> string \<Rightarrow> string \<Rightarrow> unit installing" where
  "writeFSFile E k path xs = write_i E (O_file k path) (I_file k path) xs"

definition writeControllerConfig :: "install_env \<Rightarrow> install_request \<Rightarrow> unit installing" where
  "writeControllerConfig E req =
     (if ir_controller req = [] then (Inr (), [])
      else bind_a (make_dir E 6 ''controller'') (\<lambda>_.
           bind_a (writeFSFile E 6 ''controller/address'' (ir_controller req)) (\<lambda>_.
           writeFSFile E 6 ''controller/ca.crt'' (ir_controller_ca req))))"

text \<open>The handler in three parts: what is checked and read, the partition table, and the rest of what is
  written.\<close>

definition install_checks :: "install_env \<Rightarrow> install_request \<Rightarrow> target \<Rightarrow> (string \<times> string \<times> string \<times> string \<times> layout) installing" where
  "install_checks E req T =
     bind_a (check_a (ir_disk req \<noteq> []) (Refused_with InvalidArgument No_disk)) (\<lambda>_.
     bind_a (check_a (ir_reference req \<noteq> []) (Refused_with InvalidArgument No_source)) (\<lambda>_.
     bind_a (check_a (ir_controller req = [] \<or> ir_controller_ca req \<noteq> []) (Refused_with InvalidArgument No_controller_ca)) (\<lambda>_.
     bind_a (send_install E ''verifying'') (\<lambda>_.
     bind_a (lift_r (refuseIfCurrentBootDisk (in_cmdline E) (ir_disk req))) (\<lambda>_.
     bind_a (lift_r (read_release E req)) (\<lambda>r.
     bind_a (check_a (\<not> in_fails E O_open) (Refused_with FailedPrecondition (Failed_op O_open))) (\<lambda>_.
     bind_a (lift_r (refuseIfAlreadyInstalled T)) (\<lambda>_.
     bind_a (lift_r (map_sum (\<lambda>e. Refused_with FailedPrecondition (No_layout e)) id (Compute (tg_size T)))) (\<lambda>l.
     lift_r (Inr (fst r, fst (snd r), fst (snd (snd r)), snd (snd (snd r)), l)))))))))))"

definition install_contents :: "install_env \<Rightarrow> install_request \<Rightarrow> string \<Rightarrow> string \<Rightarrow> string \<Rightarrow> string \<Rightarrow> layout \<Rightarrow> unit installing" where
  "install_contents E req squashfs verity ukiA ukiB l =
     bind_a (send_install E ''writing-data'') (\<lambda>_.
     bind_a (writeDiskAt E squashfs (ADataStart l)) (\<lambda>_.
     bind_a (writeDiskAt E squashfs (BDataStart l)) (\<lambda>_.
     bind_a (writeDiskAt E verity (AHashStart l)) (\<lambda>_.
     bind_a (writeDiskAt E verity (BHashStart l)) (\<lambda>_.
     bind_a (send_install E ''formatting-state'') (\<lambda>_.
     bind_a (create_fs E 6) (\<lambda>_.
     bind_a (writeControllerConfig E req) (\<lambda>_.
     bind_a (send_install E ''writing-esp'') (\<lambda>_.
     bind_a (create_fs E 1) (\<lambda>_.
     bind_a (make_dir E 1 ''/EFI/BOOT'') (\<lambda>_.
     bind_a (make_dir E 1 ''/JANUS'') (\<lambda>_.
     bind_a (writeFSFile E 1 ''/JANUS/UKI-A.EFI'' ukiA) (\<lambda>_.
     bind_a (writeFSFile E 1 ''/JANUS/UKI-B.EFI'' ukiB) (\<lambda>_.
     bind_a (writeFSFile E 1 ''/EFI/BOOT/BOOTX64.EFI'' ukiA) (\<lambda>_.
     send_install E ''done'')))))))))))))))"

definition install_disk :: "install_env \<Rightarrow> install_request \<Rightarrow> string \<Rightarrow> string \<Rightarrow> string \<Rightarrow> string \<Rightarrow> layout \<Rightarrow> unit installing" where
  "install_disk E req squashfs verity ukiA ukiB l =
     bind_a (send_install E ''partitioning'') (\<lambda>_.
     bind_a (write_i E O_table I_table (gpt_table l)) (\<lambda>_.
     install_contents E req squashfs verity ukiA ukiB l))"

definition Install :: "install_env \<Rightarrow> install_request \<Rightarrow> target \<Rightarrow> unit installing" where
  "Install E req T = bind_a (install_checks E req T) (\<lambda>(squashfs, verity, ukiA, ukiB, l). install_disk E req squashfs verity ukiA ukiB l)"

section \<open>Lemmas\<close>

lemma image_writes_simps [simp]:
  "image_writes [] T = T" "image_writes (w # ws) T = image_writes ws (image_write1 w T)"
  "image_writes (ws @ ws') T = image_writes ws' (image_writes ws T)"
  by (simp_all add: image_writes_def)

lemma install_pure [simp]: "snd (send_install E s) = []" "snd (make_dir E k p) = []" "snd (install_checks E req T) = []"
  by (simp_all add: send_install_def make_dir_def install_checks_def writes_bind split: sum.splits)

lemma write_i_ok: "fst (write_i E oper w xs) = Inr () \<longleftrightarrow> \<not> in_fails E oper"
  by (simp add: write_i_def)

lemma write_i_writes: "snd (write_i E oper w xs) = (if in_fails E oper then (case in_torn E oper of None \<Rightarrow> [] | Some k \<Rightarrow> [w (take k xs)]) else [w xs])"
  by (simp add: write_i_def)

end
