(* ===== verification/Install_Properties.thy ===== *)
theory Install_Properties
  imports Install Self_Register
begin

text \<open>
  What \<open>Install\<close> leaves on a disk, and how the code that runs from that disk finds it: the switch
  between slots of \<open>Lifecycle\<close> and the Controller's address of \<open>Self_Register\<close>.
\<close>

section \<open>The writes of an installation\<close>

lemma Compute_starts: "Compute d = Inr l \<Longrightarrow> ADataStart l = 133120 \<and> ADataEnd l = 264191 \<and> AHashStart l = 264192 \<and> AHashEnd l = 272383
    \<and> BDataStart l = 272384 \<and> BDataEnd l = 403455 \<and> BHashStart l = 403456 \<and> BHashEnd l = 411647"
  by (auto simp: Compute_unfold Let_def split: if_splits)

definition controller_writes :: "install_request \<Rightarrow> image_write list" where
  "controller_writes req = (if ir_controller req = [] then [] else
     [I_file 6 ''controller/address'' (ir_controller req), I_file 6 ''controller/ca.crt'' (ir_controller_ca req)])"

definition all_writes :: "install_request \<Rightarrow> string \<Rightarrow> string \<Rightarrow> string \<Rightarrow> string \<Rightarrow> layout \<Rightarrow> image_write list" where
  "all_writes req squashfs verity ukiA ukiB l =
     [I_table (gpt_table l), I_data (ADataStart l * SectorSize) squashfs, I_data (BDataStart l * SectorSize) squashfs,
      I_data (AHashStart l * SectorSize) verity, I_data (BHashStart l * SectorSize) verity, I_mkfs 6] @ controller_writes req
     @ [I_mkfs 1, I_file 1 ''/JANUS/UKI-A.EFI'' ukiA, I_file 1 ''/JANUS/UKI-B.EFI'' ukiB, I_file 1 ''/EFI/BOOT/BOOTX64.EFI'' ukiA]"

lemma ok_check: "fst (send_install E s) = Inr u \<longleftrightarrow> \<not> in_fails E (O_send s)" "fst (make_dir E k p) = Inr u \<longleftrightarrow> \<not> in_fails E (O_mkdir k p)"
  by (simp_all add: send_install_def make_dir_def)

lemmas write_defs = write_i_def writeDiskAt_def create_fs_def writeFSFile_def

lemma writeControllerConfig_ok: "fst (writeControllerConfig E req) = Inr u \<Longrightarrow> snd (writeControllerConfig E req) = controller_writes req"
  by (auto simp: writeControllerConfig_def controller_writes_def ok_bind writes_bind write_defs make_dir_def check_a_def lift_r_def guard_r_def split: if_splits)

lemma write_ok: "fst (write_i E oper w xs) = Inr u \<Longrightarrow> snd (write_i E oper w xs) = [w xs]"
  "fst (create_fs E k) = Inr u \<Longrightarrow> snd (create_fs E k) = [I_mkfs k]"
  by (simp_all add: write_defs split: if_splits)

lemma install_disk_ok:
  "fst (install_disk E req squashfs verity ukiA ukiB l) = Inr () \<Longrightarrow>
    snd (install_disk E req squashfs verity ukiA ukiB l) = all_writes req squashfs verity ukiA ukiB l"
  unfolding install_disk_def install_contents_def ok_bind
  by (auto simp: writes_bind all_writes_def write_ok writeControllerConfig_ok writeDiskAt_def writeFSFile_def)

lemma Install_ok:
  assumes "fst (Install E req T) = Inr ()"
  obtains squashfs verity ukiA ukiB l where "read_release E req = Inr (squashfs, verity, ukiA, ukiB)" "Compute (tg_size T) = Inr l"
    "snd (Install E req T) = all_writes req squashfs verity ukiA ukiB l"
proof -
  from assms obtain x where x: "fst (install_checks E req T) = Inr x"
    and d: "fst (case x of (squashfs, verity, ukiA, ukiB, l) \<Rightarrow> install_disk E req squashfs verity ukiA ukiB l) = Inr ()"
    by (auto simp: Install_def ok_bind)
  from x obtain r l where r: "read_release E req = Inr r" and l: "Compute (tg_size T) = Inr l"
    and xr: "x = (fst r, fst (snd r), fst (snd (snd r)), snd (snd (snd r)), l)"
    by (auto simp: install_checks_def ok_bind map_sum_def split: sum.splits)
  obtain a b c e where r4: "r = (a, b, c, e)" by (cases r) auto
  from d xr r4 have "fst (install_disk E req a b c e l) = Inr ()" by simp
  with x xr r4 have "snd (Install E req T) = all_writes req a b c e l"
    by (simp add: Install_def writes_bind install_disk_ok)
  with r l r4 that show thesis by blast
qed

lemma release_ok: "read_release E req = Inr (squashfs, verity, ukiA, ukiB) \<Longrightarrow>
    in_bundle E (ir_reference req) ''rootfs.squashfs'' = Some squashfs \<and> in_bundle E (ir_reference req) ''rootfs.verity'' = Some verity
    \<and> in_bundle E (ir_reference req) ''uki-a.efi'' = Some ukiA \<and> in_bundle E (ir_reference req) ''uki-b.efi'' = Some ukiB
    \<and> length squashfs \<le> 67108864 \<and> length verity \<le> 4194304"
  by (auto simp: read_release_def read_from_def of_opt_def ok_iff DataMB_def HashMB_def split: option.splits)

section \<open>The installed disk\<close>

text \<open>The disk as the system that boots from it sees it, under its device name.\<close>

definition file_of :: "target \<Rightarrow> nat \<Rightarrow> string \<Rightarrow> string option" where
  "file_of T k path = Option.bind (tg_files T k) (\<lambda>F. gm_get F path)"

definition as_node_disk :: "string \<Rightarrow> layout \<Rightarrow> target \<Rightarrow> node_disk" where
  "as_node_disk disk l T = \<lparr>
     partition = (\<lambda>dev.
       if dev = SlotDataDevice disk Slot_A then tg_data T (ADataStart l * SectorSize)
       else if dev = SlotHashDevice disk Slot_A then tg_data T (AHashStart l * SectorSize)
       else if dev = SlotDataDevice disk Slot_B then tg_data T (BDataStart l * SectorSize)
       else if dev = SlotHashDevice disk Slot_B then tg_data T (BHashStart l * SectorSize)
       else None),
     uki_staged = (\<lambda>slot. file_of T 1 (''/JANUS/UKI-'' @ slot @ ''.EFI'')),
     uki_active = file_of T 1 ''/EFI/BOOT/BOOTX64.EFI'', pending = Absent\<rparr>"

lemma files_after: "tg_files (image_writes (all_writes req squashfs verity ukiA ukiB l) T) 1 =
    Some (gm_put ''/EFI/BOOT/BOOTX64.EFI'' ukiA (gm_put ''/JANUS/UKI-B.EFI'' ukiB (gm_put ''/JANUS/UKI-A.EFI'' ukiA [])))"
  by (simp add: all_writes_def controller_writes_def)

lemma state_after: "tg_files (image_writes (all_writes req squashfs verity ukiA ukiB l) T) 6 = Some (if ir_controller req = [] then []
    else gm_put ''controller/ca.crt'' (ir_controller_ca req) (gm_put ''controller/address'' (ir_controller req) []))"
  by (simp add: all_writes_def controller_writes_def)

lemma data_after:
  assumes "Compute d = Inr l"
  shows "tg_data (image_writes (all_writes req squashfs verity ukiA ukiB l) T) (ADataStart l * SectorSize) = Some squashfs"
    "tg_data (image_writes (all_writes req squashfs verity ukiA ukiB l) T) (BDataStart l * SectorSize) = Some squashfs"
    "tg_data (image_writes (all_writes req squashfs verity ukiA ukiB l) T) (AHashStart l * SectorSize) = Some verity"
    "tg_data (image_writes (all_writes req squashfs verity ukiA ukiB l) T) (BHashStart l * SectorSize) = Some verity"
  using Compute_starts [OF assms] by (simp_all add: all_writes_def controller_writes_def SectorSize_def)

lemma table_after: "tg_table (image_writes (all_writes req squashfs verity ukiA ukiB l) T) = Some (gpt_table l)"
  by (simp add: all_writes_def controller_writes_def)

text \<open>
  C14: A disk that \<open>Install\<close> finished is a node's disk: it has the partitions of the layout, both
  slots hold the bundle's root filesystem and hash tree, each slot's kernel is staged and slot A's
  is the active one; and the \<open>Rollback\<close> of a system running from either slot of it switches to the
  other slot's kernel.
\<close>

theorem installed_disk_switches:
  assumes fin: "fst (Install E req T) = Inr ()" and T': "T' = image_writes (snd (Install E req T)) T"
    and disk: "plain_disk disk" and boot: "proc_cmdline N = Some c" "DataDevice c = Some (SlotDataDevice disk s)" and fine: "\<And>oper. \<not> fails N oper"
  shows "\<exists>l. Compute (tg_size T) = Inr l \<and> tg_table T' = Some (gpt_table l) \<and>
    (let d = as_node_disk disk l T'; file = in_bundle E (ir_reference req) in
      (\<forall>t. file ''rootfs.squashfs'' \<noteq> None \<and> partition d (SlotDataDevice disk t) = file ''rootfs.squashfs''
        \<and> partition d (SlotHashDevice disk t) = file ''rootfs.verity'' \<and> uki_staged d (slot_name t) = file (uki_name t))
      \<and> uki_active d = file (uki_name Slot_A)
      \<and> fst (Rollback N d) = Inr (OtherSlot s)
      \<and> uki_active (apply_writes (snd (Rollback N d)) d) = file (uki_name (OtherSlot s)))"
proof -
  obtain squashfs verity ukiA ukiB l where rel: "read_release E req = Inr (squashfs, verity, ukiA, ukiB)"
    and l: "Compute (tg_size T) = Inr l" and ws: "snd (Install E req T) = all_writes req squashfs verity ukiA ukiB l"
    using Install_ok [OF fin] .
  define d where "d = as_node_disk disk l T'"
  note given = release_ok [OF rel]
  have T'': "T' = image_writes (all_writes req squashfs verity ukiA ukiB l) T" by (simp add: T' ws)
  have parts: "partition d (SlotDataDevice disk t) = Some squashfs" "partition d (SlotHashDevice disk t) = Some verity" for t
    by (cases t; simp add: d_def as_node_disk_def T'' data_after [OF l] SlotDataDevice_def SlotHashDevice_def)+
  have staged: "uki_staged d (slot_name t) = in_bundle E (ir_reference req) (uki_name t)" for t
    using given by (cases t) (simp_all add: d_def as_node_disk_def T'' file_of_def files_after [unfolded One_nat_def] slot_name_def uki_name_def)
  have active: "uki_active d = in_bundle E (ir_reference req) (uki_name Slot_A)"
    using given by (simp add: d_def as_node_disk_def T'' file_of_def files_after [unfolded One_nat_def] uki_name_def)
  have split: "disk_and_partition (SlotDataDevice disk s) = Some (disk, if s = Slot_A then ''2'' else ''4'')"
    using disk by (cases s) (simp_all add: disk_and_partition_iff SlotDataDevice_def)
  obtain uki where uki: "in_bundle E (ir_reference req) (uki_name (OtherSlot s)) = Some uki"
    using given by (cases s) (auto simp: uki_name_def OtherSlot_def)
  have "resolveBootContext N = Inr \<lparr>bc_disk = disk, currentSlot = s, targetSlot = OtherSlot s, espDevice = disk @ ''1''\<rparr>"
    using boot split by (cases s) (simp_all add: resolveBootContext_def ActiveSlot_def disk_of_def ESPDevice_def of_opt_def)
  then have "Rollback N d = (Inr (OtherSlot s), [W_active uki])"
    using fine uki by (simp add: Rollback_def Activate_def esp_mount_def check_a_def lift_r_def guard_r_def write_a_def staged of_opt_def)
  then have "let file' = in_bundle E (ir_reference req) in
      (\<forall>t. file' ''rootfs.squashfs'' \<noteq> None \<and> partition d (SlotDataDevice disk t) = file' ''rootfs.squashfs''
        \<and> partition d (SlotHashDevice disk t) = file' ''rootfs.verity'' \<and> uki_staged d (slot_name t) = file' (uki_name t))
      \<and> uki_active d = file' (uki_name Slot_A)
      \<and> fst (Rollback N d) = Inr (OtherSlot s)
      \<and> uki_active (apply_writes (snd (Rollback N d)) d) = file' (uki_name (OtherSlot s))"
    using parts staged active uki given by (simp add: Let_def)
  moreover have "tg_table T' = Some (gpt_table l)" by (simp add: T'' table_after)
  ultimately show ?thesis using l unfolding d_def Let_def by (intro exI [of _ l]) blast
qed

section \<open>Where it writes\<close>

lemma in_writes_bind: "w \<in> set (snd (bind_a m f)) \<longleftrightarrow> w \<in> set (snd m) \<or> (\<exists>x. fst m = Inr x \<and> w \<in> set (snd (f x)))"
  by (auto simp: writes_bind split: sum.splits)

lemma data_written: "I_data off xs \<in> set (snd (writeDiskAt E ys start)) \<Longrightarrow> off = start * SectorSize \<and> length xs \<le> length ys"
  by (auto simp: writeDiskAt_def write_i_def split: if_splits option.splits)

lemma no_data [simp]: "I_data off xs \<notin> set (snd (create_fs E k))" "I_data off xs \<notin> set (snd (writeFSFile E k path ys))"
    "I_data off xs \<notin> set (snd (write_i E O_table I_table ps))" "I_data off xs \<notin> set (snd (writeControllerConfig E req))"
  by (auto simp: create_fs_def writeFSFile_def write_i_def writeControllerConfig_def in_writes_bind split: if_splits option.splits)

lemma install_data: "I_data off xs \<in> set (snd (install_disk E req squashfs verity ukiA ukiB l)) \<Longrightarrow>
    (off \<in> {ADataStart l * SectorSize, BDataStart l * SectorSize} \<and> length xs \<le> length squashfs)
  \<or> (off \<in> {AHashStart l * SectorSize, BHashStart l * SectorSize} \<and> length xs \<le> length verity)"
  unfolding install_disk_def install_contents_def by (auto simp: in_writes_bind dest!: data_written)

lemma install_writes_from:
  assumes "w \<in> set (snd (Install E req T))"
  obtains squashfs verity ukiA ukiB l where "read_release E req = Inr (squashfs, verity, ukiA, ukiB)" "Compute (tg_size T) = Inr l"
    "refuseIfCurrentBootDisk (in_cmdline E) (ir_disk req) = Inr ()" "refuseIfAlreadyInstalled T = Inr ()"
    "snd (Install E req T) = snd (install_disk E req squashfs verity ukiA ukiB l)"
proof -
  from assms obtain x where x: "fst (install_checks E req T) = Inr x" by (auto simp: Install_def in_writes_bind)
  then obtain r l where r: "read_release E req = Inr r" and l: "Compute (tg_size T) = Inr l"
    and xr: "x = (fst r, fst (snd r), fst (snd (snd r)), snd (snd (snd r)), l)"
    and ok: "refuseIfCurrentBootDisk (in_cmdline E) (ir_disk req) = Inr ()" "refuseIfAlreadyInstalled T = Inr ()"
    by (auto simp: install_checks_def ok_bind map_sum_def split: sum.splits)
  obtain a b c e where r4: "r = (a, b, c, e)" by (cases r) auto
  have "snd (Install E req T) = snd (install_disk E req a b c e l)" using x xr r4 by (simp add: Install_def writes_bind)
  with r l r4 ok that show thesis by blast
qed

text \<open>
  C34: Whatever fails, and however it fails, each raw write of \<open>Install\<close> starts at the first byte of
  one of the four partitions of the slots and ends inside it.
\<close>

theorem raw_writes_stay_inside:
  assumes "I_data off xs \<in> set (snd (Install E req T))"
  shows "\<exists>l p. Compute (tg_size T) = Inr l \<and> p \<in> set (gpt_table l)
    \<and> pt_name p \<in> {''BOOT-A-DATA'', ''BOOT-A-HASH'', ''BOOT-B-DATA'', ''BOOT-B-HASH''}
    \<and> uint off = 512 * uint (pt_start p) \<and> uint off + int (length xs) \<le> 512 * (uint (pt_end p) + 1)"
proof -
  obtain squashfs verity ukiA ukiB l where rel: "read_release E req = Inr (squashfs, verity, ukiA, ukiB)"
    and l: "Compute (tg_size T) = Inr l" and ws: "snd (Install E req T) = snd (install_disk E req squashfs verity ukiA ukiB l)"
    using install_writes_from [OF assms] by metis
  note st = Compute_starts [OF l]
  have len: "length squashfs \<le> 67108864" "length verity \<le> 4194304" using release_ok [OF rel] by simp_all
  from install_data assms ws have "(off \<in> {ADataStart l * SectorSize, BDataStart l * SectorSize} \<and> length xs \<le> length squashfs)
    \<or> (off \<in> {AHashStart l * SectorSize, BHashStart l * SectorSize} \<and> length xs \<le> length verity)" by metis
  with st len have "(off \<in> {68157440, 139460608} \<and> length xs \<le> 67108864) \<or> (off \<in> {135266304, 206569472} \<and> length xs \<le> 4194304)"
    by (auto simp: SectorSize_def)
  then consider "off = 68157440" "length xs \<le> 67108864" | "off = 139460608" "length xs \<le> 67108864"
    | "off = 135266304" "length xs \<le> 4194304" | "off = 206569472" "length xs \<le> 4194304" by blast
  then show ?thesis
  proof cases
    case 1
    with l st show ?thesis by (intro exI [of _ l] exI [of _ "gpt_table l ! 1"]) (simp add: gpt_table_def)
  next
    case 2
    with l st show ?thesis by (intro exI [of _ l] exI [of _ "gpt_table l ! 3"]) (simp add: gpt_table_def)
  next
    case 3
    with l st show ?thesis by (intro exI [of _ l] exI [of _ "gpt_table l ! 2"]) (simp add: gpt_table_def)
  next
    case 4
    with l st show ?thesis by (intro exI [of _ l] exI [of _ "gpt_table l ! 4"]) (simp add: gpt_table_def)
  qed
qed

section \<open>What it refuses\<close>

definition carries_janus :: "target \<Rightarrow> bool" where
  "carries_janus T \<longleftrightarrow> (\<exists>ps. tg_table T = Some ps \<and> (\<exists>p \<in> set ps. pt_name p \<in> set janus_names))"

lemma refused_iff: "refuseIfAlreadyInstalled T = Inr () \<longleftrightarrow> \<not> carries_janus T"
  by (auto simp: refuseIfAlreadyInstalled_def carries_janus_def find_None_iff find_Some_iff split: option.splits)

lemma carries_nothing_written: "carries_janus T \<Longrightarrow> snd (Install E req T) = [] \<and> (\<exists>e. fst (Install E req T) = Inl e)"
proof -
  assume "carries_janus T"
  then have no: "refuseIfAlreadyInstalled T \<noteq> Inr ()" by (simp add: refused_iff)
  then have "snd (Install E req T) = []" using install_writes_from [of _ E req T] by (metis list.set_intros(1) neq_Nil_conv)
  moreover have "fst (Install E req T) \<noteq> Inr ()" using no by (auto simp: Install_def ok_bind install_checks_def)
  ultimately show ?thesis by (cases "fst (Install E req T)") auto
qed

text \<open>The table is written first and never again, so a disk with it keeps it.\<close>

lemma table_kept: "tg_table T = Some ps \<Longrightarrow> (\<And>qs. I_table qs \<notin> set ws) \<Longrightarrow> tg_table (image_writes ws T) = Some ps"
proof (induction ws arbitrary: T)
  case (Cons w ws)
  then have "tg_table (image_write1 w T) = Some ps" by (cases w) auto
  with Cons show ?case by auto
qed simp

lemma no_table [simp]: "I_table ps \<notin> set (snd (create_fs E k))" "I_table ps \<notin> set (snd (writeFSFile E k path ys))"
    "I_table ps \<notin> set (snd (writeDiskAt E ys start))" "I_table ps \<notin> set (snd (writeControllerConfig E req))"
  by (auto simp: create_fs_def writeFSFile_def writeDiskAt_def write_i_def writeControllerConfig_def in_writes_bind split: if_splits option.splits)

lemma contents_no_table: "I_table ps \<notin> set (snd (install_contents E req squashfs verity ukiA ukiB l))"
  by (simp add: install_contents_def in_writes_bind)

lemma install_starts_with_table: "\<not> in_fails E O_table \<Longrightarrow>
    snd (install_disk E req squashfs verity ukiA ukiB l) = []
  \<or> (\<exists>ws. snd (install_disk E req squashfs verity ukiA ukiB l) = I_table (gpt_table l) # ws \<and> (\<forall>ps. I_table ps \<notin> set ws))"
  using contents_no_table [of _ E req squashfs verity ukiA ukiB l] by (auto simp: install_disk_def writes_bind write_i_def split: sum.splits prod.splits)

text \<open>
  C33: \<open>Install\<close> never touches a disk that has one of the partitions of a Janus disk: it fails and writes
  nothing. That includes a disk whose own installation stopped, for whatever reason, at any point
  after its partition table was written whole: every later attempt at it fails, and writes nothing.
\<close>

theorem stopped_install_is_final:
  assumes "carries_janus T'
    \<or> (\<not> in_fails E O_table \<and> 0 < k \<and> snd (Install E req T) \<noteq> [] \<and> T' = image_writes (take k (snd (Install E req T))) T)"
  shows "snd (Install E2 req2 T') = [] \<and> (\<exists>e. fst (Install E2 req2 T') = Inl e)"
  using assms
proof
  assume stop: "\<not> in_fails E O_table \<and> 0 < k \<and> snd (Install E req T) \<noteq> [] \<and> T' = image_writes (take k (snd (Install E req T))) T"
  then obtain w where "w \<in> set (snd (Install E req T))" by (meson last_in_set)
  then obtain squashfs verity ukiA ukiB l where "snd (Install E req T) = snd (install_disk E req squashfs verity ukiA ukiB l)"
    using install_writes_from by metis
  with install_starts_with_table stop obtain ws where
    ws: "snd (Install E req T) = I_table (gpt_table l) # ws" "\<forall>ps. I_table ps \<notin> set ws" by metis
  have "tg_table T' = Some (gpt_table l)"
    using stop ws by (cases k) (auto intro!: table_kept dest: in_set_takeD)
  then have "carries_janus T'" by (auto simp: carries_janus_def gpt_table_def janus_names_def)
  then show ?thesis by (rule carries_nothing_written)
qed (rule carries_nothing_written)

text \<open>
  The other check compares the path of the disk with the device of the running root filesystem
  less its digits. On devices whose partitions are named with a \<open>p\<close> these never agree.
\<close>

theorem boot_disk_check_misses_nvme:
  assumes "DataDevice c = Some (disk @ ''p'' @ part')" and "part' \<noteq> []" and "list_all is_digit part'"
  shows "refuseIfCurrentBootDisk (Some c) disk = Inr ()"
proof -
  have "disk_and_partition ((disk @ ''p'') @ part') = Some (disk @ ''p'', part')"
    using assms(2,3) by (simp only: disk_and_partition_iff) (simp add: plain_disk_def is_digit_def)
  then show ?thesis using assms(1) by (simp add: refuseIfCurrentBootDisk_def disk_of_def)
qed

section \<open>The Controller it provisions\<close>

text \<open>STATE's \<open>controller\<close> directory, which PID 1 mounts over \<open>/etc/janus/controller\<close>.\<close>

definition controller_dir_of :: "target \<Rightarrow> controller_dir" where
  "controller_dir_of T = map (\<lambda>f. (drop 11 (fst f), snd f))
     (filter (\<lambda>f. has_prefix (fst f) ''controller/'') (case tg_files T 6 of None \<Rightarrow> [] | Some F \<Rightarrow> F))"

text \<open>
  C22: What \<open>Install\<close> writes about a Controller is what the installed node reads of it: none when the
  request names none, otherwise its address, less surrounding white space, and its certificate, and
  the node counts as not yet announced. (An address of white space only is accepted by \<open>Install\<close>
  and refused by the node.)
\<close>

theorem provisioned_controller_is_read:
  assumes "fst (Install E req T) = Inr ()" and "d = controller_dir_of (image_writes (snd (Install E req T)) T)"
  shows "Read d = (if ir_controller req = [] then Inr None
      else if trim_space (ir_controller req) = [] then Inl ''address is empty''
      else Inr (Some \<lparr>cc_address = trim_space (ir_controller req), cc_ca = ir_controller_ca req\<rparr>))
    \<and> \<not> AlreadyRegistered d"
proof -
  obtain squashfs verity ukiA ukiB l where ws: "snd (Install E req T) = all_writes req squashfs verity ukiA ukiB l"
    using Install_ok [OF assms(1)] by metis
  have "d = (if ir_controller req = [] then [] else [(''ca.crt'', ir_controller_ca req), (''address'', ir_controller req)])"
    by (simp add: assms(2) controller_dir_of_def ws state_after has_prefix_def gm_put_def gm_del_def)
  then show ?thesis by (simp add: Read_def AlreadyRegistered_def gm_get_def Let_def)
qed

section \<open>Instances\<close>

definition demo_install :: "(install_op \<Rightarrow> bool) \<Rightarrow> install_env" where
  "demo_install fails' = \<lparr>in_cmdline = None, in_bundle = (\<lambda>_ f. Some f), in_sha = (\<lambda>s. s), in_fails = fails', in_torn = (\<lambda>_. None)\<rparr>"

definition demo_request :: install_request where
  "demo_request = \<lparr>ir_disk = ''/dev/vda'', ir_reference = ''/bundle'', ir_sha256 = [], ir_controller = ''10.0.0.1:8080'',
     ir_controller_ca = ''CA''\<rparr>"

definition blank_disk :: target where
  "blank_disk = \<lparr>tg_size = 512 * 1024 * 1024, tg_table = None, tg_data = (\<lambda>_. None), tg_files = (\<lambda>_. None)\<rparr>"

lemma demo_layout: "\<exists>l. Compute (tg_size blank_disk) = Inr l"
proof -
  have "0 \<le> sint (512 * 1024 * 1024 :: 64 word)" "227540992 \<le> sint (512 * 1024 * 1024 :: 64 word)" by simp_all
  then show ?thesis by (cases rule: Compute_cases [of "512 * 1024 * 1024"]) (auto simp: blank_disk_def)
qed

lemma demo_checks: "\<exists>l. fst (install_checks (demo_install f) demo_request blank_disk) = Inr (''rootfs.squashfs'', ''rootfs.verity'', ''uki-a.efi'', ''uki-b.efi'', l)
    \<and> Compute (tg_size blank_disk) = Inr l" if "\<not> f (O_send ''verifying'')" "\<not> f O_open"
proof -
  obtain l where l: "Compute (tg_size blank_disk) = Inr l" using demo_layout by blast
  with that show ?thesis
    by (simp add: install_checks_def demo_install_def demo_request_def send_install_def check_a_def lift_r_def guard_r_def
        refuseIfCurrentBootDisk_def refuseIfAlreadyInstalled_def read_release_def read_from_def of_opt_def DataMB_def HashMB_def)
      (simp add: blank_disk_def)
qed

lemma nothing_fails:
  assumes "\<And>oper. \<not> in_fails E oper"
  shows "fst (install_disk E req squashfs verity ukiA ukiB l) = Inr ()"
proof -
  have "fst (create_fs E k) = Inr ()" "fst (writeFSFile E k p xs) = Inr ()" "fst (writeDiskAt E xs st) = Inr ()" for k p xs st
    using assms by (simp_all add: write_defs)
  moreover have "fst (write_i E O_table I_table ps) = Inr ()" for ps using assms by (simp add: write_i_ok)
  ultimately show ?thesis
    using assms by (simp add: install_disk_def install_contents_def ok_bind ok_check writeControllerConfig_def)
qed

lemma demo_installs: "fst (Install (demo_install (\<lambda>_. False)) demo_request blank_disk) = Inr ()"
proof -
  obtain l where "fst (install_checks (demo_install (\<lambda>_. False)) demo_request blank_disk) = Inr (''rootfs.squashfs'', ''rootfs.verity'', ''uki-a.efi'', ''uki-b.efi'', l)"
    using demo_checks [of "\<lambda>_. False"] by auto
  moreover have "\<not> in_fails (demo_install (\<lambda>_. False)) oper" for oper by (simp add: demo_install_def)
  ultimately show ?thesis using nothing_fails by (simp add: Install_def ok_bind)
qed

theorem installed_disk_switches_witness:
  "\<exists>l. uki_active (as_node_disk ''/dev/vda'' l (image_writes (snd (Install (demo_install (\<lambda>_. False)) demo_request blank_disk)) blank_disk)) = Some ''uki-a.efi''"
proof -
  let ?N = "\<lparr>proc_cmdline = Some (''ro '' @ dm_key @ dm_value demo_dm @ quote # '' quiet''), bundle_file = (\<lambda>_ _. None), sha256Hex = (\<lambda>s. s),
    fails = (\<lambda>_. False), torn = (\<lambda>_. None)\<rparr>"
  have "plain_disk ''/dev/vda''" by (simp add: plain_disk_def is_digit_def)
  moreover have "proc_cmdline ?N = Some (''ro '' @ dm_key @ dm_value demo_dm @ quote # '' quiet'')" by simp
  moreover have "DataDevice (''ro '' @ dm_key @ dm_value demo_dm @ quote # '' quiet'') = Some (SlotDataDevice ''/dev/vda'' Slot_A)"
    using DataDevice_of_cmdline_witness by (simp add: SlotDataDevice_def)
  ultimately have "\<exists>l. Compute (tg_size blank_disk) = Inr l \<and> uki_active (as_node_disk ''/dev/vda'' l
      (image_writes (snd (Install (demo_install (\<lambda>_. False)) demo_request blank_disk)) blank_disk))
      = in_bundle (demo_install (\<lambda>_. False)) (ir_reference demo_request) (uki_name Slot_A)"
    using installed_disk_switches [OF demo_installs refl, of "''/dev/vda''" ?N _ Slot_A] unfolding Let_def by fastforce
  then show ?thesis by (auto simp: demo_install_def uki_name_def)
qed

theorem provisioned_controller_is_read_witness:
  "Read (controller_dir_of (image_writes (snd (Install (demo_install (\<lambda>_. False)) demo_request blank_disk)) blank_disk)) =
    Inr (Some \<lparr>cc_address = ''10.0.0.1:8080'', cc_ca = ''CA''\<rparr>)"
  using provisioned_controller_is_read [OF demo_installs refl] trim_space_id [of "''10.0.0.1:8080''"]
  by (simp add: demo_request_def is_space_def)

definition esp_fails :: "install_op \<Rightarrow> bool" where
  "esp_fails oper \<longleftrightarrow> oper = O_send ''writing-data''"

lemma demo_stops: "snd (Install (demo_install esp_fails) demo_request blank_disk) \<noteq> []"
proof -
  obtain l where "fst (install_checks (demo_install esp_fails) demo_request blank_disk) = Inr (''rootfs.squashfs'', ''rootfs.verity'', ''uki-a.efi'', ''uki-b.efi'', l)"
    using demo_checks [of esp_fails] by (auto simp: esp_fails_def)
  then show ?thesis
    by (simp add: Install_def writes_bind install_disk_def write_i_def send_install_def check_a_def lift_r_def guard_r_def demo_install_def esp_fails_def
        split: prod.splits)
qed

theorem stopped_install_is_final_witness:
  "\<exists>e. fst (Install (demo_install (\<lambda>_. False)) demo_request
    (image_writes (snd (Install (demo_install esp_fails) demo_request blank_disk)) blank_disk)) = Inl e"
proof -
  let ?ws = "snd (Install (demo_install esp_fails) demo_request blank_disk)"
  have "\<not> in_fails (demo_install esp_fails) O_table" by (simp add: demo_install_def esp_fails_def)
  moreover have "0 < length ?ws" using demo_stops by simp
  ultimately show ?thesis
    using stopped_install_is_final [of "image_writes ?ws blank_disk" "demo_install esp_fails" "length ?ws" demo_request blank_disk] demo_stops
    by simp
qed

theorem raw_writes_stay_inside_witness:
  "\<exists>off xs l p. I_data off xs \<in> set (snd (Install (demo_install (\<lambda>_. False)) demo_request blank_disk)) \<and> Compute (tg_size blank_disk) = Inr l
    \<and> p \<in> set (gpt_table l) \<and> uint off = 512 * uint (pt_start p)"
proof -
  obtain squashfs verity ukiA ukiB l where "snd (Install (demo_install (\<lambda>_. False)) demo_request blank_disk) = all_writes demo_request squashfs verity ukiA ukiB l"
    using Install_ok [OF demo_installs] by metis
  then have w: "I_data (ADataStart l * SectorSize) squashfs \<in> set (snd (Install (demo_install (\<lambda>_. False)) demo_request blank_disk))"
    by (simp add: all_writes_def)
  from raw_writes_stay_inside [OF w] w show ?thesis by blast
qed

end
