(* ===== verification/Dashboard_Identity.thy ===== *)
theory Dashboard_Identity
  imports Self_Register Controller_Properties
begin

text \<open>
  The rest of the Controller's start-up (\<open>dashboard/backend/main.go\<close>): the certificate all its servers
  share, and the address it suggests for nodes to announce themselves to. The data directory is an
  association list of files, the PKI library and its faults are those of \<open>Node_Pki\<close>.
\<close>

section \<open>The start-up\<close>

record dash_flags =
  df_advertise :: string
  df_tls_cert :: string
  df_tls_key :: string
  df_register_addr :: string

text \<open>
  \<open>net.ParseIP\<close> gives the text of an address; \<open>de_local_ips\<close> are those of \<open>pki.LocalIPs\<close>, and
  \<open>de_listen\<close> is \<open>tls.Listen\<close> on an address. \<open>de_file\<close> reads the files of the TLS flags, \<open>de_read\<close> is
  the error \<open>os.ReadFile\<close> meets on a file of the data directory that is there.
\<close>

record dash_env =
  de_pki :: pki_env
  de_file :: "string \<Rightarrow> string option"
  de_read :: "string \<Rightarrow> string option"
  de_parse_ip :: "string \<Rightarrow> string option"
  de_local_ips :: "string list"
  de_listen :: "string \<Rightarrow> string option"

definition advertised :: "string \<Rightarrow> string list" where
  "advertised extra = filter (\<lambda>e. e \<noteq> []) (map trim_space (split_on (CHR '','') extra))"

fun san_loop :: "(string \<Rightarrow> string option) \<Rightarrow> string list \<Rightarrow> string list \<times> string list \<Rightarrow> string list \<times> string list" where
  "san_loop parse [] acc = acc"
| "san_loop parse (e # es) acc = (case parse e of
       Some ip \<Rightarrow> san_loop parse es (fst acc @ [ip], snd acc)
     | None \<Rightarrow> san_loop parse es (fst acc, snd acc @ [e]))"

definition identity_options :: "dash_env \<Rightarrow> string \<Rightarrow> issue_options" where
  "identity_options V extra =
     (let (ips, dnsNames) = san_loop (de_parse_ip V) (advertised extra) ([''127.0.0.1'', ''::1''] @ de_local_ips V, [''localhost'']) in
      \<lparr>CommonName = ''dashboard'', Roles = [], DNSNames = dnsNames, IPAddresses = ips, ExtKeyUsage = ServerAuth\<rparr>)"

definition x509_pair :: "dash_env \<Rightarrow> string \<times> string \<Rightarrow> string + string \<times> string" where
  "x509_pair V c = (case pe_key_pair (de_pki V) (fst c) (snd c) of Some e \<Rightarrow> Inl e | None \<Rightarrow> Inr c)"

definition create_identity :: "dash_env \<Rightarrow> string \<Rightarrow> pki_dir \<Rightarrow> (string + string \<times> string) \<times> pki_dir" where
  "create_identity V extra d =
     and_pki (case pe_new_ca (de_pki V) ''dashboard'' of Inl e \<Rightarrow> Inl (''generate dashboard identity: '' @ e) | Inr ca \<Rightarrow> Inr ca, d) (\<lambda>ca d.
     and_pki (case pe_issue (de_pki V) ca (identity_options V extra) of Inl e \<Rightarrow> Inl (''issue dashboard server certificate: '' @ e) | Inr c \<Rightarrow> Inr c, d) (\<lambda>c d.
     and_pki (writeFiles (de_pki V) 0 [(''dashboard-identity.crt'', fst c), (''dashboard-identity.key'', snd c)] d) (\<lambda>_ d.
     (x509_pair V c, d))))"

text \<open>The code asks only whether \<open>os.ReadFile\<close> gave the bytes: absence and any other error are the same to it.\<close>

definition read_identity :: "dash_env \<Rightarrow> pki_dir \<Rightarrow> string \<Rightarrow> string option" where
  "read_identity V d name = (case de_read V name of Some e \<Rightarrow> None | None \<Rightarrow> gm_get d name)"

definition loadOrCreateDashboardIdentity :: "dash_env \<Rightarrow> dash_flags \<Rightarrow> pki_dir \<Rightarrow> (string + string \<times> string) \<times> pki_dir" where
  "loadOrCreateDashboardIdentity V F d =
     (if df_tls_cert F \<noteq> [] \<or> df_tls_key F \<noteq> [] then
        (if df_tls_cert F = [] \<or> df_tls_key F = [] then Inl ''-tls-cert and -tls-key must both be set together''
         else bind_r (of_opt (''open '' @ df_tls_cert F) (de_file V (df_tls_cert F))) (\<lambda>crt.
              bind_r (of_opt (''open '' @ df_tls_key F) (de_file V (df_tls_key F))) (\<lambda>key. x509_pair V (crt, key))), d)
      else case (read_identity V d ''dashboard-identity.crt'', read_identity V d ''dashboard-identity.key'') of
          (Some crt, Some key) \<Rightarrow> (x509_pair V (crt, key), d)
        | _ \<Rightarrow> create_identity V (df_advertise F) d)"

definition suggestRegisterAddress :: "dash_env \<Rightarrow> string \<Rightarrow> string \<Rightarrow> string" where
  "suggestRegisterAddress V extra registerAddr =
     (let host = (case advertised extra of e # _ \<Rightarrow> e | [] \<Rightarrow> (case de_local_ips V of ip # _ \<Rightarrow> ip | [] \<Rightarrow> [])) in
      if host = [] then []
      else case split_port registerAddr of
          Inl _ \<Rightarrow> []
        | Inr port \<Rightarrow> if port = [] then [] else JoinHostPort host port)"

definition startRegistrationListener :: "dash_env \<Rightarrow> string \<Rightarrow> string + unit" where
  "startRegistrationListener V addr = (case de_listen V addr of Some e \<Rightarrow> Inl (''listen on '' @ addr @ '': '' @ e) | None \<Rightarrow> Inr ())"

text \<open>
  \<open>main\<close> up to its servers, on the three stores' files and the identity's. The stores are opened
  before the identity is looked at: the first use of \<open>boot\<close> decides whether they open. \<open>leaf\<close> is the
  encoding of the first certificate of a file, which \<open>handleControllerInfo\<close> hands out.
\<close>

definition dashboard_main :: "(string \<Rightarrow> string) \<Rightarrow> dash_env \<Rightarrow> dash_flags \<Rightarrow> server_env \<Rightarrow> node_meta disk \<Rightarrow> pnode_meta disk \<Rightarrow> cred_file \<Rightarrow> pki_dir
    \<Rightarrow> (string + app) \<times> pki_dir" where
  "dashboard_main leaf V F e nd pd cf d =
     and_pki (boot e nd pd cf [] [], d) (\<lambda>_ d.
     and_pki (loadOrCreateDashboardIdentity V F d) (\<lambda>c d.
     and_pki (boot e nd pd cf (leaf (fst c)) (suggestRegisterAddress V (df_advertise F) (df_register_addr F)), d) (\<lambda>a d.
     and_pki (startRegistrationListener V (df_register_addr F), d) (\<lambda>_ d. (Inr a, d)))))"

section \<open>Lemmas\<close>

lemma san_loop_result: "san_loop parse es acc =
    (fst acc @ map (\<lambda>e. the (parse e)) (filter (\<lambda>e. parse e \<noteq> None) es), snd acc @ filter (\<lambda>e. parse e = None) es)"
  by (induction parse es acc rule: san_loop.induct) (auto split: option.splits)

lemma x509_pair_Inr: "x509_pair V c = Inr c' \<longleftrightarrow> c' = c \<and> pe_key_pair (de_pki V) (fst c) (snd c) = None"
  by (auto simp: x509_pair_def split: option.splits)

lemma create_identity_Inr:
  assumes "create_identity V extra d0 = (Inr c, d)"
  shows "pe_key_pair (de_pki V) (fst c) (snd c) = None \<and> d = gm_put ''dashboard-identity.key'' (snd c) (gm_put ''dashboard-identity.crt'' (fst c) d0)"
  using assms unfolding create_identity_def and_pki_Inr by (auto simp: x509_pair_Inr simp del: writeFiles.simps dest!: writeFiles_Inr)

lemma read_identity_None: "gm_get d name = None \<Longrightarrow> read_identity V d name = None"
  by (simp add: read_identity_def split: option.splits)

lemma create_identity_issues: "create_identity V extra d0 = (Inr c, d) \<Longrightarrow> \<exists>ca. pe_issue (de_pki V) ca (identity_options V extra) = Inr c"
  unfolding create_identity_def and_pki_Inr
  by (auto simp: x509_pair_Inr simp del: writeFiles.simps split: sum.splits)

section \<open>Properties\<close>

definition no_tls_flags :: "dash_flags \<Rightarrow> bool" where
  "no_tls_flags F \<longleftrightarrow> df_tls_cert F = [] \<and> df_tls_key F = []"

definition identity_works :: "dash_env \<Rightarrow> string \<Rightarrow> bool" where
  "identity_works V extra \<longleftrightarrow> (\<forall>n. pe_fault (de_pki V) n = None) \<and> (\<exists>ca c. pe_new_ca (de_pki V) ''dashboard'' = Inr ca
     \<and> pe_issue (de_pki V) ca (identity_options V extra) = Inr c \<and> pe_key_pair (de_pki V) (fst c) (snd c) = None)"

text \<open>
  C35: Without \<open>-tls-cert\<close> and \<open>-tls-key\<close>, the Controller's certificate is made once: whatever a
  start that succeeded found, each later start with the same data directory that can read its two
  files serves the very same certificate and key and changes nothing, also under other advertised
  addresses. A start that finds either file missing, on which nothing fails, makes a new identity.
  A file that is there but cannot be read counts as missing: such a start, when it succeeds, has
  written a new certificate and key over the old ones.
\<close>

theorem identity_is_kept:
  assumes "no_tls_flags F" and "no_tls_flags F2"
  shows "(loadOrCreateDashboardIdentity V F d0 = (Inr c, d) \<and> pe_key_pair (de_pki V2) = pe_key_pair (de_pki V) \<and> de_read V2 = (\<lambda>_. None)
      \<longrightarrow> loadOrCreateDashboardIdentity V2 F2 d = (Inr c, d))
    \<and> ((read_identity V2 d ''dashboard-identity.crt'' = None \<or> read_identity V2 d ''dashboard-identity.key'' = None) \<longrightarrow>
        (identity_works V2 (df_advertise F2) \<longrightarrow> (\<exists>c' d'. loadOrCreateDashboardIdentity V2 F2 d = (Inr c', d')))
      \<and> (loadOrCreateDashboardIdentity V2 F2 d = (Inr c', d') \<longrightarrow>
          gm_get d' ''dashboard-identity.crt'' = Some (fst c') \<and> gm_get d' ''dashboard-identity.key'' = Some (snd c')
        \<and> (\<exists>ca. pe_issue (de_pki V2) ca (identity_options V2 (df_advertise F2)) = Inr c')))"
proof (intro conjI impI)
  assume h: "loadOrCreateDashboardIdentity V F d0 = (Inr c, d) \<and> pe_key_pair (de_pki V2) = pe_key_pair (de_pki V)
    \<and> de_read V2 = (\<lambda>_. None)"
  then have "gm_get d ''dashboard-identity.crt'' = Some (fst c) \<and> gm_get d ''dashboard-identity.key'' = Some (snd c)
      \<and> pe_key_pair (de_pki V) (fst c) (snd c) = None"
    using assms(1) by (auto simp: loadOrCreateDashboardIdentity_def no_tls_flags_def read_identity_def x509_pair_Inr dest!: create_identity_Inr split: option.splits)
  with h assms(2) show "loadOrCreateDashboardIdentity V2 F2 d = (Inr c, d)"
    by (simp add: loadOrCreateDashboardIdentity_def no_tls_flags_def read_identity_def x509_pair_def)
next
  assume h: "read_identity V2 d ''dashboard-identity.crt'' = None \<or> read_identity V2 d ''dashboard-identity.key'' = None"
  then have make: "loadOrCreateDashboardIdentity V2 F2 d = create_identity V2 (df_advertise F2) d"
    using assms(2) by (auto simp: loadOrCreateDashboardIdentity_def no_tls_flags_def split: option.splits)
  {
    assume "identity_works V2 (df_advertise F2)"
    then obtain ca c where "pe_new_ca (de_pki V2) ''dashboard'' = Inr ca" "pe_issue (de_pki V2) ca (identity_options V2 (df_advertise F2)) = Inr c"
      "pe_key_pair (de_pki V2) (fst c) (snd c) = None" "\<forall>n. pe_fault (de_pki V2) n = None"
      by (auto simp: identity_works_def)
    then show "\<exists>c' d'. loadOrCreateDashboardIdentity V2 F2 d = (Inr c', d')"
      by (simp add: make create_identity_def x509_pair_def)
  next
    assume "loadOrCreateDashboardIdentity V2 F2 d = (Inr c', d')"
    then have made: "create_identity V2 (df_advertise F2) d = (Inr c', d')" by (simp add: make)
    then show "gm_get d' ''dashboard-identity.crt'' = Some (fst c')" "gm_get d' ''dashboard-identity.key'' = Some (snd c')"
      by (simp_all add: create_identity_Inr [OF made])
    show "\<exists>ca. pe_issue (de_pki V2) ca (identity_options V2 (df_advertise F2)) = Inr c'"
      using made by (rule create_identity_issues)
  }
qed

lemma suggestion_covered:
  assumes "suggestRegisterAddress V extra reg \<noteq> []"
  shows "\<exists>host port. suggestRegisterAddress V extra reg = JoinHostPort host port \<and> split_port reg = Inr port
    \<and> (host \<in> set (DNSNames (identity_options V extra)) \<or> host \<in> set (IPAddresses (identity_options V extra))
      \<or> (\<exists>ip. de_parse_ip V host = Some ip \<and> ip \<in> set (IPAddresses (identity_options V extra))))"
proof -
  define host where "host = (case advertised extra of e # _ \<Rightarrow> e | [] \<Rightarrow> (case de_local_ips V of ip # _ \<Rightarrow> ip | [] \<Rightarrow> []))"
  from assms obtain port where port: "split_port reg = Inr port" "suggestRegisterAddress V extra reg = JoinHostPort host port" and h: "host \<noteq> []"
    by (auto simp: suggestRegisterAddress_def Let_def host_def split: if_splits sum.splits)
  from h have "host \<in> set (advertised extra) \<or> host \<in> set (de_local_ips V)" by (auto simp: host_def split: list.splits)
  then have "host \<in> set (DNSNames (identity_options V extra)) \<or> host \<in> set (IPAddresses (identity_options V extra))
      \<or> (\<exists>ip. de_parse_ip V host = Some ip \<and> ip \<in> set (IPAddresses (identity_options V extra)))"
    by (cases "de_parse_ip V host") (force simp: identity_options_def san_loop_result)+
  with port show ?thesis by blast
qed

lemma start_all_frame [simp]: "ap_cert_pem (start_all e ns a) = ap_cert_pem a" "ap_suggested (start_all e ns a) = ap_suggested a"
  by (induction e ns a rule: start_all.induct) (auto simp: start_listener_def split: option.splits)

lemma boot_info: "boot e nd pd cf cert sug = Inr a \<Longrightarrow> ap_cert_pem a = cert \<and> ap_suggested a = sug"
  by (auto simp: boot_def ok_iff)

text \<open>
  C36: What an operator is told to provision a node with fits together. After any start of the
  Controller \<open>/api/controller-info\<close> answers the certificate its servers use, and an address. When this
  very start made the certificate (no TLS flags, no readable identity file before) and suggests an
  address, the authority was asked to issue the certificate for that address: its host is among the
  names or denotes one of the addresses, and its port is the registration port. Nothing of the kind
  holds of a certificate kept from an earlier start or given by the flags.
\<close>

theorem controller_info_is_covered:
  assumes "dashboard_main leaf V F e nd pd cf d = (Inr a, d')" and "rq_method rq = ''GET''"
  shows "\<exists>c s. loadOrCreateDashboardIdentity V F d = (Inr c, d')
    \<and> snd (handleControllerInfo rq a) = writeJSON 200 (Obj [(''address'', Str s), (''ca_cert_pem'', Str (leaf (fst c)))])
    \<and> (s \<noteq> [] \<and> no_tls_flags F \<and> read_identity V d ''dashboard-identity.crt'' = None \<longrightarrow>
        (\<exists>o' ca host port. pe_issue (de_pki V) ca o' = Inr c \<and> s = JoinHostPort host port \<and> split_port (df_register_addr F) = Inr port
          \<and> (host \<in> set (DNSNames o') \<or> host \<in> set (IPAddresses o') \<or> (\<exists>ip. de_parse_ip V host = Some ip \<and> ip \<in> set (IPAddresses o')))))"
proof -
  let ?s = "suggestRegisterAddress V (df_advertise F) (df_register_addr F)"
  from assms(1) obtain c where c: "loadOrCreateDashboardIdentity V F d = (Inr c, d')" and a: "boot e nd pd cf (leaf (fst c)) ?s = Inr a"
    by (auto simp: dashboard_main_def and_pki_Inr split: sum.splits)
  have "\<exists>ca. pe_issue (de_pki V) ca (identity_options V (df_advertise F)) = Inr c"
    if "no_tls_flags F" "read_identity V d ''dashboard-identity.crt'' = None"
    using c that create_identity_issues by (auto simp: loadOrCreateDashboardIdentity_def no_tls_flags_def)
  with suggestion_covered [of V "df_advertise F" "df_register_addr F"] c boot_info [OF a] assms(2) show ?thesis
    by (intro exI [of _ c] exI [of _ ?s]) (auto simp: handleControllerInfo_def)
qed

text \<open>
  Only a missing file is made good. A start that is interrupted while it writes the key leaves a
  pair that is complete by name but not a key pair, and every later start fails on it.
\<close>

theorem torn_identity_stays:
  assumes "no_tls_flags F" and "pe_new_ca (de_pki V) ''dashboard'' = Inr ca" and "pe_issue (de_pki V) ca (identity_options V (df_advertise F)) = Inr (crt, key)"
    and "gm_get d ''dashboard-identity.crt'' = None" and "pe_fault (de_pki V) 0 = None" and "pe_fault (de_pki V) 1 = Some (err, Some torn)"
    and "loadOrCreateDashboardIdentity V F d = (r, d1)" and "no_tls_flags F2" and "pe_key_pair (de_pki V2) crt torn = Some bad"
    and "de_read V2 = (\<lambda>_. None)"
  shows "loadOrCreateDashboardIdentity V2 F2 d1 = (Inl bad, d1)"
proof -
  have "d1 = gm_put ''dashboard-identity.key'' torn (gm_put ''dashboard-identity.crt'' crt d)"
    using assms(1-7) by (simp add: loadOrCreateDashboardIdentity_def no_tls_flags_def create_identity_def read_identity_None)
  with assms(8-10) show ?thesis by (simp add: loadOrCreateDashboardIdentity_def no_tls_flags_def read_identity_def x509_pair_def)
qed

definition demo_dash :: dash_env where
  "demo_dash = \<lparr>de_pki = demo_pki (\<lambda>_. None), de_file = (\<lambda>_. None), de_read = (\<lambda>_. None), de_parse_ip = (\<lambda>_. None), de_local_ips = [''10.0.0.9''], de_listen = (\<lambda>_. None)\<rparr>"

definition demo_flags :: "string \<Rightarrow> dash_flags" where
  "demo_flags extra = \<lparr>df_advertise = extra, df_tls_cert = [], df_tls_key = [], df_register_addr = '':8443''\<rparr>"

theorem identity_is_kept_witness:
  "\<exists>c d. loadOrCreateDashboardIdentity demo_dash (demo_flags []) [] = (Inr c, d)
    \<and> loadOrCreateDashboardIdentity demo_dash (demo_flags ''lb.example'') d = (Inr c, d)"
proof -
  obtain c d where first: "loadOrCreateDashboardIdentity demo_dash (demo_flags []) [] = (Inr c, d)"
    by (simp add: loadOrCreateDashboardIdentity_def create_identity_def read_identity_def x509_pair_def demo_dash_def demo_pki_def demo_flags_def)
  moreover have "de_read demo_dash = (\<lambda>_. None)" by (simp add: demo_dash_def)
  moreover have "no_tls_flags (demo_flags extra)" for extra by (simp add: no_tls_flags_def demo_flags_def)
  ultimately show ?thesis using identity_is_kept by blast
qed

theorem controller_info_is_covered_witness:
  "\<exists>a d' rq (c :: string \<times> string). dashboard_main (\<lambda>p. p) demo_dash (demo_flags []) (demo_env []) [] [] No_File [] = (Inr a, d')
    \<and> snd (handleControllerInfo rq a) = writeJSON 200 (Obj [(''address'', Str ''10.0.0.9:8443''), (''ca_cert_pem'', Str (fst c))])"
proof -
  have s: "suggestRegisterAddress demo_dash [] '':8443'' = ''10.0.0.9:8443''"
    by (simp add: suggestRegisterAddress_def advertised_def trim_space_def demo_dash_def split_port_def JoinHostPort_def Let_def)
  obtain a d' where run: "dashboard_main (\<lambda>p. p) demo_dash (demo_flags []) (demo_env []) [] [] No_File [] = (Inr a, d')"
    by (simp add: dashboard_main_def loadOrCreateDashboardIdentity_def create_identity_def read_identity_def x509_pair_def demo_dash_def demo_pki_def demo_flags_def
        boot_def store_open_def pending_open_def auth_open_def store_list_def startRegistrationListener_def)
  have sug: "ap_suggested a = ''10.0.0.9:8443''"
    using run s by (auto simp: dashboard_main_def and_pki_Inr demo_flags_def split: sum.splits dest!: boot_info)
  define rq where "rq = setup_request\<lparr>rq_method := ''GET''\<rparr>"
  have get: "rq_method rq = ''GET''" by (simp add: rq_def)
  from controller_info_is_covered [OF run get] obtain c :: "string \<times> string" and t where
    info: "snd (handleControllerInfo rq a) = writeJSON 200 (Obj [(''address'', Str t), (''ca_cert_pem'', Str (fst c))])" by blast
  then have "t = ''10.0.0.9:8443''" using get sug by (simp add: handleControllerInfo_def writeJSON_def)
  with run info show ?thesis by blast
qed

end
