(* ===== verification/Go_Flags.thy ===== *)
theory Go_Flags
  imports Go_Strings
begin

text \<open>
  What \<open>cmd/janusctl\<close> uses of Go's \<open>flag\<close> package: string, bool and uint flags, on flag sets that exit
  on an error. The values are a map; parsing starts from the defaults, which fix each flag's kind.
\<close>

section \<open>Values\<close>

datatype flag_value = F_string string | F_bool bool | F_uint nat

type_synonym flag_set = "(string, flag_value) gomap"

definition ParseBool :: "string \<Rightarrow> bool option" where
  "ParseBool s = (if s \<in> {''1'', ''t'', ''T'', ''TRUE'', ''true'', ''True''} then Some True
     else if s \<in> {''0'', ''f'', ''F'', ''FALSE'', ''false'', ''False''} then Some False else None)"

text \<open>\<open>strconv.ParseUint(s, 0, 64)\<close>: the prefix of the text gives the base, underscores may separate digits.\<close>

definition lower :: "char \<Rightarrow> nat" where
  "lower c = (let n = of_char c in if 65 \<le> n \<and> n \<le> 90 then n + 32 else n)"

definition base_of :: "string \<Rightarrow> nat \<times> string" where
  "base_of s = (if s \<noteq> [] \<and> hd s = CHR ''0'' then
       (if 3 \<le> length s \<and> lower (s ! 1) = 98 then (2, drop 2 s)
        else if 3 \<le> length s \<and> lower (s ! 1) = 111 then (8, drop 2 s)
        else if 3 \<le> length s \<and> lower (s ! 1) = 120 then (16, drop 2 s)
        else (8, drop 1 s))
     else (10, s))"

definition digit_in :: "char \<Rightarrow> nat option" where
  "digit_in c = (if is_digit c then Some (digit_val c)
     else if 97 \<le> lower c \<and> lower c \<le> 122 then Some (lower c - 87) else None)"

fun uint_loop :: "nat \<Rightarrow> nat \<Rightarrow> string \<Rightarrow> nat option" where
  "uint_loop b n [] = Some n"
| "uint_loop b n (c # cs) = (if c = CHR ''_'' then uint_loop b n cs
     else case digit_in c of
       None \<Rightarrow> None
     | Some d \<Rightarrow> if b \<le> d \<or> 2 ^ 64 \<le> n * b + d then None else uint_loop b (n * b + d) cs)"

text \<open>\<open>underscoreOK\<close>; the state is \<open>^\<close>, \<open>0\<close>, \<open>_\<close> or \<open>!\<close>, as in the library.\<close>

fun underscores :: "bool \<Rightarrow> char \<Rightarrow> string \<Rightarrow> bool" where
  "underscores hex saw [] = (saw \<noteq> CHR ''_'')"
| "underscores hex saw (c # cs) =
     (if is_digit c \<or> (hex \<and> 97 \<le> lower c \<and> lower c \<le> 102) then underscores hex (CHR ''0'') cs
      else if c = CHR ''_'' then saw = CHR ''0'' \<and> underscores hex (CHR ''_'') cs
      else saw \<noteq> CHR ''_'' \<and> underscores hex (CHR ''!'') cs)"

definition underscoreOK :: "string \<Rightarrow> bool" where
  "underscoreOK s0 = (let s = (if s0 \<noteq> [] \<and> (hd s0 = CHR ''-'' \<or> hd s0 = CHR ''+'') then tl s0 else s0) in
     if 2 \<le> length s \<and> hd s = CHR ''0'' \<and> lower (s ! 1) \<in> {98, 111, 120}
     then underscores (lower (s ! 1) = 120) (CHR ''0'') (drop 2 s) else underscores False (CHR ''^'') s)"

definition ParseUint0 :: "string \<Rightarrow> nat option" where
  "ParseUint0 s = (if s = [] then None
     else let (b, digits) = base_of s in
      if CHR ''_'' \<in> set s \<and> \<not> underscoreOK s then None else uint_loop b 0 digits)"

section \<open>Parsing\<close>

text \<open>What ends parsing early: a wrong flag, or \<open>-h\<close> and \<open>-help\<close>, where they are not defined.\<close>

datatype flag_stop = Bad_flag | Help_flag

definition flag_assign :: "flag_value \<Rightarrow> string \<Rightarrow> flag_value option" where
  "flag_assign old v = (case old of
       F_string _ \<Rightarrow> Some (F_string v)
     | F_bool _ \<Rightarrow> map_option F_bool (ParseBool v)
     | F_uint _ \<Rightarrow> map_option F_uint (ParseUint0 v))"

text \<open>The flag's argument, after \<open>=\<close> or in the next word, and the words that are left.\<close>

definition flag_argument :: "flag_value \<Rightarrow> string option \<Rightarrow> string list \<Rightarrow> (string \<times> string list) option" where
  "flag_argument old given args = (case given of
       Some v \<Rightarrow> Some (v, args)
     | None \<Rightarrow> (case old of
         F_bool _ \<Rightarrow> Some (''true'', args)
       | _ \<Rightarrow> (case args of [] \<Rightarrow> None | v # rest \<Rightarrow> Some (v, rest))))"

definition flag_name :: "string \<Rightarrow> string" where
  "flag_name s = drop (if s ! 1 = CHR ''-'' then 2 else 1) s"

definition name_value :: "string \<Rightarrow> string \<times> string option" where
  "name_value body = (case cut_str ''='' body of None \<Rightarrow> (body, None) | Some (n, v) \<Rightarrow> (n, Some v))"

lemma flag_argument_shorter: "flag_argument old given args = Some (v, rest) \<Longrightarrow> length rest \<le> length args"
  by (auto simp: flag_argument_def split: option.splits flag_value.splits list.splits)

function parse_flags :: "flag_set \<Rightarrow> string list \<Rightarrow> flag_stop + flag_set \<times> string list" where
  "parse_flags F [] = Inr (F, [])"
| "parse_flags F (s # args) =
     (if length s < 2 \<or> hd s \<noteq> CHR ''-'' then Inr (F, s # args)
      else if s = ''--'' then Inr (F, args)
      else if flag_name s = [] \<or> hd (flag_name s) = CHR ''-'' \<or> hd (flag_name s) = CHR ''='' then Inl Bad_flag
      else case gm_get F (fst (name_value (flag_name s))) of
        None \<Rightarrow> Inl (if fst (name_value (flag_name s)) = ''help'' \<or> fst (name_value (flag_name s)) = ''h'' then Help_flag else Bad_flag)
      | Some old \<Rightarrow> (case flag_argument old (snd (name_value (flag_name s))) args of
          None \<Rightarrow> Inl Bad_flag
        | Some (v, rest) \<Rightarrow> (case flag_assign old v of
            None \<Rightarrow> Inl Bad_flag
          | Some new \<Rightarrow> parse_flags (gm_put (fst (name_value (flag_name s))) new F) rest)))"
  by pat_completeness auto
termination
  by (relation "measure (\<lambda>(F, args). length args)") (auto dest!: flag_argument_shorter)

definition str_flag :: "flag_set \<Rightarrow> string \<Rightarrow> string" where
  "str_flag F n = (case gm_get F n of Some (F_string s) \<Rightarrow> s | _ \<Rightarrow> [])"

definition bool_flag :: "flag_set \<Rightarrow> string \<Rightarrow> bool" where
  "bool_flag F n = (case gm_get F n of Some (F_bool b) \<Rightarrow> b | _ \<Rightarrow> False)"

definition uint_flag :: "flag_set \<Rightarrow> string \<Rightarrow> nat" where
  "uint_flag F n = (case gm_get F n of Some (F_uint k) \<Rightarrow> k | _ \<Rightarrow> 0)"

section \<open>Lemmas\<close>

definition flag_kind :: "flag_value \<Rightarrow> nat" where
  "flag_kind v = (case v of F_string _ \<Rightarrow> 0 | F_bool _ \<Rightarrow> 1 | F_uint _ \<Rightarrow> 2)"

text \<open>The ways to write a setting on a command line, and options that stand for a list of settings.\<close>

definition flag_dashes :: "string \<Rightarrow> bool" where
  "flag_dashes d \<longleftrightarrow> d = ''-'' \<or> d = ''--''"

inductive spells :: "string \<Rightarrow> flag_value \<Rightarrow> string list \<Rightarrow> bool" where
  joined: "flag_dashes d \<Longrightarrow> flag_assign v t = Some v \<Longrightarrow> spells n v [d @ n @ ''='' @ t]"
| separate: "flag_dashes d \<Longrightarrow> flag_assign v t = Some v \<Longrightarrow> flag_kind v \<noteq> 1 \<Longrightarrow> spells n v [d @ n, t]"
| bare: "flag_dashes d \<Longrightarrow> spells n (F_bool True) [d @ n]"

inductive options :: "(string \<times> flag_value) list \<Rightarrow> string list \<Rightarrow> bool" where
  none: "options [] []"
| more: "spells n v ws \<Longrightarrow> options os ws' \<Longrightarrow> options ((n, v) # os) (ws @ ws')"

definition plain_flag :: "string \<Rightarrow> bool" where
  "plain_flag n \<longleftrightarrow> n \<noteq> [] \<and> CHR ''='' \<notin> set n \<and> hd n \<noteq> CHR ''-''"

definition positional :: "string \<Rightarrow> bool" where
  "positional s \<longleftrightarrow> length s < 2 \<or> hd s \<noteq> CHR ''-''"

definition put_all :: "(string \<times> flag_value) list \<Rightarrow> flag_set \<Rightarrow> flag_set" where
  "put_all os F = fold (\<lambda>o'. gm_put (fst o') (snd o')) os F"

definition known_flags :: "flag_set \<Rightarrow> (string \<times> flag_value) list \<Rightarrow> bool" where
  "known_flags F os \<longleftrightarrow> (\<forall>(n, v) \<in> set os. plain_flag n \<and> (\<exists>old. gm_get F n = Some old \<and> flag_kind old = flag_kind v))"

lemma cut_str_eq: "CHR ''='' \<notin> set n \<Longrightarrow> cut_str ''='' (n @ CHR ''='' # t) = Some (n, t)"
proof (induction n)
  case Nil
  then show ?case by (subst cut_str.simps) auto
next
  case (Cons c n)
  then show ?case by (subst cut_str.simps) auto
qed

lemma cut_str_no_eq: "CHR ''='' \<notin> set n \<Longrightarrow> cut_str ''='' n = None"
proof (induction n)
  case Nil
  then show ?case by (subst cut_str.simps) auto
next
  case (Cons c n)
  then show ?case by (subst cut_str.simps) auto
qed

lemma flag_assign_kind: "flag_assign v t = Some v \<Longrightarrow> flag_kind old = flag_kind v \<Longrightarrow> flag_assign old t = Some v"
  by (auto simp: flag_assign_def flag_kind_def split: flag_value.splits)

lemma parse_flag_word:
  assumes "flag_dashes d" and "plain_flag n" and "name_value (n @ x) = (n, given)" and "gm_get F n = Some old"
    and "flag_argument old given args = Some (v, rest)" and "flag_assign old v = Some new"
  shows "parse_flags F ((d @ n @ x) # args) = parse_flags (gm_put n new F) rest"
proof -
  obtain c cs where n: "n = c # cs" "c \<noteq> CHR ''-''" "c \<noteq> CHR ''=''" using assms(2) by (cases n) (auto simp: plain_flag_def)
  have "flag_name (d @ n @ x) = n @ x" "length (d @ n @ x) \<ge> 2" "hd (d @ n @ x) = CHR ''-''" "d @ n @ x \<noteq> ''--''"
    "n @ x \<noteq> []" "hd (n @ x) \<noteq> CHR ''-''" "hd (n @ x) \<noteq> CHR ''=''"
    using assms(1) n by (auto simp: flag_dashes_def flag_name_def)
  then show ?thesis unfolding parse_flags.simps(2) [of F "d @ n @ x" args] by (simp add: assms(3-6) del: parse_flags.simps append_assoc append_is_Nil_conv length_append)
qed

lemma parse_spelled:
  assumes "spells n v ws" and "plain_flag n" and "gm_get F n = Some old" and "flag_kind old = flag_kind v"
  shows "parse_flags F (ws @ rest) = parse_flags (gm_put n v F) rest"
  using assms(1)
proof (cases rule: spells.cases)
  case (joined d t)
  have "name_value (n @ ''='' @ t) = (n, Some t)" using assms(2) by (simp add: name_value_def plain_flag_def cut_str_eq)
  then show ?thesis using joined parse_flag_word [OF joined(2) assms(2) _ assms(3), of "''='' @ t" "Some t" rest t rest v]
    by (simp add: flag_argument_def flag_assign_kind [OF _ assms(4)] del: parse_flags.simps)
next
  case (separate d t)
  have "name_value (n @ []) = (n, None)" using assms(2) by (simp add: name_value_def plain_flag_def cut_str_no_eq)
  moreover have "flag_argument old None (t # rest) = Some (t, rest)"
    using separate(4) assms(4) by (auto simp: flag_argument_def flag_kind_def split: flag_value.splits)
  ultimately show ?thesis using separate parse_flag_word [OF separate(2) assms(2) _ assms(3), of "[]" None "t # rest" t rest v]
    by (simp add: flag_assign_kind [OF _ assms(4)] del: parse_flags.simps)
next
  case (bare d)
  have "name_value (n @ []) = (n, None)" using assms(2) by (simp add: name_value_def plain_flag_def cut_str_no_eq)
  moreover obtain b where "old = F_bool b"
    using bare assms(4) by (auto simp: flag_kind_def split: flag_value.splits)
  ultimately show ?thesis using bare parse_flag_word [OF bare(3) assms(2) _ assms(3), of "[]" None rest "''true''" rest v]
    by (simp add: flag_argument_def flag_assign_def ParseBool_def del: parse_flags.simps)
qed

lemma known_flags_put: "known_flags F os \<Longrightarrow> flag_kind v = flag_kind old \<Longrightarrow> gm_get F n = Some old \<Longrightarrow> known_flags (gm_put n v F) os"
  by (fastforce simp: known_flags_def)

lemma parse_options:
  "options os ws \<Longrightarrow> known_flags F os \<Longrightarrow> parse_flags F (ws @ rest) = parse_flags (put_all os F) rest"
proof (induction os ws arbitrary: F rule: options.induct)
  case none
  then show ?case by (simp add: put_all_def)
next
  case (more n v ws os ws')
  then obtain old where old: "gm_get F n = Some old" "flag_kind old = flag_kind v" "plain_flag n"
    by (auto simp: known_flags_def)
  have "known_flags (gm_put n v F) os"
    using more.prems old by (intro known_flags_put [of _ _ _ old]) (auto simp: known_flags_def)
  with parse_spelled [OF more.hyps(1) old(3,1,2), of "ws' @ rest"] more.IH show ?case by (simp add: put_all_def)
qed

lemma parse_positional: "positional s \<Longrightarrow> parse_flags F (s # args) = Inr (F, s # args)"
  by (auto simp: positional_def)

lemma get_put_all: "gm_get (put_all os F) n = (case map_of (rev os) n of Some v \<Rightarrow> Some v | None \<Rightarrow> gm_get F n)"
  unfolding put_all_def by (induction os arbitrary: F) (auto simp: map_add_def split: option.splits)

end
