(* ===== verification/Janusctl.thy ===== *)
theory Janusctl
  imports Go_Flags Haproxy_Api System_Stats Install
begin

text \<open>
  The command line client (\<open>cmd/janusctl/main.go\<close>): from a command line and the files of the machine
  it runs on to one call, and from the call to what it prints, its exit code and what it does to the
  node its endpoint names. Messages on standard error, the progress lines of an installation or an
  upgrade, and calls that run out of time are left out.
\<close>

section \<open>The client's machine\<close>

record local_file =
  lf_mode :: nat
  lf_data :: string

type_synonym files = "string \<Rightarrow> local_file option"

text \<open>
  The TLS library, the dialler (which only checks the endpoint's form), formatted numbers, the order
  in which a range over a map happens to go, and failures of local writes with what they leave.
\<close>

record cli_env =
  cl_version :: string
  cl_has_certs :: "string \<Rightarrow> bool"
  cl_key_pair :: "string \<Rightarrow> string \<Rightarrow> string option"
  cl_new_client :: "string \<Rightarrow> string option"
  cl_float :: "nat \<Rightarrow> jsval \<Rightarrow> string"
  cl_range :: "(string \<times> string) list \<Rightarrow> (string \<times> string) list"
  cl_mkdir :: "string \<Rightarrow> string option"
  cl_write :: "string \<Rightarrow> string option option"

text \<open>A name in a directory. Joining also cleans the path, which names the same file.\<close>

definition join_path :: "string \<Rightarrow> string \<Rightarrow> string" where
  "join_path dir name = (if dir = [] then name else dir @ ''/'' @ name)"

definition local_data :: "files \<Rightarrow> string \<Rightarrow> string option" where
  "local_data fs p = map_option lf_data (fs p)"

text \<open>\<open>os.WriteFile\<close> gives a file it creates the mode, and leaves that of one that exists.\<close>

definition write_local :: "string \<Rightarrow> nat \<Rightarrow> string \<Rightarrow> files \<Rightarrow> files" where
  "write_local p mode s fs = fs(p \<mapsto> \<lparr>lf_mode = (case fs p of None \<Rightarrow> mode | Some f \<Rightarrow> lf_mode f), lf_data = s\<rparr>)"

section \<open>From the command line to a call\<close>

text \<open>The ends before a call: usage (exit code 2), help (0), \<open>log.Fatal\<close> (1).\<close>

datatype cli_stop = Usage | Help | Fatal

definition exit_of :: "cli_stop \<Rightarrow> nat" where
  "exit_of s = (case s of Usage \<Rightarrow> 2 | Help \<Rightarrow> 0 | Fatal \<Rightarrow> 1)"

datatype node_call = C_Version | C_SystemInfo | C_ShowInfo | C_Stats | C_GetConfig | C_ApplyConfig string
  | C_MapList | C_MapGet string | C_MapUpdate string string string bool | C_ACLUpdate string string bool
  | C_CertificateList | C_CertificateUpload string string string "string list" | C_CertificateDelete string string
  | C_GenerateClientConfiguration string string | C_Install install_request | C_Rollback | C_Upgrade upgrade_request

type_synonym 'a cli = "cli_stop + 'a"

definition flags_of :: "flag_set \<Rightarrow> string list \<Rightarrow> (flag_set \<times> string list) cli" where
  "flags_of F args = map_sum (\<lambda>s. case s of Bad_flag \<Rightarrow> Usage | Help_flag \<Rightarrow> Help) id (parse_flags F args)"

definition main_flags :: flag_set where
  "main_flags = [(''endpoint'', F_string ''127.0.0.1:9505''), (''ca'', F_string ''/etc/janus/pki/ca.crt''),
     (''cert'', F_string ''/etc/janus/pki/admin.crt''), (''key'', F_string ''/etc/janus/pki/admin.key'')]"

definition read_local :: "files \<Rightarrow> string \<Rightarrow> string cli" where
  "read_local fs p = of_opt Fatal (local_data fs p)"

definition dial :: "cli_env \<Rightarrow> files \<Rightarrow> flag_set \<Rightarrow> string cli" where
  "dial E fs F =
     bind_r (read_local fs (str_flag F ''ca'')) (\<lambda>ca.
     bind_r (read_local fs (str_flag F ''cert'')) (\<lambda>crt.
     bind_r (read_local fs (str_flag F ''key'')) (\<lambda>key.
     bind_r (guard_r (cl_has_certs E ca \<and> cl_key_pair E crt key = None) Fatal) (\<lambda>_.
     bind_r (guard_r (cl_new_client E (str_flag F ''endpoint'') = None) Fatal) (\<lambda>_.
     Inr (str_flag F ''endpoint''))))))"

definition run_system :: "string list \<Rightarrow> node_call cli" where
  "run_system args = (case args of [] \<Rightarrow> Inl Usage | a # _ \<Rightarrow> if a \<noteq> ''info'' then Inl Usage else Inr C_SystemInfo)"

definition run_pki :: "string list \<Rightarrow> node_call cli" where
  "run_pki args = (case args of
       [] \<Rightarrow> Inl Usage
     | sub # args \<Rightarrow> if sub = ''generate-client-config'' then
         bind_r (flags_of [(''role'', F_string ''os:admin'')] args) (\<lambda>(F, rest).
         case rest of [dir] \<Rightarrow> Inr (C_GenerateClientConfiguration dir (str_flag F ''role'')) | _ \<Rightarrow> Inl Usage)
       else Inl Usage)"

text \<open>The digest given, or the one that lies beside the release on the client's own machine.\<close>

definition expected_sum :: "files \<Rightarrow> string \<Rightarrow> string \<Rightarrow> string" where
  "expected_sum fs given dir = (if given \<noteq> [] then given
     else case local_data fs (join_path dir ''rootfs.squashfs.sha256'') of None \<Rightarrow> [] | Some t \<Rightarrow> trim_space t)"

definition install_flags :: flag_set where
  "install_flags = [(''sha256'', F_string []), (''controller-address'', F_string []), (''controller-ca'', F_string [])]"

definition run_install :: "files \<Rightarrow> string list \<Rightarrow> node_call cli" where
  "run_install fs args =
     bind_r (flags_of install_flags args) (\<lambda>(F, rest). case rest of
       [disk, dir] \<Rightarrow>
         bind_r (if str_flag F ''controller-address'' = [] then Inr []
                 else if str_flag F ''controller-ca'' = [] then Inl Fatal
                 else read_local fs (str_flag F ''controller-ca'')) (\<lambda>ca.
         Inr (C_Install \<lparr>ir_disk = disk, ir_reference = dir, ir_sha256 = expected_sum fs (str_flag F ''sha256'') dir,
           ir_controller = str_flag F ''controller-address'', ir_controller_ca = ca\<rparr>))
     | _ \<Rightarrow> Inl Usage)"

definition upgrade_flags :: flag_set where
  "upgrade_flags = [(''sha256'', F_string []), (''wait-for-health'', F_bool False), (''health-timeout'', F_uint 0)]"

text \<open>The timeout is converted to 32 bits without a check.\<close>

definition run_upgrade :: "files \<Rightarrow> string list \<Rightarrow> node_call cli" where
  "run_upgrade fs args =
     bind_r (flags_of upgrade_flags args) (\<lambda>(F, rest). case rest of
       [dir] \<Rightarrow> Inr (C_Upgrade \<lparr>reference = dir, sha256 = expected_sum fs (str_flag F ''sha256'') dir,
         wait_for_health = bool_flag F ''wait-for-health'',
         health_timeout_seconds = int (uint_flag F ''health-timeout'') mod 2 ^ 32\<rparr>)
     | _ \<Rightarrow> Inl Usage)"

definition run_lifecycle :: "files \<Rightarrow> string list \<Rightarrow> node_call cli" where
  "run_lifecycle fs args = (case args of
       [] \<Rightarrow> Inl Usage
     | sub # args \<Rightarrow>
         if sub = ''install'' then run_install fs args
         else if sub = ''rollback'' then Inr C_Rollback
         else if sub = ''upgrade'' then run_upgrade fs args
         else Inl Usage)"

definition run_haproxy :: "files \<Rightarrow> string list \<Rightarrow> node_call cli" where
  "run_haproxy fs args = (case args of
       [] \<Rightarrow> Inl Usage
     | sub # as \<Rightarrow>
         if sub = ''show-info'' then Inr C_ShowInfo
         else if sub = ''stats'' then Inr C_Stats
         else if sub = ''get-config'' then Inr C_GetConfig
         else if sub = ''apply-config'' then (case as of
             [file] \<Rightarrow> bind_r (read_local fs file) (\<lambda>cfg. Inr (C_ApplyConfig cfg)) | _ \<Rightarrow> Inl Usage)
         else if sub = ''map-list'' then Inr C_MapList
         else if sub = ''map-get'' then (case as of [m] \<Rightarrow> Inr (C_MapGet m) | _ \<Rightarrow> Inl Usage)
         else if sub = ''map-set'' then (case as of [m, k, v] \<Rightarrow> Inr (C_MapUpdate m k v False) | _ \<Rightarrow> Inl Usage)
         else if sub = ''map-delete'' then (case as of [m, k] \<Rightarrow> Inr (C_MapUpdate m k [] True) | _ \<Rightarrow> Inl Usage)
         else if sub = ''acl-add'' then (case as of [a, v] \<Rightarrow> Inr (C_ACLUpdate a v False) | _ \<Rightarrow> Inl Usage)
         else if sub = ''acl-delete'' then (case as of [a, v] \<Rightarrow> Inr (C_ACLUpdate a v True) | _ \<Rightarrow> Inl Usage)
         else if sub = ''cert-list'' then Inr C_CertificateList
         else if sub = ''cert-upload'' then
           bind_r (flags_of [(''crt-list'', F_string []), (''sni'', F_string [])] as) (\<lambda>(F, rest). case rest of
             [name, file] \<Rightarrow> bind_r (read_local fs file) (\<lambda>pem. Inr (C_CertificateUpload name pem (str_flag F ''crt-list'')
               (if str_flag F ''sni'' = [] then [] else split_on (CHR '','') (str_flag F ''sni''))))
           | _ \<Rightarrow> Inl Usage)
         else if sub = ''cert-delete'' then
           bind_r (flags_of [(''crt-list'', F_string [])] as) (\<lambda>(F, rest). case rest of
             [name] \<Rightarrow> Inr (C_CertificateDelete name (str_flag F ''crt-list'')) | _ \<Rightarrow> Inl Usage)
         else Inl Usage)"

definition cli_command :: "files \<Rightarrow> string list \<Rightarrow> node_call cli" where
  "cli_command fs args = (case args of
       [] \<Rightarrow> Inl Usage
     | cmd # as \<Rightarrow>
         if cmd = ''version'' then Inr C_Version
         else if cmd = ''system'' then run_system as
         else if cmd = ''haproxy'' then run_haproxy fs as
         else if cmd = ''pki'' then run_pki as
         else if cmd = ''lifecycle'' then run_lifecycle fs as
         else Inl Usage)"

text \<open>\<open>main\<close> up to the call: the endpoint and the call. It dials before it looks at the command.\<close>

definition cli_call :: "cli_env \<Rightarrow> files \<Rightarrow> string list \<Rightarrow> (string \<times> node_call) cli" where
  "cli_call E fs args =
     bind_r (flags_of main_flags args) (\<lambda>(F, rest).
     if rest = [] then Inl Usage
     else bind_r (dial E fs F) (\<lambda>endpoint. bind_r (cli_command fs rest) (\<lambda>c. Inr (endpoint, c))))"

section \<open>The call\<close>

text \<open>
  A node's services as this caller finds them: the HAProxy service and the peer as in a relay (its
  \<open>rl_dial\<close> is why no call reaches the node, if so), and what the other handlers are given.
\<close>

record 's services =
  sv_relay :: "'s relay"
  sv_system :: system_service
  sv_pki :: pki_env
  sv_ca :: ca
  sv_lifecycle :: node_env
  sv_install :: install_env

record 's node_world =
  nw_haproxy :: "'s node_state"
  nw_disk :: node_disk
  nw_targets :: "string \<Rightarrow> target"

text \<open>What a command prints, and its exit code.\<close>

type_synonym outcome = "string \<times> nat"

definition out_line :: "string \<Rightarrow> string" where
  "out_line s = s @ [newline]"

text \<open>A unary call of the HAProxy service; any failure is fatal.\<close>

definition on_haproxy :: "'s services \<Rightarrow> string \<Rightarrow> ('s, 'r) rpc \<Rightarrow> ('r \<Rightarrow> string) \<Rightarrow> 's node_world \<Rightarrow> outcome \<times> 's node_world" where
  "on_haproxy S m h show W = (case rl_dial (sv_relay S) of
       Some _ \<Rightarrow> (([], 1), W)
     | None \<Rightarrow> (case call_rpc (sv_relay S) m h (nw_haproxy W) of
         (Inl _, st) \<Rightarrow> (([], 1), W\<lparr>nw_haproxy := st\<rparr>)
       | (Inr r, st) \<Rightarrow> ((show r, 0), W\<lparr>nw_haproxy := st\<rparr>)))"

text \<open>Whether a call of a service passes the node's role check.\<close>

definition call_admitted :: "'s services \<Rightarrow> string \<Rightarrow> string \<Rightarrow> bool" where
  "call_admitted S svc m \<longleftrightarrow> rl_dial (sv_relay S) = None \<and> checkRole (rl_peer (sv_relay S)) (rpc_name svc m) = Inr ()"

text \<open>\<open>apply-config\<close> prints every message of the stream and fails when the last one is not accepted.\<close>

definition apply_line :: "apply_message \<Rightarrow> string" where
  "apply_line m = out_line (''['' @ am_stage m @ ''] '' @ am_message m)"

definition run_apply :: "'s services \<Rightarrow> string \<Rightarrow> 's node_world \<Rightarrow> outcome \<times> 's node_world" where
  "run_apply S cfg W =
     (if \<not> call_admitted S ''HAProxyService'' ''ApplyConfig'' then (([], 1), W)
      else case api_ApplyConfig (rl_api (sv_relay S)) (rl_lost (sv_relay S)) cfg (nw_haproxy W) of
        ((ms, err), st) \<Rightarrow> ((concat (map apply_line ms),
          if err \<noteq> None then 1 else if ms \<noteq> [] \<and> \<not> am_accepted (last ms) then 1 else 0), W\<lparr>nw_haproxy := st\<rparr>))"

text \<open>\<open>system info\<close> stops at the first call that fails.\<close>

fun print_all :: "(rpc_fault + string) list \<Rightarrow> outcome" where
  "print_all [] = ([], 0)"
| "print_all (Inl _ # _) = ([], 1)"
| "print_all (Inr s # rs) = (s @ fst (print_all rs), snd (print_all rs))"

definition system_parts :: "cli_env \<Rightarrow> system_service \<Rightarrow> (rpc_fault + string) list" where
  "system_parts E sys = [
     map_sum id (\<lambda>v. out_line (''version: '' @ vi_version v) @ out_line (''go version: '' @ vi_go_version v)
       @ out_line (''kernel version: '' @ vi_kernel_version v) @ out_line (''active slot: '' @ vi_active_slot v)) (sy_version sys),
     map_sum id (\<lambda>m. out_line (''memory: total='' @ show_nat (mi_total m) @ '' available='' @ show_nat (mi_available m)
       @ '' cached='' @ show_nat (mi_cached m) @ '' bytes'')) (sy_memory sys),
     map_sum id (\<lambda>cs. out_line (''cpus: '' @ show_nat (length cs)) @ concat (map (\<lambda>c. out_line (''  cpu'' @ show_nat (cp_processor c)
       @ '': '' @ cp_model_name c @ '' ('' @ cl_float E 0 (cp_mhz c) @ '' MHz)'')) cs)) (sy_cpus sys),
     map_sum id (\<lambda>l. out_line (''load average: '' @ cl_float E 2 (li_load1 l) @ '' '' @ cl_float E 2 (li_load5 l)
       @ '' '' @ cl_float E 2 (li_load15 l))) (sy_load sys),
     map_sum id (\<lambda>ds. out_line (''disks: '' @ show_nat (length ds)) @ concat (map (\<lambda>d. out_line (''  '' @ di_device_name d
       @ '': reads='' @ show_nat (di_read_completed d) @ '' writes='' @ show_nat (di_write_completed d))) ds)) (sy_disks sys)]"

definition run_system_info :: "cli_env \<Rightarrow> 's services \<Rightarrow> outcome" where
  "run_system_info E S = (if rl_dial (sv_relay S) \<noteq> None then ([], 1) else print_all (system_parts E (sv_system S)))"

definition run_version :: "cli_env \<Rightarrow> 's services \<Rightarrow> outcome" where
  "run_version E S = (let client = out_line (''Client: '' @ cl_version E) in
     case (rl_dial (sv_relay S), sy_version (sv_system S)) of
       (None, Inr v) \<Rightarrow> (client @ out_line (''Node: '' @ vi_version v), 0)
     | _ \<Rightarrow> (client, 1))"

fun write_credential :: "cli_env \<Rightarrow> string \<Rightarrow> (string \<times> string) list \<Rightarrow> files \<Rightarrow> nat \<times> files" where
  "write_credential E dir [] fs = (0, fs)"
| "write_credential E dir ((name, s) # rest) fs =
     (let p = dir @ ''/'' @ name; mode = (if name = ''client.key'' then 384 else 420) in
      case cl_write E p of
        Some held \<Rightarrow> (1, case held of None \<Rightarrow> fs | Some s' \<Rightarrow> write_local p mode s' fs)
      | None \<Rightarrow> write_credential E dir rest (write_local p mode s fs))"

text \<open>The output directory itself, which the code makes first, is not modelled: a local file is known by its path.\<close>

definition run_generate :: "cli_env \<Rightarrow> 's services \<Rightarrow> string \<Rightarrow> string \<Rightarrow> files \<Rightarrow> outcome \<times> files" where
  "run_generate E S dir role fs =
     (if cl_mkdir E dir \<noteq> None \<or> \<not> call_admitted S ''SystemService'' ''GenerateClientConfiguration'' then (([], 1), fs)
      else case GenerateClientConfiguration (sv_pki S) (sv_ca S) [role] of
          Inl _ \<Rightarrow> (([], 1), fs)
        | Inr (ca, crt, key) \<Rightarrow>
            let (code, fs') = write_credential E dir (cl_range E [(''ca.crt'', ca), (''client.crt'', crt), (''client.key'', key)]) fs in
            ((if code = 0 then out_line (''Wrote '' @ dir @ ''/{ca.crt,client.crt,client.key}'') else [], code), fs'))"

text \<open>The exit code of a handler's result.\<close>

definition code_of :: "'e + 'a \<Rightarrow> nat" where
  "code_of r = (case r of Inl _ \<Rightarrow> 1 | Inr _ \<Rightarrow> 0)"

definition run_lifecycle_call :: "'s services \<Rightarrow> node_call \<Rightarrow> 's node_world \<Rightarrow> outcome \<times> 's node_world" where
  "run_lifecycle_call S c W = (case c of
       C_Upgrade req \<Rightarrow> if \<not> call_admitted S ''LifecycleService'' ''Upgrade'' then (([], 1), W)
         else (let (r, ws) = Upgrade (sv_lifecycle S) req (nw_disk W) in
           (([], code_of r), W\<lparr>nw_disk := apply_writes ws (nw_disk W)\<rparr>))
     | C_Rollback \<Rightarrow> if \<not> call_admitted S ''LifecycleService'' ''Rollback'' then (([], 1), W)
         else (let (r, ws) = Rollback (sv_lifecycle S) (nw_disk W) in
           ((case r of Inr s \<Rightarrow> out_line (''Rolling back to slot '' @ slot_name s @ '', node is rebooting'') | Inl _ \<Rightarrow> [], code_of r),
            W\<lparr>nw_disk := apply_writes ws (nw_disk W)\<rparr>))
     | C_Install req \<Rightarrow> if \<not> call_admitted S ''LifecycleService'' ''Install'' then (([], 1), W)
         else (let T = nw_targets W (ir_disk req); (r, ws) = Install (sv_install S) req T in
           (([], code_of r), W\<lparr>nw_targets := (nw_targets W)(ir_disk req := image_writes ws T)\<rparr>))
     | _ \<Rightarrow> (([], 1), W))"

definition run_call :: "cli_env \<Rightarrow> 's services \<Rightarrow> node_call \<Rightarrow> files \<times> 's node_world \<Rightarrow> outcome \<times> (files \<times> 's node_world)" where
  "run_call E S c fw = (let (fs, W) = fw; a = rl_api (sv_relay S); keep = (\<lambda>(r, W'). (r, (fs, W'))); none = (\<lambda>_. []) in case c of
       C_Version \<Rightarrow> (run_version E S, (fs, W))
     | C_SystemInfo \<Rightarrow> (run_system_info E S, (fs, W))
     | C_ShowInfo \<Rightarrow> keep (on_haproxy S ''ShowInfo'' (api_ShowInfo a) (\<lambda>i. out_line (''Version:      '' @ Version i)
         @ out_line (''Uptime:       '' @ show_nat (unat (UptimeSeconds i)) @ ''s'')
         @ out_line (''Connections:  '' @ show_nat (unat (CurrentConnections i)) @ '' / '' @ show_nat (unat (MaxConnections i)))) W)
     | C_Stats \<Rightarrow> keep (on_haproxy S ''Stats'' (api_Stats a) (\<lambda>s. s) W)
     | C_GetConfig \<Rightarrow> keep (on_haproxy S ''GetConfig'' (api_GetConfig a) fst W)
     | C_ApplyConfig cfg \<Rightarrow> keep (run_apply S cfg W)
     | C_MapList \<Rightarrow> keep (on_haproxy S ''MapList'' (api_MapList a) (\<lambda>ms. concat (map out_line ms)) W)
     | C_MapGet m \<Rightarrow> keep (on_haproxy S ''MapGet'' (api_MapGet a m) (\<lambda>es. concat (map (\<lambda>(k, v). out_line (k @ '' '' @ v)) (cl_range E es))) W)
     | C_MapUpdate m k v del \<Rightarrow> keep (on_haproxy S ''MapUpdate'' (api_MapUpdate a m k v del) none W)
     | C_ACLUpdate acl v del \<Rightarrow> keep (on_haproxy S ''ACLUpdate'' (api_ACLUpdate a acl v del) none W)
     | C_CertificateList \<Rightarrow> keep (on_haproxy S ''CertificateList'' (api_CertificateList a) (\<lambda>cs. concat (map (\<lambda>ce. out_line (ci_name ce
         @ [CHR 0x09] @ ''notAfter='' @ ci_not_after ce @ [CHR 0x09] @ ''status='' @ ci_status ce)) cs)) W)
     | C_CertificateUpload n pem crt sni \<Rightarrow> keep (on_haproxy S ''CertificateUpload'' (api_CertificateUpload a n pem crt sni) none W)
     | C_CertificateDelete n crt \<Rightarrow> keep (on_haproxy S ''CertificateDelete'' (api_CertificateDelete a n crt) none W)
     | C_GenerateClientConfiguration dir role \<Rightarrow> (let (r, fs') = run_generate E S dir role fs in (r, (fs', W)))
     | _ \<Rightarrow> keep (run_lifecycle_call S c W))"

text \<open>A whole run: the endpoint picks the node.\<close>

definition janusctl :: "cli_env \<Rightarrow> (string \<Rightarrow> 's services) \<Rightarrow> string list \<Rightarrow> files \<times> (string \<Rightarrow> 's node_world)
    \<Rightarrow> outcome \<times> (files \<times> (string \<Rightarrow> 's node_world))" where
  "janusctl E N args fw = (let (fs, W) = fw in case cli_call E fs args of
       Inl stop \<Rightarrow> (([], exit_of stop), (fs, W))
     | Inr (ep, c) \<Rightarrow> (let (r, (fs', W')) = run_call E (N ep) c (fs, W ep) in (r, (fs', W(ep := W')))))"

end
