(* ===== verification/Janusctl_Properties.thy ===== *)
theory Janusctl_Properties
  imports Janusctl Lifecycle_Properties Node_Page_Effects
begin

text \<open>
  Properties of the command line client: what reaches the node of a command line, what its exit code
  says, and what a caller may do with it.
\<close>

section \<open>Command lines\<close>

definition given_string :: "(string \<times> flag_value) list \<Rightarrow> string \<Rightarrow> string" where
  "given_string os n = (case map_of (rev os) n of Some (F_string s) \<Rightarrow> s | _ \<Rightarrow> [])"

definition upgrade_of :: "files \<Rightarrow> (string \<times> flag_value) list \<Rightarrow> string \<Rightarrow> upgrade_request" where
  "upgrade_of fs os dir = \<lparr>reference = dir, sha256 = expected_sum fs (given_string os ''sha256'') dir,
     wait_for_health = (map_of (rev os) ''wait-for-health'' = Some (F_bool True)),
     health_timeout_seconds = (case map_of (rev os) ''health-timeout'' of Some (F_uint k) \<Rightarrow> int k mod 2 ^ 32 | _ \<Rightarrow> 0)\<rparr>"

lemma known_value:
  assumes "known_flags F os" and "gm_get F n = Some old" and "map_of (rev os) n = Some v"
  shows "flag_kind v = flag_kind old"
proof -
  have "(n, v) \<in> set os" using map_of_SomeD [OF assms(3)] by simp
  with assms(1,2) show ?thesis by (fastforce simp: known_flags_def)
qed

lemma kinds: "flag_kind v = 0 \<longleftrightarrow> (\<exists>s. v = F_string s)" "flag_kind v = Suc 0 \<longleftrightarrow> (\<exists>b. v = F_bool b)" "flag_kind v = 2 \<longleftrightarrow> (\<exists>k. v = F_uint k)"
  by (auto simp: flag_kind_def split: flag_value.splits)

lemma upgrade_values:
  assumes "known_flags upgrade_flags os"
  shows "str_flag (put_all os upgrade_flags) ''sha256'' = given_string os ''sha256''"
    and "bool_flag (put_all os upgrade_flags) ''wait-for-health'' = (map_of (rev os) ''wait-for-health'' = Some (F_bool True))"
    and "int (uint_flag (put_all os upgrade_flags) ''health-timeout'') mod 2 ^ 32
      = (case map_of (rev os) ''health-timeout'' of Some (F_uint k) \<Rightarrow> int k mod 2 ^ 32 | _ \<Rightarrow> 0)"
proof -
  have get: "gm_get upgrade_flags ''sha256'' = Some (F_string [])" "gm_get upgrade_flags ''wait-for-health'' = Some (F_bool False)"
    "gm_get upgrade_flags ''health-timeout'' = Some (F_uint 0)" by (simp_all add: upgrade_flags_def gm_get_def)
  note known = known_value [OF assms get(1)] known_value [OF assms get(2)] known_value [OF assms get(3)]
  show "str_flag (put_all os upgrade_flags) ''sha256'' = given_string os ''sha256''"
    using known(1) by (auto simp: str_flag_def given_string_def get_put_all get split: option.splits flag_value.splits)
  show "bool_flag (put_all os upgrade_flags) ''wait-for-health'' = (map_of (rev os) ''wait-for-health'' = Some (F_bool True))"
    using known(2) by (auto simp: bool_flag_def get_put_all get flag_kind_def split: option.splits flag_value.splits)
  show "int (uint_flag (put_all os upgrade_flags) ''health-timeout'') mod 2 ^ 32
      = (case map_of (rev os) ''health-timeout'' of Some (F_uint k) \<Rightarrow> int k mod 2 ^ 32 | _ \<Rightarrow> 0)"
    using known(3) by (auto simp: uint_flag_def get_put_all get split: option.splits flag_value.splits)
qed

lemma flags_of_options:
  assumes "options os ws" and "known_flags F os" and "positional p"
  shows "flags_of F (ws @ p # rest) = Inr (put_all os F, p # rest)"
  by (simp add: flags_of_def parse_options [OF assms(1,2)] parse_positional [OF assms(3)] del: parse_flags.simps)

text \<open>
  C37: The command line of an upgrade says what the node is asked for. However the options are
  spelled, ordered and repeated, the last value of each is used, the digest defaults to the one
  lying beside the release on the client's machine, and the timeout is reduced to 32 bits. An option
  after the directory is never skipped: the client stops with the usage and no call is made.
\<close>

theorem upgrade_command_line:
  assumes "options gs gws" and "known_flags main_flags gs" and "options os ws" and "known_flags upgrade_flags os" and "positional dir"
  shows "cli_call E fs (gws @ [''lifecycle'', ''upgrade''] @ ws @ dir # extra) =
    bind_r (dial E fs (put_all gs main_flags)) (\<lambda>endpoint. if extra = [] then Inr (endpoint, C_Upgrade (upgrade_of fs os dir)) else Inl Usage)"
proof -
  have "flags_of main_flags (gws @ ''lifecycle'' # ''upgrade'' # ws @ dir # extra) = Inr (put_all gs main_flags, ''lifecycle'' # ''upgrade'' # ws @ dir # extra)"
    using assms(1,2) by (rule flags_of_options) (simp add: positional_def)
  moreover have "flags_of upgrade_flags (ws @ dir # extra) = Inr (put_all os upgrade_flags, dir # extra)"
    using assms(3-5) by (rule flags_of_options)
  then have "run_upgrade fs (ws @ dir # extra) = (if extra = [] then Inr (C_Upgrade (upgrade_of fs os dir)) else Inl Usage)"
    unfolding upgrade_of_def upgrade_values [OF assms(4), symmetric] by (cases extra) (simp_all add: run_upgrade_def)
  ultimately show ?thesis
    by (simp add: cli_call_def cli_command_def run_lifecycle_def cong: if_cong split: sum.splits)
qed

lemma timeout_spelled: "flag_assign (F_uint k) ''90'' = Some (F_uint 90)" "flag_assign (F_bool b) ''T'' = Some (F_bool True)"
  by (simp_all add: flag_assign_def ParseUint0_def base_of_def digit_in_def digit_val_def is_digit_def lower_def ParseBool_def)

definition demo_files :: files where
  "demo_files = (\<lambda>p. if p = ''/r/rootfs.squashfs.sha256'' then Some \<lparr>lf_mode = 420, lf_data = ''rootfs.squashfs '' \<rparr>
     else if p \<in> {''/etc/janus/pki/ca.crt'', ''/etc/janus/pki/admin.crt'', ''/etc/janus/pki/admin.key''} then Some \<lparr>lf_mode = 384, lf_data = ''pem''\<rparr>
     else if p = ''new.cfg'' then Some \<lparr>lf_mode = 420, lf_data = ''global''\<rparr> else None)"

definition demo_cli :: cli_env where
  "demo_cli = \<lparr>cl_version = ''dev'', cl_has_certs = (\<lambda>_. True), cl_key_pair = (\<lambda>_ _. None), cl_new_client = (\<lambda>_. None),
     cl_float = (\<lambda>_ _. []), cl_range = (\<lambda>m. m), cl_mkdir = (\<lambda>_. None), cl_write = (\<lambda>_. None)\<rparr>"

lemma demo_dial:
  assumes "\<forall>(n, v) \<in> set gs. n = ''endpoint''"
  shows "dial demo_cli demo_files (put_all gs main_flags) = Inr (str_flag (put_all gs main_flags) ''endpoint'')"
proof -
  have none: "map_of (rev gs) n = None" if "n \<noteq> ''endpoint''" for n
  proof -
    have "n \<notin> fst ` set (rev gs)" using assms that by fastforce
    then show ?thesis by (simp add: map_of_eq_None_iff del: rev_map)
  qed
  have get: "gm_get (put_all gs main_flags) ''ca'' = Some (F_string ''/etc/janus/pki/ca.crt'')"
    "gm_get (put_all gs main_flags) ''cert'' = Some (F_string ''/etc/janus/pki/admin.crt'')"
    "gm_get (put_all gs main_flags) ''key'' = Some (F_string ''/etc/janus/pki/admin.key'')"
    by (simp_all add: get_put_all none) (simp_all add: main_flags_def gm_get_def)
  have "read_local demo_files ''/etc/janus/pki/ca.crt'' = Inr ''pem''" "read_local demo_files ''/etc/janus/pki/admin.crt'' = Inr ''pem''"
    "read_local demo_files ''/etc/janus/pki/admin.key'' = Inr ''pem''"
    by code_simp+
  then show ?thesis by (simp add: dial_def str_flag_def get demo_cli_def guard_r_def)
qed

theorem upgrade_command_line_witness:
  "cli_call demo_cli demo_files [''-endpoint=n1:9505'', ''lifecycle'', ''upgrade'', ''--health-timeout'', ''90'', ''-wait-for-health=T'', ''/r'']
    = Inr (''n1:9505'', C_Upgrade \<lparr>reference = ''/r'', sha256 = ''rootfs.squashfs'', wait_for_health = True, health_timeout_seconds = 90\<rparr>)"
proof -
  let ?gs = "[(''endpoint'', F_string ''n1:9505'')]" and ?os = "[(''health-timeout'', F_uint 90), (''wait-for-health'', F_bool True)]"
  have "options ?gs ([''-'' @ ''endpoint'' @ ''='' @ ''n1:9505''] @ [])"
    by (intro options.intros spells.intros) (simp_all add: flag_dashes_def flag_assign_def)
  then have gs: "options ?gs [''-endpoint=n1:9505'']" by simp
  have "options ?os ([''--'' @ ''health-timeout'', ''90''] @ [''-'' @ ''wait-for-health'' @ ''='' @ ''T''] @ [])"
    by (intro options.intros spells.intros) (simp_all add: flag_dashes_def timeout_spelled flag_kind_def)
  then have os: "options ?os [''--health-timeout'', ''90'', ''-wait-for-health=T'']" by simp
  have known: "known_flags main_flags ?gs" "known_flags upgrade_flags ?os"
    by (simp_all add: known_flags_def main_flags_def upgrade_flags_def plain_flag_def gm_get_def flag_kind_def)
  have sum: "expected_sum demo_files [] ''/r'' = ''rootfs.squashfs''" by code_simp
  have req: "upgrade_of demo_files ?os ''/r'' = \<lparr>reference = ''/r'', sha256 = ''rootfs.squashfs'', wait_for_health = True, health_timeout_seconds = 90\<rparr>"
    using sum by (simp add: upgrade_of_def given_string_def)
  have dialled: "dial demo_cli demo_files (put_all ?gs main_flags) = Inr ''n1:9505''"
    using demo_dial [of ?gs] by (simp add: str_flag_def put_all_def)
  have "positional ''/r''" by (simp add: positional_def)
  from upgrade_command_line [OF gs known(1) os known(2) this, of demo_cli demo_files "[]", unfolded dialled req]
  show ?thesis by simp
qed

section \<open>What a reader may do\<close>

definition no_admin :: "peer \<Rightarrow> bool" where
  "no_admin p \<longleftrightarrow> (case p of Tls_peer (roles # _) \<Rightarrow> RoleAdmin \<notin> set roles | _ \<Rightarrow> True)"

definition reading :: "node_call \<Rightarrow> bool" where
  "reading c \<longleftrightarrow> c \<in> {C_Version, C_SystemInfo, C_ShowInfo, C_Stats, C_GetConfig, C_MapList, C_CertificateList} \<or> (\<exists>m. c = C_MapGet m)"

lemma no_admin_refused: "no_admin p \<Longrightarrow> m \<notin> set reader_rpcs \<Longrightarrow> \<exists>e. checkRole p m = Inl e"
  by (auto simp: no_admin_def checkRole_def required_for_cases roles_meet_iff adminOnly_def split: peer.splits list.splits)

lemma admin_methods:
  "haproxy_method ''ApplyConfig'' \<notin> set reader_rpcs" "haproxy_method ''MapUpdate'' \<notin> set reader_rpcs"
  "haproxy_method ''ACLUpdate'' \<notin> set reader_rpcs" "haproxy_method ''CertificateUpload'' \<notin> set reader_rpcs"
  "haproxy_method ''CertificateDelete'' \<notin> set reader_rpcs" "rpc_name ''SystemService'' ''GenerateClientConfiguration'' \<notin> set reader_rpcs"
  "rpc_name ''LifecycleService'' ''Install'' \<notin> set reader_rpcs" "rpc_name ''LifecycleService'' ''Rollback'' \<notin> set reader_rpcs"
  "rpc_name ''LifecycleService'' ''Upgrade'' \<notin> set reader_rpcs"
  by code_simp+

lemma not_admitted: "no_admin (rl_peer (sv_relay S)) \<Longrightarrow> rpc_name svc m \<notin> set reader_rpcs \<Longrightarrow> \<not> call_admitted S svc m"
  using no_admin_refused by (fastforce simp: call_admitted_def)

lemma not_served:
  "no_admin (rl_peer (sv_relay S)) \<Longrightarrow> haproxy_method m \<notin> set reader_rpcs \<Longrightarrow> on_haproxy S m h show W = (([], 1), W)"
  using no_admin_refused [of "rl_peer (sv_relay S)" "haproxy_method m"]
  by (auto simp: on_haproxy_def call_rpc_def split: option.splits)

text \<open>A handler that only talks to HAProxy's socket keeps the configuration and the process.\<close>

definition keeps_host :: "('s, 'r) rpc \<Rightarrow> bool" where
  "keeps_host h \<longleftrightarrow> (\<forall>st. ns_host (snd (h st)) = ns_host st)"

lemma keeps_host_sock [simp]: "keeps_host (on_sock f)" "keeps_host (api_GetConfig a)"
  by (auto simp: keeps_host_def on_sock_def api_GetConfig_def split: prod.splits option.splits)

definition only_socket :: "'s node_world \<Rightarrow> 's node_world \<Rightarrow> bool" where
  "only_socket W W' \<longleftrightarrow> nw_disk W' = nw_disk W \<and> nw_targets W' = nw_targets W \<and> ns_host (nw_haproxy W') = ns_host (nw_haproxy W)"

lemma only_socket_refl [simp]: "only_socket W W"
  by (simp add: only_socket_def)

lemma on_haproxy_only_socket: "keeps_host h \<Longrightarrow> only_socket W (snd (on_haproxy S m h show W))"
  unfolding keeps_host_def
  by (auto simp: only_socket_def on_haproxy_def call_rpc_def split: option.splits sum.splits prod.splits) (metis snd_conv)+

lemma run_call_reader:
  assumes "no_admin (rl_peer (sv_relay S))"
  shows "fst (snd (run_call E S c (fs, W))) = fs \<and> only_socket W (snd (snd (run_call E S c (fs, W))))
    \<and> (\<not> reading c \<longrightarrow> run_call E S c (fs, W) = (([], 1), (fs, W)))"
proof -
  note admitted = not_admitted [OF assms] and served = not_served [OF assms]
  have no_apply: "run_apply S cfg W = (([], 1), W)" for cfg
    using admitted admin_methods by (simp add: run_apply_def haproxy_method_def)
  have life: "run_lifecycle_call S (C_Install r) W = (([], 1), W)" "run_lifecycle_call S C_Rollback W = (([], 1), W)"
    "run_lifecycle_call S (C_Upgrade q) W = (([], 1), W)" for r q
    using admitted admin_methods by (simp_all add: run_lifecycle_call_def)
  show ?thesis
  proof (cases "reading c")
    case True
    then show ?thesis
      by (auto simp: reading_def run_call_def Let_def case_prod_beta on_haproxy_only_socket api_ShowInfo_def api_Stats_def api_MapList_def api_MapGet_def
          api_CertificateList_def)
  next
    case False
    then have "run_call E S c (fs, W) = (([], 1), (fs, W))"
      by (cases c) (simp_all add: reading_def run_call_def Let_def no_apply life served admin_methods admitted run_generate_def)
    then show ?thesis by simp
  qed
qed

text \<open>
  C38: Whoever holds only a reader's certificate, or none that counts, changes nothing by any command
  line: no node's disk, configuration or process, no disk to install on, no local file (an empty
  directory apart, which \<open>pki generate-client-config\<close> makes before it asks the node). A command that
  would is answered with exit code 1, prints nothing and leaves the socket alone too.
\<close>

theorem reader_cannot_act:
  assumes "\<And>ep. no_admin (rl_peer (sv_relay (N ep)))" and "janusctl E N args (fs, W) = ((out, code), (fs', W'))"
  shows "fs' = fs \<and> only_socket (W ep) (W' ep) \<and> (cli_call E fs args = Inr (ep', c) \<and> \<not> reading c \<longrightarrow> out = [] \<and> code = 1 \<and> W' = W)"
proof (cases "cli_call E fs args")
  case (Inr p)
  obtain e0 c0 where p: "p = (e0, c0)" by (cases p)
  from run_call_reader [OF assms(1) [of e0], of E c0 fs "W e0"] assms(2) show ?thesis
    by (auto simp: janusctl_def Inr p split: prod.splits)
qed (use assms(2) in \<open>simp add: janusctl_def\<close>)

definition demo_services :: "peer \<Rightarrow> (string \<Rightarrow> shown_entry list) services" where
  "demo_services p = \<lparr>sv_relay = (demo_relay False)\<lparr>rl_peer := p\<rparr>, sv_system = ls_system (demo_listener False),
     sv_pki = demo_pki (\<lambda>_. None), sv_ca = \<lparr>CertPEM = ''ca'', ca_key = ''k''\<rparr>, sv_lifecycle = Lifecycle_Properties.demo_env,
     sv_install = \<lparr>in_cmdline = None, in_bundle = (\<lambda>_ _. None), in_sha = id, in_fails = (\<lambda>_. False), in_torn = (\<lambda>_. None)\<rparr>\<rparr>"

definition demo_node :: "(string \<Rightarrow> shown_entry list) node_world" where
  "demo_node = \<lparr>nw_haproxy = demo_world, nw_disk = demo_disk, nw_targets = (\<lambda>_. \<lparr>tg_size = 0, tg_table = None, tg_data = (\<lambda>_. None), tg_files = (\<lambda>_. None)\<rparr>)\<rparr>"

lemma demo_call:
  assumes "args \<noteq> []" and "positional (hd args)" and "cli_command demo_files args = Inr c"
  shows "cli_call demo_cli demo_files args = Inr (''127.0.0.1:9505'', c)"
proof -
  have "flags_of main_flags args = Inr (put_all [] main_flags, args)"
    using assms(1,2) parse_positional [of "hd args" main_flags "tl args"] by (simp add: flags_of_def put_all_def)
  moreover have "str_flag (put_all [] main_flags) ''endpoint'' = ''127.0.0.1:9505''"
    by (simp add: str_flag_def put_all_def main_flags_def gm_get_def)
  ultimately show ?thesis using assms(1,3) demo_dial [of "[]"] by (simp add: cli_call_def)
qed

theorem reader_cannot_act_witness:
  "\<exists>out fs' W'. janusctl demo_cli (\<lambda>_. demo_services (Tls_peer [[RoleReader]])) [''lifecycle'', ''rollback''] (demo_files, \<lambda>_. demo_node)
    = ((out, 1), (fs', W')) \<and> W' = (\<lambda>_. demo_node)"
proof -
  have c: "cli_call demo_cli demo_files [''lifecycle'', ''rollback''] = Inr (''127.0.0.1:9505'', C_Rollback)"
    by (rule demo_call) (simp_all add: positional_def cli_command_def run_lifecycle_def)
  have p: "no_admin (rl_peer (sv_relay (demo_services (Tls_peer [[RoleReader]]))))"
    by (simp add: no_admin_def demo_services_def role_defs)
  obtain out code fs' W' where run: "janusctl demo_cli (\<lambda>_. demo_services (Tls_peer [[RoleReader]])) [''lifecycle'', ''rollback'']
      (demo_files, \<lambda>_. demo_node) = ((out, code), (fs', W'))" by (metis surj_pair)
  have "\<not> reading C_Rollback" by (simp add: reading_def)
  with reader_cannot_act [where N = "\<lambda>_. demo_services (Tls_peer [[RoleReader]])", OF p run] c run show ?thesis by blast
qed

section \<open>Exit codes\<close>

lemma apply_admitted_call:
  "apply_admitted (sv_relay S) \<longleftrightarrow> call_admitted S ''HAProxyService'' ''ApplyConfig'' \<and> send_at (rl_lost (sv_relay S)) 0 = None"
  by (auto simp: apply_admitted_def call_admitted_def haproxy_method_def rpc_name_def)

lemma run_apply_any:
  assumes "run_apply S cfg W = ((out, code), W')"
  shows "\<not> apply_admitted (sv_relay S) \<Longrightarrow> code = 1 \<and> W' = W"
    and "apply_admitted (sv_relay S) \<Longrightarrow> W' = W\<lparr>nw_haproxy := (nw_haproxy W)\<lparr>ns_host :=
      snd (Apply (ha_manager (rl_api (sv_relay S))) (ha_env (rl_api (sv_relay S))) cfg (ns_host (nw_haproxy W)))\<rparr>\<rparr>"
    and "code = 0 \<Longrightarrow> apply_admitted (sv_relay S) \<and> takes_effect (ha_env (rl_api (sv_relay S))) cfg"
proof -
  obtain ms err st where run: "api_ApplyConfig (rl_api (sv_relay S)) (rl_lost (sv_relay S)) cfg (nw_haproxy W) = ((ms, err), st)"
    by (metis surj_pair)
  note any = ApplyConfig_any [OF run]
  have r: "code = (if \<not> call_admitted S ''HAProxyService'' ''ApplyConfig'' \<or> err \<noteq> None \<or> ms \<noteq> [] \<and> \<not> am_accepted (last ms) then 1 else 0)
      \<and> W' = (if call_admitted S ''HAProxyService'' ''ApplyConfig'' then W\<lparr>nw_haproxy := st\<rparr> else W)"
    using assms run by (auto simp: run_apply_def)
  note adm = apply_admitted_call [of S]
  show "\<not> apply_admitted (sv_relay S) \<Longrightarrow> code = 1 \<and> W' = W"
    using r any(1) by (cases "call_admitted S ''HAProxyService'' ''ApplyConfig''") (auto simp: adm)
  show "apply_admitted (sv_relay S) \<Longrightarrow> W' = W\<lparr>nw_haproxy := (nw_haproxy W)\<lparr>ns_host :=
      snd (Apply (ha_manager (rl_api (sv_relay S))) (ha_env (rl_api (sv_relay S))) cfg (ns_host (nw_haproxy W)))\<rparr>\<rparr>"
    using r any(2) by (simp add: adm)
  assume "code = 0"
  with r have "call_admitted S ''HAProxyService'' ''ApplyConfig''" "err = None" "ms = [] \<or> am_accepted (last ms)"
    by (auto split: if_splits)
  with any(1,3) show "apply_admitted (sv_relay S) \<and> takes_effect (ha_env (rl_api (sv_relay S))) cfg"
    by (cases "send_at (rl_lost (sv_relay S)) 0") (auto simp: adm)
qed

lemma run_apply_result:
  assumes "apply_admitted (sv_relay S)" and "rl_lost (sv_relay S) = None" and "run_apply S cfg W = ((out, code), W')"
  defines "E \<equiv> ha_env (rl_api (sv_relay S))"
  shows "code = (if takes_effect E cfg then 0 else 1)
    \<and> (\<exists>ls. out = ls @ out_line (if takes_effect E cfg then ''[done] '' else ''[rejected] '' @ join_with ''; '' (snd (Validate E cfg))))"
proof -
  obtain ms st where run: "api_ApplyConfig (rl_api (sv_relay S)) None cfg (nw_haproxy W) = ((ms, None), st)" and ne: "ms \<noteq> []"
    and l: "last ms = (if takes_effect E cfg then progress ''done'' [] True else progress ''rejected'' (join_with ''; '' (snd (Validate E cfg))) False)"
    using ApplyConfig_last [of "rl_api (sv_relay S)" cfg "nw_haproxy W"] unfolding E_def Apply_message by blast
  have "out = concat (map apply_line ms)" "code = (if am_accepted (last ms) then 0 else 1)"
    using assms(1-3) run ne by (auto simp: run_apply_def apply_admitted_def call_admitted_def haproxy_method_def rpc_name_def)
  moreover have "concat (map apply_line ms) = concat (map apply_line (butlast ms)) @ apply_line (last ms)"
    using ne by (cases ms rule: rev_cases) auto
  ultimately show ?thesis by (auto simp: l progress_def apply_line_def)
qed

text \<open>
  C39: What \<open>janusctl haproxy apply-config\<close> reports is never better than what happened. A call that
  is refused, does not reach the node or breaks off before the node has begun exits with 1 and
  changes nothing. Any other has the effect the node's \<open>Apply\<close> has, whether or not its messages
  reach the client: an invalid configuration changes nothing, a valid one is written, and HAProxy is
  started again exactly when it takes effect (it is valid, was written, and HAProxy starts). Exit
  code 0 means that it took effect; when no message of the stream is lost (the client's deadline of
  ten seconds counts as one), the exit code is 0 exactly then, and the last line says it was done, or
  rejected with HAProxy's errors when there are any. No other node is touched.
\<close>

theorem apply_config_exit_code:
  fixes N :: "string \<Rightarrow> 's services" and fs cfg ep
  defines "H \<equiv> ha_env (rl_api (sv_relay (N ep)))" and "rl \<equiv> sv_relay (N ep)"
  assumes "cli_call E fs args = Inr (ep, C_ApplyConfig cfg)" and "janusctl E N args (fs, W) = ((out, code), (fs', W'))"
  shows "(\<not> apply_admitted rl \<longrightarrow> code = 1 \<and> W' = W)
    \<and> (apply_admitted rl \<longrightarrow>
        config_file (ns_host (nw_haproxy (W' ep))) = (if \<not> fst (Validate H cfg) then config_file (ns_host (nw_haproxy (W ep)))
          else case write_error H of None \<Rightarrow> cfg | Some (e, held) \<Rightarrow> held)
      \<and> (spawned (ns_host (nw_haproxy (W' ep))) \<noteq> spawned (ns_host (nw_haproxy (W ep)))) = takes_effect H cfg)
    \<and> (code = 0 \<longrightarrow> apply_admitted rl \<and> takes_effect H cfg)
    \<and> (apply_admitted rl \<and> rl_lost rl = None \<longrightarrow> code = (if takes_effect H cfg then 0 else 1)
      \<and> (\<exists>ls. out = ls @ out_line (if takes_effect H cfg then ''[done] '' else ''[rejected] '' @ join_with ''; '' (snd (Validate H cfg)))))
    \<and> (\<forall>ep'. ep' = ep \<or> W' ep' = W ep')"
proof -
  obtain W2 where run: "run_apply (N ep) cfg (W ep) = ((out, code), W2)" and W': "W' = W(ep := W2)"
    using assms(3,4) by (auto simp: janusctl_def run_call_def Let_def split: prod.splits)
  note any = run_apply_any [OF run, folded H_def rl_def]
  have ep: "W' ep = W2" and others: "\<forall>ep'. ep' = ep \<or> W' ep' = W ep'" by (simp_all add: W')
  have refused: "code = 1 \<and> W' = W" if "\<not> apply_admitted rl" using any(1) [OF that] by (simp add: W')
  have effect: "config_file (ns_host (nw_haproxy W2)) = (if \<not> fst (Validate H cfg) then config_file (ns_host (nw_haproxy (W ep)))
        else case write_error H of None \<Rightarrow> cfg | Some (e, held) \<Rightarrow> held)
      \<and> (spawned (ns_host (nw_haproxy W2)) \<noteq> spawned (ns_host (nw_haproxy (W ep)))) = takes_effect H cfg" if "apply_admitted rl"
    using any(2) [OF that] by (simp add: H_def rl_def Apply_result(3,4))
  have told: "code = (if takes_effect H cfg then 0 else 1)
      \<and> (\<exists>ls. out = ls @ out_line (if takes_effect H cfg then ''[done] '' else ''[rejected] '' @ join_with ''; '' (snd (Validate H cfg))))"
    if "apply_admitted rl" "rl_lost rl = None" using run_apply_result [OF _ _ run, folded H_def rl_def] that by blast
  show ?thesis unfolding ep by (intro conjI) (use others refused effect any(3) told in blast)+
qed

lemma demo_admin: "call_admitted (demo_services (Tls_peer [[RoleAdmin]])) svc m"
  by (simp add: call_admitted_def demo_services_def demo_relay_def checkRole_def required_for_cases roles_meet_iff adminOnly_def
      adminOrReader_def)

theorem apply_config_exit_code_witness:
  "\<exists>out fs' W'. janusctl demo_cli (\<lambda>_. demo_services (Tls_peer [[RoleAdmin]])) [''haproxy'', ''apply-config'', ''new.cfg''] (demo_files, \<lambda>_. demo_node)
    = ((out, 0), (fs', W'))"
proof -
  let ?N = "\<lambda>_ :: string. demo_services (Tls_peer [[RoleAdmin]])"
  have "read_local demo_files ''new.cfg'' = Inr ''global''" by code_simp
  then have c: "cli_call demo_cli demo_files [''haproxy'', ''apply-config'', ''new.cfg''] = Inr (''127.0.0.1:9505'', C_ApplyConfig ''global'')"
    by (intro demo_call) (simp_all add: positional_def cli_command_def run_haproxy_def)
  obtain out code fs' W' where run: "janusctl demo_cli ?N [''haproxy'', ''apply-config'', ''new.cfg''] (demo_files, \<lambda>_. demo_node) = ((out, code), (fs', W'))"
    by (metis surj_pair)
  have relay: "rl_api (sv_relay (?N ep)) = demo_api False" "rl_lost (sv_relay (?N ep)) = None" for ep
    by (simp_all add: demo_services_def demo_relay_def)
  have "takes_effect (ha_env (demo_api False)) ''global''"
    by (simp add: takes_effect_def demo_api_def) (simp add: Node_Page_Properties.demo_env_def)
  moreover have "apply_admitted (sv_relay (?N ep)) \<and> rl_lost (sv_relay (?N ep)) = None" for ep
    using demo_admin relay(2) by (simp add: apply_admitted_call send_at_def)
  ultimately have "code = 0" using apply_config_exit_code [where N = ?N, OF c run] unfolding relay by presburger
  with run show ?thesis by blast
qed

lemma read_bundle_ok:
  assumes "read_bundle E req s = Inr (squashfs, verity, uki)"
  shows "bundle_file E (reference req) ''rootfs.squashfs'' = Some squashfs \<and> (sha256 req \<noteq> [] \<longrightarrow> sha256Hex E squashfs = sha256 req)
    \<and> bundle_file E (reference req) ''rootfs.verity'' = Some verity \<and> bundle_file E (reference req) (uki_name s) = Some uki"
  using assms by (auto simp: read_bundle_def ok_iff)

text \<open>The only marker an upgrade writes is its own, when it waits for health; a failed write can leave it unreadable.\<close>

definition own_marker :: "upgrade_request \<Rightarrow> boot_context \<Rightarrow> disk_write \<Rightarrow> bool" where
  "own_marker req bc w = (case w of W_marker m \<Rightarrow> wait_for_health req \<and> m \<in> {Stored (upgrade_marker req bc), Unreadable} | _ \<Rightarrow> True)"

lemma all_writes_bind:
  "\<forall>w \<in> set (snd m). Q w \<Longrightarrow> (\<And>x. \<forall>w \<in> set (snd (f x)). Q w) \<Longrightarrow> \<forall>w \<in> set (snd (bind_a m f)). Q w"
  by (auto simp: writes_bind split: sum.splits)

lemma upgrade_markers:
  assumes "resolveBootContext E = Inr bc"
  shows "\<forall>w \<in> set (snd (Upgrade E req d)). own_marker req bc w"
proof (cases rule: Upgrade_cases [OF assms, of req d])
  case (2 b)
  have parts: "\<forall>w \<in> set (snd (writePartitionFile E d dev data e)). own_marker req bc w" for dev data and e :: rpc_error
    by (auto simp: writePartitionFile_def write_a_def own_marker_def split: option.splits)
  have marker: "\<forall>w \<in> set (snd (marker_step E req bc)). own_marker req bc w"
    by (auto simp: marker_step_def write_marker_def own_marker_def split: option.splits)
  have esp: "\<forall>w \<in> set (snd (switch_esp E bc uki)). own_marker req bc w" for uki
    by (auto simp: switch_esp_def writes_bind write_a_def fst_map_pair own_marker_def split: sum.splits option.splits)
  have silent: "\<forall>w \<in> set (snd (send_stage E st)). own_marker req bc w" for st by simp
  obtain squashfs verity uki where b: "b = (squashfs, verity, uki)" by (cases b)
  have "\<forall>w \<in> set (snd (upgrade_tail E req d bc b)). own_marker req bc w"
    unfolding b upgrade_tail_def prod.case Let_def by (intro all_writes_bind parts marker esp silent)
  with 2 show ?thesis by simp
qed simp

text \<open>What an upgrade leaves alone, whatever its outcome.\<close>

lemma upgrade_frame:
  fixes E :: node_env and d :: node_disk and req :: upgrade_request
  assumes "resolveBootContext E = Inr bc"
  defines "d' \<equiv> apply_writes (snd (Upgrade E req d)) d"
  shows "dev \<noteq> SlotDataDevice (bc_disk bc) (targetSlot bc) \<Longrightarrow> dev \<noteq> SlotHashDevice (bc_disk bc) (targetSlot bc) \<Longrightarrow> partition d' dev = partition d dev"
    and "s \<noteq> slot_name (targetSlot bc) \<Longrightarrow> uki_staged d' s = uki_staged d s"
    and "pending d' = pending d \<or> wait_for_health req \<and> pending d' \<in> {Stored (upgrade_marker req bc), Unreadable}"
proof -
  define Q where "Q w \<longleftrightarrow> upgrade_target bc w \<and> own_marker req bc w" for w
  define I where "I x \<longleftrightarrow> (\<forall>dev. dev \<noteq> SlotDataDevice (bc_disk bc) (targetSlot bc) \<and> dev \<noteq> SlotHashDevice (bc_disk bc) (targetSlot bc) \<longrightarrow> partition x dev = partition d dev)
    \<and> (\<forall>s. s \<noteq> slot_name (targetSlot bc) \<longrightarrow> uki_staged x s = uki_staged d s)
    \<and> (pending x = pending d \<or> wait_for_health req \<and> pending x \<in> {Stored (upgrade_marker req bc), Unreadable})" for x :: node_disk
  have "I d'" unfolding d'_def
  proof (rule crash_state_invariant [OF crash_state_all [of "\<lambda>_. False"], of _ Q I])
    show "\<forall>w \<in> set (snd (Upgrade E req d)). Q w"
      using upgrade_targets [OF assms(1)] upgrade_markers [OF assms(1)] by (simp add: Q_def)
    show "Q w \<Longrightarrow> Q (tear g w)" for w g by (cases w) (auto simp: Q_def own_marker_def upgrade_target_def)
    show "Q w \<Longrightarrow> I x \<Longrightarrow> I (apply_write w x)" for w x
      by (cases w) (auto simp: Q_def I_def own_marker_def upgrade_target_def)
  qed (simp add: I_def)
  then show "dev \<noteq> SlotDataDevice (bc_disk bc) (targetSlot bc) \<Longrightarrow> dev \<noteq> SlotHashDevice (bc_disk bc) (targetSlot bc) \<Longrightarrow> partition d' dev = partition d dev"
    and "s \<noteq> slot_name (targetSlot bc) \<Longrightarrow> uki_staged d' s = uki_staged d s"
    and "pending d' = pending d \<or> wait_for_health req \<and> pending d' \<in> {Stored (upgrade_marker req bc), Unreadable}"
    unfolding I_def by blast+
qed

text \<open>
  C40: \<open>janusctl lifecycle upgrade\<close> exits with 0 only for an upgrade that was carried out completely and,
  when the client has a digest, verified: the release the node found under the directory's name has the
  digest given or lying beside it on the client's machine, its root file system and its verity tree
  lie in the other slot, its UKI is staged there and boots next, and the marker is stored if the command
  line asks to wait for health. Whatever the exit code, no local file and no other node is touched,
  and of the node itself nothing but the other slot's two partitions and its staged UKI, the active
  UKI and the marker: the marker is what it was, or, with \<open>-wait-for-health\<close>, this upgrade's own, which
  a failed run can leave behind, whole or unreadable.
\<close>

theorem upgrade_exit_code:
  assumes "cli_call E fs args = Inr (ep, C_Upgrade (upgrade_of fs os dir))" and "janusctl E N args (fs, W) = ((out, code), (fs', W'))"
    and "resolveBootContext (sv_lifecycle (N ep)) = Inr bc"
  defines "dd \<equiv> SlotDataDevice (bc_disk bc) (targetSlot bc)" and "hd' \<equiv> SlotHashDevice (bc_disk bc) (targetSlot bc)"
    and "digest \<equiv> expected_sum fs (given_string os ''sha256'') dir" and "req \<equiv> upgrade_of fs os dir"
    and "d \<equiv> nw_disk (W ep)" and "d' \<equiv> nw_disk (W' ep)"
  shows "(code = 0 \<longrightarrow> (\<exists>squashfs verity uki. bundle_file (sv_lifecycle (N ep)) dir ''rootfs.squashfs'' = Some squashfs
        \<and> (digest \<noteq> [] \<longrightarrow> sha256Hex (sv_lifecycle (N ep)) squashfs = digest)
        \<and> bundle_file (sv_lifecycle (N ep)) dir ''rootfs.verity'' = Some verity
        \<and> bundle_file (sv_lifecycle (N ep)) dir (uki_name (targetSlot bc)) = Some uki
        \<and> partition d' dd = map_option (overwrite squashfs) (partition d dd) \<and> partition d' hd' = map_option (overwrite verity) (partition d hd')
        \<and> uki_staged d' (slot_name (targetSlot bc)) = Some uki \<and> uki_active d' = Some uki
        \<and> pending d' = (if wait_for_health req then Stored (upgrade_marker req bc) else pending d)))
    \<and> fs' = fs \<and> (\<forall>ep'. ep' = ep \<or> W' ep' = W ep')
    \<and> nw_haproxy (W' ep) = nw_haproxy (W ep) \<and> nw_targets (W' ep) = nw_targets (W ep)
    \<and> (\<forall>dev. dev = dd \<or> dev = hd' \<or> partition d' dev = partition d dev)
    \<and> (\<forall>s. s = slot_name (targetSlot bc) \<or> uki_staged d' s = uki_staged d s)
    \<and> (pending d' = pending d \<or> wait_for_health req \<and> pending d' \<in> {Stored (upgrade_marker req bc), Unreadable})"
proof -
  let ?L = "sv_lifecycle (N ep)"
  have run: "fs' = fs \<and> (\<forall>ep'. ep' = ep \<or> W' ep' = W ep') \<and> nw_haproxy (W' ep) = nw_haproxy (W ep) \<and> nw_targets (W' ep) = nw_targets (W ep)
      \<and> (if call_admitted (N ep) ''LifecycleService'' ''Upgrade''
         then code = code_of (fst (Upgrade ?L req d)) \<and> d' = apply_writes (snd (Upgrade ?L req d)) d else code = 1 \<and> d' = d)"
    using assms(1,2) by (auto simp: janusctl_def run_call_def run_lifecycle_call_def Let_def req_def d_def d'_def split: prod.splits if_splits)
  have frame: "(\<forall>dev. dev = dd \<or> dev = hd' \<or> partition d' dev = partition d dev)
      \<and> (\<forall>s. s = slot_name (targetSlot bc) \<or> uki_staged d' s = uki_staged d s)
      \<and> (pending d' = pending d \<or> wait_for_health req \<and> pending d' \<in> {Stored (upgrade_marker req bc), Unreadable})"
    using run upgrade_frame [OF assms(3), where req = req and d = d, folded dd_def hd'_def] by (cases "call_admitted (N ep) ''LifecycleService'' ''Upgrade''") auto
  have "\<exists>squashfs verity uki. bundle_file ?L dir ''rootfs.squashfs'' = Some squashfs \<and> (digest \<noteq> [] \<longrightarrow> sha256Hex ?L squashfs = digest)
      \<and> bundle_file ?L dir ''rootfs.verity'' = Some verity \<and> bundle_file ?L dir (uki_name (targetSlot bc)) = Some uki
      \<and> partition d' dd = map_option (overwrite squashfs) (partition d dd) \<and> partition d' hd' = map_option (overwrite verity) (partition d hd')
      \<and> uki_staged d' (slot_name (targetSlot bc)) = Some uki \<and> uki_active d' = Some uki
      \<and> pending d' = (if wait_for_health req then Stored (upgrade_marker req bc) else pending d)" if "code = 0"
  proof -
    have ok: "fst (Upgrade ?L req d) = Inr ()" and d': "d' = apply_writes (snd (Upgrade ?L req d)) d"
      using run that by (auto simp: code_of_def split: sum.splits if_splits)
    obtain squashfs verity uki where b: "read_bundle ?L req (targetSlot bc) = Inr (squashfs, verity, uki)"
      and ws: "snd (Upgrade ?L req d) = staged_writes req bc (squashfs, verity, uki) @ [W_active uki]"
      using upgrade_ok [OF ok assms(3)] by blast
    have "reference req = dir" "sha256 req = digest" by (simp_all add: req_def upgrade_of_def digest_def)
    then show ?thesis using read_bundle_ok [OF b] by (auto simp: d' ws staged_writes_effect dd_def hd'_def)
  qed
  with run frame show ?thesis by blast
qed

theorem upgrade_exit_code_witness:
  "\<exists>out code fs' W'. janusctl demo_cli (\<lambda>_. demo_services (Tls_peer [[RoleAdmin]])) [''lifecycle'', ''upgrade'', ''/r''] (demo_files, \<lambda>_. demo_node)
    = ((out, code), (fs', W')) \<and> code = 0 \<and> partition (nw_disk (W' ''127.0.0.1:9505'')) ''/dev/vda4'' = Some ''rootfs.squashfs.''"
proof -
  let ?N = "\<lambda>_ :: string. demo_services (Tls_peer [[RoleAdmin]])" and ?req = "upgrade_of demo_files [] ''/r''"
  have "run_upgrade demo_files [''/r''] = Inr (C_Upgrade ?req)"
    using flags_of_options [OF options.none, of upgrade_flags "''/r''" "[]"] upgrade_values [of "[]"]
    by (simp add: known_flags_def positional_def run_upgrade_def upgrade_of_def)
  then have c: "cli_call demo_cli demo_files [''lifecycle'', ''upgrade'', ''/r''] = Inr (''127.0.0.1:9505'', C_Upgrade ?req)"
    by (intro demo_call) (simp_all add: positional_def cli_command_def run_lifecycle_def)
  obtain out code fs' W' where run: "janusctl demo_cli ?N [''lifecycle'', ''upgrade'', ''/r''] (demo_files, \<lambda>_. demo_node) = ((out, code), (fs', W'))"
    by (metis surj_pair)
  have L: "sv_lifecycle (?N ep) = Lifecycle_Properties.demo_env" for ep by (simp add: demo_services_def)
  have "expected_sum demo_files [] ''/r'' = ''rootfs.squashfs''" by code_simp
  then have "Upgrade Lifecycle_Properties.demo_env ?req demo_disk = (Inr (), snd (Upgrade Lifecycle_Properties.demo_env ?req demo_disk))"
    by (intro demo_upgrade_any) (simp_all add: upgrade_of_def given_string_def demo_disk_def)
  then have "fst (Upgrade Lifecycle_Properties.demo_env ?req demo_disk) = Inr ()"
    by (metis fst_conv)
  then have "code = 0"
    using run c demo_admin by (auto simp: janusctl_def run_call_def run_lifecycle_call_def Let_def L demo_node_def code_of_def split: prod.splits)
  with upgrade_exit_code [where N = ?N, OF c run, unfolded L, OF demo_resolve] run show ?thesis
    by (auto simp: demo_node_def demo_context_def demo_disk_def SlotDataDevice_def Lifecycle_Properties.demo_env_def overwrite_def)
qed

section \<open>What a command line does not say\<close>

text \<open>
  Commands without arguments do not look at the words that follow them. An endpoint given after
  the command is such a word: the rollback is asked of the node at the default endpoint.
\<close>

theorem rollback_ignores_its_words:
  "cli_call E fs ([''lifecycle'', ''rollback''] @ extra) = bind_r (dial E fs main_flags) (\<lambda>endpoint. Inr (endpoint, C_Rollback))"
  by (simp add: cli_call_def flags_of_def cli_command_def run_lifecycle_def)

text \<open>A timeout that is a multiple of \<open>2 ^ 32\<close> asks for the node's default, and a digest that is not found for no check.\<close>

theorem timeout_is_truncated: "health_timeout_seconds (upgrade_of fs [(''health-timeout'', F_uint (2 ^ 32))] dir) = 0"
  by (simp add: upgrade_of_def)

theorem absent_digest_is_not_checked:
  assumes "local_data fs (join_path dir ''rootfs.squashfs.sha256'') = None" and "given_string os ''sha256'' = []"
  shows "sha256 (upgrade_of fs os dir) = []"
  using assms by (simp add: upgrade_of_def expected_sum_def)

end
