(* ===== verification/Boot_Mounts.thy ===== *)
theory Boot_Mounts
  imports Bootslot
begin

text \<open>
  What PID 1 does before it looks at a pending upgrade (\<open>rootfs/init/main.go\<close>): the mounts, the
  seeding of the configuration, the SELinux policy and the kernel's settings, on a file system of
  volumes and mounts. Failed steps are only logged by the code; the log is left out, as are the
  modes of folders and the options of mounts.
\<close>

section \<open>Volumes, mounts and files\<close>

datatype volume = Root | Tmpfs nat | Kernel string | Device string

datatype entry = Folder | File nat string

text \<open>Absolute paths and paths in a volume, by their components.\<close>

type_synonym path = "string list"

text \<open>
  The mounts, the latest first: where, and which folder of which volume is seen there. Nothing is
  ever unmounted, so the latest mount above a path decides what the path means.
\<close>

record machine =
  mounts :: "(path \<times> volume \<times> path) list"
  files_of :: "volume \<Rightarrow> path \<Rightarrow> entry option"
  tmpfs_count :: nat

fun where_is :: "(path \<times> volume \<times> path) list \<Rightarrow> path \<Rightarrow> volume \<times> path" where
  "where_is [] p = (Root, p)"
| "where_is ((t, v, base) # ms) p = (if take (length t) p = t then (v, base @ drop (length t) p) else where_is ms p)"

definition entry_at :: "machine \<Rightarrow> path \<Rightarrow> entry option" where
  "entry_at M p = (let (v, r) = where_is (mounts M) p in files_of M v r)"

definition put_entry :: "path \<Rightarrow> entry \<Rightarrow> machine \<Rightarrow> machine" where
  "put_entry p e M = (let (v, r) = where_is (mounts M) p in M\<lparr>files_of := (files_of M)(v := (files_of M v)(r \<mapsto> e))\<rparr>)"

text \<open>
  What the kernel refuses: single operations, whole volumes that are read-only, devices that are
  not there. \<open>fe_held\<close> is what a failed write leaves in its file, when it got that far.
\<close>

datatype fs_op = Op_Mkdir path | Op_Mount path | Op_Read path | Op_Write path

record fs_env =
  fe_fails :: "fs_op \<Rightarrow> bool"
  fe_held :: "path \<Rightarrow> string option"
  fe_read_only :: "volume \<Rightarrow> bool"
  fe_attached :: "string \<Rightarrow> bool"

text \<open>Nothing can be created in the kernel's own file systems.\<close>

definition creatable :: "fs_env \<Rightarrow> machine \<Rightarrow> path \<Rightarrow> bool" where
  "creatable E M p \<longleftrightarrow> (case fst (where_is (mounts M) p) of Kernel _ \<Rightarrow> False | v \<Rightarrow> \<not> fe_read_only E v)"

definition mkdir :: "fs_env \<Rightarrow> path \<Rightarrow> machine \<Rightarrow> bool \<times> machine" where
  "mkdir E p M = (case entry_at M p of
       Some Folder \<Rightarrow> (True, M)
     | Some (File _ _) \<Rightarrow> (False, M)
     | None \<Rightarrow> if fe_fails E (Op_Mkdir p) \<or> \<not> creatable E M p then (False, M) else (True, put_entry p Folder M))"

fun mkdir_below :: "fs_env \<Rightarrow> path \<Rightarrow> path \<Rightarrow> machine \<Rightarrow> bool \<times> machine" where
  "mkdir_below E q [] M = (True, M)"
| "mkdir_below E q (c # cs) M = (let (ok, M') = mkdir E (q @ [c]) M in
     if ok then mkdir_below E (q @ [c]) cs M' else (False, M'))"

definition MkdirAll :: "fs_env \<Rightarrow> path \<Rightarrow> machine \<Rightarrow> bool \<times> machine" where
  "MkdirAll E p M = mkdir_below E [] p M"

definition read_at :: "fs_env \<Rightarrow> path \<Rightarrow> machine \<Rightarrow> (nat \<times> string) option" where
  "read_at E p M = (if fe_fails E (Op_Read p) then None else case entry_at M p of Some (File mode s) \<Rightarrow> Some (mode, s) | _ \<Rightarrow> None)"

text \<open>\<open>os.WriteFile\<close>: a file that exists keeps its mode.\<close>

definition write_at :: "fs_env \<Rightarrow> path \<Rightarrow> nat \<Rightarrow> string \<Rightarrow> machine \<Rightarrow> bool \<times> machine" where
  "write_at E p mode s M =
     (let target = (case entry_at M p of
          Some (File m _) \<Rightarrow> if fe_read_only E (fst (where_is (mounts M) p)) then None else Some m
        | Some Folder \<Rightarrow> None
        | None \<Rightarrow> if entry_at M (butlast p) = Some Folder \<and> creatable E M p then Some mode else None) in
      case target of
        None \<Rightarrow> (False, M)
      | Some m \<Rightarrow> if fe_fails E (Op_Write p) then (False, case fe_held E p of None \<Rightarrow> M | Some t \<Rightarrow> put_entry p (File m t) M)
          else (True, put_entry p (File m s) M))"

section \<open>Mounting\<close>

text \<open>A file system of its own kind at a folder: a fresh \<open>tmpfs\<close>, one of the kernel's, or a device's.\<close>

definition mount_volume :: "fs_env \<Rightarrow> volume \<Rightarrow> path \<Rightarrow> machine \<Rightarrow> machine" where
  "mount_volume E v p M = (let (ok, M1) = MkdirAll E p M in
     if \<not> ok \<or> fe_fails E (Op_Mount p) \<or> (case v of Device d \<Rightarrow> \<not> fe_attached E d | _ \<Rightarrow> False) then M1
     else M1\<lparr>mounts := (p, v, []) # mounts M1\<rparr>)"

definition mount_tmpfs :: "fs_env \<Rightarrow> path \<Rightarrow> machine \<Rightarrow> machine" where
  "mount_tmpfs E p M = mount_volume E (Tmpfs (tmpfs_count M)) p
     (M\<lparr>tmpfs_count := Suc (tmpfs_count M), files_of := (files_of M)(Tmpfs (tmpfs_count M) := [[] \<mapsto> Folder])\<rparr>)"

definition bindMount :: "fs_env \<Rightarrow> path \<Rightarrow> path \<Rightarrow> machine \<Rightarrow> machine" where
  "bindMount E src dst M = (let (ok, M1) = MkdirAll E dst M in
     if \<not> ok \<or> fe_fails E (Op_Mount dst) \<or> entry_at M1 src \<noteq> Some Folder then M1
     else M1\<lparr>mounts := (dst, where_is (mounts M1) src) # mounts M1\<rparr>)"

definition seed_path :: path where "seed_path = [''etc'', ''haproxy'', ''haproxy.cfg'']"

definition mountEphemeral :: "fs_env \<Rightarrow> machine \<Rightarrow> machine" where
  "mountEphemeral E M0 = (let M = mount_tmpfs E [''tmp''] (mount_tmpfs E [''run''] M0); cfg = read_at E seed_path M;
       mode = (case entry_at M seed_path of Some (File m _) \<Rightarrow> m | _ \<Rightarrow> 420); M1 = mount_tmpfs E [''etc''] M in
     case cfg of
       None \<Rightarrow> M1
     | Some (_, bytes) \<Rightarrow> let (ok, M2) = MkdirAll E [''etc'', ''haproxy''] M1 in
         if \<not> ok then M2 else snd (write_at E seed_path mode bytes M2))"

definition resolveStateDevice :: "string option \<Rightarrow> string" where
  "resolveStateDevice cmdline = (case Option.bind (Option.bind cmdline DataDevice) StateDevice of None \<Rightarrow> ''/dev/vdc'' | Some d \<Rightarrow> d)"

definition seedPersistentHaproxyCfg :: "fs_env \<Rightarrow> path \<Rightarrow> machine \<Rightarrow> machine" where
  "seedPersistentHaproxyCfg E dir M = (let (ok, M1) = MkdirAll E dir M; dst = dir @ [''haproxy.cfg''] in
     if \<not> ok \<or> entry_at M1 dst \<noteq> None then M1
     else case read_at E seed_path M1 of
         None \<Rightarrow> M1
       | Some (mode, bytes) \<Rightarrow> snd (write_at E dst mode bytes M1))"

text \<open>A folder of the state partition seen at \<open>dst\<close>; \<open>pki\<close>, \<open>boot\<close> and \<open>controller\<close> are mounted alike.\<close>

definition state_root :: path where "state_root = [''etc'', ''.state'']"

definition mount_state_dir :: "fs_env \<Rightarrow> string \<Rightarrow> path \<Rightarrow> machine \<Rightarrow> machine" where
  "mount_state_dir E name dst M = (let (ok, M1) = MkdirAll E (state_root @ [name]) M in
     if \<not> ok then M1 else bindMount E (state_root @ [name]) dst M1)"

definition mountState :: "fs_env \<Rightarrow> string option \<Rightarrow> machine \<Rightarrow> machine" where
  "mountState E cmdline M0 =
     (let M1 = mount_volume E (Device (resolveStateDevice cmdline)) state_root M0;
          M2 = mount_state_dir E ''pki'' [''etc'', ''janus'', ''pki''] M1;
          M3 = bindMount E (state_root @ [''haproxy'']) [''etc'', ''haproxy'']
                 (seedPersistentHaproxyCfg E (state_root @ [''haproxy'']) M2);
          M4 = mount_state_dir E ''boot'' [''etc'', ''janus'', ''boot''] M3 in
      mount_state_dir E ''controller'' [''etc'', ''janus'', ''controller''] M4)"

section \<open>The kernel's settings and the policy\<close>

definition sysctls :: "(path \<times> string) list" where
  "sysctls = map (\<lambda>(p, v). (''proc'' # ''sys'' # p, v))
     [([''fs'', ''protected_hardlinks''], ''1''), ([''fs'', ''protected_symlinks''], ''1''),
      ([''kernel'', ''dmesg_restrict''], ''1''), ([''kernel'', ''kptr_restrict''], ''2''), ([''kernel'', ''yama'', ''ptrace_scope''], ''2''),
      ([''net'', ''ipv4'', ''conf'', ''all'', ''accept_redirects''], ''0''), ([''net'', ''ipv4'', ''conf'', ''all'', ''accept_source_route''], ''0''),
      ([''net'', ''ipv4'', ''conf'', ''all'', ''rp_filter''], ''1''), ([''net'', ''ipv4'', ''conf'', ''all'', ''send_redirects''], ''0''),
      ([''net'', ''ipv4'', ''conf'', ''default'', ''accept_redirects''], ''0''), ([''net'', ''ipv4'', ''conf'', ''default'', ''accept_source_route''], ''0''),
      ([''net'', ''ipv4'', ''conf'', ''default'', ''rp_filter''], ''1''), ([''net'', ''ipv4'', ''conf'', ''default'', ''send_redirects''], ''0''),
      ([''net'', ''ipv4'', ''icmp_echo_ignore_broadcasts''], ''1''), ([''net'', ''ipv4'', ''icmp_ignore_bogus_error_responses''], ''1''),
      ([''net'', ''ipv4'', ''tcp_syncookies''], ''1'')]"

definition hardenSysctls :: "fs_env \<Rightarrow> machine \<Rightarrow> machine" where
  "hardenSysctls E M = fold (\<lambda>(p, v) M. snd (write_at E p 420 v M)) sysctls M"

definition loadSELinuxPolicy :: "fs_env \<Rightarrow> machine \<Rightarrow> machine" where
  "loadSELinuxPolicy E M0 = (let M = mount_volume E (Kernel ''selinuxfs'') [''sys'', ''fs'', ''selinux''] M0 in
     case read_at E [''etc'', ''selinux'', ''janus.policy''] M of
       None \<Rightarrow> M
     | Some (_, policy) \<Rightarrow> snd (write_at E [''sys'', ''fs'', ''selinux'', ''load''] 0 policy M))"

text \<open>\<open>main\<close> up to the check of a pending upgrade, and whether it starts the daemon afterwards.\<close>

definition init_mounts :: "fs_env \<Rightarrow> string option \<Rightarrow> machine \<Rightarrow> machine" where
  "init_mounts E cmdline M0 =
     (let M1 = loadSELinuxPolicy E (mount_volume E (Kernel ''sysfs'') [''sys''] (mount_volume E (Kernel ''proc'') [''proc''] M0)) in
      mountState E cmdline (mountEphemeral E (hardenSysctls E (mount_volume E (Kernel ''devtmpfs'') [''dev''] M1))))"

definition starts_daemon :: "machine \<Rightarrow> bool" where
  "starts_daemon M \<longleftrightarrow> entry_at M [''sbin'', ''janusd''] \<noteq> None"

text \<open>Switching off: what is on devices stays, the rest is that of the image and the kernel.\<close>

definition power_cycle :: "(volume \<Rightarrow> path \<Rightarrow> entry option) \<Rightarrow> machine \<Rightarrow> machine" where
  "power_cycle img M = \<lparr>mounts = [], files_of = (\<lambda>v. case v of Device _ \<Rightarrow> files_of M v | Tmpfs _ \<Rightarrow> (\<lambda>_. None) | _ \<Rightarrow> img v), tmpfs_count = 0\<rparr>"

section \<open>The early steps\<close>

text \<open>Up to \<open>mountEphemeral\<close> only paths below \<open>/proc\<close>, \<open>/sys\<close> and \<open>/dev\<close> are touched.\<close>

definition kernel_area :: "path \<Rightarrow> bool" where
  "kernel_area p \<longleftrightarrow> p \<noteq> [] \<and> hd p \<in> {''proc'', ''sys'', ''dev''}"

definition early :: "(volume \<Rightarrow> path \<Rightarrow> entry option) \<Rightarrow> machine \<Rightarrow> bool" where
  "early fs M \<longleftrightarrow> (\<forall>p. where_is (mounts M) p = (Root, p) \<or> (\<exists>k r. where_is (mounts M) p = (Kernel k, r)) \<and> kernel_area p)
     \<and> (\<forall>p. \<not> kernel_area p \<longrightarrow> files_of M Root p = fs Root p) \<and> (\<forall>d. files_of M (Device d) = fs (Device d)) \<and> tmpfs_count M = 0"

lemma early_put: "early fs M \<Longrightarrow> kernel_area p \<Longrightarrow> early fs (put_entry p e M)"
proof -
  assume h: "early fs M" "kernel_area p"
  then have "where_is (mounts M) p = (Root, p) \<or> (\<exists>k r. where_is (mounts M) p = (Kernel k, r))" by (auto simp: early_def)
  with h show ?thesis by (auto simp: put_entry_def early_def)
qed

lemma early_mkdir: "early fs M \<Longrightarrow> kernel_area p \<Longrightarrow> early fs (snd (mkdir E p M))"
  by (auto simp: mkdir_def early_put split: option.splits entry.splits)

lemma kernel_area_below: "kernel_area (q @ [c]) \<Longrightarrow> kernel_area (q @ c # r)"
  by (cases q) (auto simp: kernel_area_def)

lemma early_mkdir_below: "early fs M \<Longrightarrow> kernel_area (q @ [hd cs]) \<Longrightarrow> early fs (snd (mkdir_below E q cs M))"
proof (induction E q cs M rule: mkdir_below.induct)
  case (2 E q c cs M)
  obtain ok M' where m: "mkdir E (q @ [c]) M = (ok, M')" by fastforce
  have "early fs M'" using early_mkdir [OF 2(2), of "q @ [c]" E] 2(3) m by simp
  with 2 m show ?case by (cases ok) (auto simp: kernel_area_below)
qed simp

lemma early_MkdirAll: "early fs M \<Longrightarrow> kernel_area p \<Longrightarrow> early fs (snd (MkdirAll E p M))"
  unfolding MkdirAll_def by (rule early_mkdir_below) (auto simp: kernel_area_def)

lemma early_write: "early fs M \<Longrightarrow> kernel_area p \<Longrightarrow> early fs (snd (write_at E p mode s M))"
  by (auto simp: write_at_def Let_def early_put split: option.splits entry.splits)

lemma take_kernel_area: "take (length t) p = t \<Longrightarrow> kernel_area t \<Longrightarrow> kernel_area p"
  by (cases t; cases p) (auto simp: kernel_area_def)

lemma early_mount: "early fs M \<Longrightarrow> kernel_area p \<Longrightarrow> early fs (mount_volume E (Kernel k) p M)"
proof -
  assume h: "early fs M" "kernel_area p"
  obtain ok M1 where m: "MkdirAll E p M = (ok, M1)" by fastforce
  have e: "early fs M1" using early_MkdirAll [OF h, of E] m by simp
  then have "early fs (M1\<lparr>mounts := (p, Kernel k, []) # mounts M1\<rparr>)"
    using h(2) by (auto simp: early_def dest: take_kernel_area)
  with e show ?thesis by (simp add: mount_volume_def m)
qed

lemma early_sysctls: "early fs M \<Longrightarrow> early fs (hardenSysctls E M)"
proof -
  have "\<forall>(p, v) \<in> set xs. kernel_area p \<Longrightarrow> early fs M \<Longrightarrow> early fs (fold (\<lambda>(p, v) M. snd (write_at E p 420 v M)) xs M)" for xs M
    by (induction xs arbitrary: M) (auto simp: early_write)
  moreover have "\<forall>(p, v) \<in> set sysctls. kernel_area p" by (auto simp: sysctls_def kernel_area_def)
  ultimately show "early fs M \<Longrightarrow> ?thesis" by (simp add: hardenSysctls_def)
qed

lemma early_selinux: "early fs M \<Longrightarrow> early fs (loadSELinuxPolicy E M)"
  by (auto simp: loadSELinuxPolicy_def Let_def kernel_area_def intro!: early_write early_mount split: option.splits)

lemma early_start: "early (files_of (power_cycle img M)) (power_cycle img M)"
  by (simp add: early_def power_cycle_def)

section \<open>The kernel's settings\<close>

lemma write_at_mounts: "mounts (snd (write_at E p mode s M)) = mounts M"
  by (auto simp: write_at_def Let_def put_entry_def split: option.splits entry.splits prod.splits)

lemma write_at_other: "where_is (mounts M) p \<noteq> where_is (mounts M) q \<Longrightarrow> entry_at (snd (write_at E p mode s M)) q = entry_at M q"
  by (auto simp: write_at_def Let_def put_entry_def entry_at_def split: option.splits entry.splits prod.splits)

lemma write_at_done:
  "entry_at M p = Some (File m t) \<Longrightarrow> \<not> fe_read_only E (fst (where_is (mounts M) p)) \<Longrightarrow> \<not> fe_fails E (Op_Write p)
    \<Longrightarrow> entry_at (snd (write_at E p mode s M)) p = Some (File m s)"
  by (auto simp: write_at_def put_entry_def entry_at_def split: prod.splits)

text \<open>A setting the kernel has and takes is made, whatever becomes of the others.\<close>

theorem sysctls_are_independent:
  assumes "(p, v) \<in> set sysctls" and "entry_at M p = Some (File m t)" and "\<not> fe_fails E (Op_Write p)"
    and proc: "\<And>q. where_is (mounts M) (''proc'' # q) = (Kernel ''proc'', q)" and "\<not> fe_read_only E (Kernel ''proc'')"
  shows "entry_at (hardenSysctls E M) p = Some (File m v)"
proof -
  let ?w = "\<lambda>(q, w) M. snd (write_at E q 420 w M)"
  have below: "\<forall>(q, w) \<in> set sysctls. \<exists>r. q = ''proc'' # r" and "distinct (map fst sysctls)" by (simp_all add: sysctls_def)
  have other: "entry_at (fold ?w xs M) p = entry_at M p"
    if "\<forall>(q, w) \<in> set xs. q \<noteq> p \<and> (\<exists>r. q = ''proc'' # r)" "\<And>q. where_is (mounts M) (''proc'' # q) = (Kernel ''proc'', q)" for xs M
    using that
  proof (induction xs arbitrary: M)
    case (Cons x xs)
    obtain r w p' where x: "x = (''proc'' # r, w)" "p = ''proc'' # p'" "r \<noteq> p'" using Cons.prems(1) below assms(1) by force
    then have "entry_at (?w x M) p = entry_at M p" using Cons.prems(2) by (simp add: write_at_other)
    with Cons.IH [of "?w x M"] Cons.prems x show ?case by (simp add: write_at_mounts)
  qed simp
  have mnt: "mounts (fold ?w xs M) = mounts M" for xs M by (induction xs arbitrary: M) (auto simp: write_at_mounts)
  obtain as bs where l: "sysctls = as @ (p, v) # bs" using assms(1) split_list by fast
  then have "p \<notin> fst ` set as" "p \<notin> fst ` set bs" using \<open>distinct (map fst sysctls)\<close> by (auto simp: l rev_image_eqI)
  then have "\<forall>(q, w) \<in> set as. q \<noteq> p \<and> (\<exists>r. q = ''proc'' # r)" "\<forall>(q, w) \<in> set bs. q \<noteq> p \<and> (\<exists>r. q = ''proc'' # r)"
    using below by (auto simp: l image_iff dest: bspec)
  note as = other [OF this(1) proc] and bs = other [OF this(2)]
  have "entry_at (?w (p, v) (fold ?w as M)) p = Some (File m v)"
    using below assms l by (auto simp: as mnt intro!: write_at_done [of _ _ _ t])
  then show ?thesis using bs [of "?w (p, v) (fold ?w as M)"] proc by (simp add: hardenSysctls_def l write_at_mounts mnt)
qed

section \<open>A boot whose mounts work\<close>

text \<open>
  An image with the folders to mount on and a default configuration, an environment in which only
  operations below \<open>/proc\<close>, \<open>/sys\<close> and \<open>/dev\<close> may fail, and a state partition on which nothing
  is where a folder has to be.
\<close>

definition image_ok :: "(volume \<Rightarrow> path \<Rightarrow> entry option) \<Rightarrow> nat \<Rightarrow> string \<Rightarrow> bool" where
  "image_ok img mode seed \<longleftrightarrow> img Root [] = Some Folder \<and> img Root [''run''] = Some Folder \<and> img Root [''tmp''] = Some Folder
     \<and> img Root [''etc''] = Some Folder \<and> img Root [''etc'', ''haproxy''] = Some Folder \<and> img Root seed_path = Some (File mode seed)"

definition tmpfs_works :: "fs_env \<Rightarrow> bool" where
  "tmpfs_works E \<longleftrightarrow> (\<forall>p. \<not> kernel_area p \<longrightarrow> \<not> fe_fails E (Op_Mkdir p) \<and> \<not> fe_fails E (Op_Mount p) \<and> \<not> fe_fails E (Op_Read p) \<and> \<not> fe_fails E (Op_Write p))
     \<and> (\<forall>n. \<not> fe_read_only E (Tmpfs n))"

definition mounts_work :: "fs_env \<Rightarrow> string \<Rightarrow> bool" where
  "mounts_work E dev \<longleftrightarrow> tmpfs_works E \<and> \<not> fe_read_only E (Device dev) \<and> fe_attached E dev"

definition config_name :: path where "config_name = [''haproxy'', ''haproxy.cfg'']"

definition state_ok :: "(path \<Rightarrow> entry option) \<Rightarrow> bool" where
  "state_ok fs \<longleftrightarrow> fs [] = Some Folder \<and> (\<forall>n \<in> {''pki'', ''haproxy'', ''boot'', ''controller''}. fs [n] = None \<or> fs [n] = Some Folder)
     \<and> fs config_name \<noteq> Some Folder"

text \<open>What a boot makes of the state partition, and of the mounts.\<close>

definition booted_state :: "nat \<Rightarrow> string \<Rightarrow> (path \<Rightarrow> entry option) \<Rightarrow> path \<Rightarrow> entry option" where
  "booted_state mode seed fs = fs([''pki''] \<mapsto> Folder, [''haproxy''] \<mapsto> Folder,
     config_name \<mapsto> (case fs config_name of None \<Rightarrow> File mode seed | Some e \<Rightarrow> e), [''boot''] \<mapsto> Folder, [''controller''] \<mapsto> Folder)"

definition booted_mounts :: "string \<Rightarrow> (path \<times> volume \<times> path) list" where
  "booted_mounts dev = [([''etc'', ''janus'', ''controller''], Device dev, [''controller'']), ([''etc'', ''janus'', ''boot''], Device dev, [''boot'']),
     ([''etc'', ''haproxy''], Device dev, [''haproxy'']), ([''etc'', ''janus'', ''pki''], Device dev, [''pki'']),
     (state_root, Device dev, []), ([''etc''], Tmpfs 2, []), ([''tmp''], Tmpfs 1, []), ([''run''], Tmpfs 0, [])]"

lemma outside: "\<not> kernel_area []" "\<not> kernel_area (''run'' # p)" "\<not> kernel_area (''tmp'' # p)" "\<not> kernel_area (''etc'' # p)"
  by (simp_all add: kernel_area_def)

lemma tmpfs_rules:
  assumes "tmpfs_works E"
  shows "\<not> kernel_area p \<Longrightarrow> fe_fails E (Op_Mkdir p) = False" "\<not> kernel_area p \<Longrightarrow> fe_fails E (Op_Mount p) = False"
    "\<not> kernel_area p \<Longrightarrow> fe_fails E (Op_Read p) = False" "\<not> kernel_area p \<Longrightarrow> fe_fails E (Op_Write p) = False"
    "fe_read_only E (Tmpfs n) = False"
  using assms by (simp_all add: tmpfs_works_def)

lemma works_tmpfs: "mounts_work E dev \<Longrightarrow> tmpfs_works E"
  by (simp add: mounts_work_def)

lemma works [simp]:
  assumes "mounts_work E dev"
  shows "\<not> kernel_area p \<Longrightarrow> fe_fails E (Op_Mkdir p) = False" "\<not> kernel_area p \<Longrightarrow> fe_fails E (Op_Mount p) = False"
    "\<not> kernel_area p \<Longrightarrow> fe_fails E (Op_Read p) = False" "\<not> kernel_area p \<Longrightarrow> fe_fails E (Op_Write p) = False"
    "fe_read_only E (Tmpfs n) = False" "fe_read_only E (Device dev) = False" "fe_attached E dev"
  using assms by (simp_all add: mounts_work_def tmpfs_works_def)

lemma early_where: "early fs M \<Longrightarrow> \<not> kernel_area p \<Longrightarrow> where_is (mounts M) p = (Root, p)"
  by (auto simp: early_def)

lemma early_root: "early fs M \<Longrightarrow> \<not> kernel_area p \<Longrightarrow> files_of M Root p = fs Root p"
  by (auto simp: early_def)

definition etc_seeded :: "nat \<Rightarrow> string \<Rightarrow> path \<Rightarrow> entry option" where
  "etc_seeded mode seed = [[] \<mapsto> Folder, [''haproxy''] \<mapsto> Folder, config_name \<mapsto> File mode seed]"

lemma mountEphemeral_ok:
  assumes M: "early fs M" and img: "image_ok fs mode seed" and E: "tmpfs_works E"
  shows "mounts (mountEphemeral E M) = ([''etc''], Tmpfs 2, []) # ([''tmp''], Tmpfs 1, []) # ([''run''], Tmpfs 0, []) # mounts M
    \<and> files_of (mountEphemeral E M) (Tmpfs 2) = etc_seeded mode seed \<and> files_of (mountEphemeral E M) (Tmpfs 0) = [[] \<mapsto> Folder]
    \<and> files_of (mountEphemeral E M) Root = files_of M Root
    \<and> (\<forall>d. files_of (mountEphemeral E M) (Device d) = fs (Device d))"
proof -
  have count: "tmpfs_count M = 0" and dev: "files_of M (Device d) = fs (Device d)" for d using M by (simp_all add: early_def)
  have root: "files_of M Root [''run''] = Some Folder" "files_of M Root [''tmp''] = Some Folder" "files_of M Root [''etc''] = Some Folder"
    "files_of M Root seed_path = Some (File mode seed)"
    using img early_root [OF M] outside by (auto simp: image_ok_def seed_path_def)
  note simps = mount_tmpfs_def mount_volume_def MkdirAll_def mkdir_def entry_at_def count outside tmpfs_rules [OF E] root early_where [OF M] Let_def
  define F where "F = (files_of M)(Tmpfs 0 := [[] \<mapsto> Folder], Tmpfs 1 := [[] \<mapsto> Folder])"
  define Mt where "Mt = M\<lparr>tmpfs_count := 2, files_of := F, mounts := ([''tmp''], Tmpfs 1, []) # ([''run''], Tmpfs 0, []) # mounts M\<rparr>"
  define Me where "Me = Mt\<lparr>tmpfs_count := 3, files_of := F(Tmpfs 2 := [[] \<mapsto> Folder]), mounts := ([''etc''], Tmpfs 2, []) # mounts Mt\<rparr>"
  define M2 where "M2 = Me\<lparr>files_of := F(Tmpfs 2 := [[] \<mapsto> Folder, [''haproxy''] \<mapsto> Folder])\<rparr>"
  have run: "mount_tmpfs E [''run''] M = M\<lparr>tmpfs_count := 1, files_of := (files_of M)(Tmpfs 0 := [[] \<mapsto> Folder]), mounts := ([''run''], Tmpfs 0, []) # mounts M\<rparr>"
    by (simp add: simps)
  have tmp: "mount_tmpfs E [''tmp''] (mount_tmpfs E [''run''] M) = Mt"
    unfolding run by (simp add: simps Mt_def F_def)
  have etc: "mount_tmpfs E [''etc''] Mt = Me"
    by (simp add: simps Mt_def Me_def F_def)
  have seen: "entry_at Mt seed_path = Some (File mode seed)" "read_at E seed_path Mt = Some (mode, seed)"
    using root(4) by (simp_all add: read_at_def entry_at_def Mt_def F_def seed_path_def tmpfs_rules [OF E] outside early_where [OF M])
  have sub: "MkdirAll E [''etc'', ''haproxy''] Me = (True, M2)"
    by (simp add: simps Me_def Mt_def M2_def creatable_def put_entry_def)
  have written: "write_at E seed_path mode seed M2 = (True, M2\<lparr>files_of := F(Tmpfs 2 := etc_seeded mode seed)\<rparr>)"
    by (simp add: write_at_def simps M2_def Me_def Mt_def seed_path_def creatable_def put_entry_def etc_seeded_def config_name_def)
  have "mountEphemeral E M = M2\<lparr>files_of := F(Tmpfs 2 := etc_seeded mode seed)\<rparr>"
    by (simp add: mountEphemeral_def Let_def tmp etc seen sub written)
  then show ?thesis by (simp add: M2_def Me_def Mt_def F_def dev)
qed

text \<open>
  From here on only the folder \<open>/etc\<close> and the state partition change: a machine by its mounts, the
  files of \<open>/etc\<close> and those of the state partition.
\<close>

definition etc_machine :: "machine \<Rightarrow> string \<Rightarrow> (path \<times> volume \<times> path) list \<Rightarrow> (path \<Rightarrow> entry option) \<Rightarrow> (path \<Rightarrow> entry option) \<Rightarrow> machine" where
  "etc_machine N dev X T S = N\<lparr>mounts := X, files_of := (files_of N)(Tmpfs 2 := T, Device dev := S)\<rparr>"

lemma etc_machine_at:
  "where_is X p = (Tmpfs 2, r) \<Longrightarrow> entry_at (etc_machine N dev X T S) p = T r"
  "where_is X p = (Device dev, r) \<Longrightarrow> entry_at (etc_machine N dev X T S) p = S r"
  by (simp_all add: entry_at_def etc_machine_def)

lemma etc_machine_put:
  "where_is X p = (Tmpfs 2, r) \<Longrightarrow> put_entry p e (etc_machine N dev X T S) = etc_machine N dev X (T(r \<mapsto> e)) S"
  "where_is X p = (Device dev, r) \<Longrightarrow> put_entry p e (etc_machine N dev X T S) = etc_machine N dev X T (S(r \<mapsto> e))"
  by (simp_all add: put_entry_def etc_machine_def fun_upd_twist)

lemma etc_machine_mounts [simp]: "mounts (etc_machine N dev X T S) = X" "(etc_machine N dev X T S)\<lparr>mounts := Y\<rparr> = etc_machine N dev Y T S"
  by (simp_all add: etc_machine_def)

lemma mkdir_etc:
  assumes "tmpfs_works E" and "\<not> kernel_area p" and "where_is X p = (Tmpfs 2, r)" and "T r = None \<or> T r = Some Folder"
  shows "mkdir E p (etc_machine N dev X T S) = (True, etc_machine N dev X (T(r \<mapsto> Folder)) S)"
  using assms by (auto simp: tmpfs_rules mkdir_def etc_machine_at etc_machine_put creatable_def map_upd_triv)

lemma mkdir_state:
  assumes "mounts_work E dev" and "\<not> kernel_area p" and "where_is X p = (Device dev, r)" and "S r = None \<or> S r = Some Folder"
  shows "mkdir E p (etc_machine N dev X T S) = (True, etc_machine N dev X T (S(r \<mapsto> Folder)))"
  using assms by (auto simp: mkdir_def etc_machine_at etc_machine_put creatable_def map_upd_triv)

text \<open>A folder of the state partition, mounted while the mounts so far leave \<open>/etc/.state\<close> and \<open>/etc/janus\<close> alone.\<close>

lemma mount_state_dir_ok:
  assumes E: "mounts_work E dev" and X: "where_is X [''etc''] = (Tmpfs 2, [])" "where_is X state_root = (Device dev, [])"
      "where_is X (state_root @ [name]) = (Device dev, [name])" "where_is X [''etc'', ''janus''] = (Tmpfs 2, [''janus''])"
      "where_is X [''etc'', ''janus'', name] = (Tmpfs 2, [''janus'', name])"
    and T: "T [] = Some Folder" "T [''janus''] = None \<or> T [''janus''] = Some Folder" "T [''janus'', name] = None"
    and S: "S [] = Some Folder" "S [name] = None \<or> S [name] = Some Folder"
  shows "mount_state_dir E name [''etc'', ''janus'', name] (etc_machine N dev X T S) =
    etc_machine N dev (([''etc'', ''janus'', name], Device dev, [name]) # X) (T([''janus''] \<mapsto> Folder, [''janus'', name] \<mapsto> Folder)) (S([name] \<mapsto> Folder))"
proof -
  have mk: "MkdirAll E (state_root @ [name]) (etc_machine N dev X T S) = (True, etc_machine N dev X T (S([name] \<mapsto> Folder)))"
    using X(1-3) T(1) S by (simp add: MkdirAll_def state_root_def mkdir_etc [OF works_tmpfs [OF E]] mkdir_state [OF E] outside map_upd_triv)
  have mk': "MkdirAll E [''etc'', ''janus'', name] (etc_machine N dev X T S') =
      (True, etc_machine N dev X (T([''janus''] \<mapsto> Folder, [''janus'', name] \<mapsto> Folder)) S')" for S'
    using X(1,4,5) T by (simp add: MkdirAll_def mkdir_etc [OF works_tmpfs [OF E]] outside map_upd_triv)
  show ?thesis
    by (simp add: mount_state_dir_def Let_def mk bindMount_def mk' works [OF E] outside etc_machine_at(2) [OF X(3)] X(3))
qed

lemma seed_ok:
  assumes E: "mounts_work E dev" and X: "where_is X [''etc''] = (Tmpfs 2, [])" "where_is X state_root = (Device dev, [])"
      "where_is X (state_root @ [''haproxy'']) = (Device dev, [''haproxy''])" "where_is X (state_root @ config_name) = (Device dev, config_name)"
      "where_is X seed_path = (Tmpfs 2, config_name)"
    and T: "T [] = Some Folder" "T config_name = Some (File mode seed)"
    and S: "S [] = Some Folder" "S [''haproxy''] = None \<or> S [''haproxy''] = Some Folder"
  shows "seedPersistentHaproxyCfg E (state_root @ [''haproxy'']) (etc_machine N dev X T S) = etc_machine N dev X T
    (S([''haproxy''] \<mapsto> Folder, config_name \<mapsto> (case S config_name of None \<Rightarrow> File mode seed | Some e \<Rightarrow> e)))"
proof -
  have mk: "MkdirAll E (state_root @ [''haproxy'']) (etc_machine N dev X T S) = (True, etc_machine N dev X T (S([''haproxy''] \<mapsto> Folder)))"
    using X(1-3) T(1) S by (simp add: MkdirAll_def state_root_def mkdir_etc [OF works_tmpfs [OF E]] mkdir_state [OF E] outside map_upd_triv)
  have name: "state_root @ [''haproxy'', ''haproxy.cfg''] = state_root @ config_name" "butlast (state_root @ config_name) = state_root @ [''haproxy'']"
    by (simp_all add: config_name_def state_root_def)
  have at: "entry_at (etc_machine N dev X T S') (state_root @ config_name) = S' config_name" "entry_at (etc_machine N dev X T S') (state_root @ [''haproxy'']) = S' [''haproxy'']"
    "entry_at (etc_machine N dev X T S') seed_path = T config_name" for S'
    using X by (simp_all add: etc_machine_at)
  have area: "\<not> kernel_area seed_path" "\<not> kernel_area (state_root @ p)" for p by (simp_all add: seed_path_def state_root_def outside)
  have diff: "config_name \<noteq> [''haproxy'']" by (simp add: config_name_def)
  show ?thesis
  proof (cases "S config_name")
    case None
    then show ?thesis using T(2) X(4)
      by (simp add: seedPersistentHaproxyCfg_def Let_def mk name at diff read_at_def works [OF E] area write_at_def creatable_def
          etc_machine_put)
  next
    case (Some e)
    then have "S([''haproxy''] \<mapsto> Folder, config_name \<mapsto> e) = S([''haproxy''] \<mapsto> Folder)" using diff by (auto simp: fun_eq_iff)
    with Some show ?thesis by (simp add: seedPersistentHaproxyCfg_def Let_def mk name at diff)
  qed
qed

lemma mountState_ok:
  assumes E: "mounts_work E dev" and dev: "resolveStateDevice cmdline = dev" and S: "state_ok S" and X0: "X0 = ([''etc''], Tmpfs 2, []) # ms"
  shows "\<exists>T. mountState E cmdline (etc_machine N dev X0 (etc_seeded mode seed) S) =
    etc_machine N dev (take 5 (booted_mounts dev) @ X0) T (booted_state mode seed S)"
proof -
  define X1 where "X1 = (state_root, Device dev, [] :: path) # X0"
  define X2 where "X2 = ([''etc'', ''janus'', ''pki''], Device dev, [''pki'']) # X1"
  define X3 where "X3 = ([''etc'', ''haproxy''], Device dev, [''haproxy'']) # X2"
  define X4 where "X4 = ([''etc'', ''janus'', ''boot''], Device dev, [''boot'']) # X3"
  note X = X0 X1_def X2_def X3_def X4_def state_root_def
  define T1 where "T1 = (etc_seeded mode seed)([''.state''] \<mapsto> Folder)"
  define T2 where "T2 = T1([''janus''] \<mapsto> Folder, [''janus'', ''pki''] \<mapsto> Folder)"
  define T4 where "T4 = T2([''janus''] \<mapsto> Folder, [''janus'', ''boot''] \<mapsto> Folder)"
  define T5 where "T5 = T4([''janus''] \<mapsto> Folder, [''janus'', ''controller''] \<mapsto> Folder)"
  note T = T1_def T2_def T4_def T5_def etc_seeded_def config_name_def
  define S2 where "S2 = S([''pki''] \<mapsto> Folder)"
  define S3 where "S3 = S2([''haproxy''] \<mapsto> Folder, config_name \<mapsto> (case S2 config_name of None \<Rightarrow> File mode seed | Some e \<Rightarrow> e))"
  define S4 where "S4 = S3([''boot''] \<mapsto> Folder)"
  have s: "S [] = Some Folder" "S [''pki''] = None \<or> S [''pki''] = Some Folder" "S [''haproxy''] = None \<or> S [''haproxy''] = Some Folder"
    "S [''boot''] = None \<or> S [''boot''] = Some Folder" "S [''controller''] = None \<or> S [''controller''] = Some Folder"
    using S by (auto simp: state_ok_def)
  have one: "mount_volume E (Device dev) state_root (etc_machine N dev X0 (etc_seeded mode seed) S) = etc_machine N dev X1 T1 S"
    by (simp add: mount_volume_def MkdirAll_def state_root_def mkdir_etc [OF works_tmpfs [OF E]] works [OF E] outside X T map_upd_triv)
  have two: "mount_state_dir E ''pki'' [''etc'', ''janus'', ''pki''] (etc_machine N dev X1 T1 S) = etc_machine N dev X2 T2 S2"
    unfolding X2_def T2_def S2_def
    by (rule mount_state_dir_ok [OF E]) (use s in \<open>simp_all add: X0 X1_def state_root_def T1_def etc_seeded_def config_name_def\<close>)
  have three: "seedPersistentHaproxyCfg E (state_root @ [''haproxy'']) (etc_machine N dev X2 T2 S2) = etc_machine N dev X2 T2 S3"
    unfolding S3_def
    by (rule seed_ok [OF E]) (use s in \<open>simp_all add: X T S2_def seed_path_def\<close>)
  have "MkdirAll E [''etc'', ''haproxy''] (etc_machine N dev X2 T2 S3) = (True, etc_machine N dev X2 T2 S3)"
    by (simp add: MkdirAll_def mkdir_etc [OF works_tmpfs [OF E]] outside X T map_upd_triv)
  moreover have "entry_at (etc_machine N dev X2 T2 S3) (state_root @ [''haproxy'']) = Some Folder" "where_is X2 (state_root @ [''haproxy'']) = (Device dev, [''haproxy''])"
    by (simp_all add: etc_machine_at X S3_def config_name_def)
  ultimately have four: "bindMount E (state_root @ [''haproxy'']) [''etc'', ''haproxy''] (etc_machine N dev X2 T2 S3) = etc_machine N dev X3 T2 S3"
    by (simp add: bindMount_def works [OF E] outside X3_def)
  have five: "mount_state_dir E ''boot'' [''etc'', ''janus'', ''boot''] (etc_machine N dev X3 T2 S3) = etc_machine N dev X4 T4 S4"
    unfolding X4_def T4_def S4_def
    by (rule mount_state_dir_ok [OF E]) (use s in \<open>simp_all add: X0 X1_def X2_def X3_def state_root_def T1_def T2_def etc_seeded_def config_name_def S2_def S3_def\<close>)
  have six: "mount_state_dir E ''controller'' [''etc'', ''janus'', ''controller''] (etc_machine N dev X4 T4 S4) =
      etc_machine N dev (([''etc'', ''janus'', ''controller''], Device dev, [''controller'']) # X4) T5 (S4([''controller''] \<mapsto> Folder))"
    unfolding T5_def
    by (rule mount_state_dir_ok [OF E]) (use s in \<open>simp_all add: X0 X1_def X2_def X3_def X4_def state_root_def T1_def T2_def T4_def etc_seeded_def config_name_def S2_def S3_def S4_def\<close>)
  have "S4([''controller''] \<mapsto> Folder) = booted_state mode seed S"
    by (simp add: S4_def S3_def S2_def booted_state_def config_name_def)
  moreover have "([''etc'', ''janus'', ''controller''], Device dev, [''controller'']) # X4 = take 5 (booted_mounts dev) @ X0"
    by (simp add: X4_def X3_def X2_def X1_def booted_mounts_def eval_nat_numeral)
  ultimately show ?thesis
    by (intro exI [of _ T5]) (simp add: mountState_def Let_def dev one two three four five six)
qed

text \<open>The mounts below those of \<open>booted_mounts\<close> concern the kernel's area only.\<close>

definition mounted :: "string \<Rightarrow> (volume \<Rightarrow> path \<Rightarrow> entry option) \<Rightarrow> machine \<Rightarrow> bool" where
  "mounted dev img M \<longleftrightarrow> (\<exists>ms. mounts M = booted_mounts dev @ ms \<and> (\<forall>p. \<not> kernel_area p \<longrightarrow> where_is ms p = (Root, p)))
     \<and> (\<forall>p. \<not> kernel_area p \<longrightarrow> files_of M Root p = img Root p)"

lemma init_before_state:
  assumes E: "tmpfs_works E" and img: "image_ok img mode seed"
  obtains N ms where
    "init_mounts E cmdline (power_cycle img M) = mountState E cmdline
       (etc_machine N dev (([''etc''], Tmpfs 2, []) # ([''tmp''], Tmpfs 1, []) # ([''run''], Tmpfs 0, []) # ms) (etc_seeded mode seed) (files_of M (Device dev)))"
    "\<And>p. \<not> kernel_area p \<Longrightarrow> where_is ms p = (Root, p) \<and> files_of N Root p = img Root p"
    "files_of N (Tmpfs 0) = [[] \<mapsto> Folder]" "\<And>d. files_of N (Device d) = files_of M (Device d)"
proof -
  let ?fs = "files_of (power_cycle img M)"
  define M1 where "M1 = hardenSysctls E (mount_volume E (Kernel ''devtmpfs'') [''dev''] (loadSELinuxPolicy E
      (mount_volume E (Kernel ''sysfs'') [''sys''] (mount_volume E (Kernel ''proc'') [''proc''] (power_cycle img M)))))"
  define N where "N = mountEphemeral E M1"
  have early: "early ?fs M1"
    unfolding M1_def by (intro early_sysctls early_mount early_selinux early_start) (simp_all add: kernel_area_def)
  moreover have "image_ok ?fs mode seed" using img by (simp add: image_ok_def power_cycle_def)
  ultimately have N: "mounts N = ([''etc''], Tmpfs 2, []) # ([''tmp''], Tmpfs 1, []) # ([''run''], Tmpfs 0, []) # mounts M1"
    "files_of N (Tmpfs 2) = etc_seeded mode seed" "files_of N (Device d) = files_of M (Device d)"
    "files_of N (Tmpfs 0) = [[] \<mapsto> Folder]" "files_of N Root = files_of M1 Root" for d
    using mountEphemeral_ok [OF _ _ E] by (auto simp: power_cycle_def N_def)
  have "N = etc_machine N dev (mounts N) (etc_seeded mode seed) (files_of M (Device dev))"
    unfolding etc_machine_def N(2,3) [symmetric] by simp
  then have "init_mounts E cmdline (power_cycle img M) = mountState E cmdline (etc_machine N dev (mounts N) (etc_seeded mode seed) (files_of M (Device dev)))"
    by (simp add: init_mounts_def M1_def N_def Let_def)
  with early_where [OF early] early_root [OF early] show ?thesis
    by (intro that [of N "mounts M1"]) (simp_all add: N power_cycle_def)
qed

lemma init_mounts_ok:
  assumes E: "mounts_work E (resolveStateDevice cmdline)" and img: "image_ok img mode seed" and S: "state_ok (files_of M (Device (resolveStateDevice cmdline)))"
  defines "M' \<equiv> init_mounts E cmdline (power_cycle img M)"
  shows "mounted (resolveStateDevice cmdline) img M'"
    and "files_of M' (Device (resolveStateDevice cmdline)) = booted_state mode seed (files_of M (Device (resolveStateDevice cmdline)))"
    and "d \<noteq> resolveStateDevice cmdline \<Longrightarrow> files_of M' (Device d) = files_of M (Device d)"
    and "files_of M' (Tmpfs 0) = [[] \<mapsto> Folder]"
proof -
  let ?dev = "resolveStateDevice cmdline"
  obtain N ms where init: "M' = mountState E cmdline
       (etc_machine N ?dev (([''etc''], Tmpfs 2, []) # ([''tmp''], Tmpfs 1, []) # ([''run''], Tmpfs 0, []) # ms) (etc_seeded mode seed) (files_of M (Device ?dev)))"
    and ms: "\<And>p. \<not> kernel_area p \<Longrightarrow> where_is ms p = (Root, p) \<and> files_of N Root p = img Root p"
    and N: "files_of N (Tmpfs 0) = [[] \<mapsto> Folder]" "\<And>d. files_of N (Device d) = files_of M (Device d)"
    unfolding M'_def by (rule init_before_state [OF works_tmpfs [OF E] img, where dev = ?dev and M = M and cmdline = cmdline]) blast
  obtain T where M': "M' = etc_machine N ?dev (booted_mounts ?dev @ ms) T (booted_state mode seed (files_of M (Device ?dev)))"
    using mountState_ok [OF E refl S refl, where N = N and mode = mode and seed = seed and ms = "([''tmp''], Tmpfs 1, []) # ([''run''], Tmpfs 0, []) # ms"] by (auto simp: init booted_mounts_def eval_nat_numeral)
  show "mounted ?dev img M'" using ms by (auto simp: mounted_def M' etc_machine_def)
  show "files_of M' (Device ?dev) = booted_state mode seed (files_of M (Device ?dev))" by (simp add: M' etc_machine_def)
  show "d \<noteq> ?dev \<Longrightarrow> files_of M' (Device d) = files_of M (Device d)" by (simp add: M' etc_machine_def N)
  show "files_of M' (Tmpfs 0) = [[] \<mapsto> Folder]" by (simp add: M' etc_machine_def N)
qed

end
