(* ===== verification/Node_Boot.thy ===== *)
theory Node_Boot
  imports Boot_Mounts Node_Pki Haproxy_Runtime
begin

text \<open>
  The daemon's start (\<open>cmd/janusd/main.go\<close>) on the file system PID 1 has mounted, and a node over any
  sequence of boots, restarts of the daemon and applied configurations. What a start does in the
  background (a pending upgrade, the announcement to a Controller) is in \<open>Boot_Init\<close> and \<open>Self_Register\<close>;
  the files it concerns, below \<open>boot\<close> and \<open>controller\<close>, are not touched here.
\<close>

section \<open>Files by content\<close>

definition text_at :: "path \<Rightarrow> machine \<Rightarrow> string option" where
  "text_at p M = (case entry_at M p of Some (File _ s) \<Rightarrow> Some s | _ \<Rightarrow> None)"

text \<open>Writing a file that can be written; one that exists keeps its mode.\<close>

definition put_text :: "path \<Rightarrow> nat \<Rightarrow> string \<Rightarrow> machine \<Rightarrow> machine" where
  "put_text p mode s M = put_entry p (File (case entry_at M p of Some (File m _) \<Rightarrow> m | _ \<Rightarrow> mode) s) M"

definition pki_names :: "string list" where
  "pki_names = [''ca.crt'', ''ca.key'', ''server.crt'', ''server.key'', ''admin.crt'', ''admin.key'']"

definition pki_path :: path where "pki_path = [''etc'', ''janus'', ''pki'']"

definition load_dir :: "machine \<Rightarrow> pki_dir" where
  "load_dir M = concat (map (\<lambda>n. case text_at (pki_path @ [n]) M of None \<Rightarrow> [] | Some s \<Rightarrow> [(n, s)]) pki_names)"

definition pki_mode :: "string \<Rightarrow> nat" where
  "pki_mode n = (if n = ''ca.crt'' \<or> n = ''server.crt'' then 420 else 384)"

definition store_dir :: "pki_dir \<Rightarrow> machine \<Rightarrow> machine" where
  "store_dir d M = fold (\<lambda>n M. case gm_get d n of None \<Rightarrow> M | Some s \<Rightarrow> put_text (pki_path @ [n]) (pki_mode n) s M) pki_names M"

section \<open>The daemon\<close>

text \<open>
  What a start meets: the host name, the PKI library and its faults, the host's addresses, an error
  of listening, the file system, and HAProxy. The paths are the defaults of the flags, as PID 1 gives
  none but the address.
\<close>

record janusd_env =
  jd_hostname :: "string option"
  jd_pki :: pki_env
  jd_ips :: "string list"
  jd_listen :: "string option"
  jd_fs :: fs_env
  jd_haproxy :: haproxy_env

definition janusd_manager :: manager where
  "janusd_manager = \<lparr>BinaryPath = ''/usr/local/sbin/haproxy'', ConfigPath = ''/etc/haproxy/haproxy.cfg'', PidPath = ''/run/janus/haproxy.pid''\<rparr>"

definition pid_path :: path where "pid_path = [''run'', ''janus'', ''haproxy.pid'']"

datatype janusd_stop = Pki_failed string | Listen_failed string | Mkdir_failed path

text \<open>A daemon that serves: its authority and certificate, whether it printed the admin's credential, and HAProxy.\<close>

record janusd =
  jn_ca :: ca
  jn_server :: "string \<times> string"
  jn_printed :: "(string \<times> string) option"
  jn_host :: haproxy_host

text \<open>HAProxy's files before a start; the initial start may fail.\<close>

definition start_host :: "haproxy_env \<Rightarrow> string option \<Rightarrow> string option \<Rightarrow> haproxy_host" where
  "start_host H cfg pid = snd (Reload janusd_manager H \<lparr>config_file = (case cfg of None \<Rightarrow> [] | Some s \<Rightarrow> s), pid_file = pid, spawned = []\<rparr>)"

definition daemon_hostname :: "janusd_env \<Rightarrow> string" where
  "daemon_hostname J = (case jd_hostname J of None \<Rightarrow> ''janus'' | Some h \<Rightarrow> h)"

definition janusd_main :: "janusd_env \<Rightarrow> machine \<Rightarrow> (janusd_stop + janusd) \<times> machine" where
  "janusd_main J M = (case LoadOrBootstrap (jd_pki J) (daemon_hostname J) (jd_ips J) (load_dir M) of
       (Inl e, d) \<Rightarrow> (Inl (Pki_failed e), store_dir d M)
     | (Inr b, d) \<Rightarrow> (let M1 = store_dir d M in case jd_listen J of
         Some e \<Rightarrow> (Inl (Listen_failed e), M1)
       | None \<Rightarrow> (let (ok, M2) = MkdirAll (jd_fs J) [''run'', ''janus''] M1 in
           if \<not> ok then (Inl (Mkdir_failed [''run'', ''janus'']), M2)
           else let (ok, M3) = MkdirAll (jd_fs J) [''var'', ''empty''] M2 in
           if \<not> ok then (Inl (Mkdir_failed [''var'', ''empty'']), M3)
           else (Inr \<lparr>jn_ca = bs_ca b, jn_server = bs_server b, jn_printed = bs_admin b,
             jn_host = start_host (jd_haproxy J) (text_at seed_path M3) (text_at pid_path M3)\<rparr>, M3))))"

text \<open>\<open>Apply\<close> of a running daemon on the machine's configuration file.\<close>

definition apply_on :: "haproxy_env \<Rightarrow> string \<Rightarrow> machine \<times> janusd \<Rightarrow> machine \<times> janusd" where
  "apply_on H cfg = (\<lambda>(M, j). let h = (jn_host j)\<lparr>config_file := (case text_at seed_path M of None \<Rightarrow> [] | Some s \<Rightarrow> s), pid_file := text_at pid_path M\<rparr>;
       h' = snd (Apply janusd_manager H cfg h) in
     (if fst (Validate H cfg) then put_text seed_path 420 (config_file h') M else M, j\<lparr>jn_host := h'\<rparr>))"

section \<open>A node\<close>

text \<open>
  The node is switched on (and was off before), its daemon is started again by the supervisor,
  HAProxy writes its pid file, or a configuration is applied. A power failure in the middle of a
  boot's writes is a boot whose writes fail, with what they leave as \<open>fe_held\<close> and \<open>pe_fault\<close>.
\<close>

datatype node_event = Switch_on fs_env "string option" janusd_env | Restart janusd_env | Pid_written string | Applied haproxy_env string

definition start_daemon :: "fs_env \<Rightarrow> janusd_env \<Rightarrow> machine \<Rightarrow> machine \<times> janusd option" where
  "start_daemon E J M0 = (let M = snd (MkdirAll E [''run'', ''janus''] M0); (r, M') = janusd_main J M in
     (M', case r of Inl _ \<Rightarrow> None | Inr j \<Rightarrow> Some j))"

definition node_event_step :: "(volume \<Rightarrow> path \<Rightarrow> entry option) \<Rightarrow> node_event \<Rightarrow> machine \<times> janusd option \<Rightarrow> machine \<times> janusd option" where
  "node_event_step img ev = (\<lambda>(M, j). case ev of
       Switch_on E cmdline J \<Rightarrow> (let M' = init_mounts E cmdline (power_cycle img M) in
         if starts_daemon M' then start_daemon E J M' else (M', None))
     | Restart J \<Rightarrow> (let (r, M') = janusd_main J M in (M', case r of Inl _ \<Rightarrow> None | Inr j \<Rightarrow> Some j))
     | Pid_written s \<Rightarrow> (put_text pid_path 420 s M, j)
     | Applied H cfg \<Rightarrow> (case j of None \<Rightarrow> (M, None) | Some d \<Rightarrow> (let (M', d') = apply_on H cfg (M, d) in (M', Some d'))))"

definition node_life :: "(volume \<Rightarrow> path \<Rightarrow> entry option) \<Rightarrow> node_event list \<Rightarrow> machine \<times> janusd option \<Rightarrow> machine \<times> janusd option" where
  "node_life img evs st = fold (node_event_step img) evs st"

section \<open>What a node promises\<close>

text \<open>
  The specification: a node keeps a configuration and a directory of credentials. Switching it on
  or restarting the daemon loads them; nothing but an applied configuration changes the first, and
  nothing but \<open>LoadOrBootstrap\<close> the second.
\<close>

record node_spec =
  sp_config :: string
  sp_pki :: pki_dir
  sp_pid :: "string option"
  sp_daemon :: "janusd option"

definition spec_daemon :: "janusd_env \<Rightarrow> node_spec \<Rightarrow> node_spec" where
  "spec_daemon J s = (case LoadOrBootstrap (jd_pki J) (daemon_hostname J) (jd_ips J) (sp_pki s) of
       (Inl _, d) \<Rightarrow> s\<lparr>sp_pki := d, sp_daemon := None\<rparr>
     | (Inr b, d) \<Rightarrow> s\<lparr>sp_pki := d, sp_daemon := (if jd_listen J \<noteq> None then None
         else Some \<lparr>jn_ca = bs_ca b, jn_server = bs_server b, jn_printed = bs_admin b,
           jn_host = start_host (jd_haproxy J) (Some (sp_config s)) (sp_pid s)\<rparr>)\<rparr>)"

definition spec_step :: "node_event \<Rightarrow> node_spec \<Rightarrow> node_spec" where
  "spec_step ev s = (case ev of
       Switch_on _ _ J \<Rightarrow> spec_daemon J (s\<lparr>sp_pid := None\<rparr>)
     | Restart J \<Rightarrow> spec_daemon J s
     | Pid_written p \<Rightarrow> s\<lparr>sp_pid := Some p\<rparr>
     | Applied H cfg \<Rightarrow> (case sp_daemon s of None \<Rightarrow> s
       | Some j \<Rightarrow> let h' = snd (Apply janusd_manager H cfg ((jn_host j)\<lparr>config_file := sp_config s, pid_file := sp_pid s\<rparr>)) in
           s\<lparr>sp_config := config_file h', sp_daemon := Some (j\<lparr>jn_host := h'\<rparr>)\<rparr>))"

definition spec_life :: "node_event list \<Rightarrow> node_spec \<Rightarrow> node_spec" where
  "spec_life evs s = fold spec_step evs s"

section \<open>The credentials depend on the contents of their files only\<close>

definition same_dir :: "(string + 'a) \<times> pki_dir \<Rightarrow> (string + 'a) \<times> pki_dir \<Rightarrow> bool" where
  "same_dir x y \<longleftrightarrow> fst x = fst y \<and> gm_get (snd x) = gm_get (snd y)"

lemma same_dir_and:
  assumes "same_dir x y" and "\<And>v d d'. gm_get d = gm_get d' \<Longrightarrow> same_dir (f v d) (f v d')"
  shows "same_dir (and_pki x f) (and_pki y f)"
proof -
  obtain r d d' where "x = (r, d)" "y = (r, d')" "gm_get d = gm_get d'"
    using assms(1) by (cases x; cases y) (auto simp: same_dir_def)
  then show ?thesis using assms(2) [of d d' "projr r"] by (cases r) (simp_all add: same_dir_def)
qed

lemma same_dir_write: "gm_get d = gm_get d' \<Longrightarrow> same_dir (writeFiles E n fs d) (writeFiles E n fs d')"
proof (induction fs arbitrary: n d d')
  case (Cons p fs)
  have "gm_get (gm_put k v d) = gm_get (gm_put k v d')" for k v using Cons.prems by (simp add: fun_eq_iff)
  with Cons show ?case by (cases p) (auto simp: same_dir_def split: option.splits)
qed (simp add: same_dir_def)

lemma same_dir_plain: "gm_get d = gm_get d' \<Longrightarrow> same_dir (r, d) (r, d')"
  by (simp add: same_dir_def)

lemma same_dir_LoadOrBootstrap:
  assumes "gm_get d = gm_get d'"
  shows "same_dir (LoadOrBootstrap E h ips d) (LoadOrBootstrap E h ips d')"
proof -
  have "same_dir (bootstrap_pki E h ips d) (bootstrap_pki E h ips d')"
    unfolding bootstrap_pki_def by (intro same_dir_and same_dir_write same_dir_plain assms)
  moreover have "load_pki E d = load_pki E d'" by (simp add: load_pki_def load_key_pair_def read_file_def assms)
  ultimately show ?thesis using assms
    by (cases "pe_mkdir E"; cases "gm_get d' ''ca.crt''") (simp_all add: LoadOrBootstrap_def same_dir_plain)
qed

text \<open>What holds of a directory and is kept by writing any of the six files holds after a start.\<close>

lemma writeFiles_inv:
  assumes "\<And>k v d. k \<in> set pki_names \<Longrightarrow> Q d \<Longrightarrow> Q (gm_put k v d)"
  shows "fst ` set fs \<subseteq> set pki_names \<Longrightarrow> Q d \<Longrightarrow> Q (snd (writeFiles E n fs d))"
proof (induction fs arbitrary: n d)
  case (Cons p fs)
  then show ?case using assms by (cases p) (auto split: option.splits)
qed simp

lemma and_pki_inv: "Q (snd x) \<Longrightarrow> (\<And>v d. Q d \<Longrightarrow> Q (snd (f v d))) \<Longrightarrow> Q (snd (and_pki x f))"
  by (cases "(x, f)" rule: and_pki.cases) auto

lemma LoadOrBootstrap_inv:
  assumes "\<And>k v d. k \<in> set pki_names \<Longrightarrow> Q d \<Longrightarrow> Q (gm_put k v d)" and "Q d"
  shows "Q (snd (LoadOrBootstrap E h ips d))"
proof -
  have w: "Q d \<Longrightarrow> fst ` set fs \<subseteq> set pki_names \<Longrightarrow> Q (snd (writeFiles E n fs d))" for fs n d
    using writeFiles_inv [of Q, OF assms(1)] by blast
  have "Q (snd (bootstrap_pki E h ips d))"
    unfolding bootstrap_pki_def
    by (intro and_pki_inv [where Q = Q] w) (simp_all add: assms(2) pki_names_def)
  then show ?thesis using assms(2) by (simp add: LoadOrBootstrap_def split: option.splits)
qed

lemma LoadOrBootstrap_other: "n \<notin> set pki_names \<Longrightarrow> gm_get (snd (LoadOrBootstrap E h ips d)) n = gm_get d n"
  by (rule LoadOrBootstrap_inv) auto

lemma LoadOrBootstrap_kept: "gm_get d n \<noteq> None \<Longrightarrow> gm_get (snd (LoadOrBootstrap E h ips d)) n \<noteq> None"
  by (rule LoadOrBootstrap_inv) auto

section \<open>The state partition holds the specification's state\<close>

definition content :: "entry option \<Rightarrow> string option" where
  "content e = (case e of Some (File _ s) \<Rightarrow> Some s | _ \<Rightarrow> None)"

lemma content_simps [simp]: "content None = None" "content (Some (File m s)) = Some s" "content (Some Folder) = None"
  by (simp_all add: content_def)

definition stored :: "string \<Rightarrow> (path \<Rightarrow> entry option) \<Rightarrow> string \<Rightarrow> pki_dir \<Rightarrow> bool" where
  "stored seed S cfg pki \<longleftrightarrow> state_ok S \<and> cfg = (case content (S config_name) of None \<Rightarrow> seed | Some s \<Rightarrow> s)
     \<and> gm_get pki = (\<lambda>n. if n \<in> set pki_names then content (S [''pki'', n]) else None)"

definition booted :: "string \<Rightarrow> (volume \<Rightarrow> path \<Rightarrow> entry option) \<Rightarrow> string \<Rightarrow> machine \<Rightarrow> node_spec \<Rightarrow> bool" where
  "booted dev img seed M s \<longleftrightarrow> mounted dev img M \<and> stored seed (files_of M (Device dev)) (sp_config s) (sp_pki s)
     \<and> content (files_of M (Device dev) config_name) = Some (sp_config s)
     \<and> files_of M (Tmpfs 0) [] = Some Folder \<and> files_of M (Tmpfs 0) [''janus''] \<in> {None, Some Folder}
     \<and> content (files_of M (Tmpfs 0) [''janus'', ''haproxy.pid'']) = sp_pid s"

lemma text_at_content: "text_at p M = content (entry_at M p)"
  by (simp add: text_at_def content_def)

lemma mounted_where:
  assumes "mounted dev img M"
  shows "where_is (mounts M) (pki_path @ [n]) = (Device dev, [''pki'', n])" "where_is (mounts M) seed_path = (Device dev, config_name)"
    "where_is (mounts M) pid_path = (Tmpfs 0, [''janus'', ''haproxy.pid''])" "where_is (mounts M) [''run''] = (Tmpfs 0, [])"
    "where_is (mounts M) [''run'', ''janus''] = (Tmpfs 0, [''janus''])" "where_is (mounts M) [''sbin'', ''janusd''] = (Root, [''sbin'', ''janusd''])"
    "where_is (mounts M) [''var''] = (Root, [''var''])" "where_is (mounts M) [''var'', ''empty''] = (Root, [''var'', ''empty''])"
  using assms by (auto simp: mounted_def booted_mounts_def pki_path_def seed_path_def pid_path_def config_name_def state_root_def kernel_area_def)

lemma mounted_root:
  "mounted dev img M \<Longrightarrow> entry_at M [''sbin'', ''janusd''] = img Root [''sbin'', ''janusd'']"
  "mounted dev img M \<Longrightarrow> entry_at M [''var''] = img Root [''var'']"
  "mounted dev img M \<Longrightarrow> entry_at M [''var'', ''empty''] = img Root [''var'', ''empty'']"
  by (simp_all add: entry_at_def mounted_where) (simp_all add: mounted_def kernel_area_def)

text \<open>Changes of one volume other than the image's.\<close>

lemma mounted_put: "mounted dev img M \<Longrightarrow> fst (where_is (mounts M) p) \<noteq> Root \<Longrightarrow> mounted dev img (put_entry p e M)"
  by (auto simp: mounted_def put_entry_def split: prod.splits)

lemma put_text_files:
  "where_is (mounts M) p = (v, r) \<Longrightarrow> files_of (put_text p mode s M) =
    (files_of M)(v := (files_of M v)(r \<mapsto> File (case files_of M v r of Some (File m _) \<Rightarrow> m | _ \<Rightarrow> mode) s))"
  "mounts (put_text p mode s M) = mounts M"
  by (simp_all add: put_text_def put_entry_def entry_at_def split: prod.splits)

lemma mounted_put_text: "mounted dev img M \<Longrightarrow> fst (where_is (mounts M) p) \<noteq> Root \<Longrightarrow> mounted dev img (put_text p mode s M)"
  by (simp add: put_text_def mounted_put)

lemma map_of_texts: "map_of (concat (map (\<lambda>n. case f n of None \<Rightarrow> [] | Some s \<Rightarrow> [(n, s)]) ns)) n = (if n \<in> set ns then f n else None)"
  by (induction ns) (auto split: option.splits)

lemma load_dir_get:
  "mounted dev img M \<Longrightarrow> gm_get (load_dir M) = (\<lambda>n. if n \<in> set pki_names then content (files_of M (Device dev) [''pki'', n]) else None)"
  by (auto simp: load_dir_def gm_get_def map_of_texts text_at_content entry_at_def mounted_where fun_eq_iff)

text \<open>\<open>store_dir\<close> on the files of the state partition.\<close>

fun store_files :: "pki_dir \<Rightarrow> string list \<Rightarrow> (path \<Rightarrow> entry option) \<Rightarrow> path \<Rightarrow> entry option" where
  "store_files d [] S = S"
| "store_files d (n # ns) S = store_files d ns (case gm_get d n of None \<Rightarrow> S | Some s \<Rightarrow>
     S([''pki'', n] \<mapsto> File (case S [''pki'', n] of Some (File m _) \<Rightarrow> m | _ \<Rightarrow> pki_mode n) s))"

lemma store_files_other: "(\<forall>n \<in> set ns. q \<noteq> [''pki'', n]) \<Longrightarrow> store_files d ns S q = S q"
  by (induction d ns S rule: store_files.induct) (auto split: option.splits)

lemma store_files_content:
  "distinct ns \<Longrightarrow> n \<in> set ns \<Longrightarrow> content (store_files d ns S [''pki'', n]) = (case gm_get d n of None \<Rightarrow> content (S [''pki'', n]) | Some s \<Rightarrow> Some s)"
proof (induction d ns S rule: store_files.induct)
  case (2 d x ns S)
  show ?case
  proof (cases "x = n")
    case True
    then have "store_files d ns S' [''pki'', n] = S' [''pki'', n]" for S'
      using "2.prems"(1) by (intro store_files_other) auto
    with True show ?thesis by (simp split: option.splits)
  qed (use 2 in \<open>auto split: option.splits\<close>)
qed simp

lemma store_dir_files:
  assumes "mounted dev img M"
  shows "store_dir d M = M\<lparr>files_of := (files_of M)(Device dev := store_files d pki_names (files_of M (Device dev)))\<rparr>"
proof -
  have "fold (\<lambda>n M. case gm_get d n of None \<Rightarrow> M | Some s \<Rightarrow> put_text (pki_path @ [n]) (pki_mode n) s M) ns M =
      M\<lparr>files_of := (files_of M)(Device dev := store_files d ns (files_of M (Device dev)))\<rparr>" for ns
    using assms
  proof (induction ns arbitrary: M)
    case (Cons n ns)
    show ?case
    proof (cases "gm_get d n")
      case None
      with Cons show ?thesis by simp
    next
      case (Some s)
      have "mounted dev img (put_text (pki_path @ [n]) (pki_mode n) s M)"
        using Cons.prems by (simp add: mounted_put_text mounted_where)
      from Cons.IH [OF this] Some show ?thesis
        by (simp add: put_text_def put_entry_def entry_at_def mounted_where(1) [OF Cons.prems] fun_upd_def cong: if_cong)
    qed
  qed simp
  then show ?thesis by (simp add: store_dir_def)
qed

lemma pki_names_distinct: "distinct pki_names"
  by (simp add: pki_names_def)

definition daemon_image :: "(volume \<Rightarrow> path \<Rightarrow> entry option) \<Rightarrow> bool" where
  "daemon_image img \<longleftrightarrow> img Root [''sbin'', ''janusd''] \<noteq> None \<and> img Root [''var''] = Some Folder \<and> img Root [''var'', ''empty''] = Some Folder"

lemma stored_store:
  assumes "stored seed S cfg pki" and "gm_get d = gm_get (snd (LoadOrBootstrap E h ips pki))"
  shows "stored seed (store_files d pki_names S) cfg (snd (LoadOrBootstrap E h ips pki))"
proof -
  let ?pki = "snd (LoadOrBootstrap E h ips pki)" and ?S = "store_files d pki_names S"
  have same: "?S q = S q" if "\<forall>n. q \<noteq> [''pki'', n]" for q using that by (intro store_files_other) auto
  have "gm_get ?pki n = (if n \<in> set pki_names then content (?S [''pki'', n]) else None)" for n
  proof (cases "n \<in> set pki_names")
    case True
    then have "content (?S [''pki'', n]) = (case gm_get d n of None \<Rightarrow> content (S [''pki'', n]) | Some s \<Rightarrow> Some s)"
      by (rule store_files_content [OF pki_names_distinct])
    moreover have "content (S [''pki'', n]) = None" if "gm_get d n = None"
    proof (rule ccontr)
      assume "content (S [''pki'', n]) \<noteq> None"
      then have "gm_get pki n \<noteq> None" using assms(1) True by (simp add: stored_def)
      then show False using LoadOrBootstrap_kept [of pki n E h ips] that assms(2) by simp
    qed
    ultimately show ?thesis using True assms(2) by (auto split: option.splits)
  qed (use assms in \<open>auto simp: LoadOrBootstrap_other stored_def\<close>)
  then show ?thesis using assms(1) by (auto simp: stored_def state_ok_def same config_name_def fun_eq_iff)
qed

lemma mkdir_run:
  assumes "mounted dev img M" and "mounts_work E dev" and "files_of M (Tmpfs 0) [] = Some Folder" and "files_of M (Tmpfs 0) [''janus''] \<in> {None, Some Folder}"
  shows "MkdirAll E [''run'', ''janus''] M = (True, M\<lparr>files_of := (files_of M)(Tmpfs 0 := (files_of M (Tmpfs 0))([''janus''] \<mapsto> Folder))\<rparr>)"
  using assms(3,4)
  by (auto simp: MkdirAll_def mkdir_def entry_at_def mounted_where [OF assms(1)] works [OF assms(2)] outside creatable_def put_entry_def map_upd_triv)

lemma mkdir_var:
  "mounted dev img M \<Longrightarrow> daemon_image img \<Longrightarrow> MkdirAll E [''var'', ''empty''] M = (True, M)"
  by (simp add: MkdirAll_def mkdir_def mounted_root daemon_image_def)

lemma booted_run:
  "booted dev img seed M s \<Longrightarrow> booted dev img seed (M\<lparr>files_of := (files_of M)(Tmpfs 0 := (files_of M (Tmpfs 0))([''janus''] \<mapsto> Folder))\<rparr>) s"
  by (auto simp: booted_def mounted_def)

lemma booted_texts:
  "booted dev img seed M s \<Longrightarrow> text_at seed_path M = Some (sp_config s) \<and> text_at pid_path M = sp_pid s"
  using mounted_where(2,3) [of dev img M] by (simp add: booted_def text_at_content entry_at_def)

definition started :: "(janusd_stop + janusd) \<Rightarrow> janusd option" where
  "started r = (case r of Inl _ \<Rightarrow> None | Inr j \<Rightarrow> Some j)"

lemma janusd_main_refines:
  assumes b: "booted dev img seed M s" and E: "mounts_work (jd_fs J) dev" and img: "daemon_image img"
  shows "booted dev img seed (snd (janusd_main J M)) (spec_daemon J s) \<and> started (fst (janusd_main J M)) = sp_daemon (spec_daemon J s)"
proof -
  let ?L = "LoadOrBootstrap (jd_pki J) (daemon_hostname J) (jd_ips J)"
  have m: "mounted dev img M" and st: "stored seed (files_of M (Device dev)) (sp_config s) (sp_pki s)" using b by (simp_all add: booted_def)
  have "gm_get (load_dir M) = gm_get (sp_pki s)" using load_dir_get [OF m] st by (simp add: stored_def)
  then have "same_dir (?L (load_dir M)) (?L (sp_pki s))" by (rule same_dir_LoadOrBootstrap)
  then obtain r d d' where r: "?L (load_dir M) = (r, d)" "?L (sp_pki s) = (r, d')" "gm_get d = gm_get d'"
    by (cases "?L (load_dir M)"; cases "?L (sp_pki s)") (auto simp: same_dir_def)
  let ?s = "s\<lparr>sp_pki := d'\<rparr>"
  have M1: "booted dev img seed (store_dir d M) ?s"
  proof -
    have "stored seed (store_files d pki_names (files_of M (Device dev))) (sp_config s) d'"
      using stored_store [OF st, of d "jd_pki J" "daemon_hostname J" "jd_ips J"] by (simp add: r)
    moreover have "store_files d pki_names (files_of M (Device dev)) config_name = files_of M (Device dev) config_name"
      by (rule store_files_other) (simp add: config_name_def)
    ultimately show ?thesis using b by (auto simp: booted_def mounted_def store_dir_files [OF m])
  qed
  have other: "booted dev img seed M' (?s\<lparr>sp_daemon := j\<rparr>)" if "booted dev img seed M' ?s" for M' j
    using that by (simp add: booted_def)
  show ?thesis
  proof (cases r)
    case (Inl e)
    then show ?thesis using other [OF M1] by (simp add: janusd_main_def spec_daemon_def r started_def)
  next
    case (Inr c)
    show ?thesis
    proof (cases "jd_listen J")
      case None
      define M2 where "M2 = (store_dir d M)\<lparr>files_of := (files_of (store_dir d M))(Tmpfs 0 := (files_of (store_dir d M) (Tmpfs 0))([''janus''] \<mapsto> Folder))\<rparr>"
      have run: "MkdirAll (jd_fs J) [''run'', ''janus''] (store_dir d M) = (True, M2)"
        using M1 E unfolding M2_def by (intro mkdir_run [of dev img]) (simp_all add: booted_def)
      have M2: "booted dev img seed M2 ?s" using booted_run [OF M1] by (simp add: M2_def)
      then have "MkdirAll (jd_fs J) [''var'', ''empty''] M2 = (True, M2)" using img by (intro mkdir_var) (auto simp: booted_def)
      with run None Inr other [OF M2] booted_texts [OF M2] show ?thesis
        by (simp add: janusd_main_def spec_daemon_def r started_def Let_def)
    next
      case (Some e)
      then show ?thesis using Inr other [OF M1] by (simp add: janusd_main_def spec_daemon_def r started_def Let_def)
    qed
  qed
qed

section \<open>Every event refines\<close>

definition event_ok :: "string \<Rightarrow> node_event \<Rightarrow> bool" where
  "event_ok dev ev = (case ev of
       Switch_on E cmdline J \<Rightarrow> resolveStateDevice cmdline = dev \<and> mounts_work E dev \<and> mounts_work (jd_fs J) dev
     | Restart J \<Rightarrow> mounts_work (jd_fs J) dev
     | _ \<Rightarrow> True)"

lemma boot_stores:
  assumes "stored seed S cfg pki"
  shows "stored seed (booted_state mode seed S) cfg pki \<and> content (booted_state mode seed S config_name) = Some cfg"
proof -
  have "S config_name \<noteq> Some Folder" using assms by (simp add: stored_def state_ok_def)
  then have c: "content (booted_state mode seed S config_name) = Some cfg"
    using assms by (auto simp: stored_def booted_state_def config_name_def content_def split: option.splits entry.splits)
  moreover have "booted_state mode seed S [''pki'', n] = S [''pki'', n]" for n by (simp add: booted_state_def config_name_def)
  moreover have "state_ok (booted_state mode seed S)"
    using assms by (auto simp: stored_def state_ok_def booted_state_def config_name_def split: option.splits)
  ultimately show ?thesis using assms by (simp add: stored_def cong: if_cong)
qed

lemma switch_on_refines:
  assumes st: "stored seed (files_of M (Device dev)) (sp_config s) (sp_pki s)" and ev: "event_ok dev (Switch_on E cmdline J)"
    and img: "image_ok img mode seed" "daemon_image img"
  shows "booted dev img seed (fst (node_event_step img (Switch_on E cmdline J) (M, j))) (spec_step (Switch_on E cmdline J) s)
    \<and> snd (node_event_step img (Switch_on E cmdline J) (M, j)) = sp_daemon (spec_step (Switch_on E cmdline J) s)"
proof -
  let ?M' = "init_mounts E cmdline (power_cycle img M)" and ?s = "s\<lparr>sp_pid := None\<rparr>"
  have dev: "resolveStateDevice cmdline = dev" "mounts_work E (resolveStateDevice cmdline)" "mounts_work E dev" "mounts_work (jd_fs J) dev"
    using ev by (simp_all add: event_ok_def)
  have "state_ok (files_of M (Device (resolveStateDevice cmdline)))" using st dev(1) by (simp add: stored_def)
  note M' = init_mounts_ok [OF dev(2) img(1) this, unfolded dev(1)]
  have b: "booted dev img seed ?M' ?s"
    using boot_stores [OF st, of mode] M' by (simp add: booted_def)
  define M2 where "M2 = ?M'\<lparr>files_of := (files_of ?M')(Tmpfs 0 := (files_of ?M' (Tmpfs 0))([''janus''] \<mapsto> Folder))\<rparr>"
  have "MkdirAll E [''run'', ''janus''] ?M' = (True, M2)"
    unfolding M2_def by (rule mkdir_run [OF M'(1) dev(3)]) (simp_all add: M'(4))
  moreover have "starts_daemon ?M'" using img(2) by (simp add: starts_daemon_def mounted_root [OF M'(1)] daemon_image_def)
  ultimately have "node_event_step img (Switch_on E cmdline J) (M, j) = (snd (janusd_main J M2), started (fst (janusd_main J M2)))"
    by (simp add: node_event_step_def start_daemon_def started_def Let_def case_prod_beta)
  with janusd_main_refines [OF _ dev(4) img(2), of seed M2 ?s] booted_run [OF b] show ?thesis by (simp add: M2_def spec_step_def)
qed

lemma put_text_refines:
  assumes "booted dev img seed M s"
  shows "booted dev img seed (put_text pid_path 420 p M) (s\<lparr>sp_pid := Some p\<rparr>)"
    and "booted dev img seed (put_text seed_path 420 c M) (s\<lparr>sp_config := c\<rparr>)"
proof -
  have m: "mounted dev img M" using assms by (simp add: booted_def)
  show "booted dev img seed (put_text pid_path 420 p M) (s\<lparr>sp_pid := Some p\<rparr>)"
    using assms put_text_files(1) [OF mounted_where(3) [OF m]] mounted_put_text [OF m] by (simp add: booted_def mounted_where [OF m])
  show "booted dev img seed (put_text seed_path 420 c M) (s\<lparr>sp_config := c\<rparr>)"
    using assms put_text_files(1) [OF mounted_where(2) [OF m]] mounted_put_text [OF m]
    by (simp add: booted_def mounted_where [OF m] stored_def state_ok_def config_name_def cong: if_cong)
qed

lemma Apply_invalid: "\<not> fst (Validate H cfg) \<Longrightarrow> snd (Apply m H cfg h) = h"
  by (cases "Validate H cfg") (simp add: Apply_def)

lemma step_refines:
  assumes b: "booted dev img seed M s" and ev: "event_ok dev ev" and img: "image_ok img mode seed" "daemon_image img"
  shows "booted dev img seed (fst (node_event_step img ev (M, sp_daemon s))) (spec_step ev s)
    \<and> snd (node_event_step img ev (M, sp_daemon s)) = sp_daemon (spec_step ev s)"
proof (cases ev)
  case (Switch_on E cmdline J)
  have "stored seed (files_of M (Device dev)) (sp_config s) (sp_pki s)" using b by (simp add: booted_def)
  from switch_on_refines [OF this ev [unfolded Switch_on] img, of "sp_daemon s"] Switch_on show ?thesis by simp
next
  case (Restart J)
  then show ?thesis using janusd_main_refines [OF b _ img(2), of J] ev
    by (simp add: event_ok_def node_event_step_def started_def spec_step_def case_prod_beta)
next
  case (Pid_written p)
  then show ?thesis using put_text_refines(1) [OF b, of p] by (simp add: node_event_step_def spec_step_def)
next
  case (Applied H cfg)
  show ?thesis
  proof (cases "sp_daemon s")
    case None
    then show ?thesis using Applied b by (simp add: node_event_step_def spec_step_def)
  next
    case (Some j)
    let ?h = "(jn_host j)\<lparr>config_file := sp_config s, pid_file := sp_pid s\<rparr>"
    have other: "booted dev img seed M' (s'\<lparr>sp_daemon := d\<rparr>)" if "booted dev img seed M' s'" for M' s' d
      using that by (simp add: booted_def)
    have "apply_on H cfg (M, j) = ((if fst (Validate H cfg) then put_text seed_path 420 (config_file (snd (Apply janusd_manager H cfg ?h))) M else M),
        j\<lparr>jn_host := snd (Apply janusd_manager H cfg ?h)\<rparr>)"
      using booted_texts [OF b] by (simp add: apply_on_def Let_def)
    then show ?thesis
      using other [OF put_text_refines(2) [OF b]] other [OF b] Applied Some Apply_invalid [of H cfg janusd_manager ?h]
      by (simp add: node_event_step_def spec_step_def Let_def)
  qed
qed

lemma life_refines:
  assumes "booted dev img seed M s" and "list_all (event_ok dev) evs" and img: "image_ok img mode seed" "daemon_image img"
  shows "booted dev img seed (fst (node_life img evs (M, sp_daemon s))) (spec_life evs s)
    \<and> snd (node_life img evs (M, sp_daemon s)) = sp_daemon (spec_life evs s)"
  using assms(1,2)
proof (induction evs arbitrary: M s)
  case (Cons ev evs)
  obtain M' j' where st: "node_event_step img ev (M, sp_daemon s) = (M', j')" by fastforce
  with step_refines [OF Cons.prems(1) _ img, of ev] Cons.prems(2) have "booted dev img seed M' (spec_step ev s)" "j' = sp_daemon (spec_step ev s)" by auto
  with Cons.IH [of M' "spec_step ev s"] Cons.prems(2) st show ?case by (simp add: node_life_def spec_life_def)
qed (simp add: node_life_def spec_life_def)

section \<open>A sample node\<close>

definition sample_image :: "volume \<Rightarrow> path \<Rightarrow> entry option" where
  "sample_image v = (if v = Root then [[] \<mapsto> Folder, [''run''] \<mapsto> Folder, [''tmp''] \<mapsto> Folder, [''etc''] \<mapsto> Folder, [''etc'', ''haproxy''] \<mapsto> Folder,
       seed_path \<mapsto> File 420 ''default'', [''var''] \<mapsto> Folder, [''var'', ''empty''] \<mapsto> Folder, [''sbin'', ''janusd''] \<mapsto> File 493 ''elf'']
     else (\<lambda>_. None))"

definition sample_fs :: fs_env where
  "sample_fs = \<lparr>fe_fails = (\<lambda>_. False), fe_held = (\<lambda>_. None), fe_read_only = (\<lambda>v. v = Root), fe_attached = (\<lambda>_. True)\<rparr>"

definition sample_haproxy :: haproxy_env where
  "sample_haproxy = \<lparr>tmp_error = None, tmp_write_error = None,
     check_run = (\<lambda>cfg. if cfg = [] then Some (''empty'', ''exit status 1'') else None), write_error = None, start_error = None\<rparr>"

definition sample_daemon :: janusd_env where
  "sample_daemon = \<lparr>jd_hostname = Some ''lb'', jd_pki = demo_pki (\<lambda>_. None), jd_ips = [], jd_listen = None, jd_fs = sample_fs, jd_haproxy = sample_haproxy\<rparr>"

abbreviation "sample_boot \<equiv> Switch_on sample_fs None sample_daemon"

definition blank_node :: machine where
  "blank_node = \<lparr>mounts = [], files_of = (\<lambda>v. case v of Device _ \<Rightarrow> [[] \<mapsto> Folder] | _ \<Rightarrow> (\<lambda>_. None)), tmpfs_count = 0\<rparr>"

lemma sample_image_ok: "image_ok sample_image 420 ''default''" "daemon_image sample_image"
  by (simp_all add: image_ok_def daemon_image_def sample_image_def seed_path_def)

lemma blank_stored: "stored ''default'' (files_of blank_node (Device ''/dev/vdc'')) ''default'' []"
  by (simp add: stored_def blank_node_def state_ok_def config_name_def fun_eq_iff)

lemma sample_fs_works: "mounts_work sample_fs dev"
  by (simp add: mounts_work_def tmpfs_works_def sample_fs_def)

lemma sample_boot_ok: "event_ok ''/dev/vdc'' sample_boot" "event_ok ''/dev/vdc'' (Applied H cfg)" "event_ok ''/dev/vdc'' (Restart sample_daemon)"
  by (simp_all add: event_ok_def resolveStateDevice_def sample_daemon_def sample_fs_works)

definition first_boot :: node_spec where
  "first_boot = spec_step sample_boot \<lparr>sp_config = ''default'', sp_pki = [], sp_pid = None, sp_daemon = None\<rparr>"

lemma spec_sample: "\<exists>pki j. first_boot = \<lparr>sp_config = ''default'', sp_pki = pki, sp_pid = None, sp_daemon = Some j\<rparr>"
  by (simp add: first_boot_def spec_step_def spec_daemon_def sample_daemon_def daemon_hostname_def LoadOrBootstrap_def bootstrap_pki_def demo_pki_def)

section \<open>Properties\<close>

text \<open>
  C6: A node implements its specification. Over every sequence of power cycles between boots,
  restarts of the daemon and applied configurations, the image's file system, the mounts and the
  daemon's start together behave as a configuration and a directory of credentials that are kept:
  what runs is what the specification says, and the state partition holds its two values. This is
  for boots that find the state partition, mount it writable, and on which making directories,
  mounting, reading and writing succeed outside \<open>/proc\<close>, \<open>/sys\<close> and \<open>/dev\<close> (\<open>event_ok\<close>), each boot
  running to its end; what fails below those three, in the daemon or in HAProxy does not matter.
\<close>

theorem node_keeps_its_state:
  fixes evs :: "node_event list" and M :: machine and j :: "janusd option"
    and E :: fs_env and cmdline :: "string option" and J :: janusd_env and img :: "volume \<Rightarrow> path \<Rightarrow> entry option"
    and cfg :: string and pki :: pki_dir
  assumes "image_ok img mode seed" and "daemon_image img" and "stored seed (files_of M (Device dev)) cfg pki"
    and "list_all (event_ok dev) (Switch_on E cmdline J # evs)"
  defines "s \<equiv> spec_life (Switch_on E cmdline J # evs) \<lparr>sp_config = cfg, sp_pki = pki, sp_pid = None, sp_daemon = None\<rparr>"
    and "n \<equiv> node_life img (Switch_on E cmdline J # evs) (M, j)"
  shows "snd n = sp_daemon s \<and> stored seed (files_of (fst n) (Device dev)) (sp_config s) (sp_pki s) \<and> text_at seed_path (fst n) = Some (sp_config s)"
proof -
  let ?s = "\<lparr>sp_config = cfg, sp_pki = pki, sp_pid = None, sp_daemon = None\<rparr>" and ?ev = "Switch_on E cmdline J"
  have "event_ok dev ?ev" "list_all (event_ok dev) evs" using assms(4) by simp_all
  moreover obtain M' j' where st: "node_event_step img ?ev (M, j) = (M', j')" by fastforce
  ultimately have b: "booted dev img seed M' (spec_step ?ev ?s)" "j' = sp_daemon (spec_step ?ev ?s)"
    using switch_on_refines [of seed M dev ?s E cmdline J img mode j] assms(1-3) by simp_all
  have "booted dev img seed (fst n) s \<and> snd n = sp_daemon s"
    using life_refines [OF b(1) \<open>list_all (event_ok dev) evs\<close> assms(1,2)] st b(2) by (simp add: n_def s_def node_life_def spec_life_def)
  then show ?thesis using booted_texts by (auto simp: booted_def)
qed

theorem node_keeps_its_state_witness:
  "text_at seed_path (fst (node_life sample_image [sample_boot, Applied sample_haproxy ''one'', Applied sample_haproxy [], sample_boot] (blank_node, None))) = Some ''one''"
proof -
  obtain pki j where f: "first_boot = \<lparr>sp_config = ''default'', sp_pki = pki, sp_pid = None, sp_daemon = Some j\<rparr>" using spec_sample by blast
  have "list_all (event_ok ''/dev/vdc'') [sample_boot, Applied sample_haproxy ''one'', Applied sample_haproxy [], sample_boot]"
    by (simp add: sample_boot_ok)
  from node_keeps_its_state [OF sample_image_ok blank_stored this, of None] show ?thesis
    by (simp add: spec_life_def first_boot_def [symmetric] f)
       (simp add: spec_step_def Apply_def Validate_def sample_haproxy_def startOrReload_def Let_def spec_daemon_def split: sum.splits prod.splits option.splits)
qed

text \<open>Events that apply no other valid configuration.\<close>

definition no_other_config :: "node_event \<Rightarrow> bool" where
  "no_other_config ev = (case ev of Applied H c \<Rightarrow> \<not> fst (Validate H c) | _ \<Rightarrow> True)"

definition runs_on :: "string \<Rightarrow> node_spec \<Rightarrow> bool" where
  "runs_on cfg s \<longleftrightarrow> sp_config s = cfg \<and> (\<forall>j. sp_daemon s = Some j \<longrightarrow> config_file (jn_host j) = cfg)"

lemma start_host_config: "config_file (start_host H (Some c) p) = c"
  by (simp add: start_host_def Reload_def startOrReload_def Let_def split: option.splits)

lemma runs_on_step: "runs_on cfg s \<Longrightarrow> no_other_config ev \<Longrightarrow> runs_on cfg (spec_step ev s)"
  by (cases ev) (auto simp: runs_on_def spec_step_def spec_daemon_def no_other_config_def start_host_config Apply_invalid Let_def
      split: option.splits sum.splits prod.splits)

lemma runs_on_life: "list_all no_other_config evs \<Longrightarrow> runs_on cfg s \<Longrightarrow> runs_on cfg (spec_life evs s)"
  by (induction evs arbitrary: s) (auto simp: spec_life_def runs_on_step)

lemma Apply_stores: "fst (Validate H cfg) \<Longrightarrow> write_error H = None \<Longrightarrow> config_file (snd (Apply m H cfg h)) = cfg"
  by (cases "Validate H cfg") (simp add: Apply_def startOrReload_def Let_def split: option.splits)

text \<open>
  C12: An applied configuration lasts. Once a valid configuration has been written by the daemon of a
  running node, then whatever follows (power cycles, restarts, refused configurations), as long as
  no other valid one is applied and every boot finds and mounts the state partition and its file
  operations outside \<open>/proc\<close>, \<open>/sys\<close> and \<open>/dev\<close> succeed (\<open>event_ok\<close>), the file HAProxy is started on
  holds it, on the state partition and in \<open>/etc/haproxy\<close>, and every daemon that runs has started
  HAProxy from it; the image's default does not come back.
\<close>

theorem applied_configuration_lasts:
  fixes evs :: "node_event list" and M :: machine and j :: janusd and H :: haproxy_env and cfg :: string
    and img :: "volume \<Rightarrow> path \<Rightarrow> entry option"
  assumes "booted dev img seed M s" and "sp_daemon s = Some j" and "image_ok img mode seed" and "daemon_image img"
    and "fst (Validate H cfg)" and "write_error H = None" and "list_all no_other_config evs" and "list_all (event_ok dev) evs"
  defines "n \<equiv> node_life img (Applied H cfg # evs) (M, Some j)"
  shows "text_at seed_path (fst n) = Some cfg \<and> content (files_of (fst n) (Device dev) config_name) = Some cfg
    \<and> (\<forall>j'. snd n = Some j' \<longrightarrow> config_file (jn_host j') = cfg)"
proof -
  let ?s = "spec_life (Applied H cfg # evs) s"
  have "runs_on cfg (spec_step (Applied H cfg) s)"
    using assms(2) Apply_stores [OF assms(5,6)] by (simp add: runs_on_def spec_step_def Let_def)
  then have r: "runs_on cfg ?s" using runs_on_life [OF assms(7)] by (simp add: spec_life_def)
  have "list_all (event_ok dev) (Applied H cfg # evs)" using assms(8) by (simp add: event_ok_def)
  from life_refines [OF assms(1) this assms(3,4)] have "booted dev img seed (fst n) ?s" "snd n = sp_daemon ?s"
    by (simp_all add: n_def assms(2))
  with r booted_texts [of dev img seed "fst n" ?s] show ?thesis by (simp add: runs_on_def booted_def)
qed

theorem applied_configuration_lasts_witness:
  "\<exists>M j. text_at seed_path (fst (node_life sample_image [Applied sample_haproxy ''one'', sample_boot, Applied sample_haproxy [], Restart sample_daemon, sample_boot] (M, Some j))) = Some ''one''"
proof -
  let ?n = "node_event_step sample_image sample_boot (blank_node, None)"
  obtain pki j where f: "first_boot = \<lparr>sp_config = ''default'', sp_pki = pki, sp_pid = None, sp_daemon = Some j\<rparr>" using spec_sample by blast
  have b: "booted ''/dev/vdc'' sample_image ''default'' (fst ?n) first_boot"
    unfolding first_boot_def by (rule conjunct1 [OF switch_on_refines [OF _ sample_boot_ok(1) sample_image_ok]]) (simp add: blank_stored)
  have "fst (Validate sample_haproxy ''one'')" "write_error sample_haproxy = None" "\<not> fst (Validate sample_haproxy [])"
    by (simp_all add: Validate_def sample_haproxy_def Let_def)
  moreover have "sp_daemon first_boot = Some j" by (simp add: f)
  ultimately show ?thesis
    using applied_configuration_lasts [OF b _ sample_image_ok, of j sample_haproxy "''one''" "[sample_boot, Applied sample_haproxy [], Restart sample_daemon, sample_boot]"]
    by (auto simp: sample_boot_ok no_other_config_def)
qed

end
