(* ===== verification/Node_Diskless.thy ===== *)
theory Node_Diskless
  imports Node_Boot
begin

text \<open>
  A boot that does not find the state partition. The folders that would lie on it lie below
  \<open>/etc/.state\<close> in the temporary file system of \<open>/etc\<close>, and are mounted from there.
\<close>

section \<open>PID 1\<close>

definition state_name :: path where "state_name = [''.state'', ''haproxy'', ''haproxy.cfg'']"

definition diskless_mounts :: "(path \<times> volume \<times> path) list" where
  "diskless_mounts = [([''etc'', ''janus'', ''controller''], Tmpfs 2, [''.state'', ''controller'']), ([''etc'', ''janus'', ''boot''], Tmpfs 2, [''.state'', ''boot'']),
     ([''etc'', ''haproxy''], Tmpfs 2, [''.state'', ''haproxy'']), ([''etc'', ''janus'', ''pki''], Tmpfs 2, [''.state'', ''pki'']),
     ([''etc''], Tmpfs 2, []), ([''tmp''], Tmpfs 1, []), ([''run''], Tmpfs 0, [])]"

lemma state_dir_in_tmpfs:
  assumes E: "tmpfs_works E" and X: "where_is X [''etc''] = (Tmpfs 2, [])" "where_is X state_root = (Tmpfs 2, [''.state''])"
      "where_is X (state_root @ [name]) = (Tmpfs 2, [''.state'', name])" "where_is X [''etc'', ''janus''] = (Tmpfs 2, [''janus''])"
      "where_is X [''etc'', ''janus'', name] = (Tmpfs 2, [''janus'', name])"
    and T: "T [] = Some Folder" "T [''.state''] = Some Folder" "T [''.state'', name] = None" "T [''janus''] = None \<or> T [''janus''] = Some Folder" "T [''janus'', name] = None"
  shows "mount_state_dir E name [''etc'', ''janus'', name] (etc_machine N dev X T S) =
    etc_machine N dev (([''etc'', ''janus'', name], Tmpfs 2, [''.state'', name]) # X)
      (T([''.state'', name] \<mapsto> Folder, [''janus''] \<mapsto> Folder, [''janus'', name] \<mapsto> Folder)) S"
proof -
  let ?T = "T([''.state'', name] \<mapsto> Folder)"
  have mk: "MkdirAll E (state_root @ [name]) (etc_machine N dev X T S) = (True, etc_machine N dev X ?T S)"
    using X(1-3) T(1-3) by (simp add: MkdirAll_def state_root_def mkdir_etc [OF E] outside map_upd_triv)
  have mk': "MkdirAll E [''etc'', ''janus'', name] (etc_machine N dev X ?T S) =
      (True, etc_machine N dev X (?T([''janus''] \<mapsto> Folder, [''janus'', name] \<mapsto> Folder)) S)"
    using X(1,4,5) T(1,4,5) by (simp add: MkdirAll_def mkdir_etc [OF E] outside map_upd_triv)
  show ?thesis
    by (simp add: mount_state_dir_def Let_def mk bindMount_def mk' tmpfs_rules [OF E] outside etc_machine_at(1) [OF X(3)] X(3))
qed

lemma mountState_missing:
  assumes E: "tmpfs_works E" and dev: "\<not> fe_attached E (resolveStateDevice cmdline)" and X0: "X0 = ([''etc''], Tmpfs 2, []) # ms"
  shows "\<exists>T. mountState E cmdline (etc_machine N dev X0 (etc_seeded mode seed) S) = etc_machine N dev (take 4 diskless_mounts @ X0) T S
    \<and> T state_name = Some (File mode seed) \<and> (\<forall>n. T [''.state'', ''pki'', n] = None)"
proof -
  define X1 where "X1 = ([''etc'', ''janus'', ''pki''], Tmpfs 2, [''.state'', ''pki'']) # X0"
  define X2 where "X2 = ([''etc'', ''haproxy''], Tmpfs 2, [''.state'', ''haproxy'']) # X1"
  define X3 where "X3 = ([''etc'', ''janus'', ''boot''], Tmpfs 2, [''.state'', ''boot'']) # X2"
  note X = X0 X1_def X2_def X3_def state_root_def
  define T1 where "T1 = (etc_seeded mode seed)([''.state''] \<mapsto> Folder)"
  define T2 where "T2 = T1([''.state'', ''pki''] \<mapsto> Folder, [''janus''] \<mapsto> Folder, [''janus'', ''pki''] \<mapsto> Folder)"
  define T3 where "T3 = T2([''.state'', ''haproxy''] \<mapsto> Folder, state_name \<mapsto> File mode seed)"
  define T4 where "T4 = T3([''.state'', ''boot''] \<mapsto> Folder, [''janus''] \<mapsto> Folder, [''janus'', ''boot''] \<mapsto> Folder)"
  define T5 where "T5 = T4([''.state'', ''controller''] \<mapsto> Folder, [''janus''] \<mapsto> Folder, [''janus'', ''controller''] \<mapsto> Folder)"
  note T = T1_def T2_def T3_def T4_def T5_def etc_seeded_def config_name_def state_name_def
  have one: "mount_volume E (Device (resolveStateDevice cmdline)) state_root (etc_machine N dev X0 (etc_seeded mode seed) S) = etc_machine N dev X0 T1 S"
    by (simp add: mount_volume_def MkdirAll_def state_root_def mkdir_etc [OF E] outside dev X0 T map_upd_triv)
  have two: "mount_state_dir E ''pki'' [''etc'', ''janus'', ''pki''] (etc_machine N dev X0 T1 S) = etc_machine N dev X1 T2 S"
    unfolding X1_def T2_def by (rule state_dir_in_tmpfs [OF E]) (simp_all add: X T1_def etc_seeded_def config_name_def)
  have mk: "MkdirAll E (state_root @ [''haproxy'']) (etc_machine N dev X1 T2 S) = (True, etc_machine N dev X1 (T2([''.state'', ''haproxy''] \<mapsto> Folder)) S)"
    by (simp add: MkdirAll_def mkdir_etc [OF E] outside X T map_upd_triv)
  have at: "where_is X1 (state_root @ [''haproxy'', ''haproxy.cfg'']) = (Tmpfs 2, state_name)" "where_is X1 (state_root @ [''haproxy'']) = (Tmpfs 2, [''.state'', ''haproxy''])"
    "where_is X1 seed_path = (Tmpfs 2, config_name)"
    by (simp_all add: X state_name_def seed_path_def config_name_def)
  have ops: "entry_at (etc_machine N dev X1 T' S) (state_root @ [''haproxy'', ''haproxy.cfg'']) = T' state_name"
    "entry_at (etc_machine N dev X1 T' S) (state_root @ [''haproxy'']) = T' [''.state'', ''haproxy'']" "entry_at (etc_machine N dev X1 T' S) seed_path = T' config_name"
    "put_entry (state_root @ [''haproxy'', ''haproxy.cfg'']) e (etc_machine N dev X1 T' S) = etc_machine N dev X1 (T'(state_name \<mapsto> e)) S" for T' e
    using at by (simp_all add: etc_machine_at etc_machine_put)
  have area: "\<not> kernel_area seed_path" "\<not> kernel_area (state_root @ p)" for p by (simp_all add: seed_path_def state_root_def outside)
  have held: "T2 state_name = None" "T2 config_name = Some (File mode seed)" "state_name \<noteq> [''.state'', ''haproxy'']" "config_name \<noteq> [''.state'', ''haproxy'']"
    "butlast (state_root @ [''haproxy'', ''haproxy.cfg'']) = state_root @ [''haproxy'']"
    by (simp_all add: T state_root_def)
  have three: "seedPersistentHaproxyCfg E (state_root @ [''haproxy'']) (etc_machine N dev X1 T2 S) = etc_machine N dev X1 T3 S"
    by (simp add: seedPersistentHaproxyCfg_def Let_def read_at_def write_at_def creatable_def tmpfs_rules [OF E] T3_def mk at ops area held del: butlast_append)
  have "T3 [] = Some Folder" "T3 [''haproxy''] = Some Folder" "where_is X1 [''etc''] = (Tmpfs 2, [])" "where_is X1 [''etc'', ''haproxy''] = (Tmpfs 2, [''haproxy''])"
    by (simp_all add: X T)
  then have "MkdirAll E [''etc'', ''haproxy''] (etc_machine N dev X1 T3 S) = (True, etc_machine N dev X1 T3 S)"
    by (simp add: MkdirAll_def mkdir_etc [OF E] outside map_upd_triv)
  moreover have "entry_at (etc_machine N dev X1 T3 S) (state_root @ [''haproxy'']) = Some Folder"
    using etc_machine_at(1) [OF at(2)] by (simp add: T)
  ultimately have four: "bindMount E (state_root @ [''haproxy'']) [''etc'', ''haproxy''] (etc_machine N dev X1 T3 S) = etc_machine N dev X2 T3 S"
    by (simp add: bindMount_def tmpfs_rules [OF E] outside at X2_def)
  have five: "mount_state_dir E ''boot'' [''etc'', ''janus'', ''boot''] (etc_machine N dev X2 T3 S) = etc_machine N dev X3 T4 S"
    unfolding X3_def T4_def by (rule state_dir_in_tmpfs [OF E]) (simp_all add: X0 X1_def X2_def state_root_def T1_def T2_def T3_def etc_seeded_def config_name_def state_name_def)
  have six: "mount_state_dir E ''controller'' [''etc'', ''janus'', ''controller''] (etc_machine N dev X3 T4 S) =
      etc_machine N dev (([''etc'', ''janus'', ''controller''], Tmpfs 2, [''.state'', ''controller'']) # X3) T5 S"
    unfolding T5_def by (rule state_dir_in_tmpfs [OF E]) (simp_all add: X0 X1_def X2_def X3_def state_root_def T1_def T2_def T3_def T4_def etc_seeded_def config_name_def state_name_def)
  have "([''etc'', ''janus'', ''controller''], Tmpfs 2, [''.state'', ''controller'']) # X3 = take 4 diskless_mounts @ X0"
    by (simp add: X3_def X2_def X1_def diskless_mounts_def eval_nat_numeral)
  moreover have "T5 state_name = Some (File mode seed)" "T5 [''.state'', ''pki'', n] = None" for n by (simp_all add: T)
  ultimately show ?thesis
    by (intro exI [of _ T5]) (simp add: mountState_def Let_def one two three four five six)
qed

text \<open>The state of a node that runs without the partition, as far as its daemon sees it.\<close>

definition diskless :: "(volume \<Rightarrow> path \<Rightarrow> entry option) \<Rightarrow> string \<Rightarrow> machine \<Rightarrow> bool" where
  "diskless img seed M \<longleftrightarrow> (\<exists>ms. mounts M = diskless_mounts @ ms \<and> (\<forall>p. \<not> kernel_area p \<longrightarrow> where_is ms p = (Root, p)))
     \<and> (\<forall>p. \<not> kernel_area p \<longrightarrow> files_of M Root p = img Root p) \<and> content (files_of M (Tmpfs 2) state_name) = Some seed
     \<and> files_of M (Tmpfs 0) [] = Some Folder \<and> files_of M (Tmpfs 0) [''janus''] \<in> {None, Some Folder} \<and> files_of M (Tmpfs 0) [''janus'', ''haproxy.pid''] = None"

lemma diskless_where:
  assumes "diskless img seed M"
  shows "where_is (mounts M) (pki_path @ [n]) = (Tmpfs 2, [''.state'', ''pki'', n])" "where_is (mounts M) seed_path = (Tmpfs 2, state_name)"
    "where_is (mounts M) pid_path = (Tmpfs 0, [''janus'', ''haproxy.pid''])" "where_is (mounts M) [''run''] = (Tmpfs 0, [])"
    "where_is (mounts M) [''run'', ''janus''] = (Tmpfs 0, [''janus''])"
  using assms by (auto simp: diskless_def diskless_mounts_def pki_path_def seed_path_def pid_path_def state_name_def kernel_area_def)

lemma diskless_root:
  assumes "diskless img seed M"
  shows "entry_at M (''var'' # p) = img Root (''var'' # p)" "entry_at M (''sbin'' # p) = img Root (''sbin'' # p)"
  using assms by (auto simp: diskless_def entry_at_def diskless_mounts_def kernel_area_def)

lemma diskless_boot:
  fixes M :: machine
  assumes E: "tmpfs_works E" and img: "image_ok img mode seed" and dev: "\<not> fe_attached E (resolveStateDevice cmdline)"
  defines "M' \<equiv> init_mounts E cmdline (power_cycle img M)"
  shows "diskless img seed M'" and "load_dir M' = []" and "files_of M' (Device d) = files_of M (Device d)"
proof -
  obtain N ms where init: "M' = mountState E cmdline
       (etc_machine N d (([''etc''], Tmpfs 2, []) # ([''tmp''], Tmpfs 1, []) # ([''run''], Tmpfs 0, []) # ms) (etc_seeded mode seed) (files_of M (Device d)))"
    and ms: "\<And>p. \<not> kernel_area p \<Longrightarrow> where_is ms p = (Root, p) \<and> files_of N Root p = img Root p"
    and N: "files_of N (Tmpfs 0) = [[] \<mapsto> Folder]" "\<And>d. files_of N (Device d) = files_of M (Device d)"
    unfolding M'_def by (rule init_before_state [OF E img, where dev = d and M = M and cmdline = cmdline]) blast
  obtain T where M': "M' = etc_machine N d (diskless_mounts @ ms) T (files_of M (Device d))"
    and T: "T state_name = Some (File mode seed)" "\<And>n. T [''.state'', ''pki'', n] = None"
    using mountState_missing [OF E dev refl, where N = N and dev = d and mode = mode and seed = seed and S = "files_of M (Device d)" and ms = "([''tmp''], Tmpfs 1, []) # ([''run''], Tmpfs 0, []) # ms"] by (auto simp: init diskless_mounts_def eval_nat_numeral)
  show "diskless img seed M'" using ms by (auto simp: diskless_def M' etc_machine_def N T)
  then show "load_dir M' = []"
    by (simp add: load_dir_def text_at_content entry_at_def diskless_where) (simp add: M' etc_machine_def T)
  show "files_of M' (Device d) = files_of M (Device d)" by (simp add: M' etc_machine_def)
qed

section \<open>The daemon\<close>

lemma diskless_put_text:
  assumes "diskless img seed M"
  shows "diskless img seed (put_text (pki_path @ [n]) mode s M)" and "files_of (put_text (pki_path @ [n]) mode s M) (Device d) = files_of M (Device d)"
  using assms by (auto simp: put_text_def put_entry_def diskless_where [OF assms] diskless_def state_name_def)

lemma diskless_store:
  assumes "diskless img seed M"
  shows "diskless img seed (store_dir d M) \<and> files_of (store_dir d M) (Device v) = files_of M (Device v)"
proof -
  have "diskless img seed (fold (\<lambda>n M. case gm_get d n of None \<Rightarrow> M | Some s \<Rightarrow> put_text (pki_path @ [n]) (pki_mode n) s M) ns M)
    \<and> files_of (fold (\<lambda>n M. case gm_get d n of None \<Rightarrow> M | Some s \<Rightarrow> put_text (pki_path @ [n]) (pki_mode n) s M) ns M) (Device v) = files_of M (Device v)" for ns
    using assms by (induction ns arbitrary: M) (auto simp: diskless_put_text split: option.splits)
  then show ?thesis by (simp add: store_dir_def)
qed

lemma diskless_run:
  assumes M: "diskless img seed M" and E: "tmpfs_works E"
  obtains M' where "MkdirAll E [''run'', ''janus''] M = (True, M')" "diskless img seed M'" "\<And>d. files_of M' (Device d) = files_of M (Device d)"
    "\<And>v. v \<noteq> Tmpfs 0 \<Longrightarrow> files_of M' v = files_of M v" "mounts M' = mounts M"
proof -
  let ?M' = "M\<lparr>files_of := (files_of M)(Tmpfs 0 := (files_of M (Tmpfs 0))([''janus''] \<mapsto> Folder))\<rparr>"
  have "files_of M (Tmpfs 0) [] = Some Folder" "files_of M (Tmpfs 0) [''janus''] \<in> {None, Some Folder}" using M by (simp_all add: diskless_def)
  then have "MkdirAll E [''run'', ''janus''] M = (True, ?M')"
    by (auto simp: MkdirAll_def mkdir_def entry_at_def diskless_where [OF M] tmpfs_rules [OF E] outside creatable_def put_entry_def map_upd_triv)
  moreover have "diskless img seed ?M'" using M by (auto simp: diskless_def)
  ultimately show ?thesis by (intro that [of ?M']) simp_all
qed

lemma diskless_daemon:
  assumes M: "diskless img seed M" and E: "tmpfs_works (jd_fs J)" and img: "daemon_image img" and pki: "load_dir M = []"
  shows "started (fst (janusd_main J M)) = sp_daemon (spec_daemon J \<lparr>sp_config = seed, sp_pki = [], sp_pid = None, sp_daemon = None\<rparr>)
    \<and> text_at seed_path (snd (janusd_main J M)) = Some seed \<and> files_of (snd (janusd_main J M)) (Device v) = files_of M (Device v)"
proof -
  have texts: "text_at seed_path M' = Some seed \<and> text_at pid_path M' = None" if "diskless img seed M'" for M'
    using that by (simp add: text_at_content entry_at_def diskless_where [OF that]) (simp add: diskless_def)
  obtain r d where r: "LoadOrBootstrap (jd_pki J) (daemon_hostname J) (jd_ips J) [] = (r, d)" by fastforce
  have st: "diskless img seed (store_dir d M)" "files_of (store_dir d M) (Device v) = files_of M (Device v)" using diskless_store [OF M] by simp_all
  obtain M2 where run: "MkdirAll (jd_fs J) [''run'', ''janus''] (store_dir d M) = (True, M2)" and M2: "diskless img seed M2" "files_of M2 (Device v) = files_of (store_dir d M) (Device v)"
    using diskless_run [OF st(1) E] by blast
  have "MkdirAll (jd_fs J) [''var'', ''empty''] M2 = (True, M2)"
    using img by (simp add: MkdirAll_def mkdir_def diskless_root [OF M2(1)] daemon_image_def)
  with run texts [OF M2(1)] texts [OF st(1)] st(2) M2(2) show ?thesis
    by (cases r; cases "jd_listen J") (simp_all add: janusd_main_def spec_daemon_def r pki started_def Let_def)
qed

section \<open>Properties\<close>

text \<open>
  C27: A node that does not find its state partition comes up as on its first boot, whatever happened
  to it before: the daemon finds no credentials and makes an authority and an admin credential,
  HAProxy is started on the image's default configuration, and no device is written. It takes an
  image as it is built and the temporary file systems; nothing else.
\<close>

theorem node_without_its_disk_starts_afresh:
  assumes "image_ok img mode seed" and "daemon_image img" and "tmpfs_works E" and "tmpfs_works (jd_fs J)"
    and "\<not> fe_attached E (resolveStateDevice cmdline)"
  shows "let before = node_life img evs st; after = node_life img (evs @ [Switch_on E cmdline J]) st in
    snd after = sp_daemon (spec_daemon J \<lparr>sp_config = seed, sp_pki = [], sp_pid = None, sp_daemon = None\<rparr>)
    \<and> text_at seed_path (fst after) = Some seed \<and> files_of (fst after) (Device d) = files_of (fst before) (Device d)"
proof -
  obtain M j where st: "node_life img evs st = (M, j)" by fastforce
  let ?M' = "init_mounts E cmdline (power_cycle img M)"
  note boot = diskless_boot [OF assms(3,1,5), of M]
  obtain M2 where run: "MkdirAll E [''run'', ''janus''] ?M' = (True, M2)" and M2: "diskless img seed M2" "files_of M2 (Device d) = files_of ?M' (Device d)"
      "\<And>v. v \<noteq> Tmpfs 0 \<Longrightarrow> files_of M2 v = files_of ?M' v" "mounts M2 = mounts ?M'"
    using diskless_run [OF boot(1) assms(3)] by blast
  have "text_at (pki_path @ [n]) M2 = text_at (pki_path @ [n]) ?M'" for n
    using M2(3) by (simp add: text_at_content entry_at_def M2(4) diskless_where(1) [OF boot(1)])
  then have "load_dir M2 = []" using boot(2) by (simp add: load_dir_def)
  from diskless_daemon [OF M2(1) assms(4,2) this, of d] show ?thesis
    using assms(2) by (simp add: node_life_def st [unfolded node_life_def] node_event_step_def start_daemon_def starts_daemon_def diskless_root [OF boot(1)]
        daemon_image_def run started_def Let_def case_prod_beta M2(2) boot(3))
qed

theorem node_without_its_disk_starts_afresh_witness:
  "text_at seed_path (fst (node_life sample_image ([sample_boot, Applied sample_haproxy ''one''] @ [Switch_on (sample_fs\<lparr>fe_attached := (\<lambda>_. False)\<rparr>) None sample_daemon])
     (blank_node, None))) = Some ''default''"
proof -
  have "tmpfs_works (sample_fs\<lparr>fe_attached := (\<lambda>_. False)\<rparr>)" "tmpfs_works (jd_fs sample_daemon)"
    by (simp_all add: tmpfs_works_def sample_fs_def sample_daemon_def)
  from node_without_its_disk_starts_afresh [OF sample_image_ok this, of None "[sample_boot, Applied sample_haproxy ''one'']" "(blank_node, None)"]
  show ?thesis by (simp add: sample_fs_def Let_def)
qed

end
