(* ===== verification/Spec2Isabelle.thy ===== *)
theory Spec2Isabelle
  imports Fullstack Diskimage Lifecycle_Properties Node_Page_Effects Self_Register_Properties System_Properties
    Race_Properties Install_Properties Dashboard_Identity Janusctl_Properties Node_Diskless
begin

text \<open>
  Janus (HAProxyOS): a dashboard of HAProxy nodes, and the parts of a node that decide how it
  boots, updates itself and whom it obeys.

  The parts and how they meet. A browser runs the single-page application
  (\<open>dashboard/frontend/src/App.jsx\<close>). It talks JSON over \<open>/api/\<close> to the Controller
  (\<open>dashboard/backend\<close>), which keeps the registered and the announced nodes in a data directory,
  one administrator password and the sessions in memory, and runs a listener per node. A node
  announces itself to the Controller's registration port. On the node, \<open>cmd/janusd\<close> serves gRPC
  under \<open>rootfs/init\<close> as PID 1; its immutable system lives in two slots of a disk, which
  \<open>Upgrade\<close> and \<open>Rollback\<close> switch.

  Foundations.
  \<^item> \<open>Prelude\<close>: rule collections, printing of numbers, results in the sum type, Go maps as
    association lists, and the locales \<open>automaton\<close> and \<open>ranked_automaton\<close> (reachability, invariants,
    bounded runs) which the application and the Controller interpret.
  \<^item> \<open>Js_Runtime\<close>: JavaScript values with \<open>undefined\<close>, property reads that may throw, truthiness,
    string conversion, and settled promises.
  \<^item> \<open>Go_Strings\<close>: the string functions of Go's library the nodes use, and how they undo each other.

  The application (\<open>App.jsx\<close>).
  \<^item> \<open>Spa_Views\<close>: every component as a function from its state to the tree it renders, \<open>None\<close>
    where rendering throws. A tree node carries the handlers a user can reach on it.
  \<^item> \<open>Spa_Machine\<close>: the state of the mounted screen with the calls under way; every handler and
    every async function, cut at its awaits, is a step. Events are user actions on offered
    handlers, answers of the network and continuations. React's batching is modelled at the
    granularity of these steps: a step runs to its next await and is then rendered.
  \<^item> \<open>Spa_Live\<close>, \<open>Spa_Invariants\<close>, \<open>Spa_Progress\<close>: which handlers a screen offers, the invariants
    of the reachable states, the rank that bounds runs without user actions, and where they end: with
    nothing under way, the gate's loading text being the one thing that an answer which says nothing
    (\<open>null\<close>, an error without a text) can leave on the screen for good.
  \<^item> \<open>Spa_Requests\<close>: the locale of a request contract and its interpretation on the Controller's API.
  \<^item> \<open>Spa_Properties\<close>: exclusive calls, settling, the gate, the forms, refreshes and their races.

  The Controller (\<open>dashboard/backend\<close>).
  \<^item> \<open>Registry\<close>: \<open>internal/store\<close> and \<open>internal/pending\<close> over an explicit directory; the first
    failing write or removal is an argument. The locale \<open>registry\<close> holds the laws of both and is
    interpreted on each, \<open>loader\<close> those of reading a directory back.
  \<^item> \<open>Auth_Store\<close>: \<open>internal/auth\<close> with bcrypt, random tokens and the clock as arguments.
  \<^item> \<open>Controller\<close>: the handlers of \<open>main.go\<close>, \<open>auth_handlers.go\<close> and \<open>register.go\<close>, the routes of
    both servers, start-up, and the automaton of requests, restarts and time.
  \<^item> \<open>Controller_Properties\<close>: authentication, consistency of the registry, all-or-nothing approvals. The
    locale \<open>registry_invariant\<close> carries an invariant through all handlers; it is interpreted once for
    what holds in memory whatever writes and removals fail (\<open>fresh_ids\<close>), and once for memory and disk
    as long as none fails (\<open>sound_env\<close>).
  \<^item> \<open>Dashboard_Identity\<close>: the rest of \<open>main\<close>: the certificate of its servers, kept in two files (an
    unreadable one counts as missing, as in the code), and the address it suggests for nodes.
  \<^item> \<open>Controller_Races\<close>, \<open>Race_Properties\<close>: the handlers that change a registry, cut where they release
    a lock, in any interleaving of any number of requests: what every interleaving keeps, and what
    some break. Elsewhere a request is one step.
  \<^item> \<open>Fullstack\<close>: the application against this Controller: a row's buttons act on that row, the forms
    say what was typed, every call has a route, what the Controller lists renders, and a browser
    without a session stays locked out.

  The node.
  \<^item> \<open>Bootslot\<close>: \<open>internal/bootslot\<close>, from the kernel command line to slot and devices.
  \<^item> \<open>Diskimage\<close>: \<open>internal/diskimage\<close> on 64-bit words.
  \<^item> \<open>Authz\<close>: \<open>internal/api/authz.go\<close> and the RPC names of \<open>api/proto\<close>.
  \<^item> \<open>Supervisor\<close>: \<open>rootfs/init/supervisor.go\<close>; what the kernel reports is an input list.
  \<^item> \<open>Bootcommit\<close>: \<open>internal/bootcommit\<close>, the marker of an upgrade and its confirmation loop.
  \<^item> \<open>Lifecycle\<close>: \<open>internal/espswitch\<close>, \<open>internal/bootrevert\<close> and the RPCs of
    \<open>internal/api/lifecycle.go\<close>, each as a result with the ordered list of its disk writes.
  \<^item> \<open>Boot_Init\<close>: the boot of \<open>rootfs/init/main.go\<close> and the confirmation in \<open>cmd/janusd/main.go\<close>.
  \<^item> \<open>Lifecycle_Properties\<close>: crash safety of an upgrade at every prefix of its writes, torn writes
    included; what the following boots make of it; the two ways the marker misleads them.
  \<^item> \<open>Install\<close>, \<open>Install_Properties\<close>: \<open>internal/api/install.go\<close> as a list of writes to a blank disk, and
    how \<open>Lifecycle\<close> and \<open>Self_Register\<close> find what it wrote.
  \<^item> \<open>Node_Pki\<close>: \<open>internal/pki/bootstrap.go\<close>: the node's identity, made on the first boot and loaded
    on every other; a fault is the first file not written completely.
  \<^item> \<open>Self_Register\<close>, \<open>Self_Register_Properties\<close>: \<open>internal/selfregister\<close> and its use by
    \<open>cmd/janusd\<close>, against the Controller's registration server of \<open>Controller\<close>.
  \<^item> \<open>Boot_Mounts\<close>: the rest of \<open>rootfs/init/main.go\<close>: mounts, seeding, policy and settings on a
    file system of volumes and mounts, in which every operation may fail.
  \<^item> \<open>Node_Boot\<close>: the start of \<open>cmd/janusd\<close> on it, and the node over boots, restarts and applied
    configurations, which refines a specification with one configuration and one directory of
    credentials (\<open>node_spec\<close>). A boot here has no upgrade pending; those are in \<open>Boot_Init\<close>.
  \<^item> \<open>Node_Diskless\<close>: the same boot when the state partition is not there.

  HAProxy, from the browser to its stats socket. Each node has a page of its own
  (\<open>nodeproxy/static/index.html\<close>), served by the Controller's listener for that node, which relays
  its calls to the node's gRPC service, which drives HAProxy.
  \<^item> \<open>Haproxy_Runtime\<close>: \<open>internal/haproxy\<close>: checking, applying and reloading a configuration, and the
    runtime commands. The process and the socket are parameters; the socket is a function on the
    bytes written and a state of HAProxy.
  \<^item> \<open>Haproxy_Properties\<close>: what is read back, what an upsert and an upload leave behind, and that
    arguments are not delimited; \<open>toy_haproxy\<close> is a socket on which the assumptions hold.
  \<^item> \<open>Haproxy_Api\<close>: the handlers of \<open>internal/api/haproxy.go\<close>, a call with its role check, the JSON of
    the messages, and the routes of \<open>nodeproxy/ops.go\<close>.
  \<^item> \<open>Node_Listener\<close>: the mux of \<open>nodeproxy.go\<close> and \<open>handleInfo\<close>.
  \<^item> \<open>Node_Page\<close>: the page's script: rendered strings, requests, each function cut at its await, the
    user's events, and \<open>node_step\<close>, the page against its listener and node with calls served,
    lost and delivered in any order.
  \<^item> \<open>Node_Page_Properties\<close>, \<open>Node_Page_Effects\<close>: names survive the request path and actions reach
    their RPC; the table of backends is never filled; what applying a configuration does and
    reports; what the tables show.
  \<^item> \<open>System_Stats\<close>, \<open>System_Properties\<close>: \<open>internal/api/system.go\<close> and \<open>system_stats.go\<close> on the texts
    of \<open>/proc\<close>, and what of it reaches the page.

  The command line client (\<open>cmd/janusctl\<close>).
  \<^item> \<open>Go_Flags\<close>: Go's \<open>flag\<close> package as far as the client uses it, with the ways an option is spelled.
  \<^item> \<open>Janusctl\<close>: from a command line to one call, and from the call to its output, exit code and effect.
  \<^item> \<open>Janusctl_Properties\<close>: what is asked of the node, what the exit code says, what a reader may do.

  Loops and bounds. Loops over data are structural. Loops over what the world reports (health
  checks, child exits) recurse over the list of reports; \<open>confirm_decides\<close> and
  \<open>gives_up_after_the_deadline\<close> show that a list as long as the timeout allows is enough. The port
  scan has as much fuel as the range has ports. Disk sizes and sectors are words; times are
  integers (a backoff of at most a minute cannot overflow Go's \<open>int64\<close> nanoseconds).

  Assumptions on the surroundings are hypotheses of the theorems and are said in their texts: file
  operations that succeed (\<open>sound_env\<close>, \<open>io_ok\<close>, \<open>event_ok\<close>), boots that reach PID 1, calls that are
  admitted (\<open>apply_admitted\<close>) and streams that are not lost. A client's deadline is a lost stream.

  Order of writes. A crash leaves a prefix of an operation's writes with the next one torn; writes
  that the disk reorders between two \<open>sync\<close>s are outside the model.

  Not modelled. The inside of React, of the browser and of the Go standard library beyond what
  the code uses of them; X.509, gRPC and bcrypt, which are parameters, as are HAProxy itself and the
  texts of \<open>/proc\<close>; the partitioning library; elements
  that markup in a name would add to the per-node page; console output; the network service, whose
  RPCs are unimplemented stubs; shell scripts and images; the minified bundle, which is generated
  from the modelled \<open>App.jsx\<close>, and the mount of that component in \<open>main.jsx\<close>. \<open>LoadOrBootstrap\<close>
  starts a new PKI on any error of its \<open>os.Stat\<close>; the model knows absence only. \<open>janusctl pki generate-client-config\<close>
  makes its output directory before it calls the node; local directories are not modelled, only files.
\<close>

end
